(* ===== verification/Prelude.thy ===== *)
theory Prelude
  imports Main "HOL-Library.Word" "HOL-Library.AList"
begin

text \<open>
  Vocabulary shared by every theory of the development: the machine types of the Rust
  sources, the parts of the Rust standard library the sources call (byte order
  conversions, \<open>format!\<close> of integers, \<open>from_str_radix\<close>, \<open>str::trim\<close>,
  \<open>str::split_once\<close>, the \<open>?\<close> operator), and the generic lemmas on byte lists and
  results that the component theories use.

  A Rust \<open>String\<close> is a sequence of UTF-8 bytes and \<open>len()\<close> counts bytes; a HOL
  \<open>string\<close> is a list of 8-bit characters, so it is exactly such a byte sequence.
\<close>

unbundle bit_operations_syntax

section \<open>Machine types\<close>

type_synonym u8 = "8 word"
type_synonym u16 = "16 word"
type_synonym u32 = "32 word"
type_synonym u64 = "64 word"
type_synonym i64 = "64 word"
type_synonym i32 = "32 word"
type_synonym bytes = "8 word list"

named_theorems result_simps \<open>rewriting of results threaded through the question mark operator\<close>
named_theorems shape_simps \<open>lengths of the byte strings the pool builds\<close>

section \<open>Results\<close>

text \<open>
  \<open>Result<T, E>\<close> is the sum \<open>'e + 't\<close> with the error on the left. \<open>and_then\<close> is
  the \<open>?\<close> operator: it returns the error early or goes on with the value.
\<close>

definition and_then :: "'e + 'a \<Rightarrow> ('a \<Rightarrow> 'e + 'b) \<Rightarrow> 'e + 'b" where
  "and_then r k = (case r of Inl e \<Rightarrow> Inl e | Inr x \<Rightarrow> k x)"

definition map_err :: "('e \<Rightarrow> 'f) \<Rightarrow> 'e + 'a \<Rightarrow> 'f + 'a" where
  "map_err f r = (case r of Inl e \<Rightarrow> Inl (f e) | Inr x \<Rightarrow> Inr x)"

definition ok_or :: "'e \<Rightarrow> 'a option \<Rightarrow> 'e + 'a" where
  "ok_or e x = (case x of None \<Rightarrow> Inl e | Some v \<Rightarrow> Inr v)"

definition is_ok :: "'e + 'a \<Rightarrow> bool" where
  "is_ok r = (case r of Inl e \<Rightarrow> False | Inr x \<Rightarrow> True)"

lemma and_then_simps [simp, result_simps]:
  "and_then (Inl e) k = Inl e"
  "and_then (Inr x) k = k x"
  by (simp_all add: and_then_def)

lemma map_err_simps [simp, result_simps]:
  "map_err f (Inl e) = Inl (f e)"
  "map_err f (Inr x) = Inr x"
  by (simp_all add: map_err_def)

lemma ok_or_simps [simp, result_simps]:
  "ok_or e None = Inl e"
  "ok_or e (Some v) = Inr v"
  by (simp_all add: ok_or_def)

lemma is_ok_simps [simp, result_simps]:
  "is_ok (Inl e) = False"
  "is_ok (Inr x) = True"
  by (simp_all add: is_ok_def)

lemma and_then_Inr [result_simps]:
  "and_then r k = Inr y \<longleftrightarrow> (\<exists>x. r = Inr x \<and> k x = Inr y)"
  by (cases r) simp_all

lemma and_then_Inl [result_simps]:
  "and_then r k = Inl e \<longleftrightarrow> r = Inl e \<or> (\<exists>x. r = Inr x \<and> k x = Inl e)"
  by (cases r) auto

lemma map_err_Inr [simp, result_simps]: "map_err f r = Inr x \<longleftrightarrow> r = Inr x"
  by (cases r) simp_all

lemma map_err_Inl [result_simps]: "map_err f r = Inl e \<longleftrightarrow> (\<exists>d. r = Inl d \<and> e = f d)"
  by (cases r) auto

lemma ok_or_Inr [simp, result_simps]: "ok_or e x = Inr v \<longleftrightarrow> x = Some v"
  by (cases x) simp_all

lemma ok_or_Inl [simp, result_simps]: "ok_or e x = Inl d \<longleftrightarrow> x = None \<and> d = e"
  by (cases x) auto

lemma is_ok_iff: "is_ok r \<longleftrightarrow> (\<exists>x. r = Inr x)"
  by (cases r) simp_all

text \<open>\<open>collect()\<close> of an iterator of results: the first error, or all the values.\<close>

fun collect_results :: "('e + 'a) list \<Rightarrow> 'e + 'a list" where
  "collect_results [] = Inr []"
| "collect_results (r # rs) = and_then r (\<lambda>x. and_then (collect_results rs) (\<lambda>xs. Inr (x # xs)))"

lemma collect_results_Inr:
  "collect_results rs = Inr xs \<longleftrightarrow> rs = map Inr xs"
  by (induction rs arbitrary: xs) (auto simp: and_then_Inr Cons_eq_map_conv)

section \<open>Byte order\<close>

text \<open>\<open>to_le_bytes\<close> of an \<open>n\<close>-byte integer, and the big-endian value of a byte string.\<close>

definition le_bytes :: "nat \<Rightarrow> 'a::len word \<Rightarrow> bytes" where
  "le_bytes n w = map (\<lambda>i. ucast (drop_bit (8 * i) w)) [0..<n]"

definition to_le_bytes16 :: "u16 \<Rightarrow> bytes" where
  "to_le_bytes16 w = le_bytes 2 w"

definition to_le_bytes32 :: "u32 \<Rightarrow> bytes" where
  "to_le_bytes32 w = le_bytes 4 w"

definition to_le_bytes64 :: "u64 \<Rightarrow> bytes" where
  "to_le_bytes64 w = le_bytes 8 w"

definition be_nat :: "bytes \<Rightarrow> nat" where
  "be_nat bs = foldl (\<lambda>acc b. acc * 256 + unat b) 0 bs"

definition le_nat :: "bytes \<Rightarrow> nat" where
  "le_nat bs = be_nat (rev bs)"

definition from_be_bytes32 :: "bytes \<Rightarrow> u32" where
  "from_be_bytes32 bs = word_of_nat (be_nat bs)"

definition from_le_bytes32 :: "bytes \<Rightarrow> u32" where
  "from_le_bytes32 bs = word_of_nat (le_nat bs)"

lemma length_le_bytes [simp, shape_simps]: "length (le_bytes n w) = n"
  by (simp add: le_bytes_def)

lemma length_to_le_bytes [simp, shape_simps]:
  "length (to_le_bytes16 v) = 2" "length (to_le_bytes32 w) = 4" "length (to_le_bytes64 x) = 8"
  by (simp_all add: to_le_bytes16_def to_le_bytes32_def to_le_bytes64_def)

lemma be_nat_foldl: "foldl (\<lambda>acc b. acc * 256 + unat b) n bs = n * 256 ^ length bs + be_nat bs"
proof (induction bs arbitrary: n rule: rev_induct)
  case Nil
  show ?case by (simp add: be_nat_def)
next
  case (snoc x xs)
  show ?case unfolding be_nat_def foldl_append foldl.simps
    using snoc.IH [of n] by (simp add: be_nat_def distrib_right)
qed

lemma be_nat_Nil [simp]: "be_nat [] = 0"
  by (simp add: be_nat_def)

lemma be_nat_Cons: "be_nat (b # bs) = unat b * 256 ^ length bs + be_nat bs"
  using be_nat_foldl [of "unat b" bs] by (simp add: be_nat_def)

lemma be_nat_append: "be_nat (xs @ ys) = be_nat xs * 256 ^ length ys + be_nat ys"
  by (induction xs) (simp_all add: be_nat_Cons power_add algebra_simps)

lemma unat_byte_less [simp]: "unat (b :: u8) < 256"
  using unsigned_less [of b, where ?'a = nat] by simp

lemma be_nat_less: "be_nat bs < 256 ^ length bs"
proof (induction bs)
  case Nil
  then show ?case by simp
next
  case (Cons b bs)
  have "Suc (unat b) \<le> 256" using unat_byte_less [of b] by linarith
  then have "Suc (unat b) * 256 ^ length bs \<le> 256 * 256 ^ length bs"
    by (rule mult_le_mono1)
  then show ?case using Cons.IH unfolding be_nat_Cons mult_Suc length_Cons power_Suc by linarith
qed

lemma be_nat_replicate_0 [simp]: "be_nat (replicate n 0) = 0"
  by (induction n) (simp_all add: be_nat_Cons)

lemma be_nat_replicate_ff: "be_nat (replicate n 0xff) = 256 ^ n - 1"
proof (induction n)
  case 0
  show ?case by simp
next
  case (Suc n)
  have "(1 :: nat) \<le> 256 ^ n" by simp
  then show ?case using Suc by (simp add: be_nat_Cons)
qed

lemma be_nat_inject:
  "length xs = length ys \<Longrightarrow> be_nat xs = be_nat ys \<Longrightarrow> xs = ys"
proof (induction xs ys rule: list_induct2)
  case Nil
  then show ?case by simp
next
  case (Cons x xs y ys)
  have lx: "be_nat xs < 256 ^ length xs" and ly: "be_nat ys < 256 ^ length xs"
    using be_nat_less [of xs] be_nat_less [of ys] Cons.hyps by simp_all
  from Cons have eq: "unat x * 256 ^ length xs + be_nat xs = unat y * 256 ^ length xs + be_nat ys"
    by (simp add: be_nat_Cons)
  then have "(unat x * 256 ^ length xs + be_nat xs) div 256 ^ length xs
      = (unat y * 256 ^ length xs + be_nat ys) div 256 ^ length xs" by simp
  with lx ly have "unat x = unat y" by simp
  with eq Cons.IH show ?case by (simp add: word_unat_eq_iff)
qed


lemma be_nat_rev_le_bytes: "be_nat (rev (le_bytes n w)) = unat w mod 256 ^ n"
proof (induction n)
  case 0
  show ?case by (simp add: le_bytes_def)
next
  case (Suc n)
  have "rev (le_bytes (Suc n) w) = ucast (drop_bit (8 * n) w) # rev (le_bytes n w)"
    by (simp add: le_bytes_def)
  moreover have "unat (drop_bit (8 * n) w) = drop_bit (8 * n) (unat w)"
    by (rule unat_drop_bit_eq)
  then have "unat (drop_bit (8 * n) w) = unat w div 256 ^ n"
    by (simp only: drop_bit_eq_div power_mult) simp
  then have "unat (ucast (drop_bit (8 * n) w) :: u8) = unat w div 256 ^ n mod 256"
    by (simp add: unsigned_ucast_eq take_bit_eq_mod)
  ultimately have "be_nat (rev (le_bytes (Suc n) w))
      = unat w div 256 ^ n mod 256 * 256 ^ n + unat w mod 256 ^ n"
    using Suc.IH by (simp add: be_nat_Cons)
  also have "\<dots> = unat w mod 256 ^ Suc n"
    by (simp add: mod_mult2_eq mult.commute [of 256])
  finally show ?case .
qed

lemma le_nat_le_bytes: "le_nat (le_bytes n w) = unat w mod 256 ^ n"
  by (simp add: le_nat_def be_nat_rev_le_bytes)

lemma from_le_bytes32_to_le_bytes32 [simp]: "from_le_bytes32 (to_le_bytes32 w) = w"
proof -
  have "unat w < 256 ^ 4" using unsigned_less [of w, where ?'a = nat] by simp
  then show ?thesis
    by (simp add: from_le_bytes32_def to_le_bytes32_def le_nat_le_bytes)
qed

lemma to_le_bytes32_inject: "to_le_bytes32 v = to_le_bytes32 w \<longleftrightarrow> v = w"
  by (metis from_le_bytes32_to_le_bytes32)

lemma from_be_bytes32_rev: "from_be_bytes32 (rev bs) = from_le_bytes32 bs"
  by (simp add: from_be_bytes32_def from_le_bytes32_def le_nat_def)

lemma unat_from_be_bytes32: "length bs = 4 \<Longrightarrow> unat (from_be_bytes32 bs) = be_nat bs"
  using be_nat_less [of bs]
  by (simp add: from_be_bytes32_def unat_of_nat take_bit_eq_mod)

lemma unat_of_nat_less: "n < 2 ^ LENGTH('a) \<Longrightarrow> unat (word_of_nat n :: 'a::len word) = n"
  by (simp add: unat_of_nat take_bit_nat_eq_self)

text \<open>\<open>count_ones\<close> of a \<open>u32\<close>.\<close>

definition count_ones :: "u32 \<Rightarrow> nat" where
  "count_ones w = length (filter (bit w) [0..<32])"

section \<open>Formatting integers\<close>

text \<open>\<open>{:08x}\<close> of a \<open>u32\<close> (always eight lower-case digits) and \<open>{}\<close> of an integer.\<close>

definition hex_digit :: "nat \<Rightarrow> char" where
  "hex_digit d = (if d < 10 then char_of (48 + d) else char_of (87 + d))"

fun hex_fixed :: "nat \<Rightarrow> nat \<Rightarrow> string" where
  "hex_fixed 0 v = []"
| "hex_fixed (Suc k) v = hex_fixed k (v div 16) @ [hex_digit (v mod 16)]"

definition fmt_08x :: "u32 \<Rightarrow> string" where
  "fmt_08x w = hex_fixed 8 (unat w)"

fun dec_string :: "nat \<Rightarrow> string" where
  "dec_string n = (if n < 10 then [char_of (48 + n)] else dec_string (n div 10) @ [char_of (48 + n mod 10)])"

declare dec_string.simps [simp del]

lemma length_hex_fixed [simp]: "length (hex_fixed k v) = k"
  by (induction k arbitrary: v) simp_all

lemma length_fmt_08x [simp, shape_simps]: "length (fmt_08x w) = 8"
  by (simp add: fmt_08x_def)

section \<open>Parsing integers\<close>

text \<open>
  \<open>char::to_digit\<close> and \<open>from_str_radix\<close> of an unsigned type: one leading plus sign is
  accepted when more characters follow, a minus sign is not, the empty string and a value
  that does not fit are errors.
\<close>

definition char_nat :: "char \<Rightarrow> nat" where
  "char_nat c = of_char c"

definition to_digit :: "nat \<Rightarrow> char \<Rightarrow> nat option" where
  "to_digit radix c =
     (let n = char_nat c;
          d = (if 48 \<le> n \<and> n \<le> 57 then Some (n - 48)
               else if 97 \<le> n \<and> n \<le> 122 then Some (n - 87)
               else if 65 \<le> n \<and> n \<le> 90 then Some (n - 55)
               else None)
      in case d of None \<Rightarrow> None | Some v \<Rightarrow> if v < radix then Some v else None)"

fun parse_digits :: "nat \<Rightarrow> nat \<Rightarrow> string \<Rightarrow> nat option" where
  "parse_digits radix acc [] = Some acc"
| "parse_digits radix acc (c # cs) =
     (case to_digit radix c of None \<Rightarrow> None | Some d \<Rightarrow> parse_digits radix (acc * radix + d) cs)"

definition from_str_radix :: "nat \<Rightarrow> nat \<Rightarrow> string \<Rightarrow> nat option" where
  "from_str_radix width radix s =
     (let digits = (case s of [] \<Rightarrow> [] | c # cs \<Rightarrow> if c = CHR ''+'' \<and> cs \<noteq> [] then cs else s)
      in if digits = [] then None
         else case parse_digits radix 0 digits of
                None \<Rightarrow> None
              | Some v \<Rightarrow> if v < 2 ^ width then Some v else None)"

definition u32_from_str_radix :: "string \<Rightarrow> nat \<Rightarrow> u32 option" where
  "u32_from_str_radix s radix = map_option word_of_nat (from_str_radix 32 radix s)"

definition parse_u32 :: "string \<Rightarrow> u32 option" where
  "parse_u32 s = map_option word_of_nat (from_str_radix 32 10 s)"

definition parse_u16 :: "string \<Rightarrow> u16 option" where
  "parse_u16 s = map_option word_of_nat (from_str_radix 16 10 s)"

lemma to_digit_hex_digit [simp]: "d < 16 \<Longrightarrow> to_digit 16 (hex_digit d) = Some d"
  by (simp add: to_digit_def hex_digit_def char_nat_def Let_def)

lemma hex_digit_not_plus: "d < 16 \<Longrightarrow> hex_digit d \<noteq> CHR ''+''"
proof
  assume "d < 16" and "hex_digit d = CHR ''+''"
  then have "to_digit 16 CHR ''+'' = Some d" using to_digit_hex_digit [of d] by simp
  then show False by (simp add: to_digit_def char_nat_def Let_def)
qed

lemma parse_digits_append:
  "parse_digits r acc (xs @ ys) = Option.bind (parse_digits r acc xs) (\<lambda>v. parse_digits r v ys)"
  by (induction xs arbitrary: acc) (simp_all split: option.split)

lemma parse_digits_hex_fixed:
  "parse_digits 16 acc (hex_fixed k v) = Some (acc * 16 ^ k + v mod 16 ^ k)"
proof (induction k arbitrary: v)
  case 0
  show ?case by simp
next
  case (Suc k)
  have "v mod 16 ^ Suc k = (v div 16 mod 16 ^ k) * 16 + v mod 16"
    using mod_mult2_eq [of v 16 "16 ^ k"] by (simp add: mult.commute)
  then show ?case
    using Suc.IH [of "v div 16"] by (simp add: parse_digits_append algebra_simps)
qed

lemma hd_hex_fixed: "hex_fixed (Suc k) v = c # cs \<Longrightarrow> c \<noteq> CHR ''+''"
proof (induction k arbitrary: v c cs)
  case 0
  then show ?case using hex_digit_not_plus [of "v mod 16"] by auto
next
  case (Suc k)
  obtain d ds where d: "hex_fixed (Suc k) (v div 16) = d # ds"
    using length_hex_fixed [of "Suc k" "v div 16"]
    by (cases "hex_fixed (Suc k) (v div 16)") (simp_all del: hex_fixed.simps)
  from Suc.prems have "hex_fixed (Suc k) (v div 16) @ [hex_digit (v mod 16)] = c # cs"
    by (simp only: hex_fixed.simps)
  with d have "c = d" by simp
  with Suc.IH [OF d] show ?case by simp
qed

lemma u32_from_str_radix_fmt_08x [simp]: "u32_from_str_radix (fmt_08x w) 16 = Some w"
proof -
  have w: "unat w < 16 ^ 8" using unsigned_less [of w, where ?'a = nat] by simp
  have eight: "(8::nat) = Suc 7" by simp
  obtain c cs where c: "hex_fixed 8 (unat w) = c # cs"
    using length_hex_fixed [of 8 "unat w"] by (cases "hex_fixed 8 (unat w)") simp_all
  then have "c \<noteq> CHR ''+''" using hd_hex_fixed [of 7 "unat w" c cs] unfolding eight by blast
  moreover from c have "parse_digits 16 0 (c # cs) = Some (unat w)"
    using parse_digits_hex_fixed [of 0 8 "unat w"] w by simp
  ultimately have "from_str_radix 32 16 (c # cs) = Some (unat w)"
    using w by (simp add: from_str_radix_def Let_def del: parse_digits.simps)
  then show ?thesis by (simp add: u32_from_str_radix_def fmt_08x_def c)
qed

lemma fmt_08x_inject: "fmt_08x v = fmt_08x w \<longleftrightarrow> v = w"
  by (metis option.inject u32_from_str_radix_fmt_08x)


section \<open>Strings\<close>

text \<open>\<open>str::strip_prefix\<close>, \<open>str::split_once\<close> and \<open>trim_end_matches\<close>.\<close>

fun strip_prefix :: "string \<Rightarrow> string \<Rightarrow> string option" where
  "strip_prefix [] s = Some s"
| "strip_prefix (p # ps) [] = None"
| "strip_prefix (p # ps) (c # cs) = (if p = c then strip_prefix ps cs else None)"

fun split_once :: "char \<Rightarrow> string \<Rightarrow> (string \<times> string) option" where
  "split_once d [] = None"
| "split_once d (c # cs) =
     (if c = d then Some ([], cs)
      else case split_once d cs of None \<Rightarrow> None | Some (u, w) \<Rightarrow> Some (c # u, w))"

definition trim_end_matches :: "char \<Rightarrow> string \<Rightarrow> string" where
  "trim_end_matches c s = rev (dropWhile (\<lambda>x. x = c) (rev s))"

text \<open>
  \<open>str::trim\<close> removes leading and trailing characters of the Unicode class
  White\_Space; \<open>white_space\<close> lists their UTF-8 encodings. Every encoding is non-empty,
  so each round of \<open>trim_by\<close> shortens the string.
\<close>

definition white_space :: "string list" where
  "white_space =
     map (\<lambda>n. [char_of n]) [9, 10, 11, 12, 13, 32 :: nat]
     @ map (map char_of)
         ([[0xC2, 0x85], [0xC2, 0xA0], [0xE1, 0x9A, 0x80],
           [0xE2, 0x80, 0x80], [0xE2, 0x80, 0x81], [0xE2, 0x80, 0x82], [0xE2, 0x80, 0x83],
           [0xE2, 0x80, 0x84], [0xE2, 0x80, 0x85], [0xE2, 0x80, 0x86], [0xE2, 0x80, 0x87],
           [0xE2, 0x80, 0x88], [0xE2, 0x80, 0x89], [0xE2, 0x80, 0x8A],
           [0xE2, 0x80, 0xA8], [0xE2, 0x80, 0xA9], [0xE2, 0x80, 0xAF],
           [0xE2, 0x81, 0x9F], [0xE3, 0x80, 0x80 :: nat]])"

fun strip_any :: "string list \<Rightarrow> string \<Rightarrow> string option" where
  "strip_any [] s = None"
| "strip_any (p # ps) s = (case strip_prefix p s of Some r \<Rightarrow> Some r | None \<Rightarrow> strip_any ps s)"

function trim_by :: "string list \<Rightarrow> string \<Rightarrow> string" where
  "trim_by ws s =
     (case strip_any ws s of
        None \<Rightarrow> s
      | Some r \<Rightarrow> if length r < length s then trim_by ws r else s)"
  by pat_completeness auto
termination by (relation "measure (\<lambda>(ws, s). length s)") auto

declare trim_by.simps [simp del]

definition trim :: "string \<Rightarrow> string" where
  "trim s = rev (trim_by (map rev white_space) (rev (trim_by white_space s)))"

text \<open>ASCII part of \<open>to_lowercase\<close>; it decides equality with an ASCII word in lower case.\<close>

definition to_lowercase :: "string \<Rightarrow> string" where
  "to_lowercase s =
     map (\<lambda>c. if 65 \<le> char_nat c \<and> char_nat c \<le> 90 then char_of (char_nat c + 32) else c) s"

lemma strip_prefix_Some: "strip_prefix p s = Some r \<longleftrightarrow> s = p @ r"
  by (induction p s rule: strip_prefix.induct) auto

lemma split_once_Some:
  "split_once d s = Some (u, w) \<Longrightarrow> s = u @ d # w \<and> d \<notin> set u"
proof (induction s arbitrary: u)
  case Nil
  then show ?case by simp
next
  case (Cons c cs)
  show ?case
  proof (cases "c = d")
    case True
    with Cons.prems show ?thesis by simp
  next
    case False
    with Cons.prems obtain u' where "split_once d cs = Some (u', w)" and "u = c # u'"
      by (auto split: option.splits)
    with Cons.IH False show ?thesis by simp
  qed
qed

lemma split_once_append: "d \<notin> set u \<Longrightarrow> split_once d (u @ d # w) = Some (u, w)"
  by (induction u) auto

lemma split_once_None: "split_once d s = None \<longleftrightarrow> d \<notin> set s"
  by (induction s) (auto split: option.splits)

lemma strip_any_None:
  "strip_any ws s = None \<longleftrightarrow> (\<forall>p \<in> set ws. strip_prefix p s = None)"
  by (induction ws) (auto split: option.splits)

text \<open>A string of printable ASCII characters is left alone by \<open>trim\<close>.\<close>

definition printable :: "string \<Rightarrow> bool" where
  "printable s \<longleftrightarrow> (\<forall>c \<in> set s. 32 < char_nat c \<and> char_nat c < 128)"

lemma trim_by_printable:
  assumes ws: "\<forall>p \<in> set ws. p \<noteq> [] \<and> (char_nat (hd p) \<le> 32 \<or> 128 \<le> char_nat (hd p))"
    and s: "printable s"
  shows "trim_by ws s = s"
proof -
  have "strip_prefix p s = None" if "p \<in> set ws" for p
  proof (cases p; cases s)
    fix q qs c cs
    assume "p = q # qs" and "s = c # cs"
    with ws s that show ?thesis by (fastforce simp: printable_def)
  qed (use ws that in auto)
  then show ?thesis by (simp add: trim_by.simps strip_any_None [THEN iffD2])
qed

lemma trim_printable [simp]: "printable s \<Longrightarrow> trim s = s"
proof -
  assume s: "printable s"
  have "trim_by white_space s = s"
    by (rule trim_by_printable [OF _ s]) (simp add: white_space_def char_nat_def)
  moreover have "trim_by (map rev white_space) (rev s) = rev s"
    by (rule trim_by_printable) (use s in \<open>simp_all add: white_space_def char_nat_def printable_def\<close>)
  ultimately show ?thesis by (simp add: trim_def)
qed

lemma printable_hex_digit: "d < 16 \<Longrightarrow> 32 < char_nat (hex_digit d) \<and> char_nat (hex_digit d) < 128"
  by (simp add: hex_digit_def char_nat_def)

lemma printable_hex_fixed [simp]: "printable (hex_fixed k v)"
proof (induction k arbitrary: v)
  case 0
  show ?case by (simp add: printable_def)
next
  case (Suc k)
  then show ?case using printable_hex_digit [of "v mod 16"] by (auto simp: printable_def)
qed

lemma printable_fmt_08x [simp]: "printable (fmt_08x w)"
  by (simp add: fmt_08x_def)

section \<open>Lists\<close>

text \<open>\<open>windows(n).position(..)\<close>: the first index at which \<open>pat\<close> occurs in \<open>xs\<close>.\<close>

fun window_position :: "'a list \<Rightarrow> 'a list \<Rightarrow> nat option" where
  "window_position pat [] = (if pat = [] then Some 0 else None)"
| "window_position pat (x # xs) =
     (if take (length pat) (x # xs) = pat then Some 0
      else map_option Suc (window_position pat xs))"

lemma window_position_Some:
  "window_position pat xs = Some i \<Longrightarrow> xs = take i xs @ pat @ drop (i + length pat) xs"
proof (induction xs arbitrary: i)
  case Nil
  then show ?case by (simp split: if_splits)
next
  case (Cons x xs)
  show ?case
  proof (cases "take (length pat) (x # xs) = pat")
    case True
    with Cons.prems have "i = 0" by simp
    with True show ?thesis by (metis append_Nil append_take_drop_id plus_nat.add_0 take0)
  next
    case False
    with Cons.prems obtain j where j: "window_position pat xs = Some j" and i: "i = Suc j"
      by auto
    have "x # xs = x # take j xs @ pat @ drop (j + length pat) xs"
      using Cons.IH [OF j] by simp
    with i show ?thesis by simp
  qed
qed

lemma window_position_exists:
  "xs = ys @ pat @ zs \<Longrightarrow> \<exists>i \<le> length ys. window_position pat xs = Some i"
proof (induction ys arbitrary: xs)
  case Nil
  show ?case
  proof (cases xs)
    case Nil
    with Nil.prems show ?thesis by simp
  next
    case (Cons x xs')
    from Nil.prems have "take (length pat) xs = pat" by simp
    with Cons have "window_position pat xs = Some 0" by simp
    then show ?thesis by blast
  qed
next
  case (Cons y ys)
  then obtain i where i: "i \<le> length ys" "window_position pat (ys @ pat @ zs) = Some i" by blast
  with Cons.prems show ?case by auto
qed


text \<open>\<open>slice::get\<close> and \<open>slice::first\<close>.\<close>

definition list_get :: "nat \<Rightarrow> 'a list \<Rightarrow> 'a option" where
  "list_get i xs = (if i < length xs then Some (xs ! i) else None)"

lemma list_get_Cons [simp]:
  "list_get 0 (x # xs) = Some x" "list_get (Suc i) (x # xs) = list_get i xs" "list_get i [] = None"
  by (simp_all add: list_get_def)

lemma list_get_numeral [simp]: "list_get (numeral k) (x # xs) = list_get (pred_numeral k) xs"
  by (simp add: numeral_eq_Suc)

text \<open>The last \<open>n\<close> elements; what a bounded first-in first-out queue holds.\<close>

definition last_n :: "nat \<Rightarrow> 'a list \<Rightarrow> 'a list" where
  "last_n n xs = drop (length xs - n) xs"

lemma last_n_Nil [simp]: "last_n n [] = []"
  by (simp add: last_n_def)

lemma length_last_n [simp]: "length (last_n n xs) = min n (length xs)"
  by (simp add: last_n_def)

lemma set_last_n: "set (last_n n xs) \<subseteq> set xs"
  by (simp add: last_n_def set_drop_subset)

lemma last_n_snoc: "last_n n (last_n n xs @ [x]) = last_n n (xs @ [x])"
proof (cases "length xs < n")
  case True
  then show ?thesis by (simp add: last_n_def)
next
  case False
  then have len: "length (last_n n xs) = n" by (simp add: last_n_def)
  have n: "Suc (length xs) - n = Suc (length xs - n)" using False by simp
  show ?thesis
  proof (cases n)
    case 0
    then show ?thesis by (simp add: last_n_def)
  next
    case (Suc m)
    with False have "drop 1 (drop (length xs - n) xs @ [x]) = drop (Suc (length xs - n)) xs @ [x]"
      by simp
    then show ?thesis using len n Suc by (simp add: last_n_def)
  qed
qed

lemma last_n_push: "fold (\<lambda>x ys. last_n n (ys @ [x])) xs [] = last_n n xs"
  by (induction xs rule: rev_induct) (simp_all add: last_n_snoc)

end
