(* ===== verification/Crates.thy ===== *)
theory Crates
  imports Prelude
begin

text \<open>
  The third-party crates the sources call. Their code is not part of the repository, so
  each is a record of functions that the model's definitions take as an argument, and what
  the sources rely on is a named predicate that states the crate's documented behaviour:
  \<open>hex_documented\<close> (crate \<open>hex\<close>), \<open>sha256_documented\<close> (crate \<open>sha2\<close>) and
  \<open>bitcoin_documented\<close> (crate \<open>bitcoin\<close>: consensus encoding). The type
  \<open>serde_json::Value\<close> is represented by its public variants.

  The \<open>sample_\<close> constants at the end are one concrete choice for each crate. Only
  witnesses use them; no property is stated about them.
\<close>

section \<open>hex\<close>

record hex_crate =
  hex_encode :: "bytes \<Rightarrow> string"
  hex_decode :: "string \<Rightarrow> string + bytes"

fun hex_pairs :: "string \<Rightarrow> bytes option" where
  "hex_pairs [] = Some []"
| "hex_pairs [c] = None"
| "hex_pairs (c # d # cs) =
     (case (to_digit 16 c, to_digit 16 d, hex_pairs cs) of
        (Some hi, Some lo, Some bs) \<Rightarrow> Some (word_of_nat (16 * hi + lo) # bs)
      | _ \<Rightarrow> None)"

definition hex_text :: "bytes \<Rightarrow> string" where
  "hex_text bs = concat (map (\<lambda>b. hex_fixed 2 (unat b)) bs)"

text \<open>
  Documented: \<open>encode\<close> writes two lower-case digits per byte; \<open>decode\<close> accepts digits of
  both cases, and fails (with a rendered \<open>FromHexError\<close>) on an odd length or another
  character.
\<close>

definition hex_documented :: "hex_crate \<Rightarrow> bool" where
  "hex_documented hx \<longleftrightarrow>
     (\<forall>bs. hex_encode hx bs = hex_text bs) \<and>
     (\<forall>s. case hex_pairs s of
            Some bs \<Rightarrow> hex_decode hx s = Inr bs
          | None \<Rightarrow> \<exists>e. hex_decode hx s = Inl e)"

lemma hex_fixed_2: "hex_fixed 2 v = [hex_digit (v div 16 mod 16), hex_digit (v mod 16)]"
  by (simp add: numeral_2_eq_2)

lemma hex_pairs_hex_text [simp]: "hex_pairs (hex_text bs) = Some bs"
proof (induction bs)
  case Nil
  show ?case by (simp add: hex_text_def)
next
  case (Cons b bs)
  have "16 * (unat b div 16) + unat b mod 16 = unat b" by simp
  then have "word_of_nat (16 * (unat b div 16) + unat b mod 16) = b"
    by simp
  moreover have "unat b div 16 mod 16 = unat b div 16"
    using unat_byte_less [of b] by (intro mod_less) linarith
  ultimately show ?case using Cons by (simp add: hex_text_def hex_fixed_2)
qed

lemma length_hex_pairs: "hex_pairs s = Some bs \<Longrightarrow> length s = 2 * length bs"
  by (induction s arbitrary: bs rule: hex_pairs.induct) (auto split: option.splits)

lemma length_hex_text [simp, shape_simps]: "length (hex_text bs) = 2 * length bs"
  by (induction bs) (simp_all add: hex_text_def)

lemma printable_hex_text [simp]: "printable (hex_text bs)"
proof (induction bs)
  case Nil
  show ?case by (simp add: hex_text_def printable_def)
next
  case (Cons b bs)
  then show ?case using printable_hex_fixed [of 2 "unat b"]
    unfolding hex_text_def printable_def by auto
qed

lemma hex_text_append: "hex_text (xs @ ys) = hex_text xs @ hex_text ys"
  by (simp add: hex_text_def)

lemma le_bytes_Suc: "le_bytes (Suc n) w = ucast w # le_bytes n (drop_bit 8 w)"
proof -
  have "[0..<Suc n] = 0 # map Suc [0..<n]" by (simp add: upt_conv_Cons map_Suc_upt del: upt_Suc)
  then show ?thesis by (simp add: le_bytes_def drop_bit_drop_bit add.commute del: upt_Suc)
qed

text \<open>A number printed in hex is the hex text of its bytes, most significant first.\<close>

lemma hex_fixed_le_bytes: "hex_fixed (2 * n) (unat w) = hex_text (rev (le_bytes n w))"
proof (induction n arbitrary: w)
  case 0
  show ?case by (simp add: hex_text_def le_bytes_def)
next
  case (Suc n)
  have "unat (drop_bit 8 w) = drop_bit 8 (unat w)" by (rule unat_drop_bit_eq)
  then have d: "unat (drop_bit 8 w) = unat w div 16 div 16" by (simp add: drop_bit_eq_div div_mult2_eq [symmetric])
  have m: "unat (ucast w :: u8) = unat w mod 256" by (simp add: unsigned_ucast_eq take_bit_eq_mod)
  have "hex_fixed 2 (unat w mod 256) = [hex_digit (unat w div 16 mod 16), hex_digit (unat w mod 16)]"
  proof -
    have "unat w mod 256 div 16 mod 16 = unat w div 16 mod 16"
      using mod_mult2_eq [of "unat w" 16 16] by simp
    moreover have "unat w mod 256 mod 16 = unat w mod 16" by (simp add: mod_mod_cancel)
    ultimately show ?thesis by (simp add: hex_fixed_2)
  qed
  then show ?case
    using Suc.IH [of "drop_bit 8 w"] by (simp add: le_bytes_Suc hex_text_append hex_text_def d m)
qed

lemma fmt_08x_hex_text: "fmt_08x w = hex_text (rev (to_le_bytes32 w))"
  using hex_fixed_le_bytes [of 4 w] by (simp add: fmt_08x_def to_le_bytes32_def)

lemma hex_decode_case:
  assumes "hex_documented hx"
  shows "case hex_pairs s of Some bs \<Rightarrow> hex_decode hx s = Inr bs
         | None \<Rightarrow> \<exists>e. hex_decode hx s = Inl e"
  using assms unfolding hex_documented_def by blast

lemma hex_decode_Inr:
  "hex_documented hx \<Longrightarrow> hex_decode hx s = Inr bs \<longleftrightarrow> hex_pairs s = Some bs"
  using hex_decode_case [of hx s] by (cases "hex_pairs s") auto

lemma hex_decode_Inl:
  "hex_documented hx \<Longrightarrow> (\<exists>e. hex_decode hx s = Inl e) \<longleftrightarrow> hex_pairs s = None"
  using hex_decode_case [of hx s] by (cases "hex_pairs s") auto

lemma hex_encode_text: "hex_documented hx \<Longrightarrow> hex_encode hx bs = hex_text bs"
  by (simp add: hex_documented_def)

lemma hex_decode_hex_text: "hex_documented hx \<Longrightarrow> hex_decode hx (hex_text bs) = Inr bs"
  by (simp add: hex_decode_Inr)

lemma hex_decode_encode: "hex_documented hx \<Longrightarrow> hex_decode hx (hex_encode hx bs) = Inr bs"
  by (simp add: hex_decode_Inr hex_encode_text)

lemmas hex_laws = hex_decode_Inr hex_decode_Inl hex_encode_text hex_decode_encode

section \<open>sha2\<close>

type_synonym hasher = "bytes \<Rightarrow> bytes"

text \<open>Documented: \<open>Sha256::digest\<close> returns 32 bytes.\<close>

definition sha256_documented :: "hasher \<Rightarrow> bool" where
  "sha256_documented sha \<longleftrightarrow> (\<forall>m. length (sha m) = 32)"

lemma sha256_length [simp]: "sha256_documented sha \<Longrightarrow> length (sha m) = 32"
  by (simp add: sha256_documented_def)

section \<open>bitcoin\<close>

text \<open>The public fields of the structs the sources build and read.\<close>

record out_point =
  op_txid :: bytes
  op_vout :: u32

record tx_in =
  previous_output :: out_point
  script_sig :: bytes
  sequence :: u32
  witness :: "bytes list"

record tx_out =
  tx_value :: u64
  script_pubkey :: bytes

record transaction =
  tx_version :: u32
  lock_time :: u32
  tx_input :: "tx_in list"
  tx_output :: "tx_out list"

record bitcoin_crate =
  version_one :: u32
  lock_time_zero :: u32
  null_out_point :: out_point
  sequence_max :: u32
  tx_serialize :: "transaction \<Rightarrow> bytes"
  tx_deserialize :: "bytes \<Rightarrow> string + transaction"
  encode_version :: "u32 \<Rightarrow> bytes"
  encode_inputs :: "tx_in list \<Rightarrow> bytes"
  encode_outputs :: "tx_out list \<Rightarrow> bytes"
  encode_lock_time :: "u32 \<Rightarrow> bytes"
  encode_var_int :: "u64 \<Rightarrow> string + bytes"

text \<open>The consensus variable-length integer (CompactSize).\<close>

definition compact_size :: "nat \<Rightarrow> bytes" where
  "compact_size n =
     (if n < 0xFD then [word_of_nat n]
      else if n < 0x10000 then 0xFD # le_bytes 2 (word_of_nat n :: u64)
      else if n < 0x100000000 then 0xFE # le_bytes 4 (word_of_nat n :: u64)
      else 0xFF # le_bytes 8 (word_of_nat n :: u64))"

definition encode_out_point :: "out_point \<Rightarrow> bytes" where
  "encode_out_point p = op_txid p @ to_le_bytes32 (op_vout p)"

text \<open>
  Documented (the Bitcoin wire format): a transaction input is its out point, the length
  prefixed script, and the sequence number, and carries no witness; a vector is its length
  followed by its elements; the integers are little-endian; writing a \<open>VarInt\<close> into a
  \<open>Vec\<close> cannot fail; deserialising what was serialised gives the transaction back.
\<close>

definition encode_tx_in :: "tx_in \<Rightarrow> bytes" where
  "encode_tx_in i =
     encode_out_point (previous_output i) @ compact_size (length (script_sig i)) @ script_sig i
     @ to_le_bytes32 (sequence i)"

definition encode_tx_out :: "tx_out \<Rightarrow> bytes" where
  "encode_tx_out o' =
     to_le_bytes64 (tx_value o') @ compact_size (length (script_pubkey o')) @ script_pubkey o'"

definition bitcoin_documented :: "bitcoin_crate \<Rightarrow> bool" where
  "bitcoin_documented btc \<longleftrightarrow>
     (\<forall>v. encode_version btc v = to_le_bytes32 v) \<and>
     (\<forall>t. encode_lock_time btc t = to_le_bytes32 t) \<and>
     (\<forall>is. encode_inputs btc is = compact_size (length is) @ concat (map encode_tx_in is)) \<and>
     (\<forall>os. encode_outputs btc os = compact_size (length os) @ concat (map encode_tx_out os)) \<and>
     (\<forall>n. encode_var_int btc n = Inr (compact_size (unat n)))"

definition round_trips :: "bitcoin_crate \<Rightarrow> transaction \<Rightarrow> bool" where
  "round_trips btc tx \<longleftrightarrow> tx_deserialize btc (tx_serialize btc tx) = Inr tx"

lemma bitcoin_laws:
  assumes "bitcoin_documented btc"
  shows "encode_version btc v = to_le_bytes32 v"
    and "encode_lock_time btc v = to_le_bytes32 v"
    and "encode_inputs btc is = compact_size (length is) @ concat (map encode_tx_in is)"
    and "encode_outputs btc os = compact_size (length os) @ concat (map encode_tx_out os)"
    and "encode_var_int btc n = Inr (compact_size (unat n))"
  using assms by (simp_all add: bitcoin_documented_def)

section \<open>serde\_json\<close>

text \<open>
  \<open>serde_json::Value\<close>. A number is an unsigned, a negative or a floating point one
  (the last as its bit pattern). An object is kept as an association list: \<open>obj_insert\<close>
  replaces the value of a present key, \<open>obj_get\<close> looks a key up.
\<close>

datatype json_number = PosInt u64 | NegInt int | Float u64

datatype json =
    JNull
  | JBool bool
  | JNumber json_number
  | JString string
  | JArray "json list"
  | JObject "(string \<times> json) list"

definition obj_insert :: "string \<Rightarrow> json \<Rightarrow> (string \<times> json) list \<Rightarrow> (string \<times> json) list" where
  "obj_insert k v m = AList.update k v m"

definition obj_get :: "string \<Rightarrow> (string \<times> json) list \<Rightarrow> json option" where
  "obj_get k m = map_of m k"

lemma obj_get_insert [simp]:
  "obj_get k (obj_insert k' v m) = (if k = k' then Some v else obj_get k m)"
  by (simp add: obj_get_def obj_insert_def update_conv')

fun as_array :: "json \<Rightarrow> json list option" where
  "as_array (JArray xs) = Some xs"
| "as_array _ = None"

fun as_str :: "json \<Rightarrow> string option" where
  "as_str (JString s) = Some s"
| "as_str _ = None"

fun as_u64 :: "json \<Rightarrow> u64 option" where
  "as_u64 (JNumber (PosInt n)) = Some n"
| "as_u64 _ = None"

fun as_object :: "json \<Rightarrow> (string \<times> json) list option" where
  "as_object (JObject m) = Some m"
| "as_object _ = None"

text \<open>\<open>Value::get\<close> with a string index.\<close>

definition json_get :: "string \<Rightarrow> json \<Rightarrow> json option" where
  "json_get k v = (case as_object v of None \<Rightarrow> None | Some m \<Rightarrow> obj_get k m)"

definition json_u32 :: "u32 \<Rightarrow> json" where
  "json_u32 n = JNumber (PosInt (ucast n))"

section \<open>reqwest\<close>

text \<open>
  An HTTP client: sending a request changes the world and either fails or gives a response
  with a status and a body, which may or may not parse as JSON. \<open>status_display\<close> renders
  a status code and \<open>json_display\<close> a JSON value.
\<close>

datatype http_method = GET | POST

datatype http_auth = Basic_Auth string string | Bearer_Auth string

record http_request =
  req_method :: http_method
  req_url :: string
  req_auth :: "http_auth option"
  req_body :: "json option"

record http_response =
  resp_status :: u16
  resp_json :: "string + json"

record 'w http_crate =
  http_send :: "http_request \<Rightarrow> 'w \<Rightarrow> (string + http_response) \<times> 'w"
  status_display :: "u16 \<Rightarrow> string"
  json_display :: "json \<Rightarrow> string"

definition is_success :: "u16 \<Rightarrow> bool" where
  "is_success s \<longleftrightarrow> 200 \<le> s \<and> s < 300"

section \<open>Sample instances for witnesses\<close>

definition sample_hex :: hex_crate where
  "sample_hex = \<lparr> hex_encode = hex_text,
                  hex_decode = (\<lambda>s. ok_or ''invalid hex'' (hex_pairs s)) \<rparr>"

definition sample_sha :: hasher where
  "sample_sha m = map (\<lambda>i. foldl (+) (word_of_nat i) m) [0..<32]"

definition sample_serialize :: "transaction \<Rightarrow> bytes" where
  "sample_serialize tx =
     to_le_bytes32 (tx_version tx)
     @ (if list_all (\<lambda>i. witness i = []) (tx_input tx) then [] else [0, 1])
     @ compact_size (length (tx_input tx)) @ concat (map encode_tx_in (tx_input tx))
     @ compact_size (length (tx_output tx)) @ concat (map encode_tx_out (tx_output tx))
     @ (if list_all (\<lambda>i. witness i = []) (tx_input tx) then []
        else concat (map (\<lambda>i. compact_size (length (witness i))
                          @ concat (map (\<lambda>w. compact_size (length w) @ w) (witness i)))
                     (tx_input tx)))
     @ to_le_bytes32 (lock_time tx)"

text \<open>A decoder that knows the given transactions (the ones a witness builds).\<close>

definition sample_bitcoin :: "transaction list \<Rightarrow> bitcoin_crate" where
  "sample_bitcoin known =
     \<lparr> version_one = 1, lock_time_zero = 0,
       null_out_point = \<lparr> op_txid = replicate 32 0, op_vout = 0xFFFFFFFF \<rparr>,
       sequence_max = 0xFFFFFFFF,
       tx_serialize = sample_serialize,
       tx_deserialize = (\<lambda>bs. case filter (\<lambda>tx. sample_serialize tx = bs) known of
                                 [] \<Rightarrow> Inl ''unknown transaction'' | tx # _ \<Rightarrow> Inr tx),
       encode_version = to_le_bytes32,
       encode_inputs = (\<lambda>is. compact_size (length is) @ concat (map encode_tx_in is)),
       encode_outputs = (\<lambda>os. compact_size (length os) @ concat (map encode_tx_out os)),
       encode_lock_time = to_le_bytes32,
       encode_var_int = (\<lambda>n. Inr (compact_size (unat n))) \<rparr>"

lemma sample_hex_documented [simp]: "hex_documented sample_hex"
  by (simp add: hex_documented_def sample_hex_def split: option.splits)

lemma sample_sha_documented [simp]: "sha256_documented sample_sha"
  by (simp add: sha256_documented_def sample_sha_def)

lemma sample_bitcoin_documented [simp]: "bitcoin_documented (sample_bitcoin known)"
  by (simp add: bitcoin_documented_def sample_bitcoin_def)

text \<open>A server that gives one answer and keeps the requests it saw.\<close>

definition sample_http :: "(string + http_response) \<Rightarrow> http_request list http_crate" where
  "sample_http answer =
     \<lparr> http_send = (\<lambda>req seen. (answer, seen @ [req])),
       status_display = (\<lambda>s. dec_string (unat s)), json_display = (\<lambda>j. ''json'') \<rparr>"

end
