(* ===== verification/Sv1_Messages.thy ===== *)
theory Sv1_Messages
  imports Crates
begin

text \<open>
  \<open>protocol_sv1/src/messages.rs\<close> and \<open>domain_mapper.rs\<close>: Stratum V1 requests and their
  translation into domain commands. Every check of a parameter is a branch that returns the
  source's message.
\<close>

section \<open>Messages\<close>

record sv1_request =
  rq_id :: "json option"
  rq_method :: string
  rq_params :: "json option"

record sv1_error =
  err_code :: i32
  err_message :: string

record sv1_response =
  rs_id :: "json option"
  rs_result :: "json option"
  rs_error :: "sv1_error option"

record sv1_version_rolling_config =
  vr_mask :: u32
  vr_min_bit_count :: u32

datatype sv1_domain_command =
    Configure "string list" "sv1_version_rolling_config option"
  | Subscribe
  | Authorize string string
  | SubmitShare string string bytes u32 u32 "u32 option"

section \<open>Parameters\<close>

definition param_str :: "nat \<Rightarrow> json list \<Rightarrow> string \<Rightarrow> string + string" where
  "param_str i params e = ok_or e (Option.bind (list_get i params) as_str)"

definition parse_hex_u32 :: "json \<Rightarrow> string \<Rightarrow> string + u32" where
  "parse_hex_u32 v lbl =
     and_then (ok_or (lbl @ '' must be 8-char hex string'') (as_str v)) (\<lambda>h.
       if length h \<noteq> 8 then Inl (lbl @ '' must be 8-char hex string'')
       else ok_or (lbl @ '' invalid hex'') (u32_from_str_radix h 16))"

definition parse_version_rolling_config ::
  "(string \<times> json) list option \<Rightarrow> string + sv1_version_rolling_config" where
  "parse_version_rolling_config options =
     and_then
       (case Option.bind options (obj_get ''version-rolling.mask'') of
          Some v \<Rightarrow> parse_hex_u32 v ''mining.configure version-rolling.mask''
        | None \<Rightarrow> Inr 0xffffffff) (\<lambda>m.
     and_then
       (case Option.bind options (obj_get ''version-rolling.min-bit-count'') of
          Some v \<Rightarrow>
            and_then (ok_or ''mining.configure version-rolling.min-bit-count must be integer'' (as_u64 v))
              (\<lambda>count. if unat count < 2 ^ 32 then Inr (ucast count)
                       else Inl ''mining.configure version-rolling.min-bit-count out of range'')
        | None \<Rightarrow> Inr 0) (\<lambda>min_bits.
     Inr \<lparr> vr_mask = m, vr_min_bit_count = min_bits \<rparr>))"

definition map_configure_params :: "sv1_request \<Rightarrow> string + sv1_domain_command" where
  "map_configure_params req =
     and_then
       (case rq_params req of
          None \<Rightarrow> Inr None
        | Some params \<Rightarrow>
            and_then (ok_or ''mining.configure requires params array'' (as_array params))
              (\<lambda>a. Inr (Some a))) (\<lambda>params.
     and_then
       (case params of
          None \<Rightarrow> Inr []
        | Some params \<Rightarrow>
            (case list_get 0 params of
               None \<Rightarrow> Inr []
             | Some v \<Rightarrow>
                 and_then (ok_or ''mining.configure param 0 (extensions) must be array'' (as_array v))
                   (\<lambda>items. collect_results
                      (map (\<lambda>item. ok_or ''mining.configure extensions must be strings'' (as_str item))
                           items)))) (\<lambda>extensions.
     let options = Option.bind (Option.bind params (list_get 1)) as_object
     in and_then
          (if ''version-rolling'' \<in> set extensions
           then and_then (parse_version_rolling_config options) (\<lambda>c. Inr (Some c))
           else Inr None) (\<lambda>version_rolling.
        Inr (Configure extensions version_rolling))))"

definition map_submit_params :: "hex_crate \<Rightarrow> sv1_request \<Rightarrow> string + sv1_domain_command" where
  "map_submit_params hx req =
     and_then (ok_or ''mining.submit requires params array'' (Option.bind (rq_params req) as_array)) (\<lambda>params.
     if length params < 5
     then Inl (''mining.submit requires 5 params, got '' @ dec_string (length params))
     else
     and_then (param_str 0 params ''mining.submit param 0 (username) must be string'') (\<lambda>username.
     and_then (param_str 1 params ''mining.submit param 1 (job_id) must be string'') (\<lambda>job_id.
     and_then (param_str 2 params ''mining.submit param 2 (extra_nonce2) must be hex string'') (\<lambda>en2_hex.
     and_then (param_str 3 params ''mining.submit param 3 (ntime) must be hex string'') (\<lambda>ntime_hex.
     and_then (param_str 4 params ''mining.submit param 4 (nonce) must be hex string'') (\<lambda>nonce_hex.
     and_then (map_err (\<lambda>_. ''mining.submit param 2 (extra_nonce2) invalid hex'') (hex_decode hx en2_hex)) (\<lambda>en2.
     if length ntime_hex \<noteq> 8 then Inl ''mining.submit param 3 (ntime) must be 8 hex chars''
     else
     and_then (ok_or ''mining.submit param 3 (ntime) invalid hex'' (u32_from_str_radix ntime_hex 16)) (\<lambda>ntime.
     if length nonce_hex \<noteq> 8 then Inl ''mining.submit param 4 (nonce) must be 8 hex chars''
     else
     and_then (ok_or ''mining.submit param 4 (nonce) invalid hex'' (u32_from_str_radix nonce_hex 16)) (\<lambda>nonce.
     and_then
       (case list_get 5 params of
          Some v \<Rightarrow> and_then (parse_hex_u32 v ''mining.submit param 5 (version_bits)'') (\<lambda>b. Inr (Some b))
        | None \<Rightarrow> Inr None) (\<lambda>version_bits.
     Inr (SubmitShare username job_id en2 ntime nonce version_bits)))))))))))"

definition map_request_to_command ::
  "hex_crate \<Rightarrow> sv1_request \<Rightarrow> string + sv1_domain_command option" where
  "map_request_to_command hx req =
     (if rq_method req = ''mining.configure'' then
        and_then (map_configure_params req) (\<lambda>c. Inr (Some c))
      else if rq_method req = ''mining.subscribe'' then Inr (Some Subscribe)
      else if rq_method req = ''mining.authorize'' then
        and_then (ok_or ''mining.authorize requires params array'' (Option.bind (rq_params req) as_array)) (\<lambda>params.
        and_then (param_str 0 params ''mining.authorize requires username'') (\<lambda>username.
        let password = (case Option.bind (list_get 1 params) as_str of None \<Rightarrow> [] | Some p \<Rightarrow> p)
        in Inr (Some (Authorize username password))))
      else if rq_method req = ''mining.submit'' then
        and_then (map_submit_params hx req) (\<lambda>c. Inr (Some c))
      else Inr None)"

section \<open>Lemmas\<close>

lemma parse_hex_u32_Inr: "parse_hex_u32 v l = Inr n \<longleftrightarrow>
    (\<exists>h. v = JString h \<and> length h = 8 \<and> u32_from_str_radix h 16 = Some n)"
  by (cases v) (auto simp: parse_hex_u32_def)

lemma parse_hex_u32_fmt [simp]: "parse_hex_u32 (JString (fmt_08x n)) l = Inr n"
  by (simp add: parse_hex_u32_Inr)

lemma param_str_Inr: "param_str i ps e = Inr s \<longleftrightarrow> list_get i ps = Some (JString s)"
proof -
  have "as_str j = Some s \<longleftrightarrow> j = JString s" for j by (cases j) auto
  then show ?thesis by (auto simp: param_str_def bind_eq_Some_conv)
qed

text \<open>A submit request as a miner writes it.\<close>

definition submit_request ::
  "json option \<Rightarrow> string \<Rightarrow> string \<Rightarrow> bytes \<Rightarrow> u32 \<Rightarrow> u32 \<Rightarrow> u32 option \<Rightarrow> sv1_request" where
  "submit_request i username jid en2 ntime nonce version_bits =
     \<lparr> rq_id = i, rq_method = ''mining.submit'',
       rq_params = Some (JArray
         ([JString username, JString jid, JString (hex_text en2),
           JString (fmt_08x ntime), JString (fmt_08x nonce)]
          @ (case version_bits of None \<Rightarrow> [] | Some b \<Rightarrow> [JString (fmt_08x b)]))) \<rparr>"

lemma map_submit_request:
  "hex_documented hx \<Longrightarrow>
   map_submit_params hx (submit_request i u j en2 t n b) = Inr (SubmitShare u j en2 t n b)"
  by (simp add: map_submit_params_def submit_request_def param_str_def hex_decode_hex_text
      split: option.split)

section \<open>Properties\<close>

text \<open>
  Submissions survive the wire: the request a miner writes for a share (hex
  extra nonce, eight-digit time and nonce, optional eight-digit version bits) is parsed back
  to exactly that share.
\<close>

lemma submit_round_trip:
  assumes "hex_documented hx"
  shows "map_request_to_command hx (submit_request i u j en2 t n b)
       = Inr (Some (SubmitShare u j en2 t n b))"
  using map_submit_request [OF assms, of i u j en2 t n b]
  by (simp add: map_request_to_command_def submit_request_def)

text \<open>
  Property C27. A submission is understood only when it is complete: parsing succeeds exactly
  for at least five parameters, strings throughout, an even-length hex extra nonce and
  numbers of exactly eight characters, and then yields the values written in them;
  parameters after the sixth are ignored.
\<close>

theorem submit_understood_iff:
  assumes hx: "hex_documented hx"
  shows "map_submit_params hx req = Inr (SubmitShare u j en2 t n b) \<longleftrightarrow>
    (\<exists>en2_hex t_hex n_hex rest.
       rq_params req = Some (JArray (JString u # JString j # JString en2_hex # JString t_hex
                                     # JString n_hex # rest))
       \<and> hex_pairs en2_hex = Some en2
       \<and> length t_hex = 8 \<and> u32_from_str_radix t_hex 16 = Some t
       \<and> length n_hex = 8 \<and> u32_from_str_radix n_hex 16 = Some n
       \<and> (case rest of [] \<Rightarrow> b = None
            | v # _ \<Rightarrow> \<exists>b' b_hex. b = Some b' \<and> v = JString b_hex \<and> length b_hex = 8
                         \<and> u32_from_str_radix b_hex 16 = Some b'))"
  (is "?lhs \<longleftrightarrow> ?rhs")
proof -
  have arr: "as_array v = Some ps \<longleftrightarrow> v = JArray ps" for v ps by (cases v) auto
  have five: "\<exists>a b c d e rest. ps = a # b # c # d # e # rest" if "\<not> length ps < 5" for ps :: "json list"
  proof -
    from that have "Suc (Suc (Suc (Suc (Suc 0)))) \<le> length ps" by simp
    then show ?thesis by (auto simp: Suc_le_length_iff)
  qed
  show ?thesis
  proof
    assume ?lhs
    then obtain ps where ps: "rq_params req = Some (JArray ps)" "\<not> length ps < 5"
      by (auto simp: map_submit_params_def and_then_Inr bind_eq_Some_conv arr split: if_splits)
    with five obtain v1 v2 v3 v4 v5 rest where "ps = v1 # v2 # v3 # v4 # v5 # rest" by blast
    with \<open>?lhs\<close> ps show ?rhs
      by (auto simp: map_submit_params_def and_then_Inr param_str_Inr hex_decode_Inr [OF hx]
          parse_hex_u32_Inr split: if_splits option.splits list.splits)
  next
    assume ?rhs
    then obtain en2_hex t_hex n_hex rest where
      ps: "rq_params req = Some (JArray (JString u # JString j # JString en2_hex # JString t_hex
             # JString n_hex # rest))"
      and d: "hex_decode hx en2_hex = Inr en2"
      and t: "length t_hex = 8" "u32_from_str_radix t_hex 16 = Some t"
      and n: "length n_hex = 8" "u32_from_str_radix n_hex 16 = Some n"
      and b: "case rest of [] \<Rightarrow> b = None
            | v # _ \<Rightarrow> \<exists>b' b_hex. b = Some b' \<and> v = JString b_hex \<and> length b_hex = 8
                         \<and> u32_from_str_radix b_hex 16 = Some b'"
      by (auto simp: hex_decode_Inr [OF hx])
    then show ?lhs
      by (cases rest) (auto simp: map_submit_params_def param_str_def parse_hex_u32_def)
  qed
qed

theorem submit_understood_iff_witness:
  "map_submit_params sample_hex (submit_request None ''u'' ''7'' [0xde] 1 2 None)
   = Inr (SubmitShare ''u'' ''7'' [0xde] 1 2 None)"
  unfolding submit_understood_iff [OF sample_hex_documented]
  by (simp add: submit_request_def)

end
