(* ===== verification/Domain.thy ===== *)
theory Domain
  imports Crates
begin

text \<open>
  The protocol-agnostic data of \<open>pool_core\<close> and the error type of \<open>common\<close>:
  jobs, share submissions and results, worker identities, and the small records of rounds,
  payouts and statistics. Record fields carry a prefix where two structs share a name
  (\<open>job_\<close> for \<open>Job\<close>, \<open>asm_\<close> for \<open>BlockAssemblyData\<close>, \<open>share_\<close> for
  \<open>ShareSubmission\<close>, \<open>ctx_\<close> for \<open>ShareValidationContext\<close>).
\<close>

section \<open>Errors\<close>

datatype pool_error =
    Config_Error string
  | Protocol_Error string
  | Storage_Error string
  | Daemon_Error string
  | Internal_Error string

fun pool_error_to_string :: "pool_error \<Rightarrow> string" where
  "pool_error_to_string (Config_Error m) = ''configuration error: '' @ m"
| "pool_error_to_string (Protocol_Error m) = ''protocol error: '' @ m"
| "pool_error_to_string (Storage_Error m) = ''storage error: '' @ m"
| "pool_error_to_string (Daemon_Error m) = ''daemon/RPC error: '' @ m"
| "pool_error_to_string (Internal_Error m) = ''internal error: '' @ m"

section \<open>Jobs\<close>

text \<open>A \<open>[u8; 32]\<close> is a byte list of length 32; \<open>job_ok\<close> states the lengths.\<close>

record block_assembly_data =
  asm_height :: u64
  asm_coinbase_value :: u64
  asm_coinbase_aux_flags :: "bytes option"
  asm_template_transactions :: "bytes list"
  asm_default_witness_commitment :: "bytes option"

record job =
  job_id :: string
  job_prev_hash :: bytes
  coinbase_part1 :: bytes
  coinbase_part2 :: bytes
  merkle_branch :: "bytes list"
  job_version :: u32
  job_nbits :: u32
  job_ntime :: u32
  clean_jobs :: bool
  block_assembly :: "block_assembly_data option"

definition block_assembly_default :: block_assembly_data where
  "block_assembly_default =
     \<lparr> asm_height = 0, asm_coinbase_value = 0, asm_coinbase_aux_flags = None,
       asm_template_transactions = [], asm_default_witness_commitment = None \<rparr>"

definition job_placeholder :: job where
  "job_placeholder =
     \<lparr> job_id = ''0'', job_prev_hash = replicate 32 0,
       coinbase_part1 = [0x01, 0x00, 0x00, 0x00, 0x00],
       coinbase_part2 = [0xff, 0xff, 0xff, 0xff],
       merkle_branch = [], job_version = 0x20000000, job_nbits = 0x1d00ffff, job_ntime = 0,
       clean_jobs = True, block_assembly = None \<rparr>"

definition job_ok :: "job \<Rightarrow> bool" where
  "job_ok j \<longleftrightarrow> length (job_prev_hash j) = 32 \<and> (\<forall>h \<in> set (merkle_branch j). length h = 32)"

lemma job_placeholder_ok [simp]: "job_ok job_placeholder"
  by (simp add: job_ok_def job_placeholder_def)

text \<open>\<open>job.block_assembly.as_ref().map(|b| b.height).unwrap_or(0)\<close>\<close>

definition job_height :: "job \<Rightarrow> u64" where
  "job_height j = (case block_assembly j of None \<Rightarrow> 0 | Some b \<Rightarrow> asm_height b)"

section \<open>Workers\<close>

record worker_identity =
  worker_id :: string
  worker_username :: "string option"
  worker_name :: "string option"

definition parse_worker_parts :: "string \<Rightarrow> string option \<times> string option" where
  "parse_worker_parts i =
     (case split_once CHR ''.'' i of
        Some (u, w) \<Rightarrow> (Some u, if w = [] then None else Some w)
      | None \<Rightarrow> (Some i, None))"

definition worker_identity_new :: "string \<Rightarrow> worker_identity" where
  "worker_identity_new i =
     (let (u, w) = parse_worker_parts i
      in \<lparr> worker_id = i, worker_username = u, worker_name = w \<rparr>)"

lemma worker_id_new [simp]: "worker_id (worker_identity_new i) = i"
  by (simp add: worker_identity_new_def split: prod.split)

section \<open>Shares\<close>

record share_validation_context =
  ctx_expected_extra_nonce2_len :: "nat option"
  ctx_extranonce1_hex :: "string option"
  ctx_version_rolling_mask :: "u32 option"
  ctx_version_bits :: "u32 option"

record share_submission =
  share_job_id :: string
  share_worker :: worker_identity
  extra_nonce2 :: bytes
  share_ntime :: u32
  share_nonce :: u32
  validation_context :: "share_validation_context option"

datatype share_result =
    Accepted
  | Block
  | LowDifficulty string
  | Malformed string
  | UnknownJob string
  | Rejected string

fun is_accepted :: "share_result \<Rightarrow> bool" where
  "is_accepted Accepted = True"
| "is_accepted Block = True"
| "is_accepted _ = False"

fun reject_reason :: "share_result \<Rightarrow> string option" where
  "reject_reason Accepted = None"
| "reject_reason Block = None"
| "reject_reason (LowDifficulty r) = Some r"
| "reject_reason (Malformed r) = Some r"
| "reject_reason (UnknownJob r) = Some r"
| "reject_reason (Rejected r) = Some r"

lemma reject_reason_None: "reject_reason r = None \<longleftrightarrow> is_accepted r"
  by (cases r) simp_all

section \<open>Blocks, rounds, payouts, statistics\<close>

record block_candidate =
  cand_block_hash :: bytes
  cand_height :: u64
  cand_raw_block :: bytes

datatype round_status = Round_Open | Round_Closed | Round_Paid

record round =
  round_id :: string
  round_height :: u64
  round_prev_hash :: bytes
  round_started_at :: u64
  round_status :: round_status

record balance_entry =
  bal_worker :: worker_identity
  bal_amount_sat :: i64
  bal_updated_at :: u64

record payout_record =
  payout_id :: string
  payout_worker :: worker_identity
  payout_amount_sat :: i64
  payout_txid :: "string option"
  payout_created_at :: u64

record miner_session =
  session_id :: string
  session_worker :: worker_identity
  session_extra_nonce :: "string option"
  session_created_at :: u64

text \<open>\<open>hashrate\<close> is an \<open>f64\<close> that is only ever \<open>0.0\<close>; it is kept as its bit pattern.\<close>

record pool_stats =
  stats_pool_name :: string
  stats_hashrate :: u64
  stats_worker_count :: u64
  stats_round_height :: u64
  stats_round_status :: string

end
