(* ===== verification/Sv1_Session.thy ===== *)
theory Sv1_Session
  imports Sv1_Messages Domain
begin

text \<open>
  \<open>protocol_sv1/src/session.rs\<close> (responses and version-rolling negotiation),
  \<open>session_state.rs\<close> and \<open>notify.rs\<close> (the \<open>mining.notify\<close> message of a job).
\<close>

section \<open>Session state\<close>

record session_state =
  authorized_worker :: "worker_identity option"
  subscribed :: bool
  ss_extranonce1 :: string
  extranonce2_size :: u32
  ss_version_rolling :: "sv1_version_rolling_config option"
  last_notify_job_id :: "string option"

definition session_state_default :: session_state where
  "session_state_default =
     \<lparr> authorized_worker = None, subscribed = False, ss_extranonce1 = [], extranonce2_size = 0,
       ss_version_rolling = None, last_notify_job_id = None \<rparr>"

section \<open>Responses\<close>

definition SV1_VERSION_ROLLING_MASK :: u32 where
  "SV1_VERSION_ROLLING_MASK = 0x1fffe000"

definition negotiate_version_rolling ::
  "sv1_version_rolling_config \<Rightarrow> sv1_version_rolling_config option" where
  "negotiate_version_rolling requested =
     (let m = SV1_VERSION_ROLLING_MASK AND vr_mask requested
      in if m = 0 then None
         else let available_bits = word_of_nat (count_ones m)
              in Some \<lparr> vr_mask = m, vr_min_bit_count = min (vr_min_bit_count requested) available_bits \<rparr>)"

definition configure_entry ::
  "sv1_version_rolling_config option \<Rightarrow> string \<Rightarrow> (string \<times> json) list \<Rightarrow> (string \<times> json) list" where
  "configure_entry version_rolling extension result =
     (if extension = ''version-rolling'' then
        (case version_rolling of
           Some config \<Rightarrow>
             obj_insert ''version-rolling.min-bit-count'' (json_u32 (vr_min_bit_count config))
               (obj_insert ''version-rolling.mask'' (JString (fmt_08x (vr_mask config)))
                  (obj_insert extension (JBool True) result))
         | None \<Rightarrow>
             obj_insert ''version-rolling.min-bit-count'' (json_u32 0)
               (obj_insert ''version-rolling.mask'' (JString ''00000000'')
                  (obj_insert extension (JBool False) result)))
      else obj_insert extension (JBool False) result)"

definition build_configure_response ::
  "json option \<Rightarrow> string list \<Rightarrow> sv1_version_rolling_config option \<Rightarrow> sv1_response" where
  "build_configure_response i extensions version_rolling =
     (let result = fold (configure_entry version_rolling) extensions []
      in \<lparr> rs_id = i, rs_result = Some (JObject result), rs_error = None \<rparr>)"

definition build_subscribe_response :: "json option \<Rightarrow> string \<Rightarrow> sv1_response" where
  "build_subscribe_response i extranonce1 =
     \<lparr> rs_id = i,
       rs_result = Some (JArray
         [JArray [JArray [JString ''mining.set_difficulty'', JString ''mining.notify''],
                  JString extranonce1, json_u32 4],
          JString extranonce1,
          json_u32 4]),
       rs_error = None \<rparr>"

definition build_authorize_success :: "json option \<Rightarrow> sv1_response" where
  "build_authorize_success i = \<lparr> rs_id = i, rs_result = Some (JBool True), rs_error = None \<rparr>"

definition build_set_difficulty_notification :: "u32 \<Rightarrow> json" where
  "build_set_difficulty_notification difficulty =
     JObject [(''method'', JString ''mining.set_difficulty''), (''params'', JArray [json_u32 difficulty])]"

definition build_submit_success :: "json option \<Rightarrow> sv1_response" where
  "build_submit_success i = \<lparr> rs_id = i, rs_result = Some (JBool True), rs_error = None \<rparr>"

definition build_error_response :: "json option \<Rightarrow> i32 \<Rightarrow> string \<Rightarrow> sv1_response" where
  "build_error_response i code message =
     \<lparr> rs_id = i, rs_result = None, rs_error = Some \<lparr> err_code = code, err_message = message \<rparr> \<rparr>"

definition build_submit_reject :: "json option \<Rightarrow> string \<Rightarrow> sv1_response" where
  "build_submit_reject i reason = build_error_response i (-1) reason"

section \<open>\<open>mining.notify\<close>\<close>

text \<open>\<open>chunks_exact(4)\<close> with every chunk reversed.\<close>

fun swap_words :: "bytes \<Rightarrow> bytes" where
  "swap_words (a # b # c # d # rest) = [d, c, b, a] @ swap_words rest"
| "swap_words _ = []"

definition hex_encode_prevhash_sv1 :: "hex_crate \<Rightarrow> bytes \<Rightarrow> string" where
  "hex_encode_prevhash_sv1 hx bs = hex_encode hx (swap_words bs)"

definition hex_encode_reversed :: "hex_crate \<Rightarrow> bytes \<Rightarrow> string" where
  "hex_encode_reversed hx bs = hex_encode hx (rev bs)"

definition build_mining_notify :: "hex_crate \<Rightarrow> job \<Rightarrow> json" where
  "build_mining_notify hx job =
     JObject [(''method'', JString ''mining.notify''),
       (''params'', JArray
         [JString (job_id job),
          JString (hex_encode_prevhash_sv1 hx (job_prev_hash job)),
          JString (hex_encode hx (coinbase_part1 job)),
          JString (hex_encode hx (coinbase_part2 job)),
          JArray (map (JString \<circ> hex_encode_reversed hx) (merkle_branch job)),
          JString (fmt_08x (job_version job)),
          JString (fmt_08x (job_nbits job)),
          JString (fmt_08x (job_ntime job)),
          JBool (clean_jobs job)])]"

section \<open>Lemmas\<close>

lemma swap_words_swap_words: "4 dvd length bs \<Longrightarrow> swap_words (swap_words bs) = bs"
proof (induction bs rule: swap_words.induct)
  case (1 a b c d rest)
  from "1.prems" have "4 dvd length rest" by simp presburger
  with "1.IH" show ?case by simp
qed (auto dest: dvd_imp_le)

lemma count_ones_le: "count_ones w \<le> 32"
  using length_filter_le [of "bit w" "[0..<32]"] by (simp add: count_ones_def)

section \<open>Properties\<close>

text \<open>
  Property C30. Version-rolling negotiation: refused exactly when the miner asks for no bit of
  the pool's mask; what is granted lies inside both the pool's and the miner's mask, is not
  empty, and never promises more bits than it has.
\<close>

theorem negotiation_within_masks:
  "(negotiate_version_rolling r = None \<longleftrightarrow> SV1_VERSION_ROLLING_MASK AND vr_mask r = 0)
   \<and> (\<forall>c. negotiate_version_rolling r = Some c \<longrightarrow>
        vr_mask c \<noteq> 0 \<and> vr_mask c AND NOT SV1_VERSION_ROLLING_MASK = 0
        \<and> vr_mask c AND NOT (vr_mask r) = 0
        \<and> unat (vr_min_bit_count c) = min (unat (vr_min_bit_count r)) (count_ones (vr_mask c)))"
proof -
  have sub: "(a AND b) AND NOT a = 0" "(a AND b) AND NOT b = 0" for a b :: u32
    by (rule bit_word_eqI; auto simp: bit_simps)+
  have cnt: "unat (word_of_nat (count_ones w) :: u32) = count_ones w" for w
    using count_ones_le [of w] by (intro unat_of_nat_less) simp
  have mn: "unat (min x y) = min (unat x) (unat y)" for x y :: u32
    by (simp add: min_def word_le_nat_alt)
  show ?thesis
    by (simp add: negotiate_version_rolling_def Let_def sub cnt mn)
qed

theorem negotiation_within_masks_witness:
  "(\<exists>c. negotiate_version_rolling \<lparr> vr_mask = 0xffffffff, vr_min_bit_count = 2 \<rparr> = Some c
      \<and> vr_mask c AND NOT SV1_VERSION_ROLLING_MASK = 0)
   \<and> negotiate_version_rolling \<lparr> vr_mask = 0x00001fff, vr_min_bit_count = 2 \<rparr> = None"
proof -
  let ?all = "\<lparr> vr_mask = 0xffffffff, vr_min_bit_count = 2 \<rparr>"
  let ?low = "\<lparr> vr_mask = 0x00001fff, vr_min_bit_count = 2 \<rparr>"
  have "SV1_VERSION_ROLLING_MASK AND vr_mask ?all \<noteq> 0" "SV1_VERSION_ROLLING_MASK AND vr_mask ?low = 0"
    by (simp_all add: SV1_VERSION_ROLLING_MASK_def)
  then show ?thesis
    using negotiation_within_masks [of ?all] negotiation_within_masks [of ?low]
    by (cases "negotiate_version_rolling ?all") auto
qed

text \<open>
  Property C28. A \<open>mining.notify\<close> message carries the whole job: a miner that decodes the
  hex, swaps the words of the previous hash back and reads the numbers recovers exactly the
  job's id, previous hash, coinbase halves, version, bits, time and clean flag. The merkle
  branch arrives with the bytes of every hash reversed.
\<close>

theorem notify_round_trip:
  assumes hx: "hex_documented hx" and ok: "job_ok j"
  shows "\<exists>prev c1 c2 branch ver nb nt.
     build_mining_notify hx j = JObject [(''method'', JString ''mining.notify''),
       (''params'', JArray [JString (job_id j), JString prev, JString c1, JString c2,
          JArray (map JString branch), JString ver, JString nb, JString nt, JBool (clean_jobs j)])]
     \<and> map_option swap_words (hex_pairs prev) = Some (job_prev_hash j)
     \<and> hex_pairs c1 = Some (coinbase_part1 j) \<and> hex_pairs c2 = Some (coinbase_part2 j)
     \<and> map hex_pairs branch = map (Some \<circ> rev) (merkle_branch j)
     \<and> u32_from_str_radix ver 16 = Some (job_version j)
     \<and> u32_from_str_radix nb 16 = Some (job_nbits j)
     \<and> u32_from_str_radix nt 16 = Some (job_ntime j)"
proof -
  have "4 dvd length (job_prev_hash j)" using ok by (simp add: job_ok_def)
  then show ?thesis
    by (intro exI [of _ "hex_encode_prevhash_sv1 hx (job_prev_hash j)"]
        exI [of _ "hex_encode hx (coinbase_part1 j)"] exI [of _ "hex_encode hx (coinbase_part2 j)"]
        exI [of _ "map (hex_encode_reversed hx) (merkle_branch j)"] exI [of _ "fmt_08x (job_version j)"]
        exI [of _ "fmt_08x (job_nbits j)"] exI [of _ "fmt_08x (job_ntime j)"])
      (simp add: build_mining_notify_def hex_encode_prevhash_sv1_def hex_encode_reversed_def
        hex_encode_text [OF hx] swap_words_swap_words)
qed

theorem notify_round_trip_witness:
  "\<exists>prev rest. build_mining_notify sample_hex job_placeholder
     = JObject [(''method'', JString ''mining.notify''),
         (''params'', JArray (JString ''0'' # JString prev # rest))]
     \<and> map_option swap_words (hex_pairs prev) = Some (replicate 32 0)"
  using notify_round_trip [OF sample_hex_documented job_placeholder_ok]
  by (fastforce simp: job_placeholder_def)

end
