(* ===== verification/Job_Registry.thy ===== *)
theory Job_Registry
  imports Domain
begin

text \<open>
  \<open>ActiveJobRegistry\<close> of \<open>pool_core/src/services.rs\<close>: a hash map from job id to job
  and a queue of the ids in order of registration, bounded by \<open>ACTIVE_JOBS_MAX\<close>. Each
  operation runs under the lock, so it is one function on the state.

  The interface the share processor and the session handler rely on is the locale
  \<open>job_store\<close>; the registry interprets it. The registry also refines a specification
  on the plain list of its jobs, oldest first.
\<close>

definition ACTIVE_JOBS_MAX :: nat where
  "ACTIVE_JOBS_MAX = 64"

record active_jobs =
  by_id :: "string \<rightharpoonup> job"
  order :: "string list"

definition registry_new :: active_jobs where
  "registry_new = \<lparr> by_id = Map.empty, order = [] \<rparr>"

text \<open>The \<open>while\<close> loop: drop the oldest id until there is room for one more.\<close>

fun evict :: "(string \<rightharpoonup> job) \<Rightarrow> string list \<Rightarrow> (string \<rightharpoonup> job) \<times> string list" where
  "evict m [] = (m, [])"
| "evict m (old_id # ids) =
     (if ACTIVE_JOBS_MAX \<le> length (old_id # ids) then evict (m(old_id := None)) ids
      else (m, old_id # ids))"

definition register_entry :: "job \<Rightarrow> active_jobs \<Rightarrow> active_jobs" where
  "register_entry j r =
     (if by_id r (job_id j) \<noteq> None then r
      else case evict (by_id r) (order r) of
             (m, ids) \<Rightarrow> r\<lparr> by_id := m(job_id j \<mapsto> j), order := ids @ [job_id j] \<rparr>)"

definition register :: "job \<Rightarrow> active_jobs \<Rightarrow> active_jobs" where
  "register j r =
     register_entry j (if clean_jobs j then r\<lparr> by_id := Map.empty, order := [] \<rparr> else r)"

definition contains :: "string \<Rightarrow> active_jobs \<Rightarrow> bool" where
  "contains i r \<longleftrightarrow> by_id r i \<noteq> None"

definition get_job :: "string \<Rightarrow> active_jobs \<Rightarrow> job option" where
  "get_job i r = by_id r i"

section \<open>Invariant\<close>

definition registry_inv :: "active_jobs \<Rightarrow> bool" where
  "registry_inv r \<longleftrightarrow>
     distinct (order r) \<and> set (order r) = dom (by_id r) \<and> length (order r) \<le> ACTIVE_JOBS_MAX
     \<and> (\<forall>i j. by_id r i = Some j \<longrightarrow> job_id j = i)"

lemma registry_inv_new [simp]: "registry_inv registry_new"
  by (simp add: registry_inv_def registry_new_def)

lemma evict_eq:
  "distinct ids \<Longrightarrow>
   evict m ids = (m |` (- set (take (length ids + 1 - ACTIVE_JOBS_MAX) ids)),
                  drop (length ids + 1 - ACTIVE_JOBS_MAX) ids)"
proof (induction m ids rule: evict.induct)
  case (1 m)
  show ?case by (simp add: ACTIVE_JOBS_MAX_def restrict_map_def)
next
  case (2 m old_id ids)
  show ?case
  proof (cases "ACTIVE_JOBS_MAX \<le> length (old_id # ids)")
    case True
    then have n: "length (old_id # ids) + 1 - ACTIVE_JOBS_MAX = Suc (length ids + 1 - ACTIVE_JOBS_MAX)"
      by simp
    have restr: "(m(old_id := None)) |` (- set xs) = m |` (- set (old_id # xs))" for xs
      by (rule ext) (auto simp: restrict_map_def)
    have IH: "evict (m(old_id := None)) ids
        = ((m(old_id := None)) |` (- set (take (length ids + 1 - ACTIVE_JOBS_MAX) ids)),
           drop (length ids + 1 - ACTIVE_JOBS_MAX) ids)"
      by (rule "2.IH" [OF True]) (use "2.prems" in simp)
    show ?thesis
      by (simp only: evict.simps True if_True IH n take_Suc_Cons drop_Suc_Cons restr)
  next
    case False
    then have "length (old_id # ids) + 1 - ACTIVE_JOBS_MAX = 0" by simp
    with False show ?thesis by (simp add: restrict_map_def)
  qed
qed

section \<open>Specification: the list of live jobs, oldest first\<close>

definition jobs_of :: "active_jobs \<Rightarrow> job list" where
  "jobs_of r = map (\<lambda>i. the (by_id r i)) (order r)"

definition spec_register :: "job \<Rightarrow> job list \<Rightarrow> job list" where
  "spec_register j js =
     (let js1 = (if clean_jobs j then [] else js)
      in if job_id j \<in> job_id ` set js1 then js1
         else drop (length js1 + 1 - ACTIVE_JOBS_MAX) js1 @ [j])"

definition spec_get :: "string \<Rightarrow> job list \<Rightarrow> job option" where
  "spec_get i js = find (\<lambda>j. job_id j = i) js"

lemma jobs_of_ids: "registry_inv r \<Longrightarrow> map job_id (jobs_of r) = order r"
  unfolding jobs_of_def registry_inv_def map_map comp_def
  by (rule map_idI) (metis domD option.sel)

lemma registry_inv_cleared [simp]: "registry_inv (r\<lparr> by_id := Map.empty, order := [] \<rparr>)"
  by (simp add: registry_inv_def)

lemma register_entry_known:
  "by_id r (job_id j) \<noteq> None \<Longrightarrow> register_entry j r = r"
  by (simp add: register_entry_def)

text \<open>A job whose id is new: the oldest ids beyond the bound go, the job comes last.\<close>

lemma register_entry_fresh:
  assumes "registry_inv r" and "by_id r (job_id j) = None"
    and "k = length (order r) + 1 - ACTIVE_JOBS_MAX"
  shows "register_entry j r
       = r\<lparr> by_id := (by_id r |` (- set (take k (order r))))(job_id j \<mapsto> j),
            order := drop k (order r) @ [job_id j] \<rparr>"
  using assms by (simp add: register_entry_def evict_eq registry_inv_def)

lemma set_drop_distinct:
  assumes "distinct xs"
  shows "set (drop k xs) = set xs - set (take k xs)"
proof -
  have xs: "take k xs @ drop k xs = xs" by simp
  with assms have "distinct (take k xs @ drop k xs)" by simp
  then have "set (take k xs) \<inter> set (drop k xs) = {}" unfolding distinct_append by blast
  moreover have "set xs = set (take k xs) \<union> set (drop k xs)"
    by (subst xs [symmetric]) (simp only: set_append)
  ultimately show ?thesis by blast
qed

lemma registry_inv_entry_fresh:
  assumes inv: "registry_inv r" and fresh: "by_id r (job_id j) = None"
  shows "registry_inv (register_entry j r)"
proof -
  define k where "k = length (order r) + 1 - ACTIVE_JOBS_MAX"
  have d: "distinct (order r)" and dom: "set (order r) = dom (by_id r)"
    and ids: "\<And>i j. by_id r i = Some j \<Longrightarrow> job_id j = i"
    and len: "length (order r) \<le> ACTIVE_JOBS_MAX"
    using inv by (simp_all add: registry_inv_def)
  have "job_id j \<notin> set (order r)" using fresh dom by blast
  moreover have "length (drop k (order r)) < ACTIVE_JOBS_MAX"
    using len by (simp add: k_def ACTIVE_JOBS_MAX_def)
  ultimately show ?thesis
    unfolding registry_inv_def register_entry_fresh [OF inv fresh k_def]
    using d dom ids by (auto simp: set_drop_distinct restrict_map_def split: if_splits
        dest: in_set_takeD)
qed

lemma register_entry_inv: "registry_inv r \<Longrightarrow> registry_inv (register_entry j r)"
  by (cases "by_id r (job_id j)") (simp_all add: registry_inv_entry_fresh register_entry_known)

lemma register_inv: "registry_inv r \<Longrightarrow> registry_inv (register j r)"
  unfolding register_def by (rule register_entry_inv) simp


section \<open>Refinement of the specification\<close>

lemma jobs_of_cleared [simp]: "jobs_of (r\<lparr> by_id := Map.empty, order := [] \<rparr>) = []"
  by (simp add: jobs_of_def)

lemma set_jobs_of: "registry_inv r \<Longrightarrow> job_id ` set (jobs_of r) = dom (by_id r)"
  by (metis jobs_of_ids list.set_map registry_inv_def)

lemma jobs_of_entry_fresh:
  assumes inv: "registry_inv r" and fresh: "by_id r (job_id j) = None"
    and k: "k = length (order r) + 1 - ACTIVE_JOBS_MAX"
  shows "jobs_of (register_entry j r) = drop k (jobs_of r) @ [j]"
proof -
  have d: "distinct (order r)" and dom: "set (order r) = dom (by_id r)"
    using inv by (simp_all add: registry_inv_def)
  have "job_id j \<notin> set (order r)" using fresh dom by blast
  then have "i \<noteq> job_id j \<and> i \<notin> set (take k (order r))" if "i \<in> set (drop k (order r))" for i
    using that d by (auto simp: set_drop_distinct)
  then have "map (\<lambda>i. the (((by_id r |` (- set (take k (order r))))(job_id j \<mapsto> j)) i)) (drop k (order r))
      = map (\<lambda>i. the (by_id r i)) (drop k (order r))"
    by (intro map_cong) (auto simp: restrict_map_def)
  then show ?thesis
    unfolding register_entry_fresh [OF inv fresh k] by (simp add: jobs_of_def drop_map)
qed

lemma jobs_of_register:
  assumes "registry_inv r"
  shows "jobs_of (register j r) = spec_register j (jobs_of r)"
proof -
  have entry: "jobs_of (register_entry j r)
      = (if job_id j \<in> job_id ` set (jobs_of r) then jobs_of r
         else drop (length (jobs_of r) + 1 - ACTIVE_JOBS_MAX) (jobs_of r) @ [j])"
    if "registry_inv r" for r
  proof (cases "by_id r (job_id j)")
    case None
    then have "job_id j \<notin> job_id ` set (jobs_of r)" by (simp add: set_jobs_of [OF that] domIff)
    then show ?thesis using jobs_of_entry_fresh [OF that None refl] by (simp add: jobs_of_def)
  next
    case (Some k)
    then have "job_id j \<in> job_id ` set (jobs_of r)" by (simp add: set_jobs_of [OF that] domIff)
    then show ?thesis by (simp add: register_entry_known Some)
  qed
  show ?thesis
    unfolding register_def spec_register_def Let_def
    using entry [OF assms] entry [OF registry_inv_cleared, of r] by (simp add: if_distrib)
qed

lemma spec_get_Some: "spec_get i js = Some j \<Longrightarrow> j \<in> set js \<and> job_id j = i"
  by (auto simp: spec_get_def find_Some_iff)

lemma get_job_spec: 
  assumes inv: "registry_inv r"
  shows "get_job i r = spec_get i (jobs_of r)"
proof (cases "by_id r i")
  case None
  then have "i \<notin> job_id ` set (jobs_of r)" by (simp add: set_jobs_of [OF inv] domIff)
  then show ?thesis by (auto simp: get_job_def spec_get_def None find_None_iff2)
next
  case (Some j)
  then have "i \<in> job_id ` set (jobs_of r)" by (simp add: set_jobs_of [OF inv] domIff)
  then obtain k where k: "spec_get i (jobs_of r) = Some k"
    by (cases "spec_get i (jobs_of r)") (auto simp: spec_get_def find_None_iff)
  from spec_get_Some [OF this] obtain i' where "i' \<in> set (order r)" "k = the (by_id r i')" "job_id k = i"
    by (auto simp: jobs_of_def)
  moreover from this have "job_id k = i'" using inv unfolding registry_inv_def
    by (metis domD option.sel)
  ultimately show ?thesis using Some k by (simp add: get_job_def)
qed

section \<open>The interface\<close>

text \<open>
  What the share processor and the session handler rely on: the invariant is kept, a job is
  found under its own id, a job registered with \<open>clean_jobs\<close> is found afterwards and is
  then the only one, and nothing is ever found that was not registered.
\<close>

locale job_store =
  fixes reg :: "job \<Rightarrow> 's \<Rightarrow> 's"
    and get :: "string \<Rightarrow> 's \<Rightarrow> job option"
    and inv :: "'s \<Rightarrow> bool"
    and empty :: 's
  assumes inv_empty: "inv empty"
    and inv_reg: "inv s \<Longrightarrow> inv (reg j s)"
    and get_empty: "get i empty = None"
    and get_id: "inv s \<Longrightarrow> get i s = Some j \<Longrightarrow> job_id j = i"
    and get_reg_self: "inv s \<Longrightarrow> clean_jobs j \<or> get (job_id j) s = None
          \<Longrightarrow> get (job_id j) (reg j s) = Some j"
    and get_reg_source: "inv s \<Longrightarrow> get i (reg j s) = Some k
          \<Longrightarrow> k = j \<or> \<not> clean_jobs j \<and> get i s = Some k"
begin

lemma inv_run: "inv s \<Longrightarrow> inv (fold reg js s)"
  by (induction js arbitrary: s) (simp_all add: inv_reg)

text \<open>Whatever is found was registered, under this id, after the last clean job before it.\<close>

lemma found_was_registered:
  "inv s \<Longrightarrow> get i (fold reg js s) = Some k \<Longrightarrow> k \<in> set js \<and> job_id k = i \<or> get i s = Some k"
proof (induction js arbitrary: s)
  case Nil
  then show ?case by simp
next
  case (Cons j js)
  then have "k \<in> set js \<and> job_id k = i \<or> get i (reg j s) = Some k"
    by (simp add: inv_reg)
  then show ?case
    using Cons.prems(1) get_reg_source get_id inv_reg by (metis list.set_intros(1,2))
qed

lemma found_after_clean:
  assumes s: "inv s" and c: "clean_jobs c" and found: "get i (fold reg (js @ c # ks) s) = Some k"
  shows "k \<in> set (c # ks)"
proof -
  let ?s = "fold reg js s"
  have inv: "inv (reg c ?s)" by (simp add: inv_run inv_reg s)
  from found have "get i (fold reg ks (reg c ?s)) = Some k" by simp
  from found_was_registered [OF inv this] show ?thesis
    using get_reg_source [OF inv_run [OF s]] c by fastforce
qed

end

lemma get_job_register_self:
  "registry_inv r \<Longrightarrow> clean_jobs j \<or> get_job (job_id j) r = None
   \<Longrightarrow> get_job (job_id j) (register j r) = Some j"
  by (auto simp: register_def get_job_def register_entry_def split: prod.splits)

lemma get_job_register_source:
  assumes inv: "registry_inv r" and found: "get_job i (register j r) = Some k"
  shows "k = j \<or> \<not> clean_jobs j \<and> get_job i r = Some k"
proof -
  define q where "q = (if clean_jobs j then r\<lparr> by_id := Map.empty, order := [] \<rparr> else r)"
  have q: "registry_inv q" using inv by (simp add: q_def)
  have "k = j \<or> by_id q i = Some k"
  proof (cases "by_id q (job_id j)")
    case None
    with found show ?thesis
      by (auto simp: register_def get_job_def register_entry_fresh [OF q None refl]
          restrict_map_def simp flip: q_def split: if_splits)
  next
    case (Some _)
    with found show ?thesis
      by (simp add: register_def get_job_def register_entry_known flip: q_def)
  qed
  then show ?thesis by (auto simp: q_def get_job_def split: if_splits)
qed

interpretation registry: job_store register get_job registry_inv registry_new
proof unfold_locales
  show "registry_inv registry_new" by simp
  show "registry_inv (register j s)" if "registry_inv s" for s j
    using that by (rule register_inv)
  show "get_job i registry_new = None" for i by (simp add: get_job_def registry_new_def)
  show "job_id j = i" if "registry_inv s" "get_job i s = Some j" for s i j
    using that by (simp add: registry_inv_def get_job_def)
  show "get_job (job_id j) (register j s) = Some j"
    if "registry_inv s" "clean_jobs j \<or> get_job (job_id j) s = None" for s j
    using that by (rule get_job_register_self)
  show "k = j \<or> \<not> clean_jobs j \<and> get_job i s = Some k"
    if "registry_inv s" "get_job i (register j s) = Some k" for s i j k
    using that by (rule get_job_register_source)
qed


section \<open>Properties\<close>

lemma spec_register_keeps:
  assumes "\<not> clean_jobs j" and "job_id j \<notin> job_id ` set js"
  shows "spec_register j js = last_n ACTIVE_JOBS_MAX (js @ [j])"
proof (cases "length js < ACTIVE_JOBS_MAX")
  case True
  then show ?thesis using assms by (simp add: spec_register_def last_n_def)
next
  case False
  then have "length js + 1 - ACTIVE_JOBS_MAX - length js = 0" by (simp add: ACTIVE_JOBS_MAX_def)
  then show ?thesis using assms by (simp add: spec_register_def last_n_def)
qed

lemma registry_run:
  "registry_inv r \<Longrightarrow> registry_inv (fold register js r)
     \<and> jobs_of (fold register js r) = fold spec_register js (jobs_of r)"
  by (induction js arbitrary: r) (simp_all add: register_inv jobs_of_register)

lemma jobs_of_new [simp]: "jobs_of registry_new = []"
  by (simp add: jobs_of_def registry_new_def)

lemma registry_run_new:
  "registry_inv (fold register js registry_new)"
  "jobs_of (fold register js registry_new) = fold spec_register js []"
  using registry_run [OF registry_inv_new, of js] by simp_all

text \<open>
  Property C18. The registry implements its contract: after any sequence of registrations
  the invariant holds (ids distinct, queue and map in step, at most 64 entries), the live
  jobs are those of the list specification, and a lookup returns exactly the live job with
  that id.
\<close>

theorem registry_refines_list:
  "registry_inv (fold register js registry_new)
   \<and> length (jobs_of (fold register js registry_new)) \<le> 64
   \<and> jobs_of (fold register js registry_new) = fold spec_register js []
   \<and> (\<forall>i. get_job i (fold register js registry_new) = spec_get i (fold spec_register js []))"
proof -
  let ?r = "fold register js registry_new"
  note inv = registry_run_new(1) [of js] and abs = registry_run_new(2) [of js]
  moreover have "length (jobs_of ?r) \<le> 64"
    using inv by (simp add: registry_inv_def jobs_of_def ACTIVE_JOBS_MAX_def)
  ultimately show ?thesis by (simp add: get_job_spec [OF inv])
qed

text \<open>
  Property C31. \<open>clean_jobs\<close> invalidates old work: once a job with the flag is
  registered, no job registered before it can ever be found again.
\<close>

theorem clean_job_invalidates_earlier:
  assumes "clean_jobs c" and "get_job i (fold register (js @ c # ks) registry_new) = Some k"
  shows "k \<in> set (c # ks) \<and> job_id k = i"
  using registry.found_after_clean [OF registry.inv_empty assms]
    registry.get_id [OF registry.inv_run [OF registry.inv_empty] assms(2)] by blast

theorem clean_job_invalidates_earlier_witness:
  "let stale = job_placeholder\<lparr> job_id := ''stale'', clean_jobs := False \<rparr>;
       fresh = job_placeholder\<lparr> job_id := ''fresh'' \<rparr>
   in get_job ''stale'' (fold register ([stale] @ fresh # []) registry_new) = None
      \<and> fresh \<in> set [fresh] \<and> job_id fresh = ''fresh''"
proof -
  let ?stale = "job_placeholder\<lparr> job_id := ''stale'', clean_jobs := False \<rparr>"
  let ?fresh = "job_placeholder\<lparr> job_id := ''fresh'' \<rparr>"
  have c: "clean_jobs ?fresh" by (simp add: job_placeholder_def)
  have f: "get_job ''fresh'' (fold register ([?stale] @ ?fresh # []) registry_new) = Some ?fresh"
    and s: "get_job ''stale'' (fold register ([?stale] @ ?fresh # []) registry_new) = None"
    by (simp_all add: register_def register_entry_def get_job_def registry_new_def
        job_placeholder_def ACTIVE_JOBS_MAX_def)
  show ?thesis using clean_job_invalidates_earlier [OF c f] s by simp
qed

text \<open>
  Without \<open>clean_jobs\<close> the registry is a FIFO of capacity 64: after
  registering jobs with pairwise distinct ids exactly the last 64 of them are live, in
  order.
\<close>

lemma registry_keeps_last_64:
  assumes "distinct (map job_id js)" and "\<forall>j \<in> set js. \<not> clean_jobs j"
  shows "jobs_of (fold register js registry_new) = last_n 64 js"
proof -
  have "fold spec_register js [] = last_n ACTIVE_JOBS_MAX js"
    using assms
  proof (induction js rule: rev_induct)
    case Nil
    show ?case by simp
  next
    case (snoc j js)
    then have "fold spec_register js [] = last_n ACTIVE_JOBS_MAX js" by simp
    moreover have "job_id j \<notin> job_id ` set (last_n ACTIVE_JOBS_MAX js)"
      using snoc.prems(1) set_last_n [of ACTIVE_JOBS_MAX js] by auto
    ultimately show ?case using snoc.prems(2)
      by (simp add: spec_register_keeps last_n_snoc)
  qed
  then show ?thesis by (simp add: registry_run_new ACTIVE_JOBS_MAX_def)
qed

end
