(* ===== verification/Sv1_Server.thy ===== *)
theory Sv1_Server
  imports Sv1_Session Job_Registry
begin

text \<open>
  \<open>protocol_sv1/src/server.rs\<close>: dispatching a request, pushing jobs, and the loop of one
  session as a step function over events (a line read, a job received from the broadcast
  channel). The pool behind the session is a record of callbacks on its own state \<open>'s\<close>; the
  counter of extranonces is a static shared by all sessions. JSON text and the socket are
  the parameters in \<open>wire\<close>; a write may fail, which ends the session. How packets become
  the lines that are read is the subject of \<open>Sv1_Reader\<close>.

  A panic inside a callback (there is one place, see \<open>Candidate_Submit\<close>) aborts the
  session's task: the callback then has the result \<open>None\<close> and the session is \<open>Panicked\<close>.
\<close>

section \<open>Callbacks and shared state\<close>

record 's session_handler =
  on_connect :: "string \<Rightarrow> 's \<Rightarrow> 's"
  on_disconnect :: "string \<Rightarrow> 's \<Rightarrow> 's"
  on_authorize :: "string \<Rightarrow> 's \<Rightarrow> (string + job option) \<times> 's"
  on_notify_sent :: "job \<Rightarrow> 's \<Rightarrow> 's"
  on_submit :: "share_submission \<Rightarrow> 's \<Rightarrow> share_result option \<times> 's"

definition unit_handler :: "unit session_handler" where
  "unit_handler =
     \<lparr> on_connect = (\<lambda>peer s. s), on_disconnect = (\<lambda>peer s. s),
       on_authorize = (\<lambda>username s. (Inr None, s)), on_notify_sent = (\<lambda>job s. s),
       on_submit = (\<lambda>share s. (Some (Rejected ''submit not wired''), s)) \<rparr>"

definition DEFAULT_INITIAL_DIFFICULTY :: u32 where
  "DEFAULT_INITIAL_DIFFICULTY = 1"

record 's server =
  next_extranonce1 :: u32
  pool :: 's

definition server_start :: "'s \<Rightarrow> 's server" where
  "server_start s = \<lparr> next_extranonce1 = 1, pool = s \<rparr>"

section \<open>Dispatch\<close>

definition submit_response :: "json option \<Rightarrow> share_result \<Rightarrow> sv1_response" where
  "submit_response i result =
     (if is_accepted result then build_submit_success i
      else build_submit_reject i
             (case reject_reason result of None \<Rightarrow> ''rejected'' | Some r \<Rightarrow> r))"

definition dispatch_configure ::
  "sv1_request \<Rightarrow> string list \<Rightarrow> sv1_version_rolling_config option \<Rightarrow> session_state \<Rightarrow> 's server
     \<Rightarrow> (job option \<times> sv1_response) option \<times> session_state \<times> 's server" where
  "dispatch_configure req extensions version_rolling ss sv =
     (let negotiated = Option.bind version_rolling negotiate_version_rolling
      in (Some (None, build_configure_response (rq_id req) extensions negotiated),
          ss\<lparr> ss_version_rolling := negotiated \<rparr>, sv))"

definition dispatch_subscribe ::
  "sv1_request \<Rightarrow> session_state \<Rightarrow> 's server
     \<Rightarrow> (job option \<times> sv1_response) option \<times> session_state \<times> 's server" where
  "dispatch_subscribe req ss sv =
     (let en1_hex = fmt_08x (next_extranonce1 sv)
      in (Some (None, build_subscribe_response (rq_id req) en1_hex),
          ss\<lparr> subscribed := True, ss_extranonce1 := en1_hex, extranonce2_size := 4 \<rparr>,
          sv\<lparr> next_extranonce1 := next_extranonce1 sv + 1 \<rparr>))"

definition dispatch_authorize ::
  "'s session_handler \<Rightarrow> sv1_request \<Rightarrow> string \<Rightarrow> session_state \<Rightarrow> 's server
     \<Rightarrow> (job option \<times> sv1_response) option \<times> session_state \<times> 's server" where
  "dispatch_authorize h req username ss sv =
     (case on_authorize h username (pool sv) of
        (Inr maybe_job, p) \<Rightarrow>
          (Some (maybe_job, build_authorize_success (rq_id req)),
           ss\<lparr> authorized_worker := Some (worker_identity_new username) \<rparr>, sv\<lparr> pool := p \<rparr>)
      | (Inl msg, p) \<Rightarrow>
          (Some (None, build_error_response (rq_id req) (-1) msg), ss, sv\<lparr> pool := p \<rparr>))"

text \<open>The share a submission becomes, with the session's validation context.\<close>

definition session_share ::
  "session_state \<Rightarrow> worker_identity \<Rightarrow> string \<Rightarrow> bytes \<Rightarrow> u32 \<Rightarrow> u32 \<Rightarrow> u32 option \<Rightarrow> share_submission" where
  "session_share ss worker jid en2 ntime nonce version_bits =
     \<lparr> share_job_id = jid, share_worker = worker, extra_nonce2 = en2, share_ntime = ntime,
       share_nonce = nonce,
       validation_context = Some
         \<lparr> ctx_expected_extra_nonce2_len = Some (unat (extranonce2_size ss)),
           ctx_extranonce1_hex = Some (ss_extranonce1 ss),
           ctx_version_rolling_mask = map_option vr_mask (ss_version_rolling ss),
           ctx_version_bits = version_bits \<rparr> \<rparr>"

definition dispatch_submit ::
  "'s session_handler \<Rightarrow> sv1_request \<Rightarrow> string \<Rightarrow> string \<Rightarrow> bytes \<Rightarrow> u32 \<Rightarrow> u32 \<Rightarrow> u32 option
     \<Rightarrow> session_state \<Rightarrow> 's server
     \<Rightarrow> (job option \<times> sv1_response) option \<times> session_state \<times> 's server" where
  "dispatch_submit h req username jid en2 ntime nonce version_bits ss sv =
     (case authorized_worker ss of
        None \<Rightarrow> (Some (None, build_submit_reject (rq_id req) ''worker not authorized''), ss, sv)
      | Some worker \<Rightarrow>
          if worker_id worker \<noteq> username
          then (Some (None, build_submit_reject (rq_id req) ''username mismatch''), ss, sv)
          else if version_bits \<noteq> None \<and> ss_version_rolling ss = None
          then (Some (None, build_submit_reject (rq_id req) ''version rolling not negotiated''), ss, sv)
          else
            (case on_submit h (session_share ss worker jid en2 ntime nonce version_bits) (pool sv) of
               (None, p) \<Rightarrow> (None, ss, sv\<lparr> pool := p \<rparr>)
             | (Some result, p) \<Rightarrow>
                 (Some (None, submit_response (rq_id req) result), ss, sv\<lparr> pool := p \<rparr>)))"

definition dispatch_request ::
  "hex_crate \<Rightarrow> 's session_handler \<Rightarrow> sv1_request \<Rightarrow> session_state \<Rightarrow> 's server
     \<Rightarrow> (job option \<times> sv1_response) option \<times> session_state \<times> 's server" where
  "dispatch_request hx h req ss sv =
     (case map_request_to_command hx req of
        Inr None \<Rightarrow>
          (Some (None, build_error_response (rq_id req) (-32601) ''Method not found''), ss, sv)
      | Inl msg \<Rightarrow> (Some (None, build_submit_reject (rq_id req) msg), ss, sv)
      | Inr (Some cmd) \<Rightarrow>
          (case cmd of
             Configure extensions version_rolling \<Rightarrow>
               dispatch_configure req extensions version_rolling ss sv
           | Subscribe \<Rightarrow> dispatch_subscribe req ss sv
           | Authorize username password \<Rightarrow> dispatch_authorize h req username ss sv
           | SubmitShare username jid en2 ntime nonce version_bits \<Rightarrow>
               dispatch_submit h req username jid en2 ntime nonce version_bits ss sv))"

section \<open>Writing\<close>

record 'o wire =
  wr_to_string :: "json \<Rightarrow> string + string"
  wr_from_str :: "string \<Rightarrow> string + sv1_request"
  wr_write :: "string \<Rightarrow> 'o \<Rightarrow> bool \<times> 'o"

definition write_json_line :: "'o wire \<Rightarrow> string \<Rightarrow> 'o \<Rightarrow> bool \<times> 'o" where
  "write_json_line wr j out = wr_write wr (j @ [CHR 0x0A]) out"

definition json_i32 :: "i32 \<Rightarrow> json" where
  "json_i32 n = JNumber (if 0 \<le> sint n then PosInt (word_of_int (sint n)) else NegInt (sint n))"

text \<open>The derived serialization of \<open>Sv1Response\<close>: a missing value is written as null.\<close>

definition json_option :: "json option \<Rightarrow> json" where
  "json_option v = (case v of None \<Rightarrow> JNull | Some j \<Rightarrow> j)"

definition response_json :: "sv1_response \<Rightarrow> json" where
  "response_json r =
     JObject [(''id'', json_option (rs_id r)), (''result'', json_option (rs_result r)),
       (''error'', (case rs_error r of
          None \<Rightarrow> JNull
        | Some e \<Rightarrow> JObject [(''code'', json_i32 (err_code e)), (''message'', JString (err_message e))]))]"

definition send_job_notify ::
  "hex_crate \<Rightarrow> 'o wire \<Rightarrow> job \<Rightarrow> u32 \<Rightarrow> 'o \<Rightarrow> bool \<times> 'o" where
  "send_job_notify hx wr job initial_difficulty out =
     (case wr_to_string wr (build_set_difficulty_notification initial_difficulty) of
        Inl e \<Rightarrow> (False, out)
      | Inr set_diff_json \<Rightarrow>
          (case write_json_line wr set_diff_json out of
             (False, out) \<Rightarrow> (False, out)
           | (True, out) \<Rightarrow>
               (case wr_to_string wr (build_mining_notify hx job) of
                  Inl e \<Rightarrow> (False, out)
                | Inr notify_json \<Rightarrow> write_json_line wr notify_json out)))"

section \<open>One session\<close>

text \<open>
  \<open>Read_Line s\<close> is a completed \<open>read_line\<close> (the bytes with their line end; empty at the
  end of the stream), the \<open>Recv\<close> events are the results of \<open>job_rx.recv()\<close>.
\<close>

datatype session_event = Read_Error | Read_Line string | Recv_Job job | Recv_Lagged u64 | Recv_Closed

datatype flow = Running | Ended | Panicked

definition deliver_job ::
  "hex_crate \<Rightarrow> 's session_handler \<Rightarrow> 'o wire \<Rightarrow> u32 \<Rightarrow> job \<Rightarrow> session_state \<Rightarrow> 'o \<Rightarrow> 's server
     \<Rightarrow> flow \<times> session_state \<times> 'o \<times> 's server" where
  "deliver_job hx h wr initial_difficulty job ss out sv =
     (case send_job_notify hx wr job initial_difficulty out of
        (False, out) \<Rightarrow> (Ended, ss, out, sv)
      | (True, out) \<Rightarrow>
          (Running, ss\<lparr> last_notify_job_id := Some (job_id job) \<rparr>, out,
           sv\<lparr> pool := on_notify_sent h job (pool sv) \<rparr>))"

definition parse_failure ::
  "'o wire \<Rightarrow> session_state \<Rightarrow> 'o \<Rightarrow> 's server \<Rightarrow> flow \<times> session_state \<times> 'o \<times> 's server" where
  "parse_failure wr ss out sv =
     (case wr_to_string wr (response_json (build_error_response None (-32700) ''Parse error'')) of
        Inl e \<Rightarrow> (Running, ss, out, sv)
      | Inr j \<Rightarrow>
          (case write_json_line wr j out of
             (True, out) \<Rightarrow> (Running, ss, out, sv)
           | (False, out) \<Rightarrow> (Ended, ss, out, sv)))"

definition handle_request ::
  "hex_crate \<Rightarrow> 's session_handler \<Rightarrow> 'o wire \<Rightarrow> u32 \<Rightarrow> sv1_request \<Rightarrow> session_state \<Rightarrow> 'o \<Rightarrow> 's server
     \<Rightarrow> flow \<times> session_state \<times> 'o \<times> 's server" where
  "handle_request hx h wr initial_difficulty req ss out sv =
     (case dispatch_request hx h req ss sv of
        (None, ss, sv) \<Rightarrow> (Panicked, ss, out, sv)
      | (Some (notify_job, response), ss, sv) \<Rightarrow>
          (case wr_to_string wr (response_json response) of
             Inl e \<Rightarrow> (Running, ss, out, sv)
           | Inr j \<Rightarrow>
               (case write_json_line wr j out of
                  (False, out) \<Rightarrow> (Ended, ss, out, sv)
                | (True, out) \<Rightarrow>
                    (case notify_job of
                       None \<Rightarrow> (Running, ss, out, sv)
                     | Some job \<Rightarrow> deliver_job hx h wr initial_difficulty job ss out sv))))"

fun session_step ::
  "hex_crate \<Rightarrow> 's session_handler \<Rightarrow> 'o wire \<Rightarrow> u32 \<Rightarrow> session_event \<Rightarrow> session_state \<Rightarrow> 'o \<Rightarrow> 's server
     \<Rightarrow> flow \<times> session_state \<times> 'o \<times> 's server" where
  "session_step hx h wr d Read_Error ss out sv = (Ended, ss, out, sv)"
| "session_step hx h wr d (Read_Line line) ss out sv =
     (if length line = 0 then (Ended, ss, out, sv)
      else
        let trimmed = trim line
        in if trimmed = [] then (Running, ss, out, sv)
           else case wr_from_str wr trimmed of
                  Inl e \<Rightarrow> parse_failure wr ss out sv
                | Inr req \<Rightarrow> handle_request hx h wr d req ss out sv)"
| "session_step hx h wr d (Recv_Lagged n) ss out sv = (Running, ss, out, sv)"
| "session_step hx h wr d Recv_Closed ss out sv = (Ended, ss, out, sv)"
| "session_step hx h wr d (Recv_Job job) ss out sv =
     (if authorized_worker ss = None then (Running, ss, out, sv)
      else if last_notify_job_id ss = Some (job_id job) then (Running, ss, out, sv)
      else deliver_job hx h wr d job ss out sv)"

fun run_session ::
  "hex_crate \<Rightarrow> 's session_handler \<Rightarrow> 'o wire \<Rightarrow> u32 \<Rightarrow> session_event list \<Rightarrow> session_state \<Rightarrow> 'o \<Rightarrow> 's server
     \<Rightarrow> flow \<times> session_state \<times> 'o \<times> 's server" where
  "run_session hx h wr d [] ss out sv = (Running, ss, out, sv)"
| "run_session hx h wr d (ev # evs) ss out sv =
     (case session_step hx h wr d ev ss out sv of
        (Running, ss, out, sv) \<Rightarrow> run_session hx h wr d evs ss out sv
      | stopped \<Rightarrow> stopped)"

text \<open>
  An accepted connection from beginning to end: the callbacks around \<open>handle_sv1_session\<close>.
  A panic unwinds the task, so \<open>on_disconnect\<close> is not reached.
\<close>

definition serve_connection ::
  "hex_crate \<Rightarrow> 's session_handler \<Rightarrow> 'o wire \<Rightarrow> u32 \<Rightarrow> string \<Rightarrow> session_event list \<Rightarrow> 'o \<Rightarrow> 's server
     \<Rightarrow> flow \<times> 'o \<times> 's server" where
  "serve_connection hx h wr d peer evs out sv =
     (let sv = sv\<lparr> pool := on_connect h peer (pool sv) \<rparr>
      in case run_session hx h wr d evs session_state_default out sv of
           (Ended, ss, out, sv) \<Rightarrow> (Ended, out, sv\<lparr> pool := on_disconnect h peer (pool sv) \<rparr>)
         | (flow, ss, out, sv) \<Rightarrow> (flow, out, sv))"

end
