(* ===== verification/Sv1_Invariants.thy ===== *)
theory Sv1_Invariants
  imports Sv1_Server
begin

text \<open>
  What the Stratum server keeps true: the invariant of a session's state over every sequence
  of events, the conditions under which a submission reaches the pool, and what a pushed job
  does.

  The locale \<open>guarded_events\<close> is the trait \<open>SessionEventHandler\<close> with an invariant of the
  pool behind it and a property of jobs: when only good jobs are pushed, every callback keeps
  the invariant and hands out good jobs only. \<open>session_events\<close> is the case of an invariant
  that does not depend on the jobs; \<open>registering_events\<close> adds what is relied on about the
  job registry: a job is registered when its notification has been sent, and by nothing else.
\<close>

section \<open>The interface\<close>

text \<open>The events that push only jobs with property \<open>good\<close>.\<close>

definition event_good :: "(job \<Rightarrow> bool) \<Rightarrow> session_event \<Rightarrow> bool" where
  "event_good good ev \<longleftrightarrow> (\<forall>j. ev = Recv_Job j \<longrightarrow> good j)"

lemma event_good_simps [simp]:
  "event_good (\<lambda>_. True) ev" "event_good good (Read_Line l)" "event_good good Read_Error"
  "event_good good (Recv_Job j) \<longleftrightarrow> good j"
  by (simp_all add: event_good_def)

locale guarded_events =
  fixes h :: "'s session_handler" and inv :: "'s \<Rightarrow> bool" and good :: "job \<Rightarrow> bool"
  assumes connect_keeps: "inv s \<Longrightarrow> inv (on_connect h peer s)"
    and disconnect_keeps: "inv s \<Longrightarrow> inv (on_disconnect h peer s)"
    and authorize_keeps: "inv s \<Longrightarrow> inv (snd (on_authorize h u s))"
    and authorize_good: "inv s \<Longrightarrow> fst (on_authorize h u s) = Inr (Some j) \<Longrightarrow> good j"
    and notify_keeps: "inv s \<Longrightarrow> good j \<Longrightarrow> inv (on_notify_sent h j s)"
    and submit_keeps: "inv s \<Longrightarrow> inv (snd (on_submit h x s))"
begin

lemma dispatch_keeps:
  assumes "inv (pool sv)" and "dispatch_request hx h req ss sv = (r, ss', sv')"
  shows "inv (pool sv') \<and> (\<forall>j resp. r = Some (Some j, resp) \<longrightarrow> good j)"
proof -
  define ok where "ok \<longleftrightarrow> inv (pool sv') \<and> (\<forall>j resp. r = Some (Some j, resp) \<longrightarrow> good j)"
  have authorize: "dispatch_authorize h req u ss sv = (r, ss', sv') \<Longrightarrow> ok" for u
    using assms(1) authorize_keeps [of "pool sv" u] authorize_good [of "pool sv" u]
    by (auto simp: dispatch_authorize_def ok_def split: prod.splits sum.splits)
  have submit: "dispatch_submit h req u jid en2 t n b ss sv = (r, ss', sv') \<Longrightarrow> ok" for u jid en2 t n b
    using assms(1) submit_keeps [of "pool sv"]
    by (auto simp: dispatch_submit_def ok_def split: prod.splits option.splits if_splits)
      (metis snd_conv)+
  have "dispatch_configure req e v ss sv = (r, ss', sv') \<Longrightarrow> ok"
    "dispatch_subscribe req ss sv = (r, ss', sv') \<Longrightarrow> ok"
    "(Some (None, resp), ss, sv) = (r, ss', sv') \<Longrightarrow> ok" for e v resp
    using assms(1) by (auto simp: dispatch_configure_def dispatch_subscribe_def ok_def Let_def)
  with assms(2) have ok unfolding dispatch_request_def
    by (auto split: sum.splits option.splits sv1_domain_command.splits dest: authorize submit)
  then show ?thesis by (simp add: ok_def)
qed

lemma deliver_keeps:
  "inv (pool sv) \<Longrightarrow> good j \<Longrightarrow> deliver_job hx h wr d j ss out sv = (f, ss', out', sv') \<Longrightarrow> inv (pool sv')"
  using notify_keeps by (auto simp: deliver_job_def split: prod.splits bool.splits)

lemma handle_keeps:
  assumes inv: "inv (pool sv)" and step: "handle_request hx h wr d req ss out sv = (f, ss', out', sv')"
  shows "inv (pool sv')"
proof -
  obtain r ss1 sv1 where disp: "dispatch_request hx h req ss sv = (r, ss1, sv1)"
    by (metis prod_cases3)
  note keeps = dispatch_keeps [OF inv disp]
  then have inv1: "inv (pool sv1)" and job: "\<And>j resp. r = Some (Some j, resp) \<Longrightarrow> good j"
    by auto
  show ?thesis using step inv1 job
    by (auto simp: handle_request_def disp split: option.splits sum.splits prod.splits bool.splits
        elim!: deliver_keeps [rotated 2])
qed

lemma parse_failure_keeps:
  "inv (pool sv) \<Longrightarrow> parse_failure wr ss out sv = (f, ss', out', sv') \<Longrightarrow> inv (pool sv')"
  by (auto simp: parse_failure_def split: sum.splits prod.splits bool.splits)

lemma step_keeps:
  "inv (pool sv) \<Longrightarrow> event_good good ev \<Longrightarrow> session_step hx h wr d ev ss out sv = (f, ss', out', sv')
     \<Longrightarrow> inv (pool sv')"
  by (cases ev) (auto simp: Let_def split: if_splits sum.splits
      dest: handle_keeps deliver_keeps parse_failure_keeps)

lemma run_keeps:
  "inv (pool sv) \<Longrightarrow> list_all (event_good good) evs
     \<Longrightarrow> run_session hx h wr d evs ss out sv = (f, ss', out', sv') \<Longrightarrow> inv (pool sv')"
proof (induction evs arbitrary: ss out sv)
  case Nil
  then show ?case by simp
next
  case (Cons ev evs)
  obtain f1 ss1 out1 sv1 where s: "session_step hx h wr d ev ss out sv = (f1, ss1, out1, sv1)"
    by (metis prod_cases4)
  with Cons show ?case by (cases f1) (auto dest: step_keeps)
qed

lemma serve_keeps:
  "inv (pool sv) \<Longrightarrow> list_all (event_good good) evs
     \<Longrightarrow> serve_connection hx h wr d peer evs out sv = (f, out', sv') \<Longrightarrow> inv (pool sv')"
  using connect_keeps disconnect_keeps
  by (auto simp: serve_connection_def Let_def split: prod.splits flow.splits dest!: run_keeps [rotated 2])

end

locale session_events =
  fixes h :: "'s session_handler" and inv :: "'s \<Rightarrow> bool"
  assumes connect_inv: "inv s \<Longrightarrow> inv (on_connect h peer s)"
    and disconnect_inv: "inv s \<Longrightarrow> inv (on_disconnect h peer s)"
    and authorize_inv: "inv s \<Longrightarrow> inv (snd (on_authorize h u s))"
    and notify_inv: "inv s \<Longrightarrow> inv (on_notify_sent h j s)"
    and submit_inv: "inv s \<Longrightarrow> inv (snd (on_submit h x s))"

sublocale session_events \<subseteq> any_job: guarded_events h inv "\<lambda>_. True"
  by unfold_locales (simp_all add: connect_inv disconnect_inv authorize_inv notify_inv submit_inv)

context session_events
begin

lemma step_inv:
  "inv (pool sv) \<Longrightarrow> session_step hx h wr d ev ss out sv = (f, ss', out', sv') \<Longrightarrow> inv (pool sv')"
  by (erule any_job.step_keeps) simp_all

lemma serve_inv:
  "inv (pool sv) \<Longrightarrow> serve_connection hx h wr d peer evs out sv = (f, out', sv') \<Longrightarrow> inv (pool sv')"
  by (erule any_job.serve_keeps) (simp_all add: list_all_iff)

end

interpretation unit_events: session_events unit_handler "\<lambda>_. True"
  by unfold_locales simp_all

locale registering_events = session_events h inv for h :: "'s session_handler" and inv +
  fixes jobs :: "'s \<Rightarrow> active_jobs"
  assumes connect_jobs: "jobs (on_connect h peer s) = jobs s"
    and disconnect_jobs: "jobs (on_disconnect h peer s) = jobs s"
    and authorize_jobs: "jobs (snd (on_authorize h u s)) = jobs s"
    and notify_jobs: "jobs (on_notify_sent h j s) = register j (jobs s)"
    and submit_jobs: "jobs (snd (on_submit h x s)) = jobs s"
begin

lemma dispatch_jobs:
  "dispatch_request hx h req ss sv = (r, ss', sv') \<Longrightarrow> jobs (pool sv') = jobs (pool sv)"
  using authorize_jobs submit_jobs
  by (auto simp: dispatch_request_def dispatch_configure_def dispatch_subscribe_def
      dispatch_authorize_def dispatch_submit_def Let_def
      split: sum.splits option.splits sv1_domain_command.splits prod.splits if_splits)
    (metis snd_conv)+

text \<open>One step registers at most one job, the one whose notification it sent.\<close>

lemma deliver_jobs:
  "deliver_job hx h wr d j ss out sv = (f, ss', out', sv') \<Longrightarrow>
     f = Ended \<and> jobs (pool sv') = jobs (pool sv)
     \<or> f = Running \<and> jobs (pool sv') = register j (jobs (pool sv))
       \<and> last_notify_job_id ss' = Some (job_id j)"
  using notify_jobs by (auto simp: deliver_job_def split: prod.splits bool.splits)

lemma handle_jobs:
  assumes "handle_request hx h wr d req ss out sv = (f, ss', out', sv')"
  shows "jobs (pool sv') = jobs (pool sv)
     \<or> (\<exists>j. jobs (pool sv') = register j (jobs (pool sv)) \<and> last_notify_job_id ss' = Some (job_id j))"
  using assms
  by (auto simp: handle_request_def split: prod.splits option.splits sum.splits bool.splits
      dest!: dispatch_jobs deliver_jobs)

lemma step_jobs:
  assumes "session_step hx h wr d ev ss out sv = (f, ss', out', sv')"
  shows "jobs (pool sv') = jobs (pool sv)
     \<or> (\<exists>j. jobs (pool sv') = register j (jobs (pool sv)) \<and> last_notify_job_id ss' = Some (job_id j))"
proof (cases ev)
  case (Read_Line line)
  then show ?thesis using assms
    by (auto simp: Let_def parse_failure_def split: if_splits sum.splits prod.splits bool.splits
        dest: handle_jobs)
next
  case (Recv_Job j)
  then show ?thesis using assms by (auto split: if_splits dest: deliver_jobs)
qed (use assms in auto)

end

section \<open>The session's state\<close>

definition rolling_ok :: "sv1_version_rolling_config option \<Rightarrow> bool" where
  "rolling_ok v \<longleftrightarrow>
     (case v of None \<Rightarrow> True
      | Some c \<Rightarrow> vr_mask c \<noteq> 0 \<and> vr_mask c AND NOT SV1_VERSION_ROLLING_MASK = 0)"

definition session_inv :: "session_state \<Rightarrow> bool" where
  "session_inv ss \<longleftrightarrow>
     (if subscribed ss then (\<exists>n. ss_extranonce1 ss = fmt_08x n) \<and> extranonce2_size ss = 4
      else ss_extranonce1 ss = [] \<and> extranonce2_size ss = 0)
     \<and> rolling_ok (ss_version_rolling ss)
     \<and> (last_notify_job_id ss \<noteq> None \<longrightarrow> authorized_worker ss \<noteq> None)"

lemma session_inv_default [simp]: "session_inv session_state_default"
  by (simp add: session_inv_def session_state_default_def rolling_ok_def)

lemma rolling_ok_negotiated: "rolling_ok (Option.bind v negotiate_version_rolling)"
proof -
  have sub: "(a AND b) AND NOT a = 0" for a b :: u32
    by (rule bit_word_eqI) (auto simp: bit_simps)
  show ?thesis
    by (cases v) (auto simp: rolling_ok_def negotiate_version_rolling_def Let_def sub)
qed

text \<open>A dispatched job means the request authorized the session.\<close>

lemma dispatch_session_inv:
  assumes "session_inv ss" and "dispatch_request hx h req ss sv = (r, ss', sv')"
  shows "session_inv ss' \<and> (\<forall>job resp. r = Some (Some job, resp) \<longrightarrow> authorized_worker ss' \<noteq> None)"
proof -
  define good where "good \<longleftrightarrow>
    session_inv ss' \<and> (\<forall>job resp. r = Some (Some job, resp) \<longrightarrow> authorized_worker ss' \<noteq> None)"
  have authorize: "dispatch_authorize h req u ss sv = (r, ss', sv') \<Longrightarrow> good" for u
    using assms(1) unfolding dispatch_authorize_def session_inv_def good_def
    by (auto split: prod.splits sum.splits)
  have submit: "dispatch_submit h req u jid en2 t n b ss sv = (r, ss', sv') \<Longrightarrow> good" for u jid en2 t n b
    using assms(1) unfolding dispatch_submit_def good_def
    by (auto split: prod.splits option.splits if_splits)
  have configure: "dispatch_configure req e v ss sv = (r, ss', sv') \<Longrightarrow> good" for e v
    using assms(1) rolling_ok_negotiated [of v]
    by (auto simp: dispatch_configure_def session_inv_def good_def Let_def)
  have subscribe: "dispatch_subscribe req ss sv = (r, ss', sv') \<Longrightarrow> good"
    using assms(1) by (auto simp: dispatch_subscribe_def session_inv_def good_def Let_def)
  have "(Some (None, resp), ss, sv) = (r, ss', sv') \<Longrightarrow> good" for resp
    using assms(1) by (auto simp: good_def)
  with assms(2) have good unfolding dispatch_request_def
    by (auto split: sum.splits option.splits sv1_domain_command.splits
        dest: authorize submit configure subscribe)
  then show ?thesis by (simp add: good_def)
qed

lemma deliver_session_inv:
  assumes "session_inv ss" and "authorized_worker ss \<noteq> None"
    and "deliver_job hx h wr d j ss out sv = (f, ss', out', sv')"
  shows "session_inv ss'"
  using assms by (auto simp: deliver_job_def session_inv_def split: prod.splits bool.splits)

lemma handle_session_inv:
  assumes inv: "session_inv ss" and step: "handle_request hx h wr d req ss out sv = (f, ss', out', sv')"
  shows "session_inv ss'"
proof -
  obtain r ss1 sv1 where disp: "dispatch_request hx h req ss sv = (r, ss1, sv1)"
    by (metis prod_cases3)
  note d = dispatch_session_inv [OF inv disp]
  show ?thesis
  proof (cases r)
    case None
    then show ?thesis using step d by (auto simp: handle_request_def disp)
  next
    case (Some p)
    obtain nj resp where p: "p = (nj, resp)" by (cases p)
    then show ?thesis using step d Some
      by (auto simp: handle_request_def disp split: sum.splits prod.splits bool.splits option.splits
          dest: deliver_session_inv [rotated 2])
  qed
qed

lemma step_session_inv:
  assumes inv: "session_inv ss" and step: "session_step hx h wr d ev ss out sv = (f, ss', out', sv')"
  shows "session_inv ss'"
proof (cases ev)
  case (Read_Line line)
  then show ?thesis using step inv handle_session_inv [OF inv]
    by (auto simp: Let_def parse_failure_def split: if_splits sum.splits prod.splits bool.splits)
next
  case (Recv_Job j)
  then show ?thesis using step inv
    by (auto split: if_splits dest: deliver_session_inv [rotated 2])
qed (use step inv in auto)

text \<open>The states a session can reach, over whatever happens to the shared state in between.\<close>

inductive session_reaches ::
  "hex_crate \<Rightarrow> 's session_handler \<Rightarrow> 'o wire \<Rightarrow> u32 \<Rightarrow> session_state \<Rightarrow> bool"
  for hx h wr d where
  start: "session_reaches hx h wr d session_state_default"
| step: "session_reaches hx h wr d ss \<Longrightarrow> session_step hx h wr d ev ss out sv = (f, ss', out', sv')
     \<Longrightarrow> session_reaches hx h wr d ss'"

lemma reaches_session_inv: "session_reaches hx h wr d ss \<Longrightarrow> session_inv ss"
  by (induction rule: session_reaches.induct) (auto intro: step_session_inv)

section \<open>Properties\<close>

text \<open>A socket that takes every line, and a miner that sends the same request each time.\<close>

definition sample_wire :: "sv1_request \<Rightarrow> nat wire" where
  "sample_wire req =
     \<lparr> wr_to_string = (\<lambda>j. Inr ''line''), wr_from_str = (\<lambda>s. Inr req),
       wr_write = (\<lambda>s n. (True, Suc n)) \<rparr>"

definition sample_subscribe :: sv1_request where
  "sample_subscribe = \<lparr> rq_id = None, rq_method = ''mining.subscribe'', rq_params = None \<rparr>"

text \<open>
  Property C22. Session state stays coherent over every sequence of requests, pushed jobs and
  changes of the shared state: extranonce1 is eight hex digits and the extranonce2 size 4
  exactly when subscribed (else both are empty), any negotiated mask is non-empty and inside
  the pool's mask, and a job was only ever sent to an authorized session.
\<close>

theorem session_state_coherent:
  assumes "session_reaches hx h wr d ss"
  shows "(subscribed ss \<longleftrightarrow> ss_extranonce1 ss \<noteq> []) \<and> (subscribed ss \<longleftrightarrow> extranonce2_size ss = 4)
     \<and> (subscribed ss \<longrightarrow> (\<exists>n. ss_extranonce1 ss = fmt_08x n))
     \<and> (\<forall>c. ss_version_rolling ss = Some c \<longrightarrow>
          vr_mask c \<noteq> 0 \<and> vr_mask c AND NOT SV1_VERSION_ROLLING_MASK = 0)
     \<and> (last_notify_job_id ss \<noteq> None \<longrightarrow> authorized_worker ss \<noteq> None)"
proof -
  have inv: "session_inv ss" by (rule reaches_session_inv [OF assms])
  have ne: "fmt_08x n = [] \<longleftrightarrow> False" "[] = fmt_08x n \<longleftrightarrow> False" for n
    using length_fmt_08x [of n] by (metis list.size(3) zero_neq_numeral)+
  show ?thesis using inv by (auto simp: session_inv_def rolling_ok_def ne split: if_splits)
qed

theorem session_state_coherent_witness:
  "\<exists>ss. session_reaches sample_hex unit_handler (sample_wire sample_subscribe) 1 ss
     \<and> ss_extranonce1 ss = fmt_08x 1 \<and> subscribed ss"
proof -
  let ?wr = "sample_wire sample_subscribe"
  let ?ss = "session_state_default\<lparr> subscribed := True, ss_extranonce1 := fmt_08x 1, extranonce2_size := 4 \<rparr>"
  have t: "trim ''x'' = ''x''" by (rule trim_printable) (simp add: printable_def char_nat_def)
  have "session_step sample_hex unit_handler ?wr 1 (Read_Line ''x'') session_state_default 0 (server_start ())
      = (Running, ?ss, 1, \<lparr> next_extranonce1 = 2, pool = () \<rparr>)"
    by (simp add: t sample_wire_def handle_request_def dispatch_request_def map_request_to_command_def
        sample_subscribe_def dispatch_subscribe_def server_start_def write_json_line_def Let_def)
  then have r: "session_reaches sample_hex unit_handler ?wr 1 ?ss"
    by (rule session_reaches.step [OF session_reaches.start])
  show ?thesis using r session_state_coherent [OF r] by (intro exI [of _ ?ss]) simp
qed

text \<open>When a submission may pass, and the answer when it may not.\<close>

definition submit_allowed :: "session_state \<Rightarrow> string \<Rightarrow> u32 option \<Rightarrow> bool" where
  "submit_allowed ss username version_bits \<longleftrightarrow>
     map_option worker_id (authorized_worker ss) = Some username
     \<and> (version_bits \<noteq> None \<longrightarrow> ss_version_rolling ss \<noteq> None)"

text \<open>
  Property C12. The gate before the pool: a submission reaches \<open>on_submit\<close> exactly when the
  session is authorized under the very name it gives and any version bits were negotiated;
  it then carries the session's own worker, extranonce1, extranonce2 size and mask, and the
  miner is told the verdict (true exactly for accepted shares). Otherwise the miner gets an
  error and neither the session nor the pool changes.
\<close>

theorem submit_gate:
  assumes "map_request_to_command hx req = Inr (Some (SubmitShare u j en2 t n b))"
  shows "(submit_allowed ss u b \<longrightarrow>
       (\<exists>worker. authorized_worker ss = Some worker \<and> worker_id worker = u
          \<and> dispatch_request hx h req ss sv
             = (let (result, p) = on_submit h (session_share ss worker j en2 t n b) (pool sv)
                in (map_option (\<lambda>r. (None, submit_response (rq_id req) r)) result, ss, sv\<lparr> pool := p \<rparr>))))
     \<and> (\<not> submit_allowed ss u b \<longrightarrow>
       (\<exists>reason. dispatch_request hx h req ss sv
          = (Some (None, build_submit_reject (rq_id req) reason), ss, sv)))
     \<and> (\<forall>r. rs_result (submit_response (rq_id req) r) = Some (JBool True) \<longleftrightarrow> is_accepted r)"
  using assms
  by (auto simp: dispatch_request_def dispatch_submit_def submit_allowed_def submit_response_def
      build_submit_success_def build_submit_reject_def build_error_response_def Let_def
      split: option.splits prod.splits)

theorem submit_gate_witness:
  "\<exists>reason. dispatch_request sample_hex unit_handler
       (submit_request None ''u'' ''7'' [0xde] 1 2 None) session_state_default (server_start ())
     = (Some (None, build_submit_reject None reason), session_state_default, server_start ())"
proof -
  have m: "map_request_to_command sample_hex (submit_request None ''u'' ''7'' [0xde] 1 2 None)
      = Inr (Some (SubmitShare ''u'' ''7'' [0xde] 1 2 None))"
    using map_submit_request [OF sample_hex_documented, of None "''u''" "''7''" "[0xde]" 1 2 None]
    by (simp add: map_request_to_command_def submit_request_def)
  have "\<not> submit_allowed session_state_default ''u'' None"
    by (simp add: submit_allowed_def session_state_default_def)
  moreover have "rq_id (submit_request None ''u'' ''7'' [0xde] 1 2 None) = None"
    by (simp add: submit_request_def)
  ultimately show ?thesis
    using submit_gate [OF m, of session_state_default unit_handler "server_start ()"] by simp
qed

text \<open>
  Pushing a job: a session that is not authorized gets nothing; a session that
  stays alive through the push has the job registered with the pool and remembered, and the
  same job pushed again changes nothing and writes nothing.
\<close>

lemma push_once_to_authorized:
  assumes "session_step hx h wr d (Recv_Job j) ss out sv = (Running, ss', out', sv')"
  shows "(authorized_worker ss = None \<longrightarrow> ss' = ss \<and> out' = out \<and> sv' = sv)
     \<and> (authorized_worker ss \<noteq> None \<longrightarrow> last_notify_job_id ss' = Some (job_id j)
          \<and> (last_notify_job_id ss \<noteq> Some (job_id j) \<longrightarrow>
               sv' = sv\<lparr> pool := on_notify_sent h j (pool sv) \<rparr>))
     \<and> session_step hx h wr d (Recv_Job j) ss' out' sv' = (Running, ss', out', sv')"
  using assms by (auto simp: deliver_job_def split: if_splits prod.splits bool.splits)

end
