(* ===== verification/Share_Buffer.thy ===== *)
theory Share_Buffer
  imports Domain
begin

text \<open>
  \<open>RecentSharesBuffer\<close> of \<open>pool_core/src/share_buffer.rs\<close>: the last \<open>MAX_RECENT\<close>
  share attempts, oldest first. Its interface is the locale \<open>attempt_log\<close>, a bounded
  log that drops its oldest entry.
\<close>

definition MAX_RECENT :: nat where
  "MAX_RECENT = 100"

record share_attempt =
  attempt_worker_id :: string
  attempt_job_id :: string
  attempt_accepted :: bool
  attempt_reject_reason :: "string option"

type_synonym recent_shares = "share_attempt list"

definition recent_shares_new :: recent_shares where
  "recent_shares_new = []"

definition share_attempt_of :: "share_submission \<Rightarrow> share_result \<Rightarrow> share_attempt" where
  "share_attempt_of s r =
     \<lparr> attempt_worker_id = worker_id (share_worker s), attempt_job_id = share_job_id s,
       attempt_accepted = is_accepted r, attempt_reject_reason = reject_reason r \<rparr>"

text \<open>\<open>pop_front\<close> on the full queue, then \<open>push_back\<close>.\<close>

definition record_attempt :: "share_submission \<Rightarrow> share_result \<Rightarrow> recent_shares \<Rightarrow> recent_shares" where
  "record_attempt s r entries =
     (let entries = (if MAX_RECENT \<le> length entries then tl entries else entries)
      in entries @ [share_attempt_of s r])"

definition recent :: "recent_shares \<Rightarrow> share_attempt list" where
  "recent entries = entries"

text \<open>The interface: a log of bounded length that keeps the newest entries.\<close>

locale attempt_log =
  fixes push :: "'a \<Rightarrow> 'l \<Rightarrow> 'l"
    and entries :: "'l \<Rightarrow> 'e list"
    and entry :: "'a \<Rightarrow> 'e"
    and new :: 'l
    and capacity :: nat
  assumes entries_new: "entries new = []"
    and entries_push: "length (entries l) \<le> capacity
          \<Longrightarrow> entries (push a l) = last_n capacity (entries l @ [entry a])"
begin

lemma entries_run: "entries (fold push as new) = last_n capacity (map entry as)"
proof (induction as rule: rev_induct)
  case Nil
  show ?case by (simp add: entries_new)
next
  case (snoc a as)
  have "length (entries (fold push as new)) \<le> capacity" by (simp add: snoc.IH)
  from entries_push [OF this, of a] show ?case by (simp add: snoc.IH last_n_snoc)
qed

lemma bounded_run: "length (entries (fold push as new)) \<le> capacity"
  by (simp add: entries_run)

end

lemma record_attempt_eq:
  "length l \<le> MAX_RECENT \<Longrightarrow> record_attempt s r l = last_n MAX_RECENT (l @ [share_attempt_of s r])"
  by (cases "length l = MAX_RECENT")
    (auto simp: record_attempt_def Let_def last_n_def drop_Suc MAX_RECENT_def)

interpretation recent_log: attempt_log
  "\<lambda>(s, r). record_attempt s r" recent "\<lambda>(s, r). share_attempt_of s r" recent_shares_new MAX_RECENT
  by unfold_locales (auto simp: recent_def recent_shares_new_def record_attempt_eq)

text \<open>
  The buffer behind the recent-shares endpoint: after any sequence of recorded
  attempts it holds the last 100 of them in order, each with its worker, job, verdict and
  reason.
\<close>

lemma recent_shares_last_100:
  "recent (fold (\<lambda>(s, r). record_attempt s r) attempts recent_shares_new)
   = last_n 100 (map (\<lambda>(s, r). share_attempt_of s r) attempts)"
  using recent_log.entries_run [of attempts] by (simp add: MAX_RECENT_def)

end
