(* ===== verification/Pool_State.thy ===== *)
theory Pool_State
  imports Domain
begin

text \<open>
  The remaining in-memory services of \<open>pool_core/src/services.rs\<close>: the worker registry, the
  statistics snapshot with its atomic counters, and the job sources that need no daemon.
\<close>

section \<open>\<open>InMemoryWorkerRegistry\<close>\<close>

text \<open>A \<open>HashMap<String, WorkerIdentity>\<close>; only finitely many keys are ever present.\<close>

type_synonym worker_registry = "(string \<times> worker_identity) list"

definition workers_new :: worker_registry where
  "workers_new = []"

definition workers_register :: "worker_identity \<Rightarrow> worker_registry \<Rightarrow> worker_registry" where
  "workers_register w ws = AList.update (worker_id w) w ws"

definition workers_list :: "worker_registry \<Rightarrow> worker_identity list" where
  "workers_list ws = map snd ws"

definition workers_count :: "worker_registry \<Rightarrow> u64" where
  "workers_count ws = word_of_nat (length ws)"

definition workers_inv :: "worker_registry \<Rightarrow> bool" where
  "workers_inv ws \<longleftrightarrow> distinct (map fst ws) \<and> (\<forall>(k, w) \<in> set ws. worker_id w = k)"

lemma workers_register_keys:
  "set (map fst (workers_register w ws)) = insert (worker_id w) (set (map fst ws))"
  using dom_update [of "worker_id w" w ws] by (simp add: workers_register_def)

lemma update_all:
  "\<forall>(k, x) \<in> set xs. P k x \<Longrightarrow> P k v \<Longrightarrow> \<forall>(k, x) \<in> set (AList.update k v xs). P k x"
  by (induction xs) auto

lemma workers_register_inv: "workers_inv ws \<Longrightarrow> workers_inv (workers_register w ws)"
  unfolding workers_inv_def workers_register_def
  using update_all [of ws "\<lambda>k w. worker_id w = k" "worker_id w" w]
  by (simp add: distinct_update)

section \<open>\<open>InMemoryStatsSnapshot\<close>\<close>

text \<open>Atomic counters are 64-bit words: \<open>fetch_add\<close> and \<open>fetch_sub\<close> wrap.\<close>

record stats_snapshot =
  snap_pool_name :: string
  snap_active_connections :: u64
  snap_worker_count :: u64
  snap_round_height :: u64
  snap_round_status :: string

definition stats_new :: "string \<Rightarrow> stats_snapshot" where
  "stats_new name =
     \<lparr> snap_pool_name = name, snap_active_connections = 0, snap_worker_count = 0,
       snap_round_height = 0, snap_round_status = ''open'' \<rparr>"

definition record_connection :: "stats_snapshot \<Rightarrow> stats_snapshot" where
  "record_connection s = s\<lparr> snap_active_connections := snap_active_connections s + 1 \<rparr>"

definition record_disconnection :: "stats_snapshot \<Rightarrow> stats_snapshot" where
  "record_disconnection s = s\<lparr> snap_active_connections := snap_active_connections s - 1 \<rparr>"

definition set_worker_count :: "u64 \<Rightarrow> stats_snapshot \<Rightarrow> stats_snapshot" where
  "set_worker_count n s = s\<lparr> snap_worker_count := n \<rparr>"

definition set_round_height :: "u64 \<Rightarrow> stats_snapshot \<Rightarrow> stats_snapshot" where
  "set_round_height h s = s\<lparr> snap_round_height := h \<rparr>"

definition snapshot :: "stats_snapshot \<Rightarrow> pool_stats" where
  "snapshot s =
     \<lparr> stats_pool_name = snap_pool_name s, stats_hashrate = 0,
       stats_worker_count = snap_worker_count s, stats_round_height = snap_round_height s,
       stats_round_status = snap_round_status s \<rparr>"

section \<open>Job sources without a daemon\<close>

text \<open>
  A \<open>JobSource\<close> is a state with the operation \<open>current_job\<close>, which may change the
  state (\<open>VecJobSource\<close> advances its atomic index, a 64-bit \<open>usize\<close> that wraps).
\<close>

type_synonym 's job_source = "'s \<Rightarrow> job option \<times> 's"

definition stub_current_job :: "unit job_source" where
  "stub_current_job u = (Some job_placeholder, u)"

definition no_current_job :: "unit job_source" where
  "no_current_job u = (None, u)"

definition fixed_current_job :: "job job_source" where
  "fixed_current_job j = (Some j, j)"

record vec_job_source =
  vec_jobs :: "job list"
  vec_next :: u64

definition vec_job_source_new :: "job list \<Rightarrow> vec_job_source" where
  "vec_job_source_new js = \<lparr> vec_jobs = js, vec_next = 0 \<rparr>"

definition vec_current_job :: "vec_job_source job_source" where
  "vec_current_job s =
     (if vec_jobs s = [] then (None, s)
      else (Some (vec_jobs s ! (unat (vec_next s) mod length (vec_jobs s))),
            s\<lparr> vec_next := vec_next s + 1 \<rparr>))"

text \<open>The jobs a source hands out over \<open>n\<close> calls.\<close>

fun source_run :: "'s job_source \<Rightarrow> nat \<Rightarrow> 's \<Rightarrow> job option list \<times> 's" where
  "source_run src 0 s = ([], s)"
| "source_run src (Suc n) s =
     (let (j, s) = src s; (js, s) = source_run src n s in (j # js, s))"

lemma vec_source_run:
  assumes "vec_jobs s = js" and "js \<noteq> []" and "unat (vec_next s) + n < 2 ^ 64"
  shows "fst (source_run vec_current_job n s)
       = map (\<lambda>i. Some (js ! ((unat (vec_next s) + i) mod length js))) [0..<n]"
  using assms
proof (induction n arbitrary: s)
  case 0
  show ?case by simp
next
  case (Suc n)
  let ?t = "s\<lparr> vec_next := vec_next s + 1 \<rparr>"
  have next': "unat (vec_next ?t) = Suc (unat (vec_next s))"
    using Suc.prems(3) by (simp add: unat_word_ariths)
  have "fst (source_run vec_current_job n ?t)
      = map (\<lambda>i. Some (js ! ((unat (vec_next ?t) + i) mod length js))) [0..<n]"
    using Suc.prems next' by (intro Suc.IH) simp_all
  moreover have "vec_current_job s = (Some (js ! (unat (vec_next s) mod length js)), ?t)"
    using Suc.prems by (simp add: vec_current_job_def)
  ultimately have "fst (source_run vec_current_job (Suc n) s)
      = Some (js ! (unat (vec_next s) mod length js))
        # map (\<lambda>i. Some (js ! ((unat (vec_next s) + Suc i) mod length js))) [0..<n]"
    using next' by (simp add: split_beta)
  then show ?case
    by (simp only: upt_conv_Cons zero_less_Suc list.map add_0_right map_Suc_upt [symmetric] map_map comp_def)
qed

text \<open>
  The sequence job source cycles: over \<open>n\<close> calls (before its 64-bit index
  wraps) the \<open>i\<close>-th call returns job \<open>i mod length\<close> of the list.
\<close>

lemma vec_job_source_cycles:
  assumes "js \<noteq> []" and "n < 2 ^ 64"
  shows "fst (source_run vec_current_job n (vec_job_source_new js))
       = map (\<lambda>i. Some (js ! (i mod length js))) [0..<n]"
  using vec_source_run [of "vec_job_source_new js" js n] assms
  by (simp add: vec_job_source_new_def)

text \<open>Registering a worker twice leaves one entry: the count is the number of ids.\<close>

lemma workers_run_inv: "workers_inv ws \<Longrightarrow> workers_inv (fold workers_register new ws)"
  by (induction new arbitrary: ws) (simp_all add: workers_register_inv)

lemma workers_run_keys:
  "set (map fst (fold workers_register new ws)) = worker_id ` set new \<union> set (map fst ws)"
proof (induction new arbitrary: ws)
  case Nil
  show ?case by simp
next
  case (Cons w new)
  show ?case using Cons.IH [of "workers_register w ws"] workers_register_keys [of w ws] by auto
qed

text \<open>
  The worker registry: after any sequence of registrations there is exactly one
  entry per distinct worker id, and the reported count is the number of distinct ids (as a
  64-bit number).
\<close>

lemma worker_registry_counts_ids:
  "workers_count (fold workers_register new workers_new) = word_of_nat (card (worker_id ` set new))
   \<and> set (map worker_id (workers_list (fold workers_register new workers_new)))
     = worker_id ` set new"
proof -
  let ?ws = "fold workers_register new workers_new"
  have inv: "workers_inv ?ws" by (rule workers_run_inv) (simp add: workers_inv_def workers_new_def)
  have keys: "set (map fst ?ws) = worker_id ` set new"
    using workers_run_keys [of new workers_new] by (simp add: workers_new_def)
  have "length ?ws = card (set (map fst ?ws))"
    using inv distinct_card [of "map fst ?ws"] by (simp only: workers_inv_def length_map)
  moreover have "map worker_id (workers_list ?ws) = map fst ?ws"
    using inv by (auto simp: workers_list_def workers_inv_def)
  ultimately show ?thesis using keys by (simp add: workers_count_def)
qed

end
