(* ===== verification/Target_Arith.thy ===== *)
theory Target_Arith
  imports Domain
begin

text \<open>
  The 256-bit target arithmetic of \<open>coin_azcoin/src/share_validator.rs\<close>: expanding compact
  \<open>nBits\<close>, dividing a target by a difficulty, comparing big-endian numbers. A target is
  a list of 32 bytes, most significant first. \<open>usize\<close> and \<open>u64\<close> arithmetic is on
  64-bit words, as in a release build, where the subtraction \<open>32 - shift - 3\<close> wraps.
\<close>

definition DIFF1_NBITS :: u32 where
  "DIFF1_NBITS = 0x1d00ffff"

definition nbits_exponent :: "u32 \<Rightarrow> u64" where
  "nbits_exponent nbits = ucast (drop_bit 24 nbits)"

definition nbits_mantissa :: "u32 \<Rightarrow> u32" where
  "nbits_mantissa nbits = nbits AND 0xffffff"

definition nbits_to_target :: "u32 \<Rightarrow> bytes" where
  "nbits_to_target nbits =
     (let target = replicate 32 0;
          exponent = nbits_exponent nbits;
          mantissa = nbits_mantissa nbits
      in if exponent \<le> 3 then
           let v = push_bit (unat (8 * (3 - exponent))) (ucast mantissa :: u64)
           in target[28 := ucast (drop_bit 24 v), 29 := ucast (drop_bit 16 v),
                     30 := ucast (drop_bit 8 v), 31 := ucast v]
         else
           let shift = exponent - 3;
               byte_offset = 32 - shift - 3
           in if byte_offset < 32 then
                let t0 = target[unat byte_offset := ucast (drop_bit 16 mantissa)];
                    t1 = (if byte_offset + 1 < 32
                          then t0[unat (byte_offset + 1) := ucast (drop_bit 8 mantissa)] else t0)
                in (if byte_offset + 2 < 32
                    then t1[unat (byte_offset + 2) := ucast mantissa] else t1)
              else target)"

definition diff1_target :: bytes where
  "diff1_target = nbits_to_target DIFF1_NBITS"

text \<open>The loop of \<open>div_target_by_difficulty\<close>: schoolbook division, one byte per round.\<close>

fun div_loop :: "u64 \<Rightarrow> u64 \<Rightarrow> bytes \<Rightarrow> bytes" where
  "div_loop divisor remainder [] = []"
| "div_loop divisor remainder (b # bs) =
     (let v = push_bit 8 remainder OR ucast b
      in ucast (v div divisor) # div_loop divisor (v mod divisor) bs)"

definition div_target_by_difficulty :: "bytes \<Rightarrow> u32 \<Rightarrow> bytes" where
  "div_target_by_difficulty target difficulty =
     (if difficulty \<le> 1 then target else div_loop (ucast difficulty) 0 target)"

fun leq_be :: "bytes \<Rightarrow> bytes \<Rightarrow> bool" where
  "leq_be (a # as) (b # bs) = (if a < b then True else if b < a then False else leq_be as bs)"
| "leq_be _ _ = True"

section \<open>Comparison\<close>

lemma leq_be_iff: "length as = length bs \<Longrightarrow> leq_be as bs \<longleftrightarrow> be_nat as \<le> be_nat bs"
proof (induction as bs rule: list_induct2)
  case Nil
  show ?case by simp
next
  case (Cons a as b bs)
  let ?P = "256 ^ length bs :: nat"
  have la: "be_nat as < ?P" and lb: "be_nat bs < ?P"
    using be_nat_less [of as] be_nat_less [of bs] Cons.hyps by simp_all
  have less: "unat x * ?P + m < unat y * ?P + n" if "x < y" "m < ?P" for x y :: u8 and m n
  proof -
    from that have "Suc (unat x) \<le> unat y" by (simp add: word_less_nat_alt)
    then have "Suc (unat x) * ?P \<le> unat y * ?P" by (rule mult_le_mono1)
    with that(2) show ?thesis unfolding mult_Suc by linarith
  qed
  consider "a < b" | "b < a" | "a = b" by fastforce
  then show ?case
  proof cases
    case 1
    with less [OF 1 la, of "be_nat bs"] show ?thesis using Cons.hyps by (simp add: be_nat_Cons)
  next
    case 2
    with less [OF 2 lb, of "be_nat as"] show ?thesis using Cons.hyps by (simp add: be_nat_Cons)
  next
    case 3
    with Cons show ?thesis by (simp add: be_nat_Cons)
  qed
qed

section \<open>Division\<close>

lemma length_div_loop [simp]: "length (div_loop d r bs) = length bs"
  by (induction d r bs rule: div_loop.induct) (simp_all add: Let_def)

lemma length_div_target [simp, shape_simps]: "length (div_target_by_difficulty t d) = length t"
  by (simp add: div_target_by_difficulty_def)

lemma unat_push_bit:
  assumes "unat (w :: u64) * 2 ^ n < 2 ^ 64"
  shows "unat (push_bit n w) = unat w * 2 ^ n"
proof -
  have "unat (push_bit n w) = take_bit LENGTH(64) (push_bit n (unat w))"
    by (rule unsigned_push_bit_eq)
  also have "push_bit n (unat w) = unat w * 2 ^ n" by (rule push_bit_eq_mult)
  finally show ?thesis using assms by (simp add: take_bit_nat_eq_self)
qed

lemma unat_shift_byte:
  assumes "unat (r :: u64) < 2 ^ 32"
  shows "unat (push_bit 8 r OR ucast (b :: u8)) = unat r * 256 + unat b"
proof -
  have "push_bit 8 r AND ucast b = (0 :: u64)"
    by (rule bit_word_eqI) (auto simp: bit_simps dest: bit_imp_le_length)
  then have "push_bit 8 r OR ucast b = push_bit 8 r + ucast b"
    by (rule disjunctive_add_eq_or [symmetric])
  moreover have p: "unat (push_bit 8 r) = unat r * 256"
    using assms unat_push_bit [of r 8] by simp
  moreover have u: "unat (ucast b :: u64) = unat b"
    unfolding unsigned_ucast_eq
    by (rule take_bit_nat_eq_self) (rule less_trans [OF unat_byte_less], simp)
  moreover have "unat r * 256 + unat b < 2 ^ 64"
    using assms less_trans [OF unat_byte_less [of b], of "2 ^ 32"] by simp
  ultimately show ?thesis by (simp add: unat_word_ariths)
qed

lemma be_nat_div_loop:
  assumes "unat r < unat d" and "unat d < 2 ^ 32"
  shows "be_nat (div_loop d r bs) = (unat r * 256 ^ length bs + be_nat bs) div unat d"
  using assms
proof (induction bs arbitrary: r)
  case Nil
  then show ?case by simp
next
  case (Cons b bs)
  let ?v = "push_bit 8 r OR ucast b :: u64" and ?P = "256 ^ length bs :: nat"
  have v: "unat ?v = unat r * 256 + unat b"
    by (rule unat_shift_byte) (use Cons.prems in linarith)
  have "unat r * 256 + unat b < unat d * 256"
    using Cons.prems(1) unat_byte_less [of b] by linarith
  then have q: "unat ?v div unat d < 256"
    by (simp add: v less_mult_imp_div_less mult.commute)
  have byte: "unat (ucast (?v div d) :: u8) = unat ?v div unat d"
    using q by (simp add: unsigned_ucast_eq unat_div take_bit_eq_mod)
  have rem: "unat (?v mod d) = unat ?v mod unat d" by (simp add: unat_mod)
  have "unat (?v mod d) < unat d" unfolding rem using Cons.prems(1) by simp
  then have "be_nat (div_loop d r (b # bs))
      = unat ?v div unat d * ?P + (unat ?v mod unat d * ?P + be_nat bs) div unat d"
    using Cons.IH [of "?v mod d"] Cons.prems(2) byte rem by (simp add: be_nat_Cons Let_def)
  also have "\<dots> = (unat ?v div unat d * ?P * unat d + (unat ?v mod unat d * ?P + be_nat bs)) div unat d"
    using Cons.prems(1) by simp
  also have "unat ?v div unat d * ?P * unat d + (unat ?v mod unat d * ?P + be_nat bs)
      = (unat ?v div unat d * unat d + unat ?v mod unat d) * ?P + be_nat bs"
    by (simp only: distrib_right mult.assoc mult.commute [of ?P "unat d"] add.assoc)
  also have "\<dots> = unat r * 256 ^ length (b # bs) + be_nat (b # bs)"
    unfolding div_mult_mod_eq v by (simp add: be_nat_Cons algebra_simps)
  finally show ?case .
qed

lemma be_nat_div_target:
  "be_nat (div_target_by_difficulty target difficulty) = be_nat target div max 1 (unat difficulty)"
proof (cases "difficulty \<le> 1")
  case True
  then have "unat difficulty \<le> 1" by (simp add: word_le_nat_alt)
  then have "max 1 (unat difficulty) = 1" by simp
  with True show ?thesis by (simp add: div_target_by_difficulty_def)
next
  case False
  then have "1 < unat difficulty" by (simp add: word_le_nat_alt)
  moreover have d: "unat difficulty < 2 ^ 32"
    using unsigned_less [of difficulty, where ?'a = nat] by simp
  moreover have "unat (ucast difficulty :: u64) = unat difficulty"
    unfolding unsigned_ucast_eq by (rule take_bit_nat_eq_self) (use d in simp)
  ultimately show ?thesis
    using False be_nat_div_loop [of 0 "ucast difficulty" target]
    by (simp add: div_target_by_difficulty_def)
qed


text \<open>
  Property C34. Dividing a target by a difficulty is exact integer division of the 256-bit
  number, for every difficulty (0 counts as 1); the intermediate 64-bit values never
  overflow and no quotient digit is truncated.
\<close>

theorem div_target_exact:
  "be_nat (div_target_by_difficulty target difficulty) = be_nat target div max 1 (unat difficulty)
   \<and> length (div_target_by_difficulty target difficulty) = length target"
  by (simp add: be_nat_div_target)

section \<open>Compact targets\<close>

text \<open>The value of the mantissa and exponent bytes.\<close>

definition compact_exponent :: "u32 \<Rightarrow> nat" where
  "compact_exponent nbits = unat nbits div 2 ^ 24"

definition compact_mantissa :: "u32 \<Rightarrow> nat" where
  "compact_mantissa nbits = unat nbits mod 2 ^ 24"

lemma unat_nbits_exponent: "unat (nbits_exponent nbits) = compact_exponent nbits"
proof -
  have "unat (drop_bit 24 nbits) = drop_bit 24 (unat nbits)" by (rule unat_drop_bit_eq)
  moreover have "unat nbits div 2 ^ 24 < 2 ^ 64"
    using unsigned_less [of nbits, where ?'a = nat] by simp
  ultimately show ?thesis
    by (simp add: nbits_exponent_def compact_exponent_def unsigned_ucast_eq drop_bit_eq_div
        take_bit_nat_eq_self)
qed

lemma compact_exponent_less: "compact_exponent nbits < 256"
  using unsigned_less [of nbits, where ?'a = nat] by (simp add: compact_exponent_def less_mult_imp_div_less)

lemma unat_nbits_mantissa: "unat (nbits_mantissa nbits) = compact_mantissa nbits"
proof -
  have "nbits_mantissa nbits = take_bit 24 nbits"
    by (simp add: nbits_mantissa_def take_bit_eq_mask mask_eq_exp_minus_1)
  then have "unat (nbits_mantissa nbits) = take_bit 24 (unat nbits)"
    by (simp only: unsigned_take_bit_eq)
  then show ?thesis by (simp only: compact_mantissa_def take_bit_eq_mod)
qed

lemma mantissa_bytes:
  "be_nat [ucast (drop_bit 16 m), ucast (drop_bit 8 m), ucast (m :: u32)] = unat m mod 2 ^ 24"
proof -
  have "rev (le_bytes 3 m) = [ucast (drop_bit 16 m), ucast (drop_bit 8 m), ucast m]"
    by (simp add: le_bytes_def numeral_3_eq_3)
  then show ?thesis using be_nat_rev_le_bytes [of 3 m] by simp
qed

lemma word64_bytes:
  "be_nat [ucast (drop_bit 24 v), ucast (drop_bit 16 v), ucast (drop_bit 8 v), ucast (v :: u64)]
   = unat v mod 2 ^ 32"
proof -
  have "rev (le_bytes 4 v)
      = [ucast (drop_bit 24 v), ucast (drop_bit 16 v), ucast (drop_bit 8 v), ucast v]"
    by (simp add: le_bytes_def eval_nat_numeral)
  then show ?thesis using be_nat_rev_le_bytes [of 4 v] by simp
qed

lemma replicate_update3:
  "k + 3 \<le> n \<Longrightarrow> (replicate n z)[k := a, k + 1 := b, k + 2 := c]
     = replicate k z @ [a, b, c] @ replicate (n - k - 3) z"
proof (rule nth_equalityI)
  fix i assume "k + 3 \<le> n" and "i < length ((replicate n z)[k := a, k + 1 := b, k + 2 := c])"
  then show "(replicate n z)[k := a, k + 1 := b, k + 2 := c] ! i
      = (replicate k z @ [a, b, c] @ replicate (n - k - 3) z) ! i"
    by (auto simp: nth_list_update nth_append nth_Cons split: nat.splits)
qed simp

lemma replicate_update4:
  "(replicate 32 z)[28 := a, 29 := b, 30 := c, 31 := d] = replicate 28 z @ [a, b, c, d]"
  by (simp add: numeral_eq_Suc)

lemma length_nbits_to_target [simp, shape_simps]: "length (nbits_to_target nbits) = 32"
  by (simp add: nbits_to_target_def Let_def)

lemma nbits_to_target_small:
  assumes "compact_exponent nbits \<le> 3"
  shows "be_nat (nbits_to_target nbits)
       = compact_mantissa nbits * 256 ^ (3 - compact_exponent nbits) mod 2 ^ 32"
proof -
  let ?e = "compact_exponent nbits" and ?m = "compact_mantissa nbits"
  let ?v = "push_bit (unat (8 * (3 - nbits_exponent nbits))) (ucast (nbits_mantissa nbits) :: u64)"
  have le: "nbits_exponent nbits \<le> 3" using assms by (simp add: word_le_nat_alt unat_nbits_exponent)
  have m: "?m < 2 ^ 24" by (simp add: compact_mantissa_def)
  have um: "unat (ucast (nbits_mantissa nbits) :: u64) = ?m"
    using m by (simp add: unsigned_ucast_eq unat_nbits_mantissa take_bit_nat_eq_self)
  have d: "unat (3 - nbits_exponent nbits) = 3 - ?e"
    using le by (simp add: unat_sub unat_nbits_exponent)
  have s: "unat (8 * (3 - nbits_exponent nbits)) = 8 * (3 - ?e)"
    unfolding unat_word_ariths(2) [of 8 "3 - nbits_exponent nbits"] d by simp
  have "(2::nat) ^ (8 * (3 - ?e)) \<le> 2 ^ 24" by (intro power_increasing) simp_all
  with m have "?m * 2 ^ (8 * (3 - ?e)) < 2 ^ 24 * 2 ^ 24"
    by (intro mult_less_le_imp_less) simp_all
  then have v: "unat ?v = ?m * 256 ^ (3 - ?e)"
    unfolding s using unat_push_bit [of "ucast (nbits_mantissa nbits)" "8 * (3 - ?e)"]
    by (simp add: um power_mult)
  have "nbits_to_target nbits = replicate 28 0
      @ [ucast (drop_bit 24 ?v), ucast (drop_bit 16 ?v), ucast (drop_bit 8 ?v), ucast ?v]"
    unfolding nbits_to_target_def Let_def using le by (simp only: if_True replicate_update4)
  then show ?thesis using word64_bytes [of ?v] v by (simp only: be_nat_append be_nat_replicate_0 mult_zero_left add_0)
qed


lemma nbits_to_target_normal:
  assumes "3 < compact_exponent nbits" and "compact_exponent nbits \<le> 32"
  shows "be_nat (nbits_to_target nbits)
       = compact_mantissa nbits * 256 ^ (compact_exponent nbits - 3)"
proof -
  let ?e = "compact_exponent nbits" and ?m = "nbits_mantissa nbits"
  let ?off = "32 - (nbits_exponent nbits - 3) - 3 :: u64"
  have gt: "\<not> nbits_exponent nbits \<le> 3"
    using assms(1) by (simp add: word_le_nat_alt unat_nbits_exponent)
  have "?off = 32 - nbits_exponent nbits" by simp
  moreover have "unat (32 - nbits_exponent nbits) = 32 - ?e"
    using assms(2) by (subst unat_sub) (simp_all add: word_le_nat_alt unat_nbits_exponent)
  ultimately have off: "unat ?off = 32 - ?e" by simp
  have off1: "unat (?off + 1) = (32 - ?e) + 1" and off2: "unat (?off + 2) = (32 - ?e) + 2"
    unfolding unat_word_ariths(1) off using assms by simp_all
  have lt: "?off < 32" "?off + 1 < 32" "?off + 2 < 32"
    unfolding word_less_nat_alt off off1 off2 using assms by simp_all
  have "nbits_to_target nbits = (replicate 32 0)
      [32 - ?e := ucast (drop_bit 16 ?m), (32 - ?e) + 1 := ucast (drop_bit 8 ?m), (32 - ?e) + 2 := ucast ?m]"
    unfolding nbits_to_target_def Let_def using gt lt by (simp only: if_True if_False off off1 off2)
  also have "\<dots> = replicate (32 - ?e) 0
      @ [ucast (drop_bit 16 ?m), ucast (drop_bit 8 ?m), ucast ?m] @ replicate (?e - 3) 0"
    using assms by (subst replicate_update3) simp_all
  finally show ?thesis
    using mantissa_bytes [of ?m]
    by (simp only: be_nat_append be_nat_replicate_0 length_replicate unat_nbits_mantissa)
      (simp add: compact_mantissa_def)
qed

lemma nbits_to_target_huge:
  assumes "32 < compact_exponent nbits"
  shows "nbits_to_target nbits = replicate 32 0"
proof -
  let ?e = "compact_exponent nbits"
  let ?off = "32 - (nbits_exponent nbits - 3) - 3 :: u64"
  have gt: "\<not> nbits_exponent nbits \<le> 3"
    using assms by (simp add: word_le_nat_alt unat_nbits_exponent)
  let ?x = "nbits_exponent nbits - 32"
  have x: "unat ?x = ?e - 32"
    using assms by (subst unat_sub) (simp_all add: word_le_nat_alt unat_nbits_exponent)
  have "\<not> ?off < 32"
  proof
    assume "?off < 32"
    then have "unat ?off < 32" by (simp add: word_less_nat_alt)
    then have "unat ?off + unat ?x < 2 ^ LENGTH(64)"
      using x compact_exponent_less [of nbits] by simp
    then have "unat (?off + ?x) = unat ?off + unat ?x" by (simp only: unat_add_lem)
    moreover have "?off + ?x = 0" by simp
    ultimately show False using x assms by simp
  qed
  then show ?thesis unfolding nbits_to_target_def Let_def using gt by (simp only: if_False)
qed

lemma be_nat_nbits_to_target:
  "be_nat (nbits_to_target nbits) =
     (if compact_exponent nbits \<le> 3
      then compact_mantissa nbits * 256 ^ (3 - compact_exponent nbits) mod 2 ^ 32
      else if compact_exponent nbits \<le> 32
      then compact_mantissa nbits * 256 ^ (compact_exponent nbits - 3)
      else 0)"
proof -
  consider "compact_exponent nbits \<le> 3" | "3 < compact_exponent nbits" "compact_exponent nbits \<le> 32"
    | "32 < compact_exponent nbits" by linarith
  then show ?thesis
    by cases (simp_all add: nbits_to_target_small nbits_to_target_normal nbits_to_target_huge)
qed

text \<open>
  Property C35. The block target that \<open>nbits_to_target\<close> computes, for every 32-bit
  compact value, as a 256-bit number: mantissa times 256 to the (exponent - 3) for exponents
  4 to 32; for smaller exponents the mantissa shifted left and cut to 32 bits; and, because
  the offset wraps in a release build, zero above 32.
\<close>

theorem nbits_to_target_value:
  "length (nbits_to_target nbits) = 32 \<and>
   be_nat (nbits_to_target nbits) =
     (if compact_exponent nbits \<le> 3
      then compact_mantissa nbits * 256 ^ (3 - compact_exponent nbits) mod 2 ^ 32
      else if compact_exponent nbits \<le> 32
      then compact_mantissa nbits * 256 ^ (compact_exponent nbits - 3)
      else 0)"
  by (simp add: be_nat_nbits_to_target)

text \<open>
  The comment on \<open>nbits_to_target\<close> gives the target as mantissa times 256 to
  the (exponent - 3). Below exponent 3 that scales the mantissa down, but the code shifts it
  up: the compact value 0x01003456 stands for 0, the code's target is 0x34560000.
\<close>

lemma nbits_small_exponent_shifts_up:
  "compact_exponent 0x01003456 = 1 \<and> compact_mantissa 0x01003456 = 0x3456
   \<and> 0x3456 div 256 ^ (3 - 1) = (0 :: nat)
   \<and> be_nat (nbits_to_target 0x01003456) = 0x34560000"
  by (simp add: be_nat_nbits_to_target compact_exponent_def compact_mantissa_def)

lemma diff1_target_value: "be_nat diff1_target = 0xffff * 256 ^ 26"
  by (simp add: diff1_target_def DIFF1_NBITS_def be_nat_nbits_to_target compact_exponent_def
      compact_mantissa_def)

lemma length_diff1_target [simp, shape_simps]: "length diff1_target = 32"
  by (simp add: diff1_target_def)

end
