(* ===== verification/Share_Validator.thy ===== *)
theory Share_Validator
  imports Target_Arith
begin

text \<open>
  \<open>coin_azcoin/src/share_validator.rs\<close>: rebuild the coinbase, the merkle root and the
  80-byte header a miner solved, hash it, and compare the hash with the block target and
  with the pool's share target. The hash function is the crate parameter \<open>sha\<close>; the trace
  also carries hex renderings, so the definitions take the \<open>hex\<close> crate.

  The locale \<open>share_validator\<close> is the trait \<open>pool_core::ShareValidator\<close> as its client,
  the share processor, relies on it.
\<close>

section \<open>Reconstruction\<close>

definition double_sha256 :: "hasher \<Rightarrow> bytes \<Rightarrow> bytes" where
  "double_sha256 sha data = (let first = sha data; second = sha first in second)"

definition build_coinbase :: "job \<Rightarrow> share_submission \<Rightarrow> bytes \<Rightarrow> bytes" where
  "build_coinbase job share extranonce1 =
     coinbase_part1 job @ extranonce1 @ extra_nonce2 share @ coinbase_part2 job"

fun apply_merkle_branch :: "hasher \<Rightarrow> bytes \<Rightarrow> bytes list \<Rightarrow> bytes" where
  "apply_merkle_branch sha root [] = root"
| "apply_merkle_branch sha root (b # bs) = apply_merkle_branch sha (double_sha256 sha (root @ b)) bs"

definition resolved_version :: "u32 \<Rightarrow> share_submission \<Rightarrow> string + u32" where
  "resolved_version version share =
     (case validation_context share of
        None \<Rightarrow> Inr version
      | Some ctx \<Rightarrow>
          (case ctx_version_bits ctx of
             None \<Rightarrow> Inr version
           | Some version_bits \<Rightarrow>
               (case ctx_version_rolling_mask ctx of
                  None \<Rightarrow> Inl ''version rolling not negotiated''
                | Some rolling_mask \<Rightarrow>
                    if version_bits AND NOT rolling_mask \<noteq> 0
                    then Inl (''version_bits '' @ fmt_08x version_bits
                              @ '' outside negotiated mask '' @ fmt_08x rolling_mask)
                    else Inr ((version AND NOT rolling_mask) OR (version_bits AND rolling_mask)))))"

definition build_block_header :: "u32 \<Rightarrow> bytes \<Rightarrow> bytes \<Rightarrow> u32 \<Rightarrow> u32 \<Rightarrow> u32 \<Rightarrow> bytes" where
  "build_block_header version prev_hash merkle_root ntime nbits nonce =
     to_le_bytes32 version @ prev_hash @ merkle_root
     @ to_le_bytes32 ntime @ to_le_bytes32 nbits @ to_le_bytes32 nonce"

record share_validation_trace =
  tr_merged_version :: u32
  tr_version_bits_hex :: "string option"
  tr_version_rolling_mask_hex :: "string option"
  tr_merkle_branch_hex :: "string list"
  tr_coinbase_hash :: bytes
  tr_validator_merkle_root :: bytes
  tr_branch_merkle_root_hex :: "string option"
  tr_header :: bytes
  tr_hash :: bytes
  tr_block_target :: bytes
  tr_share_target :: bytes

definition build_share_validation_trace ::
  "hex_crate \<Rightarrow> hasher \<Rightarrow> job \<Rightarrow> share_submission \<Rightarrow> bytes \<Rightarrow> u32 \<Rightarrow> string + share_validation_trace" where
  "build_share_validation_trace hx sha job share extranonce1 pool_difficulty =
     (let coinbase = build_coinbase job share extranonce1;
          coinbase_hash = double_sha256 sha coinbase;
          validator_merkle_root = apply_merkle_branch sha coinbase_hash (merkle_branch job);
          branch_merkle_root = (if merkle_branch job \<noteq> [] then Some validator_merkle_root else None)
      in and_then (resolved_version (job_version job) share) (\<lambda>merged_version.
         let header = build_block_header merged_version (job_prev_hash job) validator_merkle_root
                        (share_ntime share) (job_nbits job) (share_nonce share);
             hash = rev (double_sha256 sha header);
             block_target = nbits_to_target (job_nbits job);
             share_target = div_target_by_difficulty diff1_target (max pool_difficulty 1)
         in Inr \<lparr> tr_merged_version = merged_version,
                  tr_version_bits_hex =
                    map_option fmt_08x (Option.bind (validation_context share) ctx_version_bits),
                  tr_version_rolling_mask_hex =
                    map_option fmt_08x (Option.bind (validation_context share) ctx_version_rolling_mask),
                  tr_merkle_branch_hex = map (hex_encode hx) (merkle_branch job),
                  tr_coinbase_hash = coinbase_hash,
                  tr_validator_merkle_root = validator_merkle_root,
                  tr_branch_merkle_root_hex = map_option (hex_encode hx) branch_merkle_root,
                  tr_header = header, tr_hash = hash,
                  tr_block_target = block_target, tr_share_target = share_target \<rparr>))"

definition build_solved_block_header ::
  "hex_crate \<Rightarrow> hasher \<Rightarrow> job \<Rightarrow> share_submission \<Rightarrow> bytes \<Rightarrow> string + bytes" where
  "build_solved_block_header hx sha job share extranonce1 =
     (case build_share_validation_trace hx sha job share extranonce1 1 of
        Inl e \<Rightarrow> Inl e | Inr t \<Rightarrow> Inr (tr_header t))"

section \<open>The validator\<close>

record azcoin_share_validator =
  av_pool_difficulty :: u32

definition SHARE_VALIDATOR_DEFAULT_DIFFICULTY :: u32 where
  "SHARE_VALIDATOR_DEFAULT_DIFFICULTY = 4"

definition azcoin_share_validator_new :: azcoin_share_validator where
  "azcoin_share_validator_new = \<lparr> av_pool_difficulty = SHARE_VALIDATOR_DEFAULT_DIFFICULTY \<rparr>"

definition azcoin_with_pool_difficulty :: "u32 \<Rightarrow> azcoin_share_validator" where
  "azcoin_with_pool_difficulty d = \<lparr> av_pool_difficulty = d \<rparr>"

definition low_difficulty_reason :: "u32 \<Rightarrow> string" where
  "low_difficulty_reason diff =
     ''hash above pool target (pool difficulty '' @ dec_string (unat diff) @ '')''"

definition validate_share ::
  "hex_crate \<Rightarrow> hasher \<Rightarrow> azcoin_share_validator \<Rightarrow> job \<Rightarrow> share_submission \<Rightarrow> bytes \<Rightarrow> u32 \<Rightarrow> share_result" where
  "validate_share hx sha self job share extranonce1 pool_difficulty =
     (let diff = max pool_difficulty 1
      in case build_share_validation_trace hx sha job share extranonce1 diff of
           Inl reason \<Rightarrow> Rejected reason
         | Inr trace \<Rightarrow>
             let meets_block_target = leq_be (tr_hash trace) (tr_block_target trace);
                 meets_share_target = leq_be (tr_hash trace) (tr_share_target trace)
             in if meets_block_target then Block
                else if meets_share_target then Accepted
                else LowDifficulty (low_difficulty_reason diff))"

definition accept_all_validate_share ::
  "job \<Rightarrow> share_submission \<Rightarrow> bytes \<Rightarrow> u32 \<Rightarrow> share_result" where
  "accept_all_validate_share job share extranonce1 pool_difficulty = Accepted"

section \<open>The interface\<close>

text \<open>
  What the share processor relies on: a validator is only asked about a known job, so it
  never answers \<open>UnknownJob\<close>; a result with a reason is a rejection.
\<close>

locale share_validator =
  fixes validate :: "job \<Rightarrow> share_submission \<Rightarrow> bytes \<Rightarrow> u32 \<Rightarrow> share_result"
  assumes never_unknown: "validate j s e d \<noteq> UnknownJob r"
begin

lemma verdict_cases:
  obtains "is_accepted (validate j s e d)"
  | r where "validate j s e d = LowDifficulty r" | r where "validate j s e d = Malformed r"
  | r where "validate j s e d = Rejected r"
  using never_unknown [of j s e d] by (cases "validate j s e d") auto

end

interpretation azcoin: share_validator "validate_share hx sha v" for hx sha v
  by unfold_locales (simp add: validate_share_def Let_def split: sum.split)

interpretation accept_all: share_validator accept_all_validate_share
  by unfold_locales (simp add: accept_all_validate_share_def)

section \<open>Lemmas\<close>

lemma length_double_sha256 [simp, shape_simps]:
  "sha256_documented sha \<Longrightarrow> length (double_sha256 sha m) = 32"
  by (simp add: double_sha256_def)

lemma apply_merkle_branch_foldl:
  "apply_merkle_branch sha root bs = foldl (\<lambda>r b. double_sha256 sha (r @ b)) root bs"
  by (induction bs arbitrary: root) simp_all

lemma length_apply_merkle_branch:
  "sha256_documented sha \<Longrightarrow> length root = 32 \<Longrightarrow> length (apply_merkle_branch sha root bs) = 32"
  by (induction bs arbitrary: root) simp_all

text \<open>The merkle root the validator puts into the header.\<close>

definition share_merkle_root :: "hasher \<Rightarrow> job \<Rightarrow> share_submission \<Rightarrow> bytes \<Rightarrow> bytes" where
  "share_merkle_root sha job share e =
     apply_merkle_branch sha (double_sha256 sha (build_coinbase job share e)) (merkle_branch job)"

definition share_header :: "hasher \<Rightarrow> u32 \<Rightarrow> job \<Rightarrow> share_submission \<Rightarrow> bytes \<Rightarrow> bytes" where
  "share_header sha version job share e =
     build_block_header version (job_prev_hash job) (share_merkle_root sha job share e)
       (share_ntime share) (job_nbits job) (share_nonce share)"

lemma trace_cases:
  "build_share_validation_trace hx sha job share e d =
     (case resolved_version (job_version job) share of
        Inl r \<Rightarrow> Inl r
      | Inr v \<Rightarrow> Inr \<lparr> tr_merged_version = v,
                  tr_version_bits_hex =
                    map_option fmt_08x (Option.bind (validation_context share) ctx_version_bits),
                  tr_version_rolling_mask_hex =
                    map_option fmt_08x (Option.bind (validation_context share) ctx_version_rolling_mask),
                  tr_merkle_branch_hex = map (hex_encode hx) (merkle_branch job),
                  tr_coinbase_hash = double_sha256 sha (build_coinbase job share e),
                  tr_validator_merkle_root = share_merkle_root sha job share e,
                  tr_branch_merkle_root_hex = map_option (hex_encode hx)
                    (if merkle_branch job \<noteq> [] then Some (share_merkle_root sha job share e) else None),
                  tr_header = share_header sha v job share e,
                  tr_hash = rev (double_sha256 sha (share_header sha v job share e)),
                  tr_block_target = nbits_to_target (job_nbits job),
                  tr_share_target = div_target_by_difficulty diff1_target (max d 1) \<rparr>)"
  unfolding build_share_validation_trace_def Let_def share_header_def share_merkle_root_def
    and_then_def ..

lemma solved_header_cases:
  "build_solved_block_header hx sha job share e =
     (case resolved_version (job_version job) share of
        Inl r \<Rightarrow> Inl r | Inr v \<Rightarrow> Inr (share_header sha v job share e))"
  by (simp add: build_solved_block_header_def trace_cases split: sum.split)

lemma length_build_block_header:
  "length p = 32 \<Longrightarrow> length m = 32 \<Longrightarrow> length (build_block_header v p m t b n) = 80"
  by (simp add: build_block_header_def)

lemma length_share_header:
  "sha256_documented sha \<Longrightarrow> job_ok job \<Longrightarrow> length (share_header sha v job share e) = 80"
  by (simp add: share_header_def share_merkle_root_def length_build_block_header
      length_apply_merkle_branch job_ok_def)

lemma header_merkle_root:
  assumes "sha256_documented sha" and "job_ok job"
    and "build_solved_block_header hx sha job share e = Inr header"
  shows "take 32 (drop 36 header) = share_merkle_root sha job share e"
proof -
  have "length (share_merkle_root sha job share e) = 32"
    by (simp add: share_merkle_root_def length_apply_merkle_branch assms(1))
  then show ?thesis using assms
    by (auto simp: solved_header_cases share_header_def build_block_header_def job_ok_def
        split: sum.splits)
qed

lemma unat_max1: "max 1 (unat (max d (1 :: u32))) = max 1 (unat d)"
proof (cases "d \<le> 1")
  case True
  then have "unat d \<le> 1" by (simp add: word_le_nat_alt)
  with True show ?thesis by (simp add: max_def)
next
  case False
  then show ?thesis by (simp add: max_def)
qed

lemma share_target_value:
  "be_nat (div_target_by_difficulty diff1_target (max d 1)) = 0xffff * 256 ^ 26 div max 1 (unat d)"
  using be_nat_div_target [of diff1_target "max d 1"] by (simp only: unat_max1 diff1_target_value)

lemma validate_share_cases:
  assumes "sha256_documented sha"
  shows "validate_share hx sha self job share e d =
     (case resolved_version (job_version job) share of
        Inl r \<Rightarrow> Rejected r
      | Inr v \<Rightarrow>
          let h = le_nat (double_sha256 sha (share_header sha v job share e))
          in if h \<le> be_nat (nbits_to_target (job_nbits job)) then Block
             else if h \<le> 0xffff * 256 ^ 26 div max 1 (unat d) then Accepted
             else LowDifficulty (low_difficulty_reason (max d 1)))"
proof -
  have "max (max d 1) 1 = max d (1 :: u32)" by simp
  then show ?thesis using assms
    by (simp add: validate_share_def trace_cases leq_be_iff share_target_value le_nat_def Let_def
        split: sum.split)
qed


section \<open>Properties\<close>

lemma merged_version_bits:
  assumes "b AND NOT m = (0 :: u32)"
  shows "((v AND NOT m) OR (b AND m)) AND m = b"
    and "((v AND NOT m) OR (b AND m)) AND NOT m = v AND NOT m"
proof -
  have b: "bit b n \<Longrightarrow> bit m n" if "n < 32" for n
    using assms that by (auto simp: bit_eq_iff bit_simps)
  show "((v AND NOT m) OR (b AND m)) AND m = b"
    by (rule bit_word_eqI) (use b in \<open>auto simp: bit_simps\<close>)
  show "((v AND NOT m) OR (b AND m)) AND NOT m = v AND NOT m"
    by (rule bit_word_eqI) (auto simp: bit_simps)
qed

text \<open>
  Property C5. The verdict on a share is decided by one number, the little-endian value of
  the double SHA-256 of the rebuilt header: \<open>Block\<close> when it is at most the target of the
  job's compact bits, otherwise \<open>Accepted\<close> when it is at most the difficulty-1 target
  divided by the pool difficulty (0 counts as 1), otherwise \<open>LowDifficulty\<close>; bad
  version bits are \<open>Rejected\<close> before any hash is compared.
\<close>

theorem validate_share_verdict:
  assumes "sha256_documented sha"
  shows "validate_share hx sha self job share e d =
     (case resolved_version (job_version job) share of
        Inl r \<Rightarrow> Rejected r
      | Inr v \<Rightarrow>
          let h = le_nat (double_sha256 sha (share_header sha v job share e))
          in if h \<le> be_nat (nbits_to_target (job_nbits job)) then Block
             else if h \<le> 0xffff * 256 ^ 26 div max 1 (unat d) then Accepted
             else LowDifficulty (low_difficulty_reason (max d 1)))"
  by (rule validate_share_cases [OF assms])

text \<open>A concrete share for the witnesses of this development.\<close>

definition sample_share :: share_submission where
  "sample_share =
     \<lparr> share_job_id = ''0'', share_worker = worker_identity_new ''u.w'',
       extra_nonce2 = [0, 0, 0, 0], share_ntime = 0, share_nonce = 0,
       validation_context = None \<rparr>"

theorem validate_share_verdict_witness:
  "let sha = (\<lambda>m. replicate 32 0xff)
   in validate_share sample_hex sha azcoin_share_validator_new job_placeholder sample_share [0, 0, 0, 0] 8
      = LowDifficulty (low_difficulty_reason 8)"
proof -
  let ?sha = "\<lambda>m. replicate 32 0xff :: bytes"
  have sha: "sha256_documented ?sha" by (simp add: sha256_documented_def)
  have h: "le_nat (double_sha256 ?sha m) = 256 ^ 32 - 1" for m
    using be_nat_replicate_ff [of 32] by (simp add: double_sha256_def le_nat_def)
  have t: "be_nat (nbits_to_target (job_nbits job_placeholder)) = 0xffff * 256 ^ 26"
    using diff1_target_value by (simp add: diff1_target_def job_placeholder_def DIFF1_NBITS_def)
  show ?thesis
    unfolding Let_def validate_share_verdict [OF sha] h t
    by (simp add: resolved_version_def sample_share_def max_def word_le_nat_alt)
qed

text \<open>
  Share difficulty is monotone: a share accepted at some pool difficulty is
  accepted (with the same verdict) at every lower difficulty.
\<close>

lemma share_accepted_at_lower_difficulty:
  assumes sha: "sha256_documented sha"
    and acc: "is_accepted (validate_share hx sha self job share e d)"
    and le: "d' \<le> d"
  shows "validate_share hx sha self job share e d' = validate_share hx sha self job share e d"
proof -
  have "max 1 (unat d') \<le> max 1 (unat d)" using le by (simp add: word_le_nat_alt)
  then have "(0xffff * 256 ^ 26 :: nat) div max 1 (unat d) \<le> 0xffff * 256 ^ 26 div max 1 (unat d')"
    by (rule div_le_mono2 [rotated]) simp
  then show ?thesis
    using acc by (auto simp: validate_share_cases [OF sha] Let_def split: sum.splits if_splits)
qed

text \<open>
  Property C19. The header handed to block submission is the one that was validated: when the
  verdict is \<open>Block\<close> the reconstruction succeeds, gives 80 bytes in the field order
  version, previous hash, merkle root, time, bits, nonce, and their double SHA-256 is at
  most the network target.
\<close>

theorem solved_header_is_validated_header:
  assumes sha: "sha256_documented sha" and job: "job_ok job"
    and block: "validate_share hx sha self job share e d = Block"
  shows "\<exists>header v. build_solved_block_header hx sha job share e = Inr header
      \<and> resolved_version (job_version job) share = Inr v
      \<and> length header = 80
      \<and> header = to_le_bytes32 v @ job_prev_hash job @ share_merkle_root sha job share e
           @ to_le_bytes32 (share_ntime share) @ to_le_bytes32 (job_nbits job)
           @ to_le_bytes32 (share_nonce share)
      \<and> le_nat (double_sha256 sha header) \<le> be_nat (nbits_to_target (job_nbits job))"
proof -
  from block obtain v where v: "resolved_version (job_version job) share = Inr v"
    and le: "le_nat (double_sha256 sha (share_header sha v job share e))
        \<le> be_nat (nbits_to_target (job_nbits job))"
    by (auto simp: validate_share_cases [OF sha] Let_def split: sum.splits if_splits)
  from v have "build_solved_block_header hx sha job share e = Inr (share_header sha v job share e)"
    by (simp add: solved_header_cases)
  with v le length_share_header [OF sha job, of v share e] show ?thesis
    by (auto simp: share_header_def build_block_header_def)
qed

theorem solved_header_is_validated_header_witness:
  "let sha = (\<lambda>m. replicate 32 0) in
   \<exists>header. build_solved_block_header sample_hex sha job_placeholder sample_share [0, 0, 0, 0] = Inr header
     \<and> length header = 80"
proof -
  let ?sha = "\<lambda>m. replicate 32 0 :: bytes"
  have sha: "sha256_documented ?sha" by (simp add: sha256_documented_def)
  have b: "validate_share sample_hex ?sha azcoin_share_validator_new job_placeholder sample_share
      [0, 0, 0, 0] 4 = Block"
    by (simp add: validate_share_cases [OF sha] resolved_version_def sample_share_def
        double_sha256_def le_nat_def)
  show ?thesis
    using solved_header_is_validated_header [OF sha job_placeholder_ok b] unfolding Let_def by blast
qed

text \<open>
  Property C29. Version rolling: when a share carries version bits and the session negotiated
  a mask, the header version is accepted exactly when all the bits lie inside the mask; the
  merged version then equals the miner's bits inside the mask and the job's version outside.
\<close>

theorem version_rolling_merge:
  assumes ctx: "validation_context share = Some ctx" "ctx_version_bits ctx = Some b"
    "ctx_version_rolling_mask ctx = Some m"
  shows "(b AND NOT m = 0 \<longleftrightarrow> is_ok (resolved_version version share))
     \<and> (\<forall>v. resolved_version version share = Inr v
            \<longrightarrow> v AND m = b \<and> v AND NOT m = version AND NOT m)"
proof (cases "b AND NOT m = 0")
  case True
  then have "resolved_version version share = Inr ((version AND NOT m) OR (b AND m))"
    using ctx by (simp add: resolved_version_def)
  with True merged_version_bits [OF True, of version] show ?thesis by simp
next
  case False
  then show ?thesis using ctx by (simp add: resolved_version_def)
qed

theorem version_rolling_merge_witness:
  "let ctx = \<lparr> ctx_expected_extra_nonce2_len = None, ctx_extranonce1_hex = None,
               ctx_version_rolling_mask = Some 0x1fffe000, ctx_version_bits = Some 0x00002000 \<rparr>;
       share = sample_share\<lparr> validation_context := Some ctx \<rparr>
   in is_ok (resolved_version 0x20000000 share)
      \<and> (\<forall>v. resolved_version 0x20000000 share = Inr v \<longrightarrow> v AND 0x1fffe000 = 0x00002000)"
proof -
  let ?ctx = "\<lparr> ctx_expected_extra_nonce2_len = None, ctx_extranonce1_hex = None,
      ctx_version_rolling_mask = Some 0x1fffe000, ctx_version_bits = Some 0x00002000 \<rparr>"
  have inside: "(0x00002000 :: u32) AND NOT 0x1fffe000 = 0" by simp
  show ?thesis
    using inside version_rolling_merge
      [of "sample_share\<lparr> validation_context := Some ?ctx \<rparr>" ?ctx "0x00002000" "0x1fffe000" "0x20000000"]
    unfolding Let_def by simp
qed

end
