(* ===== verification/Share_Processor.thy ===== *)
theory Share_Processor
  imports Job_Registry Share_Buffer Pool_State Share_Validator
begin

text \<open>
  The share processors and the service bundle of \<open>pool_core/src/services.rs\<close>.

  \<open>JobAwareShareProcessor\<close> is split into what never changes after construction (the
  record \<open>share_processor\<close>: validator, difficulty, sink) and the state it shares with the
  rest of the pool (the record \<open>share_state\<close>: job registry, recent shares, and the
  world \<open>'w\<close> the share sink writes to). A validator and a sink are trait objects, so
  they are function values here.

  The locale \<open>share_recorder\<close> is the trait \<open>pool_core::ShareProcessor\<close> as the API's
  recent-shares endpoint relies on it: one attempt is logged per processed share.
\<close>

type_synonym validator = "job \<Rightarrow> share_submission \<Rightarrow> bytes \<Rightarrow> u32 \<Rightarrow> share_result"
type_synonym 'w share_sink =
  "share_submission \<Rightarrow> share_result \<Rightarrow> u32 \<Rightarrow> 'w \<Rightarrow> (string + unit) \<times> 'w"

record 'w share_processor =
  sp_validator :: "validator option"
  sp_pool_difficulty :: u32
  sp_share_sink :: "'w share_sink option"

record 'w share_state =
  st_registry :: active_jobs
  st_recent :: recent_shares
  st_world :: 'w

definition DEFAULT_POOL_DIFFICULTY :: u32 where
  "DEFAULT_POOL_DIFFICULTY = 1"

section \<open>Construction\<close>

definition processor_new_with_share_sink :: "'w share_sink option \<Rightarrow> 'w share_processor" where
  "processor_new_with_share_sink sink =
     \<lparr> sp_validator = None, sp_pool_difficulty = DEFAULT_POOL_DIFFICULTY, sp_share_sink = sink \<rparr>"

definition processor_new :: "'w share_processor" where
  "processor_new = processor_new_with_share_sink None"

definition processor_with_validator_and_share_sink ::
  "validator \<Rightarrow> u32 \<Rightarrow> 'w share_sink option \<Rightarrow> 'w share_processor" where
  "processor_with_validator_and_share_sink v d sink =
     \<lparr> sp_validator = Some v, sp_pool_difficulty = d, sp_share_sink = sink \<rparr>"

definition processor_with_validator :: "validator \<Rightarrow> u32 \<Rightarrow> 'w share_processor" where
  "processor_with_validator v d = processor_with_validator_and_share_sink v d None"

section \<open>Processing a share\<close>

text \<open>Every exit of \<open>process_share\<close> records its result first; a failing sink is only logged.\<close>

definition record_share_result ::
  "'w share_processor \<Rightarrow> share_submission \<Rightarrow> share_result \<Rightarrow> 'w share_state \<Rightarrow> 'w share_state" where
  "record_share_result self share result st =
     (let st = st\<lparr> st_recent := record_attempt share result (st_recent st) \<rparr>
      in case sp_share_sink self of
           None \<Rightarrow> st
         | Some sink \<Rightarrow>
             (case sink share result (sp_pool_difficulty self) (st_world st) of
                (Inl error, w) \<Rightarrow> st\<lparr> st_world := w \<rparr>
              | (Inr u, w) \<Rightarrow> st\<lparr> st_world := w \<rparr>))"

definition finish ::
  "'w share_processor \<Rightarrow> share_submission \<Rightarrow> share_result \<Rightarrow> 'w share_state
     \<Rightarrow> share_result \<times> 'w share_state" where
  "finish self share result st = (result, record_share_result self share result st)"

definition extra_nonce2_reason :: "nat \<Rightarrow> nat \<Rightarrow> string" where
  "extra_nonce2_reason expected_len len =
     ''extra_nonce2 must be '' @ dec_string expected_len @ '' bytes, got '' @ dec_string len"

text \<open>The checks on the validation context, in the order of the code.\<close>

definition check_shape :: "share_submission \<Rightarrow> share_result option" where
  "check_shape share =
     (case validation_context share of
        None \<Rightarrow> None
      | Some ctx \<Rightarrow>
          if (case ctx_expected_extra_nonce2_len ctx of
                None \<Rightarrow> False
              | Some expected_len \<Rightarrow> length (extra_nonce2 share) \<noteq> expected_len)
          then Some (Rejected (extra_nonce2_reason
                       (the (ctx_expected_extra_nonce2_len ctx)) (length (extra_nonce2 share))))
          else case ctx_version_bits ctx of
                 None \<Rightarrow> None
               | Some version_bits \<Rightarrow>
                   (case ctx_version_rolling_mask ctx of
                      Some rolling_mask \<Rightarrow>
                        if version_bits AND NOT rolling_mask \<noteq> 0
                        then Some (Rejected (''version_bits '' @ fmt_08x version_bits
                               @ '' outside negotiated mask '' @ fmt_08x rolling_mask))
                        else None
                    | None \<Rightarrow> Some (Rejected ''version rolling not negotiated'')))"

definition session_extranonce1 :: "hex_crate \<Rightarrow> share_submission \<Rightarrow> string + bytes" where
  "session_extranonce1 hx share =
     (case validation_context share of
        Some ctx \<Rightarrow>
          (case ctx_extranonce1_hex ctx of
             Some h \<Rightarrow> hex_decode hx h
           | None \<Rightarrow> Inr (replicate 4 0))
      | None \<Rightarrow> Inr (replicate 4 0))"

definition process_share ::
  "hex_crate \<Rightarrow> 'w share_processor \<Rightarrow> share_submission \<Rightarrow> 'w share_state
     \<Rightarrow> share_result \<times> 'w share_state" where
  "process_share hx self share st =
     (case check_shape share of
        Some result \<Rightarrow> finish self share result st
      | None \<Rightarrow>
          (case get_job (share_job_id share) (st_registry st) of
             None \<Rightarrow> finish self share (UnknownJob (''unknown job_id '' @ share_job_id share)) st
           | Some job \<Rightarrow>
               (case sp_validator self of
                  Some validator \<Rightarrow>
                    (case session_extranonce1 hx share of
                       Inl e \<Rightarrow> finish self share (Malformed ''extranonce1 invalid hex'') st
                     | Inr extranonce1 \<Rightarrow>
                         finish self share
                           (validator job share extranonce1 (sp_pool_difficulty self)) st)
                | None \<Rightarrow> finish self share Accepted st)))"

definition stub_process_share :: "share_submission \<Rightarrow> recent_shares \<Rightarrow> share_result \<times> recent_shares" where
  "stub_process_share share recent_buffer =
     (let result = Rejected ''share validation not implemented''
      in (result, record_attempt share result recent_buffer))"

section \<open>The service bundle\<close>

text \<open>
  \<open>PoolServices\<close>: the registry and the buffer are shared between the bundle and the
  processor (\<open>Arc::clone\<close>), so the state they form is built once, by \<open>services_state\<close>.
\<close>

record ('j, 'w) pool_services =
  svc_worker_registry :: worker_registry
  svc_stats :: stats_snapshot
  svc_job_source :: "'j job_source"
  svc_job_registry :: active_jobs
  svc_share_processor :: "'w share_processor"
  svc_recent_shares :: recent_shares

definition services_new_inner ::
  "string \<Rightarrow> 'j job_source \<Rightarrow> validator option \<Rightarrow> u32 \<Rightarrow> 'w share_sink option
     \<Rightarrow> ('j, 'w) pool_services" where
  "services_new_inner pool_name job_source validator_opt pool_difficulty share_sink_opt =
     \<lparr> svc_worker_registry = workers_new, svc_stats = stats_new pool_name,
       svc_job_source = job_source, svc_job_registry = registry_new,
       svc_share_processor =
         (case validator_opt of
            Some validator \<Rightarrow>
              processor_with_validator_and_share_sink validator pool_difficulty share_sink_opt
          | None \<Rightarrow> processor_new_with_share_sink share_sink_opt),
       svc_recent_shares = recent_shares_new \<rparr>"

definition services_new :: "string \<Rightarrow> 'j job_source \<Rightarrow> ('j, 'w) pool_services" where
  "services_new pool_name job_source =
     services_new_inner pool_name job_source None DEFAULT_POOL_DIFFICULTY None"

definition services_new_with_validator_and_share_sink ::
  "string \<Rightarrow> 'j job_source \<Rightarrow> validator \<Rightarrow> u32 \<Rightarrow> 'w share_sink option \<Rightarrow> ('j, 'w) pool_services" where
  "services_new_with_validator_and_share_sink pool_name job_source v d sink =
     services_new_inner pool_name job_source (Some v) d sink"

definition services_new_with_validator ::
  "string \<Rightarrow> 'j job_source \<Rightarrow> validator \<Rightarrow> u32 \<Rightarrow> ('j, 'w) pool_services" where
  "services_new_with_validator pool_name job_source v d =
     services_new_with_validator_and_share_sink pool_name job_source v d None"

definition with_placeholder_job_source :: "string \<Rightarrow> (unit, 'w) pool_services" where
  "with_placeholder_job_source pool_name = services_new pool_name stub_current_job"

definition with_no_job_source :: "string \<Rightarrow> (unit, 'w) pool_services" where
  "with_no_job_source pool_name = services_new pool_name no_current_job"

definition services_state :: "('j, 'w) pool_services \<Rightarrow> 'w \<Rightarrow> 'w share_state" where
  "services_state s w =
     \<lparr> st_registry = svc_job_registry s, st_recent = svc_recent_shares s, st_world = w \<rparr>"

section \<open>Lemmas\<close>

lemma record_share_result_simps [simp]:
  "st_registry (record_share_result self share r st) = st_registry st"
  "st_recent (record_share_result self share r st) = record_attempt share r (st_recent st)"
  by (simp_all add: record_share_result_def Let_def split: option.split prod.split sum.split)

lemma finish_simps [simp]:
  "fst (finish self share r st) = r"
  "snd (finish self share r st) = record_share_result self share r st"
  by (simp_all add: finish_def)

text \<open>The verdict as a function, and the one effect.\<close>

definition share_verdict ::
  "hex_crate \<Rightarrow> 'w share_processor \<Rightarrow> share_submission \<Rightarrow> active_jobs \<Rightarrow> share_result" where
  "share_verdict hx self share reg =
     (case check_shape share of
        Some result \<Rightarrow> result
      | None \<Rightarrow>
          (case get_job (share_job_id share) reg of
             None \<Rightarrow> UnknownJob (''unknown job_id '' @ share_job_id share)
           | Some job \<Rightarrow>
               (case sp_validator self of
                  None \<Rightarrow> Accepted
                | Some validator \<Rightarrow>
                    (case session_extranonce1 hx share of
                       Inl e \<Rightarrow> Malformed ''extranonce1 invalid hex''
                     | Inr extranonce1 \<Rightarrow>
                         validator job share extranonce1 (sp_pool_difficulty self)))))"

lemma process_share_eq:
  "process_share hx self share st =
     finish self share (share_verdict hx self share (st_registry st)) st"
  by (simp add: process_share_def share_verdict_def split: option.split sum.split)

lemma check_shape_rejects: "check_shape share = Some r \<Longrightarrow> \<exists>reason. r = Rejected reason"
  by (auto simp: check_shape_def split: option.splits if_splits)

definition shape_ok :: "share_submission \<Rightarrow> bool" where
  "shape_ok share \<longleftrightarrow>
     (case validation_context share of
        None \<Rightarrow> True
      | Some ctx \<Rightarrow> ctx_expected_extra_nonce2_len ctx \<in> {None, Some (length (extra_nonce2 share))})"

lemma check_shape_None:
  "check_shape share = None \<longleftrightarrow> shape_ok share \<and> is_ok (resolved_version v share)"
  by (auto simp: check_shape_def shape_ok_def resolved_version_def split: option.splits)

section \<open>The interface\<close>

locale share_recorder =
  fixes process :: "share_submission \<Rightarrow> 's \<Rightarrow> share_result \<times> 's"
    and log :: "'s \<Rightarrow> recent_shares"
  assumes recorded: "log (snd (process share s)) = record_attempt share (fst (process share s)) (log s)"
begin

text \<open>The verdicts given over a run of submissions, and the state after it.\<close>

fun process_all :: "share_submission list \<Rightarrow> 's \<Rightarrow> share_result list \<times> 's" where
  "process_all [] s = ([], s)"
| "process_all (x # xs) s =
     (let (r, s1) = process x s; (rs, s2) = process_all xs s1 in (r # rs, s2))"

lemma length_verdicts [simp]: "length (fst (process_all xs s)) = length xs"
  by (induction xs arbitrary: s) (simp_all add: split_beta Let_def)

lemma log_run:
  "log (snd (process_all xs s))
   = fold (\<lambda>(x, r). record_attempt x r) (zip xs (fst (process_all xs s))) (log s)"
  by (induction xs arbitrary: s) (simp_all add: split_beta Let_def recorded)

lemma log_run_last:
  assumes "log s = recent_shares_new"
  shows "log (snd (process_all xs s))
       = last_n MAX_RECENT (map (\<lambda>(x, r). share_attempt_of x r) (zip xs (fst (process_all xs s))))"
  using recent_log.entries_run [of "zip xs (fst (process_all xs s))"]
  by (simp add: log_run assms recent_def)

end

interpretation job_aware: share_recorder "process_share hx self" st_recent for hx self
  by unfold_locales (simp add: process_share_eq)

interpretation stub: share_recorder stub_process_share "\<lambda>s. s"
  by unfold_locales (simp add: stub_process_share_def Let_def)

text \<open>What the pool does with a run of submissions, as a definition of its own.\<close>

fun process_shares ::
  "hex_crate \<Rightarrow> 'w share_processor \<Rightarrow> share_submission list \<Rightarrow> 'w share_state
     \<Rightarrow> share_result list \<times> 'w share_state" where
  "process_shares hx self [] st = ([], st)"
| "process_shares hx self (x # xs) st =
     (let (r, st1) = process_share hx self x st; (rs, st2) = process_shares hx self xs st1
      in (r # rs, st2))"

lemma process_shares_all: "process_shares hx self xs st = job_aware.process_all hx self xs st"
  by (induction xs arbitrary: st) (simp_all add: split_beta Let_def)

lemma process_shares_registry [simp]:
  "st_registry (snd (process_shares hx self xs st)) = st_registry st"
  by (induction xs arbitrary: st) (simp_all add: split_beta Let_def process_share_eq)

section \<open>Properties\<close>

text \<open>
  Property C6. When a share counts. The processor accepts a share exactly when its extra
  nonce has the session's length, its version bits are allowed by the negotiated mask, its
  job is live in the registry, and (with a validator installed) the session's extranonce1 is
  valid hex and the validator accepts the reconstruction made with it.
\<close>

theorem process_share_accepts_iff:
  "is_accepted (fst (process_share hx self share st)) \<longleftrightarrow>
     shape_ok share \<and> is_ok (resolved_version 0 share)
     \<and> (\<exists>job. get_job (share_job_id share) (st_registry st) = Some job
          \<and> (sp_validator self = None
             \<or> (\<exists>validator extranonce1. sp_validator self = Some validator
                  \<and> session_extranonce1 hx share = Inr extranonce1
                  \<and> is_accepted (validator job share extranonce1 (sp_pool_difficulty self)))))"
proof (cases "check_shape share")
  case None
  moreover from None have "shape_ok share \<and> is_ok (resolved_version 0 share)"
    by (simp add: check_shape_None [of share 0])
  ultimately show ?thesis
    by (auto simp: process_share_eq share_verdict_def split: option.splits sum.splits)
next
  case (Some r)
  then have "\<not> is_accepted r" using check_shape_rejects [OF Some] by auto
  moreover from Some have "\<not> (shape_ok share \<and> is_ok (resolved_version 0 share))"
    using check_shape_None [of share 0] by simp
  ultimately show ?thesis using Some by (auto simp: process_share_eq share_verdict_def)
qed

text \<open>
  Processing touches nothing but the log and the sink: over any run of
  submissions from a fresh log the job registry is unchanged and the recent-shares log is
  the last 100 (submission, verdict) pairs in order, whatever the share sink answers.
\<close>

lemma process_shares_logged:
  assumes "st_recent st = recent_shares_new"
  shows "let (rs, st') = process_shares hx self shares st
         in st_registry st' = st_registry st \<and> length rs = length shares
            \<and> recent (st_recent st') = last_n 100 (map (\<lambda>(x, r). share_attempt_of x r) (zip shares rs))"
  using job_aware.log_run_last [OF assms, of hx self shares]
    process_shares_registry [of hx self shares st]
  by (simp add: split_beta Let_def process_shares_all recent_def MAX_RECENT_def)

text \<open>
  A share is answered \<open>UnknownJob\<close> exactly when it is well formed and its job
  is not live, so a miner's share is never blamed on its job for another reason.
\<close>

lemma unknown_job_iff_not_live:
  assumes "sp_validator self = Some (validate_share hx sha v)"
  shows "(\<exists>r. fst (process_share hx self share st) = UnknownJob r) \<longleftrightarrow>
     shape_ok share \<and> is_ok (resolved_version 0 share)
     \<and> get_job (share_job_id share) (st_registry st) = None"
proof (cases "check_shape share")
  case None
  moreover from None have "shape_ok share \<and> is_ok (resolved_version 0 share)"
    by (simp add: check_shape_None [of share 0])
  ultimately show ?thesis using azcoin.never_unknown assms
    by (auto simp: process_share_eq share_verdict_def split: option.splits sum.splits)
next
  case (Some r)
  then have "\<exists>reason. r = Rejected reason" by (rule check_shape_rejects)
  moreover from Some have "\<not> (shape_ok share \<and> is_ok (resolved_version 0 share))"
    using check_shape_None [of share 0] by simp
  ultimately show ?thesis using Some by (auto simp: process_share_eq share_verdict_def)
qed

end
