(* ===== verification/Raw_Block.thy ===== *)
theory Raw_Block
  imports Domain
begin

text \<open>
  \<open>coin_azcoin/src/raw_block_builder.rs\<close>: concatenating a solved header, the coinbase and
  the template's transactions into the block that \<open>submitblock\<close> takes, after checking that
  every part parses.
\<close>

definition validate_transaction_bytes ::
  "bitcoin_crate \<Rightarrow> string \<Rightarrow> bytes \<Rightarrow> pool_error + unit" where
  "validate_transaction_bytes btc lbl tx_bytes =
     (case tx_deserialize btc tx_bytes of
        Inl e \<Rightarrow> Inl (Internal_Error (''invalid '' @ lbl @ '' bytes: '' @ e))
      | Inr tx \<Rightarrow> Inr ())"

text \<open>The \<open>for\<close> loop over \<open>template_transactions\<close> with its index.\<close>

fun validate_templates :: "bitcoin_crate \<Rightarrow> nat \<Rightarrow> bytes list \<Rightarrow> pool_error + unit" where
  "validate_templates btc index [] = Inr ()"
| "validate_templates btc index (tx # txs) =
     and_then (validate_transaction_bytes btc (''template transaction '' @ dec_string index) tx)
       (\<lambda>_. validate_templates btc (Suc index) txs)"

definition checked_add :: "nat \<Rightarrow> nat \<Rightarrow> nat option" where
  "checked_add m n = (if m + n < 2 ^ 64 then Some (m + n) else None)"

definition build_raw_block ::
  "bitcoin_crate \<Rightarrow> bytes \<Rightarrow> bytes \<Rightarrow> bytes list \<Rightarrow> pool_error + bytes" where
  "build_raw_block btc header_bytes coinbase_tx_bytes template_transactions =
     (if length header_bytes \<noteq> 80
      then Inl (Internal_Error (''block header length '' @ dec_string (length header_bytes) @ '' != 80''))
      else
        and_then (validate_transaction_bytes btc ''coinbase'' coinbase_tx_bytes) (\<lambda>_.
        and_then (validate_templates btc 0 template_transactions) (\<lambda>_.
        and_then (ok_or (Internal_Error ''block transaction count overflow'')
                    (checked_add 1 (length template_transactions))) (\<lambda>tx_count.
        and_then (map_err (\<lambda>e. Internal_Error (''block tx count encode failed: '' @ e))
                    (encode_var_int btc (word_of_nat tx_count))) (\<lambda>count_bytes.
        Inr (header_bytes @ count_bytes @ coinbase_tx_bytes @ concat template_transactions))))))"

section \<open>Lemmas\<close>

definition parses :: "bitcoin_crate \<Rightarrow> bytes \<Rightarrow> bool" where
  "parses btc bs \<longleftrightarrow> is_ok (tx_deserialize btc bs)"

lemma validate_transaction_bytes_Inr [simp]:
  "validate_transaction_bytes btc l bs = Inr u \<longleftrightarrow> parses btc bs"
  by (simp add: validate_transaction_bytes_def parses_def split: sum.split)

lemma validate_templates_Inr [simp]:
  "validate_templates btc i txs = Inr u \<longleftrightarrow> list_all (parses btc) txs"
  by (induction txs arbitrary: i) (auto simp: and_then_Inr)

lemma checked_add_Some [simp]: "checked_add m n = Some k \<longleftrightarrow> k = m + n \<and> m + n < 2 ^ 64"
  by (auto simp: checked_add_def)

text \<open>A block that is assembled has this shape; and it is assembled when its parts parse.\<close>

lemma build_raw_block_Inr:
  assumes btc: "bitcoin_documented btc"
  shows "build_raw_block btc header coinbase txs = Inr raw \<longleftrightarrow>
     length header = 80 \<and> parses btc coinbase \<and> list_all (parses btc) txs
     \<and> length txs + 1 < 2 ^ 64
     \<and> raw = header @ compact_size (length txs + 1) @ coinbase @ concat txs"
proof -
  have c: "unat (1 + word_of_nat n :: u64) = Suc n" if "n < 18446744073709551615" for n
  proof -
    have "1 + word_of_nat n = (word_of_nat (Suc n) :: u64)" by simp
    also have "unat \<dots> = Suc n mod 2 ^ LENGTH(64)" by (rule unat_of_nat)
    also have "\<dots> = Suc n" using that by (intro mod_less) simp
    finally show ?thesis .
  qed
  show ?thesis
    by (auto simp: build_raw_block_def and_then_Inr map_err_Inr bitcoin_laws [OF btc] c)
qed

section \<open>Properties\<close>

text \<open>
  Raw block assembly: it succeeds exactly when the header has 80 bytes and the
  coinbase and every template transaction parse (and their number fits a \<open>usize\<close>); the
  result is then the header, the CompactSize transaction count, the coinbase first and the
  template's transactions in order, so that a block never carries a transaction that was
  not checked.
\<close>

lemma raw_block_assembly:
  assumes "bitcoin_documented btc"
  shows "build_raw_block btc header coinbase txs = Inr raw \<longleftrightarrow>
     length header = 80 \<and> parses btc coinbase \<and> list_all (parses btc) txs
     \<and> length txs + 1 < 2 ^ 64
     \<and> raw = header @ compact_size (length txs + 1) @ coinbase @ concat txs"
  by (rule build_raw_block_Inr [OF assms])

definition sample_tx :: transaction where
  "sample_tx = \<lparr> tx_version = 1, lock_time = 0, tx_input = [], tx_output = [] \<rparr>"

end
