(* ===== verification/Daemon_Client.thy ===== *)
theory Daemon_Client
  imports Domain
begin

text \<open>
  The JSON-RPC side of \<open>coin_azcoin\<close>: \<open>daemon.rs\<close> (calls, \<open>getblocktemplate\<close>,
  \<open>submitblock\<close>) and \<open>block_submit.rs\<close>. The HTTP client is the crate parameter
  \<open>http\<close> and every call threads the world \<open>'w\<close>. Reading a \<open>BlockTemplate\<close> out of
  JSON is code that the \<open>serde\<close> derive generates; it is the parameter \<open>from_value\<close>.
\<close>

record daemon_client =
  dc_url :: string
  dc_rpc_user :: string
  dc_rpc_password :: string

record transaction_entry =
  te_data :: string
  te_txid :: "string option"
  te_hash :: "string option"

record coinbase_aux =
  aux_flags :: "string option"

record block_template =
  bt_version :: u32
  previousblockhash :: string
  bits :: string
  curtime :: u64
  bt_height :: u64
  transactions :: "transaction_entry list"
  coinbasevalue :: u64
  coinbaseaux :: "coinbase_aux option"
  default_witness_commitment :: "string option"

definition daemon_client_new :: "string \<Rightarrow> string \<Rightarrow> string \<Rightarrow> daemon_client" where
  "daemon_client_new url user password =
     \<lparr> dc_url = trim_end_matches CHR ''/'' url, dc_rpc_user = user, dc_rpc_password = password \<rparr>"

section \<open>Calls\<close>

definition rpc_request :: "daemon_client \<Rightarrow> string \<Rightarrow> json \<Rightarrow> http_request" where
  "rpc_request self method params =
     \<lparr> req_method = POST, req_url = dc_url self @ ''/'',
       req_auth = (if dc_rpc_user self \<noteq> [] then Some (Basic_Auth (dc_rpc_user self) (dc_rpc_password self))
                   else None),
       req_body = Some (JObject [(''jsonrpc'', JString ''1.0''), (''id'', JString ''azcoin-pool''),
                                 (''method'', JString method), (''params'', params)]) \<rparr>"

text \<open>\<open>err.get("message").and_then(as_str).unwrap_or("unknown")\<close>\<close>

definition rpc_error_message :: "json \<Rightarrow> string" where
  "rpc_error_message err =
     (case Option.bind (json_get ''message'' err) as_str of None \<Rightarrow> ''unknown'' | Some m \<Rightarrow> m)"

definition rpc_response :: "'w http_crate \<Rightarrow> http_response \<Rightarrow> pool_error + json" where
  "rpc_response http resp =
     and_then (map_err (\<lambda>e. Daemon_Error (''daemon response parse failed: '' @ e)) (resp_json resp))
       (\<lambda>j. let checked =
                  (if \<not> is_success (resp_status resp)
                   then Inl (Daemon_Error (''daemon returned HTTP ''
                               @ status_display http (resp_status resp)))
                   else ok_or (Daemon_Error ''daemon response missing result'') (json_get ''result'' j))
            in case json_get ''error'' j of
                 None \<Rightarrow> checked
               | Some err \<Rightarrow>
                   if err \<noteq> JNull
                   then Inl (Daemon_Error (''daemon RPC error: '' @ rpc_error_message err))
                   else checked)"

definition rpc_call ::
  "'w http_crate \<Rightarrow> daemon_client \<Rightarrow> string \<Rightarrow> json \<Rightarrow> 'w \<Rightarrow> (pool_error + json) \<times> 'w" where
  "rpc_call http self method params w =
     (case http_send http (rpc_request self method params) w of
        (Inl e, w) \<Rightarrow> (Inl (Daemon_Error (''daemon request failed: '' @ e)), w)
      | (Inr resp, w) \<Rightarrow> (rpc_response http resp, w))"

definition get_block_template ::
  "'w http_crate \<Rightarrow> (json \<Rightarrow> string + block_template) \<Rightarrow> daemon_client \<Rightarrow> 'w
     \<Rightarrow> (pool_error + block_template option) \<times> 'w" where
  "get_block_template http from_value self w =
     (case rpc_call http self ''getblocktemplate''
             (JArray [JObject [(''rules'', JArray [JString ''segwit''])]]) w of
        (result, w) \<Rightarrow>
          (and_then result (\<lambda>r.
             and_then (map_err (\<lambda>e. Daemon_Error (''daemon template parse failed: '' @ e)) (from_value r))
               (\<lambda>template. Inr (Some template))), w))"

fun submitblock_result :: "'w http_crate \<Rightarrow> json \<Rightarrow> pool_error + bool" where
  "submitblock_result http JNull = Inr True"
| "submitblock_result http (JString reason) =
     (if trim reason = [] then Inr True
      else Inl (Daemon_Error (''submitblock rejected: '' @ reason)))"
| "submitblock_result http other =
     Inl (Daemon_Error (''submitblock returned unexpected result: '' @ json_display http other))"

definition daemon_submit_block ::
  "hex_crate \<Rightarrow> 'w http_crate \<Rightarrow> daemon_client \<Rightarrow> bytes \<Rightarrow> 'w \<Rightarrow> (pool_error + bool) \<times> 'w" where
  "daemon_submit_block hx http self raw_block w =
     (case rpc_call http self ''submitblock'' (JArray [JString (hex_encode hx raw_block)]) w of
        (result, w) \<Rightarrow> (and_then result (submitblock_result http), w))"

section \<open>\<open>AzcoinBlockSubmitter\<close>\<close>

record azcoin_block_submitter =
  abs_daemon :: daemon_client

definition azcoin_block_submitter_new :: "string \<Rightarrow> string \<Rightarrow> string \<Rightarrow> azcoin_block_submitter" where
  "azcoin_block_submitter_new url user password =
     \<lparr> abs_daemon = daemon_client_new url user password \<rparr>"

type_synonym 'w block_submitter = "block_candidate \<Rightarrow> 'w \<Rightarrow> (string + bool) \<times> 'w"

definition azcoin_submit_block ::
  "hex_crate \<Rightarrow> 'w http_crate \<Rightarrow> azcoin_block_submitter \<Rightarrow> 'w block_submitter" where
  "azcoin_submit_block hx http self block w =
     (case daemon_submit_block hx http (abs_daemon self) (cand_raw_block block) w of
        (result, w) \<Rightarrow> (map_err pool_error_to_string result, w))"

section \<open>Properties\<close>

text \<open>Every failure of the client is a daemon error.\<close>

lemma rpc_call_error: "fst (rpc_call http self m p w) = Inl e \<Longrightarrow> \<exists>msg. e = Daemon_Error msg"
  by (auto simp: rpc_call_def rpc_response_def Let_def result_simps
      split: prod.splits sum.splits option.splits if_splits)

lemma submitblock_result_Inr: "submitblock_result http j = Inr b \<longleftrightarrow>
    b \<and> (j = JNull \<or> (\<exists>s. j = JString s \<and> trim s = []))"
  by (cases j) auto

lemma submitblock_result_error: "submitblock_result http j = Inl e \<Longrightarrow> \<exists>msg. e = Daemon_Error msg"
  by (cases j) (auto split: if_splits)

lemma daemon_submit_block_error:
  "fst (daemon_submit_block hx http self raw w) = Inl e \<Longrightarrow> \<exists>msg. e = Daemon_Error msg"
  by (auto simp: daemon_submit_block_def result_simps split: prod.splits
      dest: submitblock_result_error)
    (metis fst_conv rpc_call_error)

lemma rpc_response_Inr: "rpc_response http resp = Inr r \<longleftrightarrow>
    (\<exists>j. resp_json resp = Inr j \<and> json_get ''error'' j \<in> {None, Some JNull}
       \<and> is_success (resp_status resp) \<and> json_get ''result'' j = Some r)"
  by (auto simp: rpc_response_def Let_def and_then_Inr split: option.splits if_splits)
    (metis not_None_eq)

lemma rpc_call_Inr: "rpc_call http self m p w = (Inr r, w') \<longleftrightarrow>
    (\<exists>resp. http_send http (rpc_request self m p) w = (Inr resp, w') \<and> rpc_response http resp = Inr r)"
  by (auto simp: rpc_call_def split: prod.splits sum.splits)

text \<open>
  A block counts as submitted only on the daemon's word: the result
  is \<open>Ok\<close> exactly when the request was answered with a success status, no RPC error, and a result
  that is null or blank; the value is then true (never false), and exactly one request was
  sent, carrying the block as hex.
\<close>

lemma submitted_iff_daemon_accepts:
  "daemon_submit_block hx http self raw w = (Inr b, w') \<longleftrightarrow>
     b \<and> (\<exists>resp j r.
       http_send http (rpc_request self ''submitblock'' (JArray [JString (hex_encode hx raw)])) w
         = (Inr resp, w')
       \<and> resp_json resp = Inr j \<and> is_success (resp_status resp)
       \<and> json_get ''error'' j \<in> {None, Some JNull} \<and> json_get ''result'' j = Some r
       \<and> (r = JNull \<or> (\<exists>s. r = JString s \<and> trim s = [])))"
proof -
  have "daemon_submit_block hx http self raw w = (Inr b, w') \<longleftrightarrow>
      (\<exists>r. rpc_call http self ''submitblock'' (JArray [JString (hex_encode hx raw)]) w = (Inr r, w')
         \<and> submitblock_result http r = Inr b)"
    by (auto simp: daemon_submit_block_def and_then_Inr split: prod.splits)
  then show ?thesis unfolding rpc_call_Inr rpc_response_Inr submitblock_result_Inr by blast
qed

end
