(* ===== verification/Candidate_Submit.thy ===== *)
theory Candidate_Submit
  imports Raw_Block Daemon_Client
begin

text \<open>
  \<open>coin_azcoin/src/candidate_submit.rs\<close>: rebuilding the block a miner solved and handing it
  to the submitter. \<open>restore_coinbase_witness\<close> indexes the first input of a parsed
  transaction; the value \<open>None\<close> is the panic when there is none.

  The locale \<open>daemon_submitter\<close> is what is known of the one \<open>BlockSubmitter\<close> of the
  sources: it answers \<open>Ok(true)\<close> or an error message of the daemon client.
\<close>

datatype candidate_submission_result = Submitted | Candidate_Rejected string | Local_Error string

definition reconstruct_miner_coinbase :: "job \<Rightarrow> bytes \<Rightarrow> bytes \<Rightarrow> bytes" where
  "reconstruct_miner_coinbase job extranonce1 en2 =
     coinbase_part1 job @ extranonce1 @ en2 @ coinbase_part2 job"

definition restore_coinbase_witness :: "bitcoin_crate \<Rightarrow> bytes \<Rightarrow> (string + bytes) option" where
  "restore_coinbase_witness btc coinbase_no_witness =
     (case tx_deserialize btc coinbase_no_witness of
        Inl e \<Rightarrow> Some (Inl (''coinbase deserialize for witness: '' @ e))
      | Inr tx \<Rightarrow>
          (case tx_input tx of
             [] \<Rightarrow> None
           | i # is \<Rightarrow>
               Some (Inr (tx_serialize btc
                            (tx\<lparr> tx_input := i\<lparr> witness := [replicate 32 0] \<rparr> # is \<rparr>)))))"

text \<open>The coinbase that goes into the block: with its witness when there is a commitment.\<close>

definition candidate_coinbase ::
  "bitcoin_crate \<Rightarrow> block_assembly_data \<Rightarrow> bytes \<Rightarrow> (string + bytes) option" where
  "candidate_coinbase btc asm coinbase_no_witness =
     (if asm_default_witness_commitment asm \<noteq> None
      then restore_coinbase_witness btc coinbase_no_witness
      else Some (Inr coinbase_no_witness))"

definition submission_result :: "string + bool \<Rightarrow> candidate_submission_result" where
  "submission_result r =
     (case r of
        Inr b \<Rightarrow> if b then Submitted else Candidate_Rejected ''block submitter returned false''
      | Inl message \<Rightarrow>
          (case strip_prefix ''submitblock rejected: '' message of
             Some reason \<Rightarrow> Candidate_Rejected reason
           | None \<Rightarrow> Local_Error message))"

definition submit_block_candidate ::
  "bitcoin_crate \<Rightarrow> 'w block_submitter \<Rightarrow> bytes \<Rightarrow> job \<Rightarrow> bytes \<Rightarrow> bytes \<Rightarrow> 'w
     \<Rightarrow> candidate_submission_result option \<times> 'w" where
  "submit_block_candidate btc submitter solved_header_bytes job extranonce1 en2 w =
     (case block_assembly job of
        None \<Rightarrow> (Some (Local_Error ''missing job.block_assembly''), w)
      | Some asm \<Rightarrow>
          (case candidate_coinbase btc asm (reconstruct_miner_coinbase job extranonce1 en2) of
             None \<Rightarrow> (None, w)
           | Some (Inl e) \<Rightarrow> (Some (Local_Error e), w)
           | Some (Inr coinbase_tx) \<Rightarrow>
               (case build_raw_block btc solved_header_bytes coinbase_tx
                       (asm_template_transactions asm) of
                  Inl err \<Rightarrow> (Some (Local_Error (pool_error_to_string err)), w)
                | Inr raw_block \<Rightarrow>
                    (case submitter \<lparr> cand_block_hash = replicate 32 0,
                            cand_height = asm_height asm, cand_raw_block = raw_block \<rparr> w of
                       (r, w) \<Rightarrow> (Some (submission_result r), w)))))"

section \<open>Interface\<close>

locale daemon_submitter =
  fixes submit :: "'w block_submitter"
  assumes never_false: "fst (submit b w) \<noteq> Inr False"
    and daemon_message: "fst (submit b w) = Inl m \<Longrightarrow> \<exists>msg. m = ''daemon/RPC error: '' @ msg"
begin

lemma never_rejected: "submission_result (fst (submit b w)) \<noteq> Candidate_Rejected r"
proof (cases "fst (submit b w)")
  case (Inl m)
  from daemon_message [OF this] obtain msg where "m = ''daemon/RPC error: '' @ msg" ..
  then have "strip_prefix ''submitblock rejected: '' m = None" by simp
  with Inl show ?thesis by (simp add: submission_result_def)
next
  case (Inr x)
  then show ?thesis using never_false [of b w] by (cases x) (auto simp: submission_result_def)
qed

end

interpretation azcoin_submitter: daemon_submitter "azcoin_submit_block hx http self" for hx http self
proof unfold_locales
  fix b w m
  show "fst (azcoin_submit_block hx http self b w) \<noteq> Inr False"
    by (auto simp: azcoin_submit_block_def daemon_submit_block_def and_then_Inr
        submitblock_result_Inr split: prod.splits)
  assume "fst (azcoin_submit_block hx http self b w) = Inl m"
  then obtain e where "fst (daemon_submit_block hx http (abs_daemon self) (cand_raw_block b) w) = Inl e"
    and m: "m = pool_error_to_string e"
    by (auto simp: azcoin_submit_block_def map_err_Inl split: prod.splits)
  from daemon_submit_block_error [OF this(1)] m
  show "\<exists>msg. m = ''daemon/RPC error: '' @ msg" by auto
qed

lemma submission_result_Submitted: "submission_result r = Submitted \<longleftrightarrow> r = Inr True"
  by (auto simp: submission_result_def split: sum.splits option.splits)

text \<open>When a candidate is submitted.\<close>

lemma candidate_submitted:
  assumes "bitcoin_documented btc"
  shows "submit_block_candidate btc submitter header job en1 en2 w = (Some Submitted, w') \<longleftrightarrow>
     (\<exists>asm coinbase raw. block_assembly job = Some asm
       \<and> candidate_coinbase btc asm (coinbase_part1 job @ en1 @ en2 @ coinbase_part2 job)
           = Some (Inr coinbase)
       \<and> length header = 80 \<and> parses btc coinbase
       \<and> list_all (parses btc) (asm_template_transactions asm)
       \<and> length (asm_template_transactions asm) + 1 < 2 ^ 64
       \<and> raw = header @ compact_size (length (asm_template_transactions asm) + 1)
             @ coinbase @ concat (asm_template_transactions asm)
       \<and> submitter \<lparr> cand_block_hash = replicate 32 0, cand_height = asm_height asm,
                     cand_raw_block = raw \<rparr> w = (Inr True, w'))"
proof (cases "block_assembly job")
  case None
  then show ?thesis by (simp add: submit_block_candidate_def)
next
  case (Some asm)
  let ?raw = "\<lambda>coinbase. build_raw_block btc header coinbase (asm_template_transactions asm)"
  have "submit_block_candidate btc submitter header job en1 en2 w = (Some Submitted, w') \<longleftrightarrow>
      (\<exists>coinbase raw.
         candidate_coinbase btc asm (coinbase_part1 job @ en1 @ en2 @ coinbase_part2 job)
           = Some (Inr coinbase) \<and> ?raw coinbase = Inr raw
         \<and> submitter \<lparr> cand_block_hash = replicate 32 0, cand_height = asm_height asm,
                       cand_raw_block = raw \<rparr> w = (Inr True, w'))"
    unfolding submit_block_candidate_def Some reconstruct_miner_coinbase_def
    by (auto simp: submission_result_Submitted split: option.splits sum.splits prod.splits)
  then show ?thesis
    using Some by (simp only: build_raw_block_Inr [OF assms] option.inject) blast
qed

section \<open>Properties\<close>

text \<open>
  A candidate is reported submitted exactly when the job has assembly data, the
  coinbase is rebuilt from the job's halves and the two extranonces (with the witness
  restored when the template has a commitment), header, coinbase and transactions parse,
  and the submitter accepts the block made of exactly these parts in this order.
\<close>

lemma candidate_submitted_iff:
  assumes "bitcoin_documented btc"
  shows "submit_block_candidate btc submitter header job en1 en2 w = (Some Submitted, w') \<longleftrightarrow>
     (\<exists>asm coinbase raw. block_assembly job = Some asm
       \<and> candidate_coinbase btc asm (coinbase_part1 job @ en1 @ en2 @ coinbase_part2 job)
           = Some (Inr coinbase)
       \<and> length header = 80 \<and> parses btc coinbase
       \<and> list_all (parses btc) (asm_template_transactions asm)
       \<and> length (asm_template_transactions asm) + 1 < 2 ^ 64
       \<and> raw = header @ compact_size (length (asm_template_transactions asm) + 1)
             @ coinbase @ concat (asm_template_transactions asm)
       \<and> submitter \<lparr> cand_block_hash = replicate 32 0, cand_height = asm_height asm,
                     cand_raw_block = raw \<rparr> w = (Inr True, w'))"
  by (rule candidate_submitted [OF assms])

text \<open>
  Property C39. A daemon's rejection is not recognised: with the pool's own submitter the
  outcome is never \<open>Rejected\<close>, whatever the daemon answers, because the error reaches
  \<open>submit_block_candidate\<close> with the prefix of the error type in front of the prefix it
  strips; a rejected block is reported as a local error.
\<close>

theorem daemon_rejection_not_recognised:
  "fst (submit_block_candidate btc (azcoin_submit_block hx http self) header job en1 en2 w)
     \<noteq> Some (Candidate_Rejected reason)"
proof -
  have "submission_result r \<noteq> Candidate_Rejected reason"
    if "azcoin_submit_block hx http self b w = (r, w')" for b r w'
    using azcoin_submitter.never_rejected [of hx http self b w reason] that by simp
  then show ?thesis
    by (auto simp: submit_block_candidate_def split: option.splits sum.splits prod.splits)
qed

end
