(* ===== verification/Coinbase_Builder.thy ===== *)
theory Coinbase_Builder
  imports Domain
begin

text \<open>
  \<open>coin_azcoin/src/coinbase_builder.rs\<close>: the coinbase transaction of a template, its script
  (height and auxiliary flags as data pushes), and the legacy serialization whose double
  SHA-256 is the transaction id. The transaction types and their encoding are the
  \<open>bitcoin\<close> crate parameter.
\<close>

section \<open>Script encoding\<close>

text \<open>The \<open>while remaining > 0\<close> loop of \<open>encode_script_num\<close>.\<close>

function script_num_bytes :: "u64 \<Rightarrow> bytes" where
  "script_num_bytes remaining =
     (if remaining = 0 then []
      else ucast (remaining AND 0xff) # script_num_bytes (drop_bit 8 remaining))"
  by pat_completeness auto
termination
proof (relation "measure unat")
  fix w :: u64
  assume "w \<noteq> 0"
  then have "0 < unat w" by (simp add: unat_gt_0)
  moreover have "unat (drop_bit 8 w) = drop_bit 8 (unat w)" by (rule unat_drop_bit_eq)
  ultimately show "(drop_bit 8 w, w) \<in> measure unat"
    by (simp add: drop_bit_eq_div)
qed simp

declare script_num_bytes.simps [simp del]

definition encode_script_num :: "u64 \<Rightarrow> bytes" where
  "encode_script_num n =
     (if n = 0 then []
      else let encoded = script_num_bytes n
           in if encoded \<noteq> [] \<and> last encoded AND 0x80 \<noteq> 0 then encoded @ [0] else encoded)"

definition push_data :: "bytes \<Rightarrow> bytes \<Rightarrow> bytes" where
  "push_data buf dat =
     (let len = length dat
      in (if len \<le> 0x4b then buf @ [word_of_nat len]
          else if len \<le> 0xff then buf @ [0x4c, word_of_nat len]
          else if len \<le> 0xffff then buf @ [0x4d] @ to_le_bytes16 (word_of_nat len)
          else buf @ [0x4e] @ to_le_bytes32 (word_of_nat len)) @ dat)"

definition build_coinbase_script_sig :: "u64 \<Rightarrow> bytes option \<Rightarrow> bytes" where
  "build_coinbase_script_sig height coinbase_aux_flags =
     (let script = push_data [] (encode_script_num height)
      in case coinbase_aux_flags of
           None \<Rightarrow> script
         | Some flags \<Rightarrow> if flags \<noteq> [] then push_data script flags else script)"

section \<open>The coinbase transaction\<close>

record coinbase_build_inputs =
  in_height :: u64
  in_coinbase_value :: u64
  in_payout_script_pubkey :: bytes
  in_coinbase_aux_flags :: "bytes option"
  in_default_witness_commitment :: "bytes option"

definition coinbase_transaction :: "bitcoin_crate \<Rightarrow> coinbase_build_inputs \<Rightarrow> transaction" where
  "coinbase_transaction btc inputs =
     (let script = build_coinbase_script_sig (in_height inputs) (in_coinbase_aux_flags inputs);
          payout = [\<lparr> tx_value = in_coinbase_value inputs,
                      script_pubkey = in_payout_script_pubkey inputs \<rparr>];
          (outs, wit) =
            (case in_default_witness_commitment inputs of
               Some commitment_script \<Rightarrow>
                 (payout @ [\<lparr> tx_value = 0, script_pubkey = commitment_script \<rparr>], [replicate 32 0])
             | None \<Rightarrow> (payout, []))
      in \<lparr> tx_version = version_one btc, lock_time = lock_time_zero btc,
           tx_input = [\<lparr> previous_output = null_out_point btc, script_sig = script,
                         sequence = sequence_max btc, witness = wit \<rparr>],
           tx_output = outs \<rparr>)"

definition build_coinbase_transaction ::
  "bitcoin_crate \<Rightarrow> coinbase_build_inputs \<Rightarrow> pool_error + bytes" where
  "build_coinbase_transaction btc inputs =
     (if in_payout_script_pubkey inputs = []
      then Inl (Config_Error ''coinbase payout script_pubkey cannot be empty'')
      else Inr (tx_serialize btc (coinbase_transaction btc inputs)))"

definition serialize_no_witness :: "bitcoin_crate \<Rightarrow> transaction \<Rightarrow> bytes" where
  "serialize_no_witness btc tx =
     encode_version btc (tx_version tx) @ encode_inputs btc (tx_input tx)
     @ encode_outputs btc (tx_output tx) @ encode_lock_time btc (lock_time tx)"

section \<open>Script numbers\<close>

lemma script_num_bytes_0 [simp]: "script_num_bytes 0 = []"
  by (simp add: script_num_bytes.simps)

lemma script_num_bytes_step:
  "w \<noteq> 0 \<Longrightarrow> script_num_bytes w = ucast (w AND 0xff) # script_num_bytes (drop_bit 8 w)"
  by (subst script_num_bytes.simps) simp

lemma script_num_bytes_empty: "script_num_bytes w = [] \<longleftrightarrow> w = 0"
  by (cases "w = 0") (simp_all add: script_num_bytes_step)

lemma unat_low_byte: "unat (ucast (w AND 0xff) :: u8) = unat (w :: u64) mod 256"
proof -
  have "w AND 0xff = take_bit 8 w" by (simp add: take_bit_eq_mask mask_eq_exp_minus_1)
  then have "(ucast (w AND 0xff) :: u8) = ucast w"
    by (simp add: bit_eq_iff bit_simps)
  then show ?thesis by (simp add: unsigned_ucast_eq take_bit_eq_mod)
qed

lemma le_nat_Cons: "le_nat (b # bs) = unat b + 256 * le_nat bs"
  by (simp add: le_nat_def be_nat_append be_nat_Cons)

lemma le_nat_snoc: "le_nat (bs @ [b]) = le_nat bs + unat b * 256 ^ length bs"
  by (simp add: le_nat_def be_nat_Cons)

lemma le_nat_script_num_bytes: "le_nat (script_num_bytes w) = unat w"
proof (induction w rule: script_num_bytes.induct)
  case (1 w)
  show ?case
  proof (cases "w = 0")
    case True
    then show ?thesis by (simp add: le_nat_def)
  next
    case False
    have "unat (drop_bit 8 w) = drop_bit 8 (unat w)" by (rule unat_drop_bit_eq)
    then have "unat (drop_bit 8 w) = unat w div 256" by (simp add: drop_bit_eq_div)
    then show ?thesis
      using 1 [OF False] False by (simp add: script_num_bytes_step le_nat_Cons unat_low_byte)
  qed
qed

lemma last_script_num_bytes: "w \<noteq> 0 \<Longrightarrow> last (script_num_bytes w) \<noteq> 0"
proof (induction w rule: script_num_bytes.induct)
  case (1 w)
  show ?case
  proof (cases "drop_bit 8 w = 0")
    case True
    have "unat (drop_bit 8 w) = drop_bit 8 (unat w)" by (rule unat_drop_bit_eq)
    with True have "unat w div 256 = 0" by (simp add: drop_bit_eq_div)
    then have "unat (ucast (w AND 0xff) :: u8) \<noteq> 0"
      using 1(2) by (simp add: unat_low_byte unat_eq_0)
    then have "(ucast (w AND 0xff) :: u8) \<noteq> 0" by (metis unat_0)
    then show ?thesis using 1(2) True by (simp add: script_num_bytes_step)
  next
    case False
    then show ?thesis using 1 by (simp add: script_num_bytes_step script_num_bytes_empty)
  qed
qed

lemma script_num_bytes_bound: "unat w < 256 ^ n \<Longrightarrow> length (script_num_bytes w) \<le> n"
proof (induction n arbitrary: w)
  case 0
  then show ?case by (simp add: unat_eq_0)
next
  case (Suc n)
  have "unat (drop_bit 8 w) = drop_bit 8 (unat w)" by (rule unat_drop_bit_eq)
  with Suc.prems have "unat (drop_bit 8 w) < 256 ^ n"
    by (simp add: drop_bit_eq_div less_mult_imp_div_less mult.commute)
  from Suc.IH [OF this] show ?case by (cases "w = 0") (simp_all add: script_num_bytes_step)
qed

lemma bit_0x80: "bit (0x80 :: u8) n \<longleftrightarrow> n = 7"
proof -
  have p: "(0x80 :: u8) = 2 ^ 7" by simp
  show ?thesis unfolding p bit_exp_iff by auto
qed

lemma top_bit: "(b :: u8) AND 0x80 = 0 \<longleftrightarrow> unat b < 128"
proof -
  have "b AND 0x80 = 0 \<longleftrightarrow> \<not> bit b 7"
  proof
    assume "b AND 0x80 = 0"
    then have "\<not> bit (b AND 0x80) 7" by simp
    then show "\<not> bit b 7" using bit_0x80 [of 7] by (simp only: bit_and_iff) simp
  next
    assume "\<not> bit b 7"
    then show "b AND 0x80 = 0"
      by (intro bit_word_eqI) (metis bit_0_eq bit_0x80 bit_and_iff bot_apply bot_bool_def)
  qed
  also have "\<dots> \<longleftrightarrow> \<not> bit (unat b) 7" by (simp add: bit_unsigned_iff)
  also have "\<dots> \<longleftrightarrow> even (unat b div 128)" by (simp add: bit_iff_odd)
  also have "\<dots> \<longleftrightarrow> unat b < 128" 
  proof (cases "unat b < 128")
    case False
    then have "unat b div 128 = 1" using unat_byte_less [of b] by (intro div_nat_eqI) simp_all
    with False show ?thesis by simp
  qed simp
  finally show ?thesis .
qed

lemma le_nat_script_num: "le_nat (encode_script_num h) = unat h"
  by (simp add: encode_script_num_def Let_def le_nat_script_num_bytes le_nat_snoc)
    (simp add: le_nat_def)

lemma script_num_sign: "encode_script_num h \<noteq> [] \<Longrightarrow> unat (last (encode_script_num h)) < 128"
  by (auto simp: encode_script_num_def Let_def top_bit [symmetric] script_num_bytes_empty
      split: if_splits)

lemma length_script_num: "length (encode_script_num h) \<le> 9"
proof -
  have "unat h < 256 ^ 8" using unsigned_less [of h, where ?'a = nat] by simp
  from script_num_bytes_bound [OF this] show ?thesis
    by (simp add: encode_script_num_def Let_def)
qed

lemma script_num_minimal:
  assumes "encode_script_num h \<noteq> []" and "last (encode_script_num h) = 0"
  shows "\<exists>bs b. encode_script_num h = bs @ [b, 0] \<and> 128 \<le> unat b"
proof -
  have h: "h \<noteq> 0" using assms(1) by (auto simp: encode_script_num_def)
  let ?e = "script_num_bytes h"
  have ne: "?e \<noteq> []" using h by (simp add: script_num_bytes_empty)
  then have "encode_script_num h = ?e @ [0]" and "last ?e AND 0x80 \<noteq> 0"
    using assms(2) h last_script_num_bytes [OF h]
    by (auto simp: encode_script_num_def Let_def split: if_splits)
  moreover have "?e = butlast ?e @ [last ?e]" using ne by simp
  ultimately have "encode_script_num h = butlast ?e @ [last ?e, 0]" and "128 \<le> unat (last ?e)"
    using top_bit [of "last ?e"] by (metis append.assoc append_Cons append_Nil, linarith)
  then show ?thesis by blast
qed

section \<open>Data pushes\<close>

text \<open>How a script interpreter reads one data push back.\<close>

definition split_at_length :: "nat \<Rightarrow> bytes \<Rightarrow> (bytes \<times> bytes) option" where
  "split_at_length n bs = (if n \<le> length bs then Some (take n bs, drop n bs) else None)"

fun read_push :: "bytes \<Rightarrow> (bytes \<times> bytes) option" where
  "read_push [] = None"
| "read_push (opcode # rest) =
     (if opcode \<le> 0x4b then split_at_length (unat opcode) rest
      else if opcode = 0x4c then
        (case split_at_length 1 rest of None \<Rightarrow> None | Some (l, r) \<Rightarrow> split_at_length (le_nat l) r)
      else if opcode = 0x4d then
        (case split_at_length 2 rest of None \<Rightarrow> None | Some (l, r) \<Rightarrow> split_at_length (le_nat l) r)
      else if opcode = 0x4e then
        (case split_at_length 4 rest of None \<Rightarrow> None | Some (l, r) \<Rightarrow> split_at_length (le_nat l) r)
      else None)"

lemma split_at_length_append [simp]:
  "length xs = n \<Longrightarrow> split_at_length n (xs @ ys) = Some (xs, ys)"
  by (auto simp: split_at_length_def)

lemma push_data_buf: "push_data buf d = buf @ push_data [] d"
  by (simp add: push_data_def Let_def)

lemma le_nat_one: "le_nat [b] = unat b"
  by (simp add: le_nat_def be_nat_Cons)

lemma le_nat_to_le_bytes:
  "le_nat (to_le_bytes16 v) = unat v" "le_nat (to_le_bytes32 w) = unat w"
  using unsigned_less [of v, where ?'a = nat] unsigned_less [of w, where ?'a = nat]
  by (simp_all add: to_le_bytes16_def to_le_bytes32_def le_nat_le_bytes)

lemma read_push_push_data:
  assumes "length d < 2 ^ 32"
  shows "read_push (push_data [] d @ rest) = Some (d, rest)"
proof -
  let ?n = "length d"
  consider "?n \<le> 0x4b" | "0x4b < ?n" "?n \<le> 0xff" | "0xff < ?n" "?n \<le> 0xffff" | "0xffff < ?n"
    by linarith
  then show ?thesis
  proof cases
    case 1
    then have "unat (word_of_nat ?n :: u8) = ?n" by (intro unat_of_nat_less) simp
    with 1 show ?thesis by (simp add: push_data_def word_le_nat_alt)
  next
    case 2
    then have "unat (word_of_nat ?n :: u8) = ?n" by (intro unat_of_nat_less) simp
    with 2 show ?thesis
      using split_at_length_append [of "[word_of_nat ?n]" 1 "d @ rest"]
      by (simp add: push_data_def word_le_nat_alt le_nat_one)
  next
    case 3
    then have "unat (word_of_nat ?n :: u16) = ?n" by (intro unat_of_nat_less) simp
    with 3 show ?thesis by (simp add: push_data_def word_le_nat_alt le_nat_to_le_bytes)
  next
    case 4
    have "unat (word_of_nat ?n :: u32) = ?n" by (rule unat_of_nat_less) (use assms in simp)
    with 4 show ?thesis by (simp add: push_data_def word_le_nat_alt le_nat_to_le_bytes)
  qed
qed

section \<open>Properties\<close>

text \<open>
  Property C20. The coinbase script says the height: it begins with a data push that reads
  back as the script number of the block height (little-endian, positive, minimal, at most
  nine bytes) and goes on with exactly one push of the auxiliary bytes.
\<close>

theorem coinbase_script_round_trip:
  assumes "flags \<noteq> []" and "length flags < 2 ^ 32"
  shows "\<exists>rest. read_push (build_coinbase_script_sig height (Some flags)) = Some (encode_script_num height, rest)
      \<and> read_push rest = Some (flags, [])
      \<and> le_nat (encode_script_num height) = unat height
      \<and> length (encode_script_num height) \<le> 9
      \<and> (encode_script_num height = [] \<or> unat (last (encode_script_num height)) < 128)"
proof -
  have n: "length (encode_script_num height) < 2 ^ 32"
    using length_script_num [of height] by simp
  have "build_coinbase_script_sig height (Some flags)
      = push_data [] (encode_script_num height) @ push_data [] flags"
    using assms by (simp add: build_coinbase_script_sig_def push_data_buf [of "push_data _ _"])
  then show ?thesis
    using read_push_push_data [OF n, of "push_data [] flags"]
      read_push_push_data [OF assms(2), of "[]"] le_nat_script_num [of height]
      length_script_num [of height] script_num_sign [of height]
    by auto
qed

theorem coinbase_script_round_trip_witness:
  "build_coinbase_script_sig 840000 (Some [0xde, 0xad]) = [3, 0x40, 0xd1, 0x0c, 2, 0xde, 0xad]
   \<and> (\<exists>rest. read_push (build_coinbase_script_sig 840000 (Some [0xde, 0xad]))
         = Some (encode_script_num 840000, rest) \<and> read_push rest = Some ([0xde, 0xad], []))"
proof -
  have "build_coinbase_script_sig 840000 (Some [0xde, 0xad]) = [3, 0x40, 0xd1, 0x0c, 2, 0xde, 0xad]"
    by (simp add: build_coinbase_script_sig_def encode_script_num_def script_num_bytes.simps
        push_data_def)
  then show ?thesis
    using coinbase_script_round_trip [of "[0xde, 0xad]" 840000] by auto
qed

end
