(* ===== verification/Template_Mapper.thy ===== *)
theory Template_Mapper
  imports Coinbase_Builder Daemon_Client Share_Validator
begin

text \<open>
  \<open>coin_azcoin/src/template_mapper.rs\<close>: turning a \<open>getblocktemplate\<close> answer into a job.
  The coinbase is built with an eight-byte placeholder after the auxiliary flags and split
  around it, so that a miner fills extranonce1 and extranonce2 in. The lemmas show what the
  two halves are, and compare the merkle branch with the merkle root of the block.
\<close>

definition SV1_EXTRANONCE_PLACEHOLDER :: bytes where
  "SV1_EXTRANONCE_PLACEHOLDER = [0xfa, 0xce, 0xb0, 0x0c, 0xde, 0xad, 0xbe, 0xef]"

definition ntime_to_u32 :: "u64 \<Rightarrow> u32" where
  "ntime_to_u32 t = ucast t"

section \<open>Decoding the fields\<close>

definition decode_prev_hash :: "hex_crate \<Rightarrow> string \<Rightarrow> pool_error + bytes" where
  "decode_prev_hash hx s =
     and_then (map_err (\<lambda>e. Daemon_Error (''prev_hash hex: '' @ e)) (hex_decode hx s))
       (\<lambda>bs. if length bs \<noteq> 32
             then Inl (Daemon_Error (''prev_hash length '' @ dec_string (length bs) @ '' != 32''))
             else Inr (rev bs))"

definition decode_bits :: "hex_crate \<Rightarrow> string \<Rightarrow> pool_error + u32" where
  "decode_bits hx s =
     and_then (map_err (\<lambda>e. Daemon_Error (''bits hex: '' @ e)) (hex_decode hx s))
       (\<lambda>bs. if length bs \<noteq> 4
             then Inl (Daemon_Error (''bits length '' @ dec_string (length bs) @ '' != 4''))
             else Inr (from_be_bytes32 [bs ! 0, bs ! 1, bs ! 2, bs ! 3]))"

definition decode_coinbase_aux_flags ::
  "hex_crate \<Rightarrow> block_template \<Rightarrow> pool_error + bytes option" where
  "decode_coinbase_aux_flags hx template =
     (case Option.bind (coinbaseaux template) aux_flags of
        None \<Rightarrow> Inr None
      | Some flags \<Rightarrow>
          let flags = trim flags
          in if flags = [] then Inr None
             else map_err (\<lambda>e. Daemon_Error (''coinbaseaux.flags hex: '' @ e))
                    (and_then (hex_decode hx flags) (\<lambda>bs. Inr (Some bs))))"

definition decode_default_witness_commitment ::
  "hex_crate \<Rightarrow> block_template \<Rightarrow> pool_error + bytes option" where
  "decode_default_witness_commitment hx template =
     (case default_witness_commitment template of
        None \<Rightarrow> Inr None
      | Some commitment \<Rightarrow>
          let commitment = trim commitment
          in if commitment = [] then Inr None
             else map_err (\<lambda>e. Daemon_Error (''default_witness_commitment hex: '' @ e))
                    (and_then (hex_decode hx commitment) (\<lambda>bs. Inr (Some bs))))"

definition decode_template_transactions ::
  "hex_crate \<Rightarrow> block_template \<Rightarrow> pool_error + bytes list" where
  "decode_template_transactions hx template =
     collect_results
       (map (\<lambda>(index, tx).
               map_err (\<lambda>e. Daemon_Error (''transaction '' @ dec_string index @ '' data hex: '' @ e))
                 (hex_decode hx (te_data tx)))
            (enumerate 0 (transactions template)))"

section \<open>Merkle branch\<close>

text \<open>One turn of the loop: the hash it pushes, if any.\<close>

definition merkle_branch_entry :: "hex_crate \<Rightarrow> transaction_entry \<Rightarrow> bytes list" where
  "merkle_branch_entry hx tx =
     (case (case te_txid tx of Some h \<Rightarrow> Some h | None \<Rightarrow> te_hash tx) of
        None \<Rightarrow> []
      | Some h \<Rightarrow>
          (case hex_decode hx h of
             Inl e \<Rightarrow> []
           | Inr b \<Rightarrow> if length b = 32 then [rev b] else []))"

definition build_merkle_branch :: "hex_crate \<Rightarrow> block_template \<Rightarrow> bytes list" where
  "build_merkle_branch hx template = concat (map (merkle_branch_entry hx) (transactions template))"

section \<open>Coinbase parts\<close>

definition coinbase_inputs ::
  "block_template \<Rightarrow> bytes \<Rightarrow> bytes \<Rightarrow> bytes option \<Rightarrow> coinbase_build_inputs" where
  "coinbase_inputs template payout flags commitment =
     \<lparr> in_height = bt_height template, in_coinbase_value = coinbasevalue template,
       in_payout_script_pubkey = payout, in_coinbase_aux_flags = Some flags,
       in_default_witness_commitment = commitment \<rparr>"

definition build_coinbase_parts ::
  "bitcoin_crate \<Rightarrow> block_template \<Rightarrow> bytes \<Rightarrow> bytes option \<Rightarrow> bytes option
     \<Rightarrow> pool_error + bytes \<times> bytes" where
  "build_coinbase_parts btc template payout aux_flags_opt commitment =
     (let flags_with_extranonce =
            (case aux_flags_opt of None \<Rightarrow> [] | Some flags \<Rightarrow> flags) @ SV1_EXTRANONCE_PLACEHOLDER
      in and_then
           (build_coinbase_transaction btc
              (coinbase_inputs template payout flags_with_extranonce commitment))
           (\<lambda>coinbase_tx_bytes.
         and_then
           (map_err (\<lambda>e. Internal_Error (''coinbase deserialize: '' @ e))
              (tx_deserialize btc coinbase_tx_bytes))
           (\<lambda>coinbase_tx.
         let coinbase_no_witness = serialize_no_witness btc coinbase_tx
         in and_then
              (ok_or (Internal_Error ''coinbase transaction missing SV1 extranonce placeholder'')
                 (window_position SV1_EXTRANONCE_PLACEHOLDER coinbase_no_witness))
              (\<lambda>split_at.
                 Inr (take split_at coinbase_no_witness,
                      drop (split_at + length SV1_EXTRANONCE_PLACEHOLDER) coinbase_no_witness)))))"

definition template_to_job ::
  "hex_crate \<Rightarrow> bitcoin_crate \<Rightarrow> block_template \<Rightarrow> bytes \<Rightarrow> pool_error + job" where
  "template_to_job hx btc template payout =
     and_then (decode_prev_hash hx (previousblockhash template)) (\<lambda>prev_hash.
     and_then (decode_bits hx (bits template)) (\<lambda>nbits.
     let branch = build_merkle_branch hx template in
     and_then (decode_coinbase_aux_flags hx template) (\<lambda>aux_flags_opt.
     and_then (decode_default_witness_commitment hx template) (\<lambda>commitment.
     and_then (decode_template_transactions hx template) (\<lambda>template_transactions.
     and_then (build_coinbase_parts btc template payout aux_flags_opt commitment) (\<lambda>(part1, part2).
       Inr \<lparr> job_id = dec_string (unat (bt_height template)), job_prev_hash = prev_hash,
             coinbase_part1 = part1, coinbase_part2 = part2, merkle_branch = branch,
             job_version = bt_version template, job_nbits = nbits,
             job_ntime = ntime_to_u32 (curtime template), clean_jobs = True,
             block_assembly = Some \<lparr> asm_height = bt_height template,
               asm_coinbase_value = coinbasevalue template, asm_coinbase_aux_flags = aux_flags_opt,
               asm_template_transactions = template_transactions,
               asm_default_witness_commitment = commitment \<rparr> \<rparr>))))))"

section \<open>What a mapped job contains\<close>

lemma decode_prev_hash_Inr: "decode_prev_hash hx s = Inr h \<longleftrightarrow>
    (\<exists>bs. hex_decode hx s = Inr bs \<and> length bs = 32 \<and> h = rev bs)"
  by (auto simp: decode_prev_hash_def and_then_Inr)

lemma list_of_length_4: "length bs = 4 \<Longrightarrow> [bs ! 0, bs ! 1, bs ! 2, bs ! 3] = bs"
  by (auto simp: numeral_eq_Suc length_Suc_conv)

lemma decode_bits_Inr: "decode_bits hx s = Inr n \<longleftrightarrow>
    (\<exists>bs. hex_decode hx s = Inr bs \<and> length bs = 4 \<and> n = from_be_bytes32 bs)"
  by (auto simp: decode_bits_def and_then_Inr list_of_length_4 [unfolded One_nat_def])

lemma merkle_branch_length: "b \<in> set (build_merkle_branch hx t) \<Longrightarrow> length b = 32"
  by (auto simp: build_merkle_branch_def merkle_branch_entry_def split: option.splits sum.splits if_splits)

lemma template_to_job_Inr:
  assumes "template_to_job hx btc t payout = Inr j"
  obtains prev nb aux com txs parts where
    "decode_prev_hash hx (previousblockhash t) = Inr prev" "decode_bits hx (bits t) = Inr nb"
    "decode_coinbase_aux_flags hx t = Inr aux" "decode_default_witness_commitment hx t = Inr com"
    "decode_template_transactions hx t = Inr txs"
    "build_coinbase_parts btc t payout aux com = Inr parts"
    "j = \<lparr> job_id = dec_string (unat (bt_height t)), job_prev_hash = prev,
           coinbase_part1 = fst parts, coinbase_part2 = snd parts,
           merkle_branch = build_merkle_branch hx t, job_version = bt_version t, job_nbits = nb,
           job_ntime = ntime_to_u32 (curtime t), clean_jobs = True,
           block_assembly = Some \<lparr> asm_height = bt_height t, asm_coinbase_value = coinbasevalue t,
             asm_coinbase_aux_flags = aux, asm_template_transactions = txs,
             asm_default_witness_commitment = com \<rparr> \<rparr>"
  using assms unfolding template_to_job_def
  by (auto simp: and_then_Inr Let_def split_beta)

section \<open>Where the extranonce sits\<close>

text \<open>
  The legacy serialization of the coinbase up to the auxiliary flags' own bytes, for a
  script that ends in an eight-byte extranonce, and the rest after it.
\<close>

definition push_header :: "nat \<Rightarrow> bytes" where
  "push_header n =
     (if n \<le> 0x4b then [word_of_nat n] else if n \<le> 0xff then [0x4c, word_of_nat n]
      else if n \<le> 0xffff then 0x4d # to_le_bytes16 (word_of_nat n)
      else 0x4e # to_le_bytes32 (word_of_nat n))"

lemma push_data_header: "push_data [] d = push_header (length d) @ d"
  by (simp add: push_data_def push_header_def Let_def)

definition script_prefix :: "u64 \<Rightarrow> bytes \<Rightarrow> bytes" where
  "script_prefix height aux =
     push_data [] (encode_script_num height) @ push_header (length aux + 8) @ aux"

lemma coinbase_script_fill:
  assumes "length fill = 8"
  shows "build_coinbase_script_sig height (Some (aux @ fill)) = script_prefix height aux @ fill"
proof -
  have "aux @ fill \<noteq> []" using assms by auto
  then show ?thesis
    using assms by (simp add: build_coinbase_script_sig_def Let_def script_prefix_def
        push_data_header [of "aux @ fill"] push_data_buf [of "push_data _ _"])
qed

definition coinbase_prefix :: "bitcoin_crate \<Rightarrow> u64 \<Rightarrow> bytes \<Rightarrow> bytes" where
  "coinbase_prefix btc height aux =
     to_le_bytes32 (version_one btc) @ compact_size 1 @ encode_out_point (null_out_point btc)
     @ compact_size (length (script_prefix height aux) + 8) @ script_prefix height aux"

definition coinbase_suffix :: "bitcoin_crate \<Rightarrow> block_template \<Rightarrow> bytes \<Rightarrow> bytes option \<Rightarrow> bytes" where
  "coinbase_suffix btc t payout commitment =
     (let outs = \<lparr> tx_value = coinbasevalue t, script_pubkey = payout \<rparr>
                 # (case commitment of None \<Rightarrow> []
                    | Some c \<Rightarrow> [\<lparr> tx_value = 0, script_pubkey = c \<rparr>])
      in to_le_bytes32 (sequence_max btc) @ compact_size (length outs)
         @ concat (map encode_tx_out outs) @ to_le_bytes32 (lock_time_zero btc))"

lemma coinbase_no_witness_fill:
  assumes btc: "bitcoin_documented btc" and len: "length fill = 8"
  shows "serialize_no_witness btc (coinbase_transaction btc (coinbase_inputs t payout (aux @ fill) com))
     = coinbase_prefix btc (bt_height t) aux @ fill @ coinbase_suffix btc t payout com"
  using len
  by (simp add: serialize_no_witness_def coinbase_transaction_def coinbase_inputs_def
      coinbase_prefix_def coinbase_suffix_def Let_def bitcoin_laws [OF btc] encode_tx_in_def
      coinbase_script_fill split: option.split)

lemma window_position_extend:
  "pat \<noteq> [] \<Longrightarrow> window_position pat (xs @ pat) = Some (length xs)
   \<Longrightarrow> window_position pat (xs @ pat @ ys) = Some (length xs)"
proof (induction xs)
  case Nil
  then obtain p ps where "pat = p # ps" by (cases pat) auto
  then show ?case by simp
next
  case (Cons x xs)
  have "take (length pat) (x # xs @ pat @ ys) = take (length pat) (x # xs @ pat)"
    using take_append [of "length pat" "x # xs @ pat" ys] by simp
  with Cons show ?case by (auto split: if_splits)
qed

text \<open>The split point is the intended one: no earlier bytes look like the placeholder.\<close>

definition placeholder_first :: "bitcoin_crate \<Rightarrow> u64 \<Rightarrow> bytes \<Rightarrow> bool" where
  "placeholder_first btc height aux \<longleftrightarrow>
     window_position SV1_EXTRANONCE_PLACEHOLDER (coinbase_prefix btc height aux @ SV1_EXTRANONCE_PLACEHOLDER)
       = Some (length (coinbase_prefix btc height aux))"

lemma window_position_fresh:
  "p \<notin> set xs \<Longrightarrow> window_position (p # ps) (xs @ p # ps) = Some (length xs)"
  by (induction xs) auto

lemma placeholder_first_if:
  "0xfa \<notin> set (coinbase_prefix btc height aux) \<Longrightarrow> placeholder_first btc height aux"
  unfolding placeholder_first_def SV1_EXTRANONCE_PLACEHOLDER_def by (rule window_position_fresh)

definition aux_bytes :: "bytes option \<Rightarrow> bytes" where
  "aux_bytes aux_opt = (case aux_opt of None \<Rightarrow> [] | Some flags \<Rightarrow> flags)"

definition placeholder_tx ::
  "bitcoin_crate \<Rightarrow> block_template \<Rightarrow> bytes \<Rightarrow> bytes option \<Rightarrow> bytes option \<Rightarrow> transaction" where
  "placeholder_tx btc t payout aux_opt com =
     coinbase_transaction btc
       (coinbase_inputs t payout (aux_bytes aux_opt @ SV1_EXTRANONCE_PLACEHOLDER) com)"

lemma length_placeholder: "length SV1_EXTRANONCE_PLACEHOLDER = 8"
  by (simp add: SV1_EXTRANONCE_PLACEHOLDER_def)

lemma build_coinbase_parts_eq:
  assumes btc: "bitcoin_documented btc" and payout: "payout \<noteq> []"
    and rt: "round_trips btc (placeholder_tx btc t payout aux_opt com)"
    and uniq: "placeholder_first btc (bt_height t) (aux_bytes aux_opt)"
  shows "build_coinbase_parts btc t payout aux_opt com
     = Inr (coinbase_prefix btc (bt_height t) (aux_bytes aux_opt), coinbase_suffix btc t payout com)"
proof -
  have ne: "SV1_EXTRANONCE_PLACEHOLDER \<noteq> []" by (simp add: SV1_EXTRANONCE_PLACEHOLDER_def)
  have pos: "window_position SV1_EXTRANONCE_PLACEHOLDER
      (serialize_no_witness btc (placeholder_tx btc t payout aux_opt com))
      = Some (length (coinbase_prefix btc (bt_height t) (aux_bytes aux_opt)))"
    using window_position_extend [OF ne uniq [unfolded placeholder_first_def]]
    by (simp add: placeholder_tx_def coinbase_no_witness_fill [OF btc length_placeholder])
  have ser: "serialize_no_witness btc (placeholder_tx btc t payout aux_opt com)
      = coinbase_prefix btc (bt_height t) (aux_bytes aux_opt) @ SV1_EXTRANONCE_PLACEHOLDER
        @ coinbase_suffix btc t payout com"
    by (simp add: placeholder_tx_def coinbase_no_witness_fill [OF btc length_placeholder])
  have build: "build_coinbase_transaction btc
      (coinbase_inputs t payout (aux_bytes aux_opt @ SV1_EXTRANONCE_PLACEHOLDER) com)
      = Inr (tx_serialize btc (placeholder_tx btc t payout aux_opt com))"
    using payout by (simp add: build_coinbase_transaction_def placeholder_tx_def coinbase_inputs_def)
  have des: "tx_deserialize btc (tx_serialize btc (placeholder_tx btc t payout aux_opt com))
      = Inr (placeholder_tx btc t payout aux_opt com)"
    using rt by (simp add: round_trips_def)
  show ?thesis
    unfolding build_coinbase_parts_def Let_def aux_bytes_def [symmetric] build and_then_simps des
      map_err_simps pos ok_or_simps
    by (simp add: ser length_placeholder)
qed

text \<open>The coinbase rebuilt from a mapped job's halves and the miner's bytes.\<close>

lemma mapped_coinbase:
  assumes btc: "bitcoin_documented btc"
    and mapped: "template_to_job hx btc t payout = Inr j"
    and aux: "decode_coinbase_aux_flags hx t = Inr aux_opt"
    and com: "decode_default_witness_commitment hx t = Inr com"
    and rt: "round_trips btc (placeholder_tx btc t payout aux_opt com)"
    and uniq: "placeholder_first btc (bt_height t) (aux_bytes aux_opt)"
    and len: "length extranonce1 + length (extra_nonce2 share) = 8"
  shows "build_coinbase j share extranonce1
     = serialize_no_witness btc (coinbase_transaction btc
         (coinbase_inputs t payout (aux_bytes aux_opt @ extranonce1 @ extra_nonce2 share) com))"
proof -
  from mapped aux com obtain parts where parts: "build_coinbase_parts btc t payout aux_opt com = Inr parts"
    and j: "coinbase_part1 j = fst parts" "coinbase_part2 j = snd parts"
    by (elim template_to_job_Inr) simp
  have payout: "payout \<noteq> []"
    using parts by (auto simp: build_coinbase_parts_def build_coinbase_transaction_def
        coinbase_inputs_def Let_def and_then_Inr split: if_splits)
  have fill: "length (extranonce1 @ extra_nonce2 share) = 8" using len by simp
  show ?thesis
    using parts build_coinbase_parts_eq [OF btc payout rt uniq]
      coinbase_no_witness_fill [OF btc fill, of t payout "aux_bytes aux_opt" com] j
    by (auto simp: build_coinbase_def)
qed

section \<open>Merkle roots\<close>

text \<open>The block's merkle root: pair up, duplicating the last hash of an odd level.\<close>

fun pair_up :: "hasher \<Rightarrow> bytes list \<Rightarrow> bytes list" where
  "pair_up sha (a # b # hs) = double_sha256 sha (a @ b) # pair_up sha hs"
| "pair_up sha [a] = [double_sha256 sha (a @ a)]"
| "pair_up sha [] = []"

lemma length_pair_up: "length (pair_up sha hs) = (length hs + 1) div 2"
  by (induction sha hs rule: pair_up.induct) simp_all

function merkle_root :: "hasher \<Rightarrow> bytes list \<Rightarrow> bytes" where
  "merkle_root sha hs =
     (case hs of [] \<Rightarrow> replicate 32 0 | [h] \<Rightarrow> h | _ \<Rightarrow> merkle_root sha (pair_up sha hs))"
  by pat_completeness auto
termination
  by (relation "measure (\<lambda>(sha, hs). length hs)") (auto simp: length_pair_up)

declare merkle_root.simps [simp del]

lemma merkle_root_one [simp]: "merkle_root sha [h] = h"
  by (subst merkle_root.simps) simp

lemma merkle_root_more [simp]:
  "merkle_root sha (a # b # hs) = merkle_root sha (pair_up sha (a # b # hs))"
  by (subst merkle_root.simps) simp

section \<open>Properties\<close>

text \<open>
  Property C4. What miners hash is the pool's coinbase. For a job mapped from a template,
  the bytes rebuilt from the job's two halves and any eight bytes of extranonce1 and
  extranonce2 are the transaction-id serialization of the coinbase that carries these bytes
  after the auxiliary flags, pays the whole coinbase value to the pool's script and keeps
  the witness commitment output; provided the crate reads back the transaction it wrote and
  the placeholder pattern does not occur earlier.
\<close>

theorem miner_coinbase_is_pool_coinbase:
  assumes btc: "bitcoin_documented btc"
    and mapped: "template_to_job hx btc t payout = Inr j"
    and aux: "decode_coinbase_aux_flags hx t = Inr aux_opt"
    and com: "decode_default_witness_commitment hx t = Inr com"
    and rt: "round_trips btc (placeholder_tx btc t payout aux_opt com)"
    and uniq: "placeholder_first btc (bt_height t) (aux_bytes aux_opt)"
    and len: "length extranonce1 + length (extra_nonce2 share) = 8"
  shows "build_coinbase j share extranonce1
     = serialize_no_witness btc (coinbase_transaction btc
         (coinbase_inputs t payout (aux_bytes aux_opt @ extranonce1 @ extra_nonce2 share) com))"
  by (rule mapped_coinbase [OF assms])

definition sample_template :: block_template where
  "sample_template =
     \<lparr> bt_version = 0x20000000, previousblockhash = hex_text (replicate 32 1),
       bits = hex_text [0x1d, 0, 0xff, 0xff], curtime = 1700000000, bt_height = 100,
       transactions = [], coinbasevalue = 5000000000, coinbaseaux = None,
       default_witness_commitment = None \<rparr>"

definition sample_payout :: bytes where
  "sample_payout = [0x76, 0xa9, 0x14]"

definition sample_coinbase :: transaction where
  "sample_coinbase = placeholder_tx (sample_bitcoin []) sample_template sample_payout None None"

definition sample_btc :: bitcoin_crate where
  "sample_btc = sample_bitcoin [sample_coinbase]"

lemma sample_btc_documented [simp]: "bitcoin_documented sample_btc"
  by (simp add: sample_btc_def)

lemma sample_decoded:
  "decode_coinbase_aux_flags sample_hex sample_template = Inr None"
  "decode_default_witness_commitment sample_hex sample_template = Inr None"
  "decode_prev_hash sample_hex (previousblockhash sample_template) = Inr (replicate 32 1)"
  "decode_bits sample_hex (bits sample_template) = Inr 0x1d00ffff"
  "decode_template_transactions sample_hex sample_template = Inr []"
  by (simp_all add: decode_coinbase_aux_flags_def decode_default_witness_commitment_def
      decode_prev_hash_Inr decode_bits_Inr sample_template_def hex_decode_Inr [of sample_hex]
      decode_template_transactions_def from_be_bytes32_def be_nat_Cons)

lemma sample_round_trips: "round_trips sample_btc (placeholder_tx sample_btc sample_template sample_payout None None)"
proof -
  have "placeholder_tx sample_btc sample_template sample_payout None None = sample_coinbase"
    by (simp add: sample_coinbase_def placeholder_tx_def coinbase_transaction_def sample_btc_def
        sample_bitcoin_def)
  then show ?thesis by (simp add: round_trips_def sample_btc_def sample_bitcoin_def)
qed

lemma sample_placeholder_first: "placeholder_first sample_btc (bt_height sample_template) (aux_bytes None)"
proof -
  have p: "coinbase_prefix sample_btc 100 [] = [1, 0, 0, 0, 1] @ replicate 32 0
      @ [0xff, 0xff, 0xff, 0xff, 11, 1, 100, 8]"
    by (simp add: coinbase_prefix_def sample_btc_def sample_bitcoin_def encode_out_point_def
        script_prefix_def push_header_def push_data_def encode_script_num_def
        script_num_bytes.simps compact_size_def to_le_bytes32_def le_bytes_def upt_rec)
  show ?thesis
    by (rule placeholder_first_if)
      (simp add: aux_bytes_def sample_template_def p)
qed

lemma sample_mapped: "\<exists>j. template_to_job sample_hex sample_btc sample_template sample_payout = Inr j"
  using build_coinbase_parts_eq [OF sample_btc_documented _ sample_round_trips sample_placeholder_first]
  by (simp add: template_to_job_def sample_decoded sample_payout_def)

theorem miner_coinbase_is_pool_coinbase_witness:
  "\<exists>j. template_to_job sample_hex sample_btc sample_template sample_payout = Inr j
     \<and> build_coinbase j sample_share [1, 2, 3, 4]
        = serialize_no_witness sample_btc (coinbase_transaction sample_btc
            (coinbase_inputs sample_template sample_payout [1, 2, 3, 4, 0, 0, 0, 0] None))"
proof -
  obtain j where j: "template_to_job sample_hex sample_btc sample_template sample_payout = Inr j"
    using sample_mapped by blast
  have len: "length [1, 2, 3, 4 :: u8] + length (extra_nonce2 sample_share) = 8"
    by (simp add: sample_share_def)
  show ?thesis
    using j miner_coinbase_is_pool_coinbase [OF sample_btc_documented j sample_decoded(1,2)
        sample_round_trips sample_placeholder_first len]
    by (auto simp: aux_bytes_def sample_share_def)
qed

text \<open>
  What a mapped job carries over from its template: the height (as id and for
  block submission), the previous hash with its bytes reversed, the compact bits read
  big-endian, the version, the time modulo \<open>2^32\<close>, the clean flag (always set), the
  decoded transactions in order and one 32-byte hash per usable branch entry.
\<close>

lemma template_job_fields:
  assumes "template_to_job hx btc t payout = Inr j"
  shows "job_ok j \<and> clean_jobs j \<and> job_height j = bt_height t
     \<and> job_id j = dec_string (unat (bt_height t)) \<and> job_version j = bt_version t
     \<and> job_ntime j = ucast (curtime t)
     \<and> hex_decode hx (previousblockhash t) = Inr (rev (job_prev_hash j))
     \<and> (\<exists>bs. hex_decode hx (bits t) = Inr bs \<and> unat (job_nbits j) = be_nat bs)
     \<and> merkle_branch j = build_merkle_branch hx t
     \<and> (\<exists>b. block_assembly j = Some b \<and> asm_coinbase_value b = coinbasevalue t
          \<and> map (hex_decode hx \<circ> te_data) (transactions t) = map Inr (asm_template_transactions b))"
proof -
  have txs: "map (hex_decode hx \<circ> te_data) (transactions t) = map Inr txs"
    if "decode_template_transactions hx t = Inr txs" for txs
  proof (rule nth_equalityI)
    have eq: "map (\<lambda>(index, tx).
               map_err (\<lambda>e. Daemon_Error (''transaction '' @ dec_string index @ '' data hex: '' @ e))
                 (hex_decode hx (te_data tx))) (enumerate 0 (transactions t)) = map Inr txs"
      using that unfolding decode_template_transactions_def collect_results_Inr .
    from arg_cong [OF eq, of length]
    show len: "length (map (hex_decode hx \<circ> te_data) (transactions t)) = length (map Inr txs)" by simp
    fix i assume i: "i < length (map (hex_decode hx \<circ> te_data) (transactions t))"
    with len arg_cong [OF eq, of "\<lambda>xs. xs ! i"]
    show "map (hex_decode hx \<circ> te_data) (transactions t) ! i = map Inr txs ! i"
      by (simp add: nth_enumerate_eq)
  qed
  from assms show ?thesis
    by (rule template_to_job_Inr)
      (auto simp: job_ok_def job_height_def ntime_to_u32_def decode_prev_hash_Inr decode_bits_Inr
        unat_from_be_bytes32 txs dest: merkle_branch_length)
qed

text \<open>
  Merkle root, small blocks: with at most one template transaction the header's
  merkle root is the block's merkle root over the coinbase and that transaction.
\<close>

lemma merkle_root_small_block:
  assumes "length (transactions t) \<le> 1"
  shows "apply_merkle_branch sha coinbase_hash (build_merkle_branch hx t)
       = merkle_root sha (coinbase_hash # build_merkle_branch hx t)"
proof -
  have entry: "length (merkle_branch_entry hx tx) \<le> 1" for tx
    by (simp add: merkle_branch_entry_def split: option.split sum.split)
  have "length (build_merkle_branch hx t) \<le> 1"
    using assms entry by (cases "transactions t") (simp_all add: build_merkle_branch_def)
  then consider "build_merkle_branch hx t = []" | b where "build_merkle_branch hx t = [b]"
    by (cases "build_merkle_branch hx t") auto
  then show ?thesis by cases simp_all
qed



end
