(* ===== verification/Node_Api.thy ===== *)
theory Node_Api
  imports Template_Mapper Share_Processor
begin

text \<open>
  The REST side of \<open>coin_azcoin\<close>: \<open>node_api.rs\<close> (fetching a template, reporting a
  share) and \<open>api_template_mapper.rs\<close>. The HTTP client and the clock are parameters;
  reading a \<open>NodeApiTemplate\<close> out of JSON is generated code, the parameter \<open>from_value\<close>.
\<close>

record node_api_client =
  na_base_url :: string
  na_bearer_token :: "string option"

record node_api_template =
  nt_job_id :: string
  nt_prev_hash :: string
  nt_version :: u32
  nt_nbits :: string
  nt_ntime :: string
  nt_clean_jobs :: bool
  nt_height :: u64

record node_api_share_request =
  sr_ts :: i64
  sr_worker :: string
  sr_job_id :: string
  sr_extranonce2 :: string
  sr_ntime :: string
  sr_nonce :: string
  sr_accepted :: bool
  sr_duplicate :: bool
  sr_share_diff :: u32
  sr_reason :: string

section \<open>The client\<close>

definition node_api_client_new :: "string \<Rightarrow> string option \<Rightarrow> node_api_client" where
  "node_api_client_new base_url bearer_token =
     \<lparr> na_base_url = trim_end_matches CHR ''/'' base_url,
       na_bearer_token =
         Option.bind bearer_token (\<lambda>t. let t = trim t in if t = [] then None else Some t) \<rparr>"

definition auth_configured :: "node_api_client \<Rightarrow> bool" where
  "auth_configured self \<longleftrightarrow> na_bearer_token self \<noteq> None"

definition node_api_request ::
  "node_api_client \<Rightarrow> http_method \<Rightarrow> string \<Rightarrow> json option \<Rightarrow> http_request" where
  "node_api_request self m path body =
     \<lparr> req_method = m, req_url = na_base_url self @ path,
       req_auth = map_option Bearer_Auth (na_bearer_token self), req_body = body \<rparr>"

definition get_template_current ::
  "'w http_crate \<Rightarrow> (json \<Rightarrow> string + node_api_template) \<Rightarrow> node_api_client \<Rightarrow> 'w
     \<Rightarrow> (pool_error + node_api_template option) \<times> 'w" where
  "get_template_current http from_value self w =
     (case http_send http (node_api_request self GET ''/v1/az/mining/template/current'' None) w of
        (Inl e, w) \<Rightarrow> (Inl (Daemon_Error (''node API request failed: '' @ e)), w)
      | (Inr resp, w) \<Rightarrow>
          (if \<not> is_success (resp_status resp)
           then Inl (Daemon_Error (''node API returned HTTP '' @ status_display http (resp_status resp)))
           else and_then (map_err (\<lambda>e. Daemon_Error (''node API response parse failed: '' @ e))
                            (and_then (resp_json resp) from_value))
                  (\<lambda>template. Inr (Some template)), w))"

text \<open>The derived serialization of a struct: an object with its fields in order.\<close>

definition json_i64 :: "i64 \<Rightarrow> json" where
  "json_i64 n = JNumber (if 0 \<le> sint n then PosInt n else NegInt (sint n))"

definition share_request_json :: "node_api_share_request \<Rightarrow> json" where
  "share_request_json p =
     JObject [(''ts'', json_i64 (sr_ts p)), (''worker'', JString (sr_worker p)),
       (''job_id'', JString (sr_job_id p)), (''extranonce2'', JString (sr_extranonce2 p)),
       (''ntime'', JString (sr_ntime p)), (''nonce'', JString (sr_nonce p)),
       (''accepted'', JBool (sr_accepted p)), (''duplicate'', JBool (sr_duplicate p)),
       (''share_diff'', json_u32 (sr_share_diff p)), (''reason'', JString (sr_reason p))]"

definition post_share ::
  "'w http_crate \<Rightarrow> node_api_client \<Rightarrow> node_api_share_request \<Rightarrow> 'w \<Rightarrow> (pool_error + unit) \<times> 'w" where
  "post_share http self payload w =
     (case http_send http
             (node_api_request self POST ''/v1/mining/share'' (Some (share_request_json payload))) w of
        (Inl e, w) \<Rightarrow> (Inl (Daemon_Error (''node API share POST failed: '' @ e)), w)
      | (Inr resp, w) \<Rightarrow>
          (if \<not> is_success (resp_status resp)
           then Inl (Daemon_Error (''node API share POST returned HTTP ''
                       @ status_display http (resp_status resp)))
           else Inr (), w))"

definition build_share_request ::
  "hex_crate \<Rightarrow> i64 \<Rightarrow> share_submission \<Rightarrow> share_result \<Rightarrow> u32 \<Rightarrow> node_api_share_request" where
  "build_share_request hx timestamp share result pool_difficulty =
     \<lparr> sr_ts = timestamp, sr_worker = worker_id (share_worker share), sr_job_id = share_job_id share,
       sr_extranonce2 = hex_encode hx (extra_nonce2 share), sr_ntime = fmt_08x (share_ntime share),
       sr_nonce = fmt_08x (share_nonce share), sr_accepted = is_accepted result,
       sr_duplicate = False, sr_share_diff = pool_difficulty,
       sr_reason = (case reject_reason result of None \<Rightarrow> [] | Some r \<Rightarrow> r) \<rparr>"

definition node_api_submit_share ::
  "hex_crate \<Rightarrow> 'w http_crate \<Rightarrow> ('w \<Rightarrow> i64) \<Rightarrow> node_api_client \<Rightarrow> 'w share_sink" where
  "node_api_submit_share hx http now self share result pool_difficulty w =
     (case post_share http self (build_share_request hx (now w) share result pool_difficulty) w of
        (r, w) \<Rightarrow> (map_err pool_error_to_string r, w))"

section \<open>Mapping a template\<close>

definition ntime_hex_to_u32 :: "hex_crate \<Rightarrow> string \<Rightarrow> pool_error + u32" where
  "ntime_hex_to_u32 hx s =
     and_then (map_err (\<lambda>e. Daemon_Error (''ntime hex: '' @ e)) (hex_decode hx (trim s)))
       (\<lambda>bs. if length bs \<noteq> 4
             then Inl (Daemon_Error (''ntime length '' @ dec_string (length bs) @ '' != 4''))
             else Inr (from_le_bytes32 [bs ! 0, bs ! 1, bs ! 2, bs ! 3]))"

definition api_build_coinbase_parts :: "node_api_template \<Rightarrow> bytes \<times> bytes" where
  "api_build_coinbase_parts template =
     ([0x01, 0x00, 0x00, 0x00, 0x00] @ to_le_bytes64 (nt_height template), [0xff, 0xff, 0xff, 0xff])"

definition api_template_to_job :: "hex_crate \<Rightarrow> node_api_template \<Rightarrow> pool_error + job" where
  "api_template_to_job hx template =
     and_then (decode_prev_hash hx (nt_prev_hash template)) (\<lambda>prev_hash.
     and_then (decode_bits hx (nt_nbits template)) (\<lambda>nbits.
     and_then (ntime_hex_to_u32 hx (nt_ntime template)) (\<lambda>ntime.
     let (part1, part2) = api_build_coinbase_parts template
     in Inr \<lparr> job_id = nt_job_id template, job_prev_hash = prev_hash, coinbase_part1 = part1,
              coinbase_part2 = part2, merkle_branch = [], job_version = nt_version template,
              job_nbits = nbits, job_ntime = ntime, clean_jobs = nt_clean_jobs template,
              block_assembly = None \<rparr>)))"

section \<open>Lemmas\<close>

lemma ntime_hex_to_u32_Inr: "ntime_hex_to_u32 hx s = Inr t \<longleftrightarrow>
    (\<exists>bs. hex_decode hx (trim s) = Inr bs \<and> length bs = 4 \<and> t = from_le_bytes32 bs)"
  by (auto simp: ntime_hex_to_u32_def and_then_Inr list_of_length_4 [unfolded One_nat_def])

lemma ntime_of_fmt_08x:
  assumes "hex_documented hx"
  shows "ntime_hex_to_u32 hx (fmt_08x t) = Inr (from_be_bytes32 (to_le_bytes32 t))"
proof -
  have "hex_decode hx (fmt_08x t) = Inr (rev (to_le_bytes32 t))"
    by (simp add: hex_laws(1) [OF assms] fmt_08x_hex_text)
  then show ?thesis
    by (simp add: ntime_hex_to_u32_Inr from_be_bytes32_def from_le_bytes32_def le_nat_def)
qed

lemma api_job_Inr: "api_template_to_job hx t = Inr j \<Longrightarrow>
    job_ok j \<and> job_id j = nt_job_id t \<and> clean_jobs j = nt_clean_jobs t \<and> block_assembly j = None
    \<and> ntime_hex_to_u32 hx (nt_ntime t) = Inr (job_ntime j)"
  by (auto simp: api_template_to_job_def and_then_Inr job_ok_def decode_prev_hash_Inr
      api_build_coinbase_parts_def)

section \<open>Properties\<close>

text \<open>
  Every verdict is reported once and as it is: the sink sends one POST to the
  share endpoint whose body carries the worker, job, verdict, reason and difficulty, and the
  nonce and time in a form that parses back to the submitted ones; it answers \<open>Ok\<close> exactly
  when the node answered with a success status.
\<close>

lemma share_report_faithful:
  "(let (r, w') = node_api_submit_share hx http now self share result d w;
        body = share_request_json (build_share_request hx (now w) share result d);
        (answer, w'') = http_send http (node_api_request self POST ''/v1/mining/share'' (Some body)) w
    in w' = w''
       \<and> (is_ok r \<longleftrightarrow> (\<exists>resp. answer = Inr resp \<and> is_success (resp_status resp)))
       \<and> json_get ''worker'' body = Some (JString (worker_id (share_worker share)))
       \<and> json_get ''job_id'' body = Some (JString (share_job_id share))
       \<and> json_get ''accepted'' body = Some (JBool (reject_reason result = None))
       \<and> json_get ''reason'' body = Some (JString (case reject_reason result of None \<Rightarrow> [] | Some r \<Rightarrow> r))
       \<and> json_get ''share_diff'' body = Some (json_u32 d)
       \<and> (\<exists>s. json_get ''ntime'' body = Some (JString s) \<and> u32_from_str_radix s 16 = Some (share_ntime share))
       \<and> (\<exists>s. json_get ''nonce'' body = Some (JString s) \<and> u32_from_str_radix s 16 = Some (share_nonce share)))"
  by (simp add: node_api_submit_share_def post_share_def share_request_json_def json_get_def
      obj_get_def build_share_request_def reject_reason_None split: prod.splits sum.splits)

text \<open>
  The node API's time is read with its bytes swapped: a template whose
  \<open>ntime\<close> is the usual eight-digit hex number of \<open>t\<close> (the form in which the pool itself
  prints times for miners and for share reports) becomes a job whose time is the byte
  reversal of \<open>t\<close>.
\<close>

lemma api_ntime_bytes_swapped:
  assumes "hex_documented hx" and "api_template_to_job hx template = Inr j"
    and "nt_ntime template = fmt_08x t"
  shows "to_le_bytes32 (job_ntime j) = rev (to_le_bytes32 t)"
proof -
  have "job_ntime j = from_be_bytes32 (to_le_bytes32 t)"
    using api_job_Inr [OF assms(2)] ntime_of_fmt_08x [OF assms(1)] assms(3) by simp
  then have u: "unat (job_ntime j) = be_nat (to_le_bytes32 t)"
    by (simp add: unat_from_be_bytes32)
  have "be_nat (rev (to_le_bytes32 (job_ntime j))) = unat (job_ntime j)"
    using unsigned_less [of "job_ntime j", where ?'a = nat]
    by (simp add: to_le_bytes32_def be_nat_rev_le_bytes)
  with u have "be_nat (rev (to_le_bytes32 (job_ntime j))) = be_nat (to_le_bytes32 t)" by simp
  then have "rev (to_le_bytes32 (job_ntime j)) = to_le_bytes32 t"
    by (rule be_nat_inject [rotated]) simp
  then show ?thesis by (metis rev_rev_ident)
qed

end
