(* ===== verification/Config.thy ===== *)
theory Config
  imports Domain
begin

text \<open>
  \<open>common/src/config.rs\<close>: the configuration record, its defaults, the environment
  overrides and loading. The TOML reader is the crate parameter \<open>toml\<close>; the file system is
  \<open>read_to_string\<close> (no value when the file cannot be read) and the environment a function
  from variable names to their values.
\<close>

datatype job_source_mode = Rpc | Api

definition job_source_mode_display :: "job_source_mode \<Rightarrow> string" where
  "job_source_mode_display m = (case m of Rpc \<Rightarrow> ''rpc'' | Api \<Rightarrow> ''api'')"

definition job_source_mode_deserialize :: "string \<Rightarrow> string + job_source_mode" where
  "job_source_mode_deserialize s =
     (if to_lowercase s = ''rpc'' then Inr Rpc
      else if to_lowercase s = ''api'' then Inr Api
      else Inl (''invalid job_source_mode '' @ [CHR 0x27] @ s @ [CHR 0x27] @ '', expected ''
                @ [CHR 0x27] @ ''rpc'' @ [CHR 0x27] @ '' or '' @ [CHR 0x27] @ ''api'' @ [CHR 0x27]))"

record pool_section =
  pool_name :: string
  initial_difficulty :: u32
  payout_script_pubkey_hex :: string

record api_section =
  api_bind :: string
  api_port :: u16

record stratum_section =
  stratum_bind :: string
  stratum_port :: u16

record daemon_section =
  ds_url :: string
  ds_rpc_user :: string
  ds_rpc_password :: string
  ds_job_source_mode :: job_source_mode
  ds_node_api_token :: string
  ds_share_api_url :: string

record pool_config =
  cfg_pool :: pool_section
  cfg_api :: api_section
  cfg_stratum :: stratum_section
  cfg_daemon :: daemon_section

section \<open>Defaults\<close>

definition default_pool_name :: string where
  [simp]: "default_pool_name = ''azcoin-pool''"

definition default_pool_initial_difficulty :: u32 where
  [simp]: "default_pool_initial_difficulty = 1"

definition pool_section_default :: pool_section where
  "pool_section_default =
     \<lparr> pool_name = default_pool_name, initial_difficulty = default_pool_initial_difficulty, payout_script_pubkey_hex = [] \<rparr>"

definition api_section_default :: api_section where
  "api_section_default = \<lparr> api_bind = ''0.0.0.0'', api_port = 8080 \<rparr>"

definition stratum_section_default :: stratum_section where
  "stratum_section_default = \<lparr> stratum_bind = ''0.0.0.0'', stratum_port = 3333 \<rparr>"

definition daemon_section_default :: daemon_section where
  "daemon_section_default =
     \<lparr> ds_url = ''http://127.0.0.1:8332'', ds_rpc_user = [], ds_rpc_password = [],
       ds_job_source_mode = Rpc, ds_node_api_token = [], ds_share_api_url = [] \<rparr>"

definition pool_config_default :: pool_config where
  "pool_config_default =
     \<lparr> cfg_pool = pool_section_default, cfg_api = api_section_default,
       cfg_stratum = stratum_section_default, cfg_daemon = daemon_section_default \<rparr>"

definition payout_script_pubkey_bytes :: "hex_crate \<Rightarrow> pool_section \<Rightarrow> pool_error + bytes option" where
  "payout_script_pubkey_bytes hx self =
     (let h = trim (payout_script_pubkey_hex self)
      in if h = [] then Inr None
         else map_err (\<lambda>e. Config_Error (''invalid pool.payout_script_pubkey_hex: '' @ e))
                (and_then (hex_decode hx h) (\<lambda>bs. Inr (Some bs))))"

section \<open>Environment overrides\<close>

definition env_POOL_INITIAL_DIFFICULTY :: string where
  "env_POOL_INITIAL_DIFFICULTY = ''POOL__INITIAL_DIFFICULTY''"
definition env_POOL_PAYOUT_SCRIPT_PUBKEY_HEX :: string where
  "env_POOL_PAYOUT_SCRIPT_PUBKEY_HEX = ''POOL__PAYOUT_SCRIPT_PUBKEY_HEX''"
definition env_DAEMON_JOB_SOURCE_MODE :: string where
  "env_DAEMON_JOB_SOURCE_MODE = ''DAEMON__JOB_SOURCE_MODE''"
definition env_DAEMON_URL :: string where
  "env_DAEMON_URL = ''DAEMON__URL''"
definition env_DAEMON_RPC_USER :: string where
  "env_DAEMON_RPC_USER = ''DAEMON__RPC_USER''"
definition env_DAEMON_RPC_PASSWORD :: string where
  "env_DAEMON_RPC_PASSWORD = ''DAEMON__RPC_PASSWORD''"
definition env_AZ_NODE_API_TOKEN :: string where
  "env_AZ_NODE_API_TOKEN = ''AZ_NODE_API_TOKEN''"
definition env_DAEMON_NODE_API_TOKEN :: string where
  "env_DAEMON_NODE_API_TOKEN = ''DAEMON__NODE_API_TOKEN''"
definition env_DAEMON_SHARE_API_URL :: string where
  "env_DAEMON_SHARE_API_URL = ''DAEMON__SHARE_API_URL''"
definition env_API_BIND :: string where
  "env_API_BIND = ''API__BIND''"
definition env_API_PORT :: string where
  "env_API_PORT = ''API__PORT''"
definition env_STRATUM_BIND :: string where
  "env_STRATUM_BIND = ''STRATUM__BIND''"
definition env_STRATUM_PORT :: string where
  "env_STRATUM_PORT = ''STRATUM__PORT''"

definition parse_job_source_mode :: "string \<Rightarrow> job_source_mode option" where
  "parse_job_source_mode s =
     (let l = to_lowercase (trim s)
      in if l = ''rpc'' then Some Rpc else if l = ''api'' then Some Api else None)"

text \<open>
  \<open>if let Some(v) = env(key)\<close> with a body that always assigns, and with one that assigns
  only when the value parses.
\<close>

definition env_set :: "string option \<Rightarrow> (string \<Rightarrow> 'c \<Rightarrow> 'c) \<Rightarrow> 'c \<Rightarrow> 'c" where
  "env_set v f c = (case v of None \<Rightarrow> c | Some s \<Rightarrow> f s c)"

definition env_parse :: "string option \<Rightarrow> (string \<Rightarrow> 'a option) \<Rightarrow> ('a \<Rightarrow> 'c \<Rightarrow> 'c) \<Rightarrow> 'c \<Rightarrow> 'c" where
  "env_parse v p f c =
     (case v of None \<Rightarrow> c | Some s \<Rightarrow> (case p s of None \<Rightarrow> c | Some x \<Rightarrow> f x c))"

definition apply_env_overrides_from :: "(string \<Rightarrow> string option) \<Rightarrow> pool_config \<Rightarrow> pool_config" where
  "apply_env_overrides_from env c0 =
     (let c1 = cfg_pool_update (env_parse (env env_POOL_INITIAL_DIFFICULTY) (\<lambda>v. parse_u32 (trim v))
                 (\<lambda>d s. s\<lparr> initial_difficulty := d \<rparr>)) c0;
          c2 = cfg_pool_update (env_set (env env_POOL_PAYOUT_SCRIPT_PUBKEY_HEX)
                 (\<lambda>v s. s\<lparr> payout_script_pubkey_hex := trim v \<rparr>)) c1;
          c3 = cfg_daemon_update (env_parse (env env_DAEMON_JOB_SOURCE_MODE) parse_job_source_mode
                 (\<lambda>m s. s\<lparr> ds_job_source_mode := m \<rparr>)) c2;
          c4 = cfg_daemon_update (env_set (env env_DAEMON_URL)
                 (\<lambda>v s. s\<lparr> ds_url := trim v \<rparr>)) c3;
          c5 = cfg_daemon_update (env_set (env env_DAEMON_RPC_USER)
                 (\<lambda>v s. s\<lparr> ds_rpc_user := v \<rparr>)) c4;
          c6 = cfg_daemon_update (env_set (env env_DAEMON_RPC_PASSWORD)
                 (\<lambda>v s. s\<lparr> ds_rpc_password := v \<rparr>)) c5;
          c7 = cfg_daemon_update (env_set (env env_AZ_NODE_API_TOKEN)
                 (\<lambda>v s. s\<lparr> ds_node_api_token := v \<rparr>)) c6;
          c8 = cfg_daemon_update (env_set (env env_DAEMON_NODE_API_TOKEN)
                 (\<lambda>v s. s\<lparr> ds_node_api_token := v \<rparr>)) c7;
          c9 = cfg_daemon_update (env_set (env env_DAEMON_SHARE_API_URL)
                 (\<lambda>v s. s\<lparr> ds_share_api_url := trim v \<rparr>)) c8;
          c10 = cfg_api_update (env_set (env env_API_BIND)
                 (\<lambda>v s. s\<lparr> api_bind := trim v \<rparr>)) c9;
          c11 = cfg_api_update (env_parse (env env_API_PORT) (\<lambda>v. parse_u16 (trim v))
                 (\<lambda>p s. s\<lparr> api_port := p \<rparr>)) c10;
          c12 = cfg_stratum_update (env_set (env env_STRATUM_BIND)
                 (\<lambda>v s. s\<lparr> stratum_bind := trim v \<rparr>)) c11
      in cfg_stratum_update (env_parse (env env_STRATUM_PORT) (\<lambda>v. parse_u16 (trim v))
           (\<lambda>p s. s\<lparr> stratum_port := p \<rparr>)) c12)"

text \<open>
  \<open>apply_env_overrides\<close> has the same body over \<open>std::env::var\<close>, whose error (the variable
  is unset or not UTF-8) is the missing value here.
\<close>

definition apply_env_overrides :: "(string \<Rightarrow> string option) \<Rightarrow> pool_config \<Rightarrow> pool_config" where
  "apply_env_overrides process_env c = apply_env_overrides_from process_env c"

section \<open>Loading\<close>

definition parse_config_toml ::
  "hex_crate \<Rightarrow> (string \<Rightarrow> string + pool_config) \<Rightarrow> string \<Rightarrow> pool_error + pool_config" where
  "parse_config_toml hx toml s =
     and_then (map_err Config_Error (toml s)) (\<lambda>config.
     and_then (payout_script_pubkey_bytes hx (cfg_pool config)) (\<lambda>_. Inr config))"

definition load_config ::
  "hex_crate \<Rightarrow> (string \<Rightarrow> string + pool_config) \<Rightarrow> (string \<Rightarrow> string option)
     \<Rightarrow> (string \<Rightarrow> string option) \<Rightarrow> string option \<Rightarrow> pool_error + pool_config" where
  "load_config hx toml read_to_string process_env path =
     (let path = (case path of None \<Rightarrow> ''config.toml'' | Some p \<Rightarrow> p)
      in and_then (case read_to_string path of
                     Some s \<Rightarrow> map_err Config_Error (toml s)
                   | None \<Rightarrow> Inr pool_config_default) (\<lambda>config.
         let config = apply_env_overrides process_env config
         in and_then (payout_script_pubkey_bytes hx (cfg_pool config)) (\<lambda>_. Inr config)))"

section \<open>Properties\<close>

text \<open>The value of one setting: the parsed variable when there is one, else the old value.\<close>

definition or_else :: "'a option \<Rightarrow> 'a \<Rightarrow> 'a" where
  "or_else x d = (case x of None \<Rightarrow> d | Some v \<Rightarrow> v)"

lemma env_set_keep: "(\<And>s c. f (g s c) = f c) \<Longrightarrow> f (env_set v g c) = f c"
  by (simp add: env_set_def split: option.split)

lemma env_parse_keep: "(\<And>s c. f (g s c) = f c) \<Longrightarrow> f (env_parse v p g c) = f c"
  by (simp add: env_parse_def split: option.split)

lemma env_set_change: "(\<And>s c. f (g s c) = h s) \<Longrightarrow> f (env_set v g c) = or_else (map_option h v) (f c)"
  by (simp add: env_set_def or_else_def split: option.split)

lemma env_parse_change:
  "(\<And>s c. f (g s c) = s) \<Longrightarrow> f (env_parse v p g c) = or_else (Option.bind v p) (f c)"
  by (simp add: env_parse_def or_else_def split: option.split)

text \<open>One instance per setting: the step that changes it, and the steps that keep it.\<close>

lemmas env_simps =
  env_parse_change [of initial_difficulty "\<lambda>d s. s\<lparr> initial_difficulty := d \<rparr>", simplified]
  env_set_keep [of initial_difficulty] env_set_keep [of pool_name] env_parse_keep [of pool_name]
  env_set_change [of payout_script_pubkey_hex "\<lambda>v s. s\<lparr> payout_script_pubkey_hex := trim v \<rparr>" trim, simplified]
  env_parse_keep [of payout_script_pubkey_hex]
  env_parse_change [of ds_job_source_mode "\<lambda>d s. s\<lparr> ds_job_source_mode := d \<rparr>", simplified]
  env_set_keep [of ds_job_source_mode]
  env_set_change [of ds_url "\<lambda>v s. s\<lparr> ds_url := trim v \<rparr>" trim, simplified]
  env_set_keep [of ds_url] env_parse_keep [of ds_url]
  env_set_change [of ds_rpc_user "\<lambda>v s. s\<lparr> ds_rpc_user := v \<rparr>" "\<lambda>v. v", simplified]
  env_set_keep [of ds_rpc_user] env_parse_keep [of ds_rpc_user]
  env_set_change [of ds_rpc_password "\<lambda>v s. s\<lparr> ds_rpc_password := v \<rparr>" "\<lambda>v. v", simplified]
  env_set_keep [of ds_rpc_password] env_parse_keep [of ds_rpc_password]
  env_set_change [of ds_node_api_token "\<lambda>v s. s\<lparr> ds_node_api_token := v \<rparr>" "\<lambda>v. v", simplified]
  env_set_keep [of ds_node_api_token] env_parse_keep [of ds_node_api_token]
  env_parse_change [of stratum_port "\<lambda>d s. s\<lparr> stratum_port := d \<rparr>", simplified]
  env_set_keep [of stratum_port]
  env_parse_change [of api_port "\<lambda>d s. s\<lparr> api_port := d \<rparr>", simplified]
  env_set_keep [of api_port]

text \<open>
  Environment variables take precedence over the file, one setting at a time:
  numbers and the mode change only when the value parses, the others always; of the two
  token variables \<open>DAEMON__NODE_API_TOKEN\<close> wins; credentials are taken untrimmed.
\<close>

lemma env_override_precedence:
  "let c' = apply_env_overrides env c in
     initial_difficulty (cfg_pool c')
       = or_else (Option.bind (env ''POOL__INITIAL_DIFFICULTY'') (parse_u32 \<circ> trim))
           (initial_difficulty (cfg_pool c))
     \<and> payout_script_pubkey_hex (cfg_pool c')
       = or_else (map_option trim (env ''POOL__PAYOUT_SCRIPT_PUBKEY_HEX''))
           (payout_script_pubkey_hex (cfg_pool c))
     \<and> pool_name (cfg_pool c') = pool_name (cfg_pool c)
     \<and> ds_job_source_mode (cfg_daemon c')
       = or_else (Option.bind (env ''DAEMON__JOB_SOURCE_MODE'') parse_job_source_mode)
           (ds_job_source_mode (cfg_daemon c))
     \<and> ds_url (cfg_daemon c') = or_else (map_option trim (env ''DAEMON__URL'')) (ds_url (cfg_daemon c))
     \<and> ds_rpc_user (cfg_daemon c') = or_else (env ''DAEMON__RPC_USER'') (ds_rpc_user (cfg_daemon c))
     \<and> ds_rpc_password (cfg_daemon c')
       = or_else (env ''DAEMON__RPC_PASSWORD'') (ds_rpc_password (cfg_daemon c))
     \<and> ds_node_api_token (cfg_daemon c')
       = or_else (env ''DAEMON__NODE_API_TOKEN'')
           (or_else (env ''AZ_NODE_API_TOKEN'') (ds_node_api_token (cfg_daemon c)))
     \<and> stratum_port (cfg_stratum c')
       = or_else (Option.bind (env ''STRATUM__PORT'') (parse_u16 \<circ> trim)) (stratum_port (cfg_stratum c))
     \<and> api_port (cfg_api c')
       = or_else (Option.bind (env ''API__PORT'') (parse_u16 \<circ> trim)) (api_port (cfg_api c))"
proof -
  note keys = env_POOL_INITIAL_DIFFICULTY_def env_POOL_PAYOUT_SCRIPT_PUBKEY_HEX_def
    env_DAEMON_JOB_SOURCE_MODE_def env_DAEMON_URL_def env_DAEMON_RPC_USER_def
    env_DAEMON_RPC_PASSWORD_def env_AZ_NODE_API_TOKEN_def env_DAEMON_NODE_API_TOKEN_def
    env_STRATUM_PORT_def env_API_PORT_def
  show ?thesis
    unfolding Let_def apply_env_overrides_def apply_env_overrides_from_def
    by (simp add: keys env_simps comp_def option.map_ident)
qed

text \<open>
  Loading: a configuration is returned exactly when the file (or the defaults,
  when it cannot be read) parses and the payout script that is in force after the overrides
  is blank or valid hex, so an override can repair or break a file; every failure is a
  configuration error.
\<close>

lemma load_config_checked:
  "(load_config hx toml read_to_string env path = Inr c \<longleftrightarrow>
      (\<exists>base. (case read_to_string (or_else path ''config.toml'') of
                 None \<Rightarrow> base = pool_config_default | Some s \<Rightarrow> toml s = Inr base)
         \<and> c = apply_env_overrides env base
         \<and> is_ok (payout_script_pubkey_bytes hx (cfg_pool c))))
   \<and> (\<forall>e. load_config hx toml read_to_string env path = Inl e \<longrightarrow> (\<exists>m. e = Config_Error m))"
proof -
  have pay: "\<exists>m. e = Config_Error m" if "payout_script_pubkey_bytes hx p = Inl e" for p e
    using that by (auto simp: payout_script_pubkey_bytes_def Let_def map_err_Inl split: if_splits)
  have dflt: "(case path of None \<Rightarrow> ''config.toml'' | Some p \<Rightarrow> p) = or_else path ''config.toml''"
    by (simp add: or_else_def)
  show ?thesis
    by (cases "read_to_string (or_else path ''config.toml'')")
      (auto simp: load_config_def Let_def dflt result_simps is_ok_iff dest: pay)
qed

end
