(* ===== verification/Chain_Jobs.thy ===== *)
theory Chain_Jobs
  imports Node_Api Config
begin

text \<open>
  The job sources backed by a chain node (\<open>coin_azcoin/src/job_source.rs\<close>) and the small
  pieces of \<open>coin_azcoin\<close> that have no logic yet (\<open>block_template.rs\<close>,
  \<open>payout_client.rs\<close>, \<open>chain_config.rs\<close>).

  The locale \<open>job_provider\<close> is the trait \<open>pool_core::JobSource\<close> as the session handler and
  the validator rely on it: a job that is handed out has 32-byte hashes, so that every
  header built from it has 80 bytes.
\<close>

record rpc_job_source =
  rpc_daemon :: daemon_client
  rpc_payout_script_pubkey :: "bytes option"

definition rpc_job_source_new :: "daemon_section \<Rightarrow> bytes option \<Rightarrow> rpc_job_source" where
  "rpc_job_source_new daemon_config payout =
     \<lparr> rpc_daemon = daemon_client_new (ds_url daemon_config) (ds_rpc_user daemon_config)
                      (ds_rpc_password daemon_config),
       rpc_payout_script_pubkey = payout \<rparr>"

definition rpc_current_job ::
  "hex_crate \<Rightarrow> bitcoin_crate \<Rightarrow> 'w http_crate \<Rightarrow> (json \<Rightarrow> string + block_template)
     \<Rightarrow> rpc_job_source \<Rightarrow> 'w job_source" where
  "rpc_current_job hx btc http from_value self w =
     (case get_block_template http from_value (rpc_daemon self) w of
        (Inr (Some template), w) \<Rightarrow>
          (case rpc_payout_script_pubkey self of
             None \<Rightarrow> (None, w)
           | Some payout \<Rightarrow>
               (case template_to_job hx btc template payout of
                  Inr job \<Rightarrow> (Some job, w)
                | Inl e \<Rightarrow> (None, w)))
      | (Inr None, w) \<Rightarrow> (None, w)
      | (Inl e, w) \<Rightarrow> (None, w))"

record node_api_job_source =
  nj_client :: node_api_client

definition node_api_job_source_new :: "string \<Rightarrow> string option \<Rightarrow> node_api_job_source" where
  "node_api_job_source_new base_url bearer_token =
     \<lparr> nj_client = node_api_client_new base_url bearer_token \<rparr>"

definition node_api_current_job ::
  "hex_crate \<Rightarrow> 'w http_crate \<Rightarrow> (json \<Rightarrow> string + node_api_template) \<Rightarrow> node_api_job_source
     \<Rightarrow> 'w job_source" where
  "node_api_current_job hx http from_value self w =
     (case get_template_current http from_value (nj_client self) w of
        (Inr (Some template), w) \<Rightarrow>
          (case api_template_to_job hx template of
             Inr job \<Rightarrow> (Some job, w)
           | Inl e \<Rightarrow> (None, w))
      | (Inr None, w) \<Rightarrow> (None, w)
      | (Inl e, w) \<Rightarrow> (None, w))"

section \<open>Placeholders of the chain layer\<close>

definition azcoin_get_template :: "string \<Rightarrow> job option" where
  "azcoin_get_template daemon_url = None"

definition payout_execute :: "worker_identity \<Rightarrow> i64 \<Rightarrow> string + payout_record" where
  "payout_execute worker amount_sat = Inl ''payout not implemented''"

definition MAGIC_MAINNET :: bytes where
  "MAGIC_MAINNET = [0x41, 0x5a, 0x43, 0x4f]"

definition DEFAULT_BLOCK_SUBSIDY :: u64 where
  "DEFAULT_BLOCK_SUBSIDY = 50000000"

section \<open>The interface\<close>

locale job_provider =
  fixes current :: "'s job_source"
  assumes well_formed: "fst (current s) = Some j \<Longrightarrow> job_ok j"
begin

lemma solved_header_length:
  assumes "sha256_documented sha" and "fst (current s) = Some j"
    and "build_solved_block_header hx sha j share e = Inr header"
  shows "length header = 80"
  using assms well_formed [OF assms(2)]
  by (auto simp: solved_header_cases length_share_header split: sum.splits)

end

lemma template_job_ok: "template_to_job hx btc t payout = Inr j \<Longrightarrow> job_ok j"
  by (erule template_to_job_Inr) (auto simp: job_ok_def decode_prev_hash_Inr dest: merkle_branch_length)

interpretation rpc_source: job_provider "rpc_current_job hx btc http fv self" for hx btc http fv self
  by unfold_locales (auto simp: rpc_current_job_def template_job_ok
      split: prod.splits sum.splits option.splits)

interpretation node_api_source: job_provider "node_api_current_job hx http fv self" for hx http fv self
  by unfold_locales (auto simp: node_api_current_job_def api_job_Inr
      split: prod.splits sum.splits option.splits)

interpretation stub_source: job_provider stub_current_job
  by unfold_locales (auto simp: stub_current_job_def)

text \<open>
  The RPC job source yields a job only from a template and a configured payout
  script, and what it yields is usable: 32-byte hashes, and an 80-byte header for every
  share on it whose version bits are allowed.
\<close>

lemma rpc_job_usable:
  assumes "sha256_documented sha"
    and "fst (rpc_current_job hx btc http fv self w) = Some j"
  shows "\<exists>payout t. rpc_payout_script_pubkey self = Some payout
       \<and> fst (get_block_template http fv (rpc_daemon self) w) = Inr (Some t)
       \<and> template_to_job hx btc t payout = Inr j
       \<and> (\<forall>share e header. build_solved_block_header hx sha j share e = Inr header
              \<longrightarrow> length header = 80)"
proof -
  from assms(2) have "\<exists>payout t. rpc_payout_script_pubkey self = Some payout
       \<and> fst (get_block_template http fv (rpc_daemon self) w) = Inr (Some t)
       \<and> template_to_job hx btc t payout = Inr j"
    by (auto simp: rpc_current_job_def split: prod.splits sum.splits option.splits)
  with rpc_source.solved_header_length [OF assms] show ?thesis by blast
qed

end
