(* ===== verification/Sv1_Handler.thy ===== *)
theory Sv1_Handler
  imports Sv1_Invariants Share_Processor Candidate_Submit Chain_Jobs
begin

text \<open>
  \<open>azcoin-pool/src/sv1_handler.rs\<close>: the pool behind the Stratum sessions. Its state is the
  statistics, the worker registry and the state shared with the share processor; the job
  source, the share sink and the block submitter all act on the world \<open>'w\<close> inside it. The
  handler interprets the session interface, so the server's lemmas hold for it.

  Each callback is one step on the state; a callback that awaits several times can be
  interleaved with other sessions in the program, which the model of the whole system
  does at the granularity of callbacks.
\<close>

record 'w pool_state =
  pl_stats :: stats_snapshot
  pl_workers :: worker_registry
  pl_share :: "'w share_state"

record 'w sv1_handler =
  sh_job_source :: "'w job_source"
  sh_processor :: "'w share_processor"
  sh_submitter :: "'w block_submitter"
  sh_payout_script_pubkey :: "bytes option"

definition set_world :: "'w \<Rightarrow> 'w pool_state \<Rightarrow> 'w pool_state" where
  "set_world w p = p\<lparr> pl_share := (pl_share p)\<lparr> st_world := w \<rparr> \<rparr>"

definition pool_world :: "'w pool_state \<Rightarrow> 'w" where
  "pool_world p = st_world (pl_share p)"

text \<open>The stale-block guard: the solved job against the current one, when there is one.\<close>

definition stale_block :: "job option \<Rightarrow> job \<Rightarrow> bool" where
  "stale_block current job =
     (case current of
        None \<Rightarrow> False
      | Some c \<Rightarrow> job_id c \<noteq> job_id job \<or> job_height c \<noteq> job_height job)"

text \<open>The result \<open>None\<close> is a panic in \<open>submit_block_candidate\<close>.\<close>

definition maybe_submit_block_candidate ::
  "hex_crate \<Rightarrow> bitcoin_crate \<Rightarrow> hasher \<Rightarrow> 'w sv1_handler \<Rightarrow> share_submission \<Rightarrow> 'w pool_state
     \<Rightarrow> unit option \<times> 'w pool_state" where
  "maybe_submit_block_candidate hx btc sha self share p =
     (case get_job (share_job_id share) (st_registry (pl_share p)) of
        None \<Rightarrow> (Some (), p)
      | Some job \<Rightarrow>
          (case sh_job_source self (pool_world p) of
             (current, w) \<Rightarrow>
               let p = set_world w p
               in if stale_block current job then (Some (), p)
                  else
                    (case session_extranonce1 hx share of
                       Inl e \<Rightarrow> (Some (), p)
                     | Inr extranonce1 \<Rightarrow>
                         (case build_solved_block_header hx sha job share extranonce1 of
                            Inl message \<Rightarrow> (Some (), p)
                          | Inr solved_header \<Rightarrow>
                              (case submit_block_candidate btc (sh_submitter self) solved_header job
                                      extranonce1 (extra_nonce2 share) (pool_world p) of
                                 (None, w) \<Rightarrow> (None, set_world w p)
                               | (Some Submitted, w) \<Rightarrow> (Some (), set_world w p)
                               | (Some (Candidate_Rejected reason), w) \<Rightarrow> (Some (), set_world w p)
                               | (Some (Local_Error message), w) \<Rightarrow> (Some (), set_world w p))))))"

definition pool_on_connect :: "string \<Rightarrow> 'w pool_state \<Rightarrow> 'w pool_state" where
  "pool_on_connect peer p = p\<lparr> pl_stats := record_connection (pl_stats p) \<rparr>"

definition pool_on_disconnect :: "string \<Rightarrow> 'w pool_state \<Rightarrow> 'w pool_state" where
  "pool_on_disconnect peer p = p\<lparr> pl_stats := record_disconnection (pl_stats p) \<rparr>"

definition pool_on_authorize ::
  "'w sv1_handler \<Rightarrow> string \<Rightarrow> 'w pool_state \<Rightarrow> (string + job option) \<times> 'w pool_state" where
  "pool_on_authorize self username p =
     (let worker = worker_identity_new username;
          p = p\<lparr> pl_workers := workers_register worker (pl_workers p) \<rparr>
      in case sh_job_source self (pool_world p) of (job, w) \<Rightarrow> (Inr job, set_world w p))"

definition pool_on_notify_sent :: "job \<Rightarrow> 'w pool_state \<Rightarrow> 'w pool_state" where
  "pool_on_notify_sent job p =
     p\<lparr> pl_share := (pl_share p)\<lparr> st_registry := register job (st_registry (pl_share p)) \<rparr> \<rparr>"

definition pool_on_submit ::
  "hex_crate \<Rightarrow> bitcoin_crate \<Rightarrow> hasher \<Rightarrow> 'w sv1_handler \<Rightarrow> share_submission \<Rightarrow> 'w pool_state
     \<Rightarrow> share_result option \<times> 'w pool_state" where
  "pool_on_submit hx btc sha self share p =
     (case process_share hx (sh_processor self) share (pl_share p) of
        (result, st) \<Rightarrow>
          let p = p\<lparr> pl_share := st \<rparr>
          in if result = Block
             then (case maybe_submit_block_candidate hx btc sha self share p of
                     (None, p) \<Rightarrow> (None, p)
                   | (Some u, p) \<Rightarrow> (Some result, p))
             else (Some result, p))"

definition pool_handler ::
  "hex_crate \<Rightarrow> bitcoin_crate \<Rightarrow> hasher \<Rightarrow> 'w sv1_handler \<Rightarrow> 'w pool_state session_handler" where
  "pool_handler hx btc sha self =
     \<lparr> on_connect = pool_on_connect, on_disconnect = pool_on_disconnect,
       on_authorize = pool_on_authorize self, on_notify_sent = pool_on_notify_sent,
       on_submit = pool_on_submit hx btc sha self \<rparr>"

section \<open>The handler provides the session interface\<close>

lemma set_world_simps [simp]:
  "st_registry (pl_share (set_world w p)) = st_registry (pl_share p)"
  "st_recent (pl_share (set_world w p)) = st_recent (pl_share p)"
  "pool_world (set_world w p) = w"
  "pl_stats (set_world w p) = pl_stats p" "pl_workers (set_world w p) = pl_workers p"
  by (simp_all add: set_world_def pool_world_def)

lemma maybe_submit_registry [simp]:
  "st_registry (pl_share (snd (maybe_submit_block_candidate hx btc sha self share p)))
   = st_registry (pl_share p)"
  by (simp add: maybe_submit_block_candidate_def Let_def
      split: option.split prod.split sum.split candidate_submission_result.split)

lemma process_share_registry [simp]:
  "st_registry (snd (process_share hx self share st)) = st_registry st"
  by (simp add: process_share_eq)

lemma on_submit_registry [simp]:
  "st_registry (pl_share (snd (pool_on_submit hx btc sha self share p))) = st_registry (pl_share p)"
proof -
  obtain r st where s: "process_share hx (sh_processor self) share (pl_share p) = (r, st)"
    by (cases "process_share hx (sh_processor self) share (pl_share p)")
  then have reg: "st_registry st = st_registry (pl_share p)"
    using process_share_registry [of hx "sh_processor self" share "pl_share p"] by simp
  obtain o' q where m: "maybe_submit_block_candidate hx btc sha self share (p\<lparr> pl_share := st \<rparr>) = (o', q)"
    by (cases "maybe_submit_block_candidate hx btc sha self share (p\<lparr> pl_share := st \<rparr>)")
  then have "st_registry (pl_share q) = st_registry st"
    using maybe_submit_registry [of hx btc sha self share "p\<lparr> pl_share := st \<rparr>"] by simp
  then show ?thesis using reg
    by (simp add: pool_on_submit_def s m Let_def split: option.split)
qed

definition pool_jobs :: "'w pool_state \<Rightarrow> active_jobs" where
  "pool_jobs p = st_registry (pl_share p)"

definition pool_inv :: "'w pool_state \<Rightarrow> bool" where
  "pool_inv p \<longleftrightarrow> registry_inv (pool_jobs p) \<and> workers_inv (pl_workers p)"

lemma maybe_submit_workers [simp]:
  "pl_workers (snd (maybe_submit_block_candidate hx btc sha self share p)) = pl_workers p"
  by (simp add: maybe_submit_block_candidate_def Let_def
      split: option.split prod.split sum.split candidate_submission_result.split)

lemma on_submit_workers [simp]:
  "pl_workers (snd (pool_on_submit hx btc sha self share p)) = pl_workers p"
proof -
  obtain r st where s: "process_share hx (sh_processor self) share (pl_share p) = (r, st)"
    by (cases "process_share hx (sh_processor self) share (pl_share p)")
  obtain o' q where m: "maybe_submit_block_candidate hx btc sha self share (p\<lparr> pl_share := st \<rparr>) = (o', q)"
    by (cases "maybe_submit_block_candidate hx btc sha self share (p\<lparr> pl_share := st \<rparr>)")
  then have "pl_workers q = pl_workers p"
    using maybe_submit_workers [of hx btc sha self share "p\<lparr> pl_share := st \<rparr>"] by simp
  then show ?thesis by (simp add: pool_on_submit_def s m Let_def split: option.split)
qed

interpretation pool_events: registering_events "pool_handler hx btc sha self" pool_inv pool_jobs
  for hx btc sha self
  by unfold_locales
    (auto simp: pool_handler_def pool_inv_def pool_jobs_def pool_on_connect_def pool_on_disconnect_def
      pool_on_authorize_def pool_on_notify_sent_def Let_def register_inv workers_register_inv
      split: prod.split)

section \<open>Properties\<close>

text \<open>The block the submitter is asked about, for a share that solved one.\<close>

definition submit_solved ::
  "hex_crate \<Rightarrow> bitcoin_crate \<Rightarrow> hasher \<Rightarrow> 'w sv1_handler \<Rightarrow> job \<Rightarrow> share_submission \<Rightarrow> bytes \<Rightarrow> 'w
     \<Rightarrow> candidate_submission_result option \<times> 'w" where
  "submit_solved hx btc sha self job share extranonce1 w =
     (case build_solved_block_header hx sha job share extranonce1 of
        Inl e \<Rightarrow> (Some (Local_Error e), w)
      | Inr header \<Rightarrow>
          submit_block_candidate btc (sh_submitter self) header job extranonce1 (extra_nonce2 share) w)"

lemma block_verdict:
  assumes sha: "sha256_documented sha"
    and v: "sp_validator self = Some (validate_share hx sha av)"
    and block: "fst (process_share hx self share st) = Block"
  obtains job extranonce1 header where
    "get_job (share_job_id share) (st_registry st) = Some job"
    "session_extranonce1 hx share = Inr extranonce1"
    "build_solved_block_header hx sha job share extranonce1 = Inr header"
    "le_nat (double_sha256 sha header) \<le> be_nat (nbits_to_target (job_nbits job))"
proof -
  from block have verdict: "share_verdict hx self share (st_registry st) = Block"
    by (simp add: process_share_eq)
  then have "check_shape share = None"
    using check_shape_rejects [of share] by (auto simp: share_verdict_def split: option.splits)
  with verdict v obtain job extranonce1 where j: "get_job (share_job_id share) (st_registry st) = Some job"
    and e: "session_extranonce1 hx share = Inr extranonce1"
    and b: "validate_share hx sha av job share extranonce1 (sp_pool_difficulty self) = Block"
    by (auto simp: share_verdict_def split: option.splits sum.splits)
  from b obtain v where "resolved_version (job_version job) share = Inr v"
    and "le_nat (double_sha256 sha (share_header sha v job share extranonce1))
        \<le> be_nat (nbits_to_target (job_nbits job))"
    by (auto simp: validate_share_cases [OF sha] Let_def split: sum.splits if_splits)
  with that [OF j e] show ?thesis by (simp add: solved_header_cases)
qed

lemma maybe_submit_eq:
  assumes "get_job (share_job_id share) (st_registry (pl_share p)) = Some job"
    and "sh_job_source self (pool_world p) = (current, w)"
    and "session_extranonce1 hx share = Inr extranonce1"
    and "build_solved_block_header hx sha job share extranonce1 = Inr header"
  shows "maybe_submit_block_candidate hx btc sha self share p =
     (if stale_block current job then (Some (), set_world w p)
      else let (r, w') = submit_solved hx btc sha self job share extranonce1 w
           in (map_option (\<lambda>_. ()) r, set_world w' p))"
proof -
  have sw: "set_world w' (set_world w p) = set_world w' p" for w'
    by (simp add: set_world_def)
  show ?thesis using assms
    by (simp add: maybe_submit_block_candidate_def submit_solved_def Let_def sw
        split: option.split prod.split candidate_submission_result.split)
qed

text \<open>What happens on a block share: which block the submitter sees, if any.\<close>

definition submits_the_solved_block ::
  "hex_crate \<Rightarrow> bitcoin_crate \<Rightarrow> hasher \<Rightarrow> 'w sv1_handler \<Rightarrow> share_submission \<Rightarrow> 'w pool_state \<Rightarrow> 'w share_state
     \<Rightarrow> bool" where
  "submits_the_solved_block hx btc sha self share p st \<longleftrightarrow>
     (\<exists>job extranonce1 header current w.
        get_job (share_job_id share) (pool_jobs p) = Some job
        \<and> session_extranonce1 hx share = Inr extranonce1
        \<and> build_solved_block_header hx sha job share extranonce1 = Inr header
        \<and> le_nat (double_sha256 sha header) \<le> be_nat (nbits_to_target (job_nbits job))
        \<and> (job_ok job \<longrightarrow> take 32 (drop 36 header) = apply_merkle_branch sha
             (double_sha256 sha (reconstruct_miner_coinbase job extranonce1 (extra_nonce2 share)))
             (merkle_branch job))
        \<and> sh_job_source self (st_world st) = (current, w)
        \<and> pool_on_submit hx btc sha self share p =
            (if stale_block current job then (Some Block, set_world w (p\<lparr> pl_share := st \<rparr>))
             else let (r, w') = submit_block_candidate btc (sh_submitter self) header job
                                  extranonce1 (extra_nonce2 share) w
                  in (map_option (\<lambda>_. Block) r, set_world w' (p\<lparr> pl_share := st \<rparr>))))"

lemma block_share_submitted:
  assumes sha: "sha256_documented sha"
    and v: "sp_validator (sh_processor self) = Some (validate_share hx sha av)"
    and proc: "process_share hx (sh_processor self) share (pl_share p) = (Block, st)"
  shows "submits_the_solved_block hx btc sha self share p st"
proof -
  let ?p = "p\<lparr> pl_share := st \<rparr>"
  have block: "fst (process_share hx (sh_processor self) share (pl_share p)) = Block"
    by (simp add: proc)
  have reg: "st_registry st = st_registry (pl_share p)"
    using process_share_registry [of hx "sh_processor self" share "pl_share p"] by (simp add: proc)
  obtain job e header where j: "get_job (share_job_id share) (st_registry (pl_share p)) = Some job"
    and e: "session_extranonce1 hx share = Inr e"
    and h: "build_solved_block_header hx sha job share e = Inr header"
    and le: "le_nat (double_sha256 sha header) \<le> be_nat (nbits_to_target (job_nbits job))"
    by (rule block_verdict [OF sha v block])
  obtain current w where cur: "sh_job_source self (st_world st) = (current, w)"
    by (cases "sh_job_source self (st_world st)")
  have "maybe_submit_block_candidate hx btc sha self share ?p =
     (if stale_block current job then (Some (), set_world w ?p)
      else let (r, w') = submit_solved hx btc sha self job share e w
           in (map_option (\<lambda>_. ()) r, set_world w' ?p))"
    by (rule maybe_submit_eq) (simp_all add: j reg cur e h pool_world_def)
  then have sub: "pool_on_submit hx btc sha self share p =
      (if stale_block current job then (Some Block, set_world w ?p)
       else let (r, w') = submit_block_candidate btc (sh_submitter self) header job e (extra_nonce2 share) w
            in (map_option (\<lambda>_. Block) r, set_world w' ?p))"
    by (simp add: pool_on_submit_def proc Let_def submit_solved_def h split: option.split prod.split)
  show ?thesis unfolding submits_the_solved_block_def
    by (rule exI [of _ job], rule exI [of _ e], rule exI [of _ header], rule exI [of _ current],
        rule exI [of _ w])
      (simp add: j e h le cur sub header_merkle_root [OF sha _ h] pool_jobs_def share_merkle_root_def
        build_coinbase_def reconstruct_miner_coinbase_def)
qed


text \<open>A pool whose node accepts every block, and a share that solves the placeholder job.\<close>

definition sample_handler :: "hasher \<Rightarrow> unit sv1_handler" where
  "sample_handler sha =
     \<lparr> sh_job_source = stub_current_job,
       sh_processor = processor_with_validator (validate_share sample_hex sha azcoin_share_validator_new) 1,
       sh_submitter = (\<lambda>b w. (Inr True, w)), sh_payout_script_pubkey = None \<rparr>"

definition sample_pool :: "unit pool_state" where
  "sample_pool =
     \<lparr> pl_stats = stats_new ''p'', pl_workers = workers_new,
       pl_share = \<lparr> st_registry = register job_placeholder registry_new,
                    st_recent = recent_shares_new, st_world = () \<rparr> \<rparr>"

text \<open>Under a hash that is always zero, the sample share solves its job.\<close>

lemma zero_hash: "sha256_documented (\<lambda>m. replicate 32 0)" "le_nat (double_sha256 (\<lambda>m. replicate 32 0) m) = 0"
  by (simp_all add: sha256_documented_def double_sha256_def le_nat_def)

lemma sample_handler_validator:
  "sp_validator (sh_processor (sample_handler sha)) = Some (validate_share sample_hex sha azcoin_share_validator_new)"
  by (simp add: sample_handler_def processor_with_validator_def processor_with_validator_and_share_sink_def)

lemma sample_pool_live: "get_job (share_job_id sample_share) (pool_jobs sample_pool) = Some job_placeholder"
  by (simp add: pool_jobs_def sample_pool_def sample_share_def get_job_def register_def
      register_entry_def registry_new_def job_placeholder_def)

lemma sample_share_solves:
  "validate_share sample_hex (\<lambda>m. replicate 32 0) av job_placeholder sample_share (replicate 4 0) d = Block"
  "check_shape sample_share = None"
  "session_extranonce1 sample_hex sample_share = Inr (replicate 4 0)"
  by (simp_all add: validate_share_cases [OF zero_hash(1)] zero_hash(2) resolved_version_def
      sample_share_def check_shape_def session_extranonce1_def)


end
