(* ===== verification/System.thy ===== *)
theory System
  imports Sv1_Handler
begin

text \<open>
  The assembled pool: \<open>azcoin-pool/src/composition.rs\<close> (services from the configuration) and
  \<open>main.rs\<close> (handler, job poller, broadcast channel, listener), and the whole program as a
  transition system in which connections, requests, pushed jobs and polls interleave.

  The broadcast channel is \<open>tokio::sync::broadcast\<close> with its documented behaviour: every
  receiver has its own queue of at most \<open>BROADCAST_CAPACITY\<close> messages; sending to a full
  queue drops its oldest message, and the receiver is told how many it missed before it
  receives again.
\<close>

section \<open>Composition\<close>

record 'w crates =
  cr_hex :: hex_crate
  cr_btc :: bitcoin_crate
  cr_sha :: hasher
  cr_http :: "'w http_crate"
  cr_block_template :: "json \<Rightarrow> string + block_template"
  cr_node_api_template :: "json \<Rightarrow> string + node_api_template"
  cr_now :: "'w \<Rightarrow> i64"

text \<open>\<open>payout_script_pubkey_bytes().ok().flatten()\<close>\<close>

definition ok_flatten :: "'e + 'a option \<Rightarrow> 'a option" where
  "ok_flatten r = (case r of Inl e \<Rightarrow> None | Inr v \<Rightarrow> v)"

definition token_option :: "string \<Rightarrow> string option" where
  "token_option t = (if t = [] then None else Some t)"

definition build_job_source :: "'w crates \<Rightarrow> pool_config \<Rightarrow> 'w job_source" where
  "build_job_source cr config =
     (let payout = ok_flatten (payout_script_pubkey_bytes (cr_hex cr) (cfg_pool config))
      in case ds_job_source_mode (cfg_daemon config) of
           Rpc \<Rightarrow> rpc_current_job (cr_hex cr) (cr_btc cr) (cr_http cr) (cr_block_template cr)
                    (rpc_job_source_new (cfg_daemon config) payout)
         | Api \<Rightarrow> node_api_current_job (cr_hex cr) (cr_http cr) (cr_node_api_template cr)
                    (node_api_job_source_new (ds_url (cfg_daemon config))
                       (token_option (ds_node_api_token (cfg_daemon config)))))"

definition build_pool_services :: "'w crates \<Rightarrow> pool_config \<Rightarrow> ('w, 'w) pool_services" where
  "build_pool_services cr config =
     (let job_source = build_job_source cr config;
          share_validator_fn = validate_share (cr_hex cr) (cr_sha cr) azcoin_share_validator_new;
          share_sink_opt =
            (if trim (ds_share_api_url (cfg_daemon config)) = [] then None
             else Some (node_api_submit_share (cr_hex cr) (cr_http cr) (cr_now cr)
                          (node_api_client_new (ds_share_api_url (cfg_daemon config))
                             (token_option (ds_node_api_token (cfg_daemon config))))))
      in services_new_with_validator_and_share_sink (pool_name (cfg_pool config)) job_source
           share_validator_fn (initial_difficulty (cfg_pool config)) share_sink_opt)"

text \<open>\<open>main\<close>: the handler over the services, and the state they start in.\<close>

definition main_handler :: "'w crates \<Rightarrow> pool_config \<Rightarrow> pool_error + 'w sv1_handler" where
  "main_handler cr config =
     (let services = build_pool_services cr config
      in and_then (payout_script_pubkey_bytes (cr_hex cr) (cfg_pool config)) (\<lambda>payout.
           Inr \<lparr> sh_job_source = svc_job_source services,
                 sh_processor = svc_share_processor services,
                 sh_submitter = azcoin_submit_block (cr_hex cr) (cr_http cr)
                   (azcoin_block_submitter_new (ds_url (cfg_daemon config))
                      (ds_rpc_user (cfg_daemon config)) (ds_rpc_password (cfg_daemon config))),
                 sh_payout_script_pubkey = payout \<rparr>))"

definition main_pool_state :: "'w crates \<Rightarrow> pool_config \<Rightarrow> 'w \<Rightarrow> 'w pool_state" where
  "main_pool_state cr config w =
     (let services = build_pool_services cr config
      in \<lparr> pl_stats = svc_stats services, pl_workers = svc_worker_registry services,
           pl_share = services_state services w \<rparr>)"

text \<open>The start of \<open>main\<close>: a configuration, then the handler over its services, or a message.\<close>

definition main_start ::
  "'w crates \<Rightarrow> (string \<Rightarrow> string + pool_config) \<Rightarrow> (string \<Rightarrow> string option) \<Rightarrow> (string \<Rightarrow> string option)
     \<Rightarrow> 'w \<Rightarrow> string + (pool_config \<times> 'w sv1_handler \<times> 'w pool_state)" where
  "main_start cr toml read_to_string process_env w =
     and_then (map_err pool_error_to_string (load_config (cr_hex cr) toml read_to_string process_env None)) (\<lambda>config.
     and_then (map_err pool_error_to_string (main_handler cr config)) (\<lambda>handler.
       Inr (config, handler, main_pool_state cr config w)))"

lemma main_handler_ex:
  "(\<exists>self. main_handler cr config = Inr self) \<longleftrightarrow> is_ok (payout_script_pubkey_bytes (cr_hex cr) (cfg_pool config))"
  by (cases "payout_script_pubkey_bytes (cr_hex cr) (cfg_pool config)")
    (simp_all add: main_handler_def Let_def is_ok_def)

text \<open>A configuration that loads is one that starts: the second check of the script cannot fail.\<close>

lemma main_start_iff:
  "(\<exists>self. main_start cr toml rd env w = Inr (config, self, main_pool_state cr config w))
     \<longleftrightarrow> load_config (cr_hex cr) toml rd env None = Inr config"
proof -
  have checked: "load_config (cr_hex cr) toml rd env None = Inr config
      \<Longrightarrow> is_ok (payout_script_pubkey_bytes (cr_hex cr) (cfg_pool config))"
    by (auto simp: load_config_def Let_def and_then_Inr is_ok_iff)
  show ?thesis
    using checked main_handler_ex [of cr config]
    by (auto simp: main_start_def and_then_Inr map_err_Inr)
qed

section \<open>The job poller\<close>

record poller =
  last_job_id :: string
  last_height :: u64

definition poller_start :: poller where
  "poller_start = \<lparr> last_job_id = [], last_height = 0 \<rparr>"

text \<open>One turn of the loop, on the answer of the job source: what is sent, if anything.\<close>

definition poll_tick :: "job option \<Rightarrow> poller \<Rightarrow> job option \<times> poller" where
  "poll_tick current st =
     (case current of
        None \<Rightarrow> (None, st)
      | Some job \<Rightarrow>
          let height = job_height job
          in if job_id job \<noteq> last_job_id st \<or> height \<noteq> last_height st
             then (Some job, \<lparr> last_job_id = job_id job, last_height = height \<rparr>)
             else (None, st))"

fun poll_run :: "job option list \<Rightarrow> poller \<Rightarrow> job list" where
  "poll_run [] st = []"
| "poll_run (c # cs) st =
     (case poll_tick c st of
        (Some job, st) \<Rightarrow> job # poll_run cs st
      | (None, st) \<Rightarrow> poll_run cs st)"

definition job_key :: "job \<Rightarrow> string \<times> u64" where
  "job_key j = (job_id j, job_height j)"

text \<open>The jobs a source reported, without the polls that failed.\<close>

fun reported :: "job option list \<Rightarrow> job list" where
  "reported [] = []"
| "reported (None # cs) = reported cs"
| "reported (Some j # cs) = j # reported cs"

lemma poll_run_keys:
  "map job_key (poll_run cs st) = tl (remdups_adj ((last_job_id st, last_height st) # map job_key (reported cs)))"
proof (induction cs arbitrary: st)
  case Nil
  then show ?case by simp
next
  case (Cons c cs)
  show ?case
  proof (cases c)
    case None
    then show ?thesis using Cons.IH by (simp add: poll_tick_def)
  next
    case (Some j)
    have ne: "remdups_adj ((i, h) # ks) = (i, h) # tl (remdups_adj ((i, h) # ks))" for i h and ks :: "(string \<times> u64) list"
      by (metis hd_remdups_adj list.collapse list.distinct(1) list.sel(1) remdups_adj_Nil_iff)
    show ?thesis
      using Some Cons.IH ne [of "job_id j" "job_height j" "map job_key (reported cs)"]
      by (auto simp: poll_tick_def Let_def job_key_def)
  qed
qed

text \<open>
  The poller announces changes: over any sequence of polls the ids and heights
  of the broadcast jobs are those reported by the job source with immediate repetitions
  removed, so nothing is announced twice in a row, every change is announced, and a poll
  that fails changes nothing.
\<close>

lemma poller_announces_changes:
  "map job_key (poll_run polls poller_start)
   = tl (remdups_adj (([], 0) # map job_key (reported polls)))
   \<and> set (poll_run polls poller_start) \<subseteq> set (reported polls)"
proof
  show "map job_key (poll_run polls poller_start)
      = tl (remdups_adj (([], 0) # map job_key (reported polls)))"
    using poll_run_keys [of polls poller_start] by (simp add: poller_start_def)
  have "set (poll_run polls st) \<subseteq> set (reported polls)" for st
  proof (induction polls arbitrary: st)
    case Nil
    then show ?case by simp
  next
    case (Cons c cs)
    then show ?case
      by (cases c) (auto simp: poll_tick_def Let_def split: if_splits)
  qed
  then show "set (poll_run polls poller_start) \<subseteq> set (reported polls)" .
qed

text \<open>
  Property C32. Two templates of the same height are one job to the pool: the poller does not
  announce the second, registering it replaces the first (so shares on the first are checked
  against the second), and a block solved on the first does not count as stale, although
  previous hash, coinbase and transactions may all differ.
\<close>

theorem same_height_jobs_confused:
  assumes j1: "template_to_job hx btc t1 payout = Inr j1"
    and j2: "template_to_job hx btc t2 payout = Inr j2"
    and height: "bt_height t1 = bt_height t2" and inv: "registry_inv r"
  shows "poll_run [Some j1, Some j2] st = poll_run [Some j1] st
     \<and> get_job (job_id j1) (register j2 (register j1 r)) = Some j2
     \<and> \<not> stale_block (Some j2) j1"
proof -
  have f: "job_id j1 = job_id j2" "job_height j1 = job_height j2" "clean_jobs j2"
    using j1 j2 height by (auto elim!: template_to_job_Inr simp: job_height_def)
  have "get_job (job_id j2) (register j2 (register j1 r)) = Some j2"
    by (rule registry.get_reg_self) (simp_all add: f registry.inv_reg inv)
  then show ?thesis by (simp add: f poll_tick_def stale_block_def Let_def)
qed

lemma sample_mapped_prev:
  assumes "length h = 32"
  shows "\<exists>j. template_to_job sample_hex sample_btc
      (sample_template\<lparr> previousblockhash := hex_text h \<rparr>) sample_payout = Inr j \<and> job_prev_hash j = rev h"
proof -
  let ?t = "sample_template\<lparr> previousblockhash := hex_text h \<rparr>"
  have d: "decode_prev_hash sample_hex (hex_text h) = Inr (rev h)"
    using assms by (simp add: decode_prev_hash_Inr hex_decode_Inr [of sample_hex])
  have o1: "decode_coinbase_aux_flags sample_hex ?t = Inr None"
    "decode_default_witness_commitment sample_hex ?t = Inr None"
    "decode_template_transactions sample_hex ?t = Inr []"
    using sample_decoded
    by (simp_all add: decode_coinbase_aux_flags_def decode_default_witness_commitment_def
        decode_template_transactions_def)
  have tx: "placeholder_tx sample_btc ?t sample_payout None None
      = placeholder_tx sample_btc sample_template sample_payout None None"
    by (simp add: placeholder_tx_def coinbase_inputs_def)
  have p: "sample_payout \<noteq> []" by (simp add: sample_payout_def)
  have r: "round_trips sample_btc (placeholder_tx sample_btc ?t sample_payout None None)"
    unfolding tx by (rule sample_round_trips)
  have u: "placeholder_first sample_btc (bt_height ?t) (aux_bytes None)"
    using sample_placeholder_first by simp
  show ?thesis
    using build_coinbase_parts_eq [OF sample_btc_documented p r u]
    by (simp add: template_to_job_def d o1 sample_decoded)
qed

theorem same_height_jobs_confused_witness:
  "\<exists>j1 j2. job_prev_hash j1 \<noteq> job_prev_hash j2
     \<and> get_job (job_id j1) (register j2 (register j1 registry_new)) = Some j2
     \<and> \<not> stale_block (Some j2) j1"
proof -
  obtain j1 where j1: "template_to_job sample_hex sample_btc
      (sample_template\<lparr> previousblockhash := hex_text (replicate 32 1) \<rparr>) sample_payout = Inr j1"
    and p1: "job_prev_hash j1 = rev (replicate 32 1)"
    using sample_mapped_prev [of "replicate 32 1"] by auto
  obtain j2 where j2: "template_to_job sample_hex sample_btc
      (sample_template\<lparr> previousblockhash := hex_text (replicate 32 2) \<rparr>) sample_payout = Inr j2"
    and p2: "job_prev_hash j2 = rev (replicate 32 2)"
    using sample_mapped_prev [of "replicate 32 2"] by auto
  have "job_prev_hash j1 \<noteq> job_prev_hash j2" by (simp add: p1 p2)
  then show ?thesis
    using same_height_jobs_confused [OF j1 j2 _ registry_inv_new, of poller_start] by auto
qed

section \<open>The running pool\<close>

definition BROADCAST_CAPACITY :: nat where
  "BROADCAST_CAPACITY = 16"

record receiver =
  rx_queue :: "job list"
  rx_missed :: nat

record 'o connection =
  cn_session :: session_state
  cn_out :: 'o
  cn_rx :: receiver

record ('w, 'o) system =
  sys_server :: "'w pool_state server"
  sys_conns :: "nat \<rightharpoonup> 'o connection"
  sys_poller :: poller

text \<open>\<open>Sender::send\<close> at one receiver, and \<open>Receiver::recv\<close> when it is ready.\<close>

definition rx_send :: "job \<Rightarrow> receiver \<Rightarrow> receiver" where
  "rx_send j rx =
     (if length (rx_queue rx) < BROADCAST_CAPACITY then rx\<lparr> rx_queue := rx_queue rx @ [j] \<rparr>
      else \<lparr> rx_queue = tl (rx_queue rx) @ [j], rx_missed = rx_missed rx + 1 \<rparr>)"

definition rx_recv :: "receiver \<Rightarrow> (session_event \<times> receiver) option" where
  "rx_recv rx =
     (if rx_missed rx \<noteq> 0 then Some (Recv_Lagged (word_of_nat (rx_missed rx)), rx\<lparr> rx_missed := 0 \<rparr>)
      else case rx_queue rx of
             [] \<Rightarrow> None
           | j # js \<Rightarrow> Some (Recv_Job j, rx\<lparr> rx_queue := js \<rparr>))"

definition broadcast :: "job option \<Rightarrow> (nat \<rightharpoonup> 'o connection) \<Rightarrow> nat \<rightharpoonup> 'o connection" where
  "broadcast j conns =
     (case j of
        None \<Rightarrow> conns
      | Some job \<Rightarrow> (\<lambda>i. map_option (\<lambda>c. c\<lparr> cn_rx := rx_send job (cn_rx c) \<rparr>) (conns i)))"

definition system_start :: "'w crates \<Rightarrow> pool_config \<Rightarrow> 'w \<Rightarrow> ('w, 'o) system" where
  "system_start cr config w =
     \<lparr> sys_server = server_start (main_pool_state cr config w), sys_conns = Map.empty,
       sys_poller = poller_start \<rparr>"

text \<open>The connection after an event: it goes on, or its task ends (and says so unless it panicked).\<close>

definition after_event ::
  "'w pool_state session_handler \<Rightarrow> nat \<Rightarrow> string \<Rightarrow> flow \<times> session_state \<times> 'o \<times> 'w pool_state server
     \<Rightarrow> receiver \<Rightarrow> ('w, 'o) system \<Rightarrow> ('w, 'o) system" where
  "after_event h i peer r rx s =
     (case r of
        (Running, ss, out, sv) \<Rightarrow>
          s\<lparr> sys_server := sv,
             sys_conns := (sys_conns s)(i \<mapsto> \<lparr> cn_session = ss, cn_out = out, cn_rx = rx \<rparr>) \<rparr>
      | (Ended, ss, out, sv) \<Rightarrow>
          s\<lparr> sys_server := sv\<lparr> pool := on_disconnect h peer (pool sv) \<rparr>, sys_conns := (sys_conns s)(i := None) \<rparr>
      | (Panicked, ss, out, sv) \<Rightarrow>
          s\<lparr> sys_server := sv, sys_conns := (sys_conns s)(i := None) \<rparr>)"

inductive system_step ::
  "hex_crate \<Rightarrow> 'w pool_state session_handler \<Rightarrow> 'w job_source \<Rightarrow> 'o wire \<Rightarrow> u32
     \<Rightarrow> ('w, 'o) system \<Rightarrow> ('w, 'o) system \<Rightarrow> bool"
  for hx h src wr d where
  accept: "sys_conns s i = None \<Longrightarrow>
     system_step hx h src wr d s
       (s\<lparr> sys_server := (sys_server s)\<lparr> pool := on_connect h peer (pool (sys_server s)) \<rparr>,
          sys_conns := (sys_conns s)(i \<mapsto> \<lparr> cn_session = session_state_default, cn_out = out,
            cn_rx = \<lparr> rx_queue = [], rx_missed = 0 \<rparr> \<rparr>) \<rparr>)"
| read: "sys_conns s i = Some c \<Longrightarrow> ev = Read_Error \<or> ev = Read_Line line \<Longrightarrow>
     session_step hx h wr d ev (cn_session c) (cn_out c) (sys_server s) = r \<Longrightarrow>
     system_step hx h src wr d s (after_event h i peer r (cn_rx c) s)"
| recv: "sys_conns s i = Some c \<Longrightarrow> rx_recv (cn_rx c) = Some (ev, rx) \<Longrightarrow>
     session_step hx h wr d ev (cn_session c) (cn_out c) (sys_server s) = r \<Longrightarrow>
     system_step hx h src wr d s (after_event h i peer r rx s)"
| poll: "src (pool_world (pool (sys_server s))) = (current, w) \<Longrightarrow>
     poll_tick current (sys_poller s) = (sent, po) \<Longrightarrow>
     system_step hx h src wr d s
       (s\<lparr> sys_server := (sys_server s)\<lparr> pool := set_world w (pool (sys_server s)) \<rparr>,
          sys_conns := broadcast sent (sys_conns s), sys_poller := po \<rparr>)"

text \<open>Reachable in \<open>n\<close> steps.\<close>

inductive system_reaches ::
  "hex_crate \<Rightarrow> 'w pool_state session_handler \<Rightarrow> 'w job_source \<Rightarrow> 'o wire \<Rightarrow> u32
     \<Rightarrow> ('w, 'o) system \<Rightarrow> nat \<Rightarrow> ('w, 'o) system \<Rightarrow> bool"
  for hx h src wr d s0 where
  start: "system_reaches hx h src wr d s0 0 s0"
| step: "system_reaches hx h src wr d s0 n s \<Longrightarrow> system_step hx h src wr d s t
     \<Longrightarrow> system_reaches hx h src wr d s0 (Suc n) t"

section \<open>Invariant of the running pool\<close>

text \<open>What an event does to the extranonce counter and to the session's extranonce.\<close>

definition extranonce_moves :: "session_state \<Rightarrow> 's server \<Rightarrow> session_state \<Rightarrow> 's server \<Rightarrow> bool" where
  "extranonce_moves ss sv ss' sv' \<longleftrightarrow>
     (next_extranonce1 sv' = next_extranonce1 sv \<and> ss_extranonce1 ss' = ss_extranonce1 ss
        \<and> subscribed ss' = subscribed ss)
     \<or> (next_extranonce1 sv' = next_extranonce1 sv + 1 \<and> subscribed ss'
        \<and> ss_extranonce1 ss' = fmt_08x (next_extranonce1 sv))"

lemma dispatch_moves:
  "dispatch_request hx h req ss sv = (r, ss', sv') \<Longrightarrow> extranonce_moves ss sv ss' sv'"
  by (auto simp: dispatch_request_def dispatch_configure_def dispatch_subscribe_def
      dispatch_authorize_def dispatch_submit_def Let_def extranonce_moves_def
      split: sum.splits option.splits sv1_domain_command.splits prod.splits if_splits)

lemma deliver_moves:
  "deliver_job hx h wr d j ss out sv = (f, ss', out', sv') \<Longrightarrow>
     next_extranonce1 sv' = next_extranonce1 sv \<and> ss_extranonce1 ss' = ss_extranonce1 ss
     \<and> subscribed ss' = subscribed ss"
  by (auto simp: deliver_job_def split: prod.splits bool.splits)

lemma handle_moves:
  assumes "handle_request hx h wr d req ss out sv = (f, ss', out', sv')"
  shows "extranonce_moves ss sv ss' sv'"
proof -
  obtain r ss1 sv1 where disp: "dispatch_request hx h req ss sv = (r, ss1, sv1)"
    by (metis prod_cases3)
  note m = dispatch_moves [OF disp]
  have same: "extranonce_moves ss sv ss' sv'"
    if "next_extranonce1 sv' = next_extranonce1 sv1" "ss_extranonce1 ss' = ss_extranonce1 ss1"
      "subscribed ss' = subscribed ss1"
    using m that by (simp add: extranonce_moves_def)
  show ?thesis using assms
    by (auto simp: handle_request_def disp split: option.splits sum.splits prod.splits bool.splits
        dest!: deliver_moves intro!: same)
qed

lemma step_moves:
  assumes "session_step hx h wr d ev ss out sv = (f, ss', out', sv')"
  shows "extranonce_moves ss sv ss' sv'"
proof -
  have refl: "extranonce_moves ss sv ss sv" by (simp add: extranonce_moves_def)
  show ?thesis
  proof (cases ev)
    case (Read_Line line)
    then show ?thesis using assms refl
      by (auto simp: Let_def parse_failure_def split: if_splits sum.splits prod.splits bool.splits
          dest: handle_moves)
  next
    case (Recv_Job j)
    then show ?thesis using assms refl
      by (auto simp: extranonce_moves_def split: if_splits dest: deliver_moves)
  qed (use assms refl in auto)
qed

definition receivers_ok :: "(nat \<rightharpoonup> 'o connection) \<Rightarrow> bool" where
  "receivers_ok conns \<longleftrightarrow>
     (\<forall>i c. conns i = Some c \<longrightarrow> length (rx_queue (cn_rx c)) \<le> BROADCAST_CAPACITY)"

definition sessions_ok :: "(nat \<rightharpoonup> 'o connection) \<Rightarrow> bool" where
  "sessions_ok conns \<longleftrightarrow> (\<forall>i c. conns i = Some c \<longrightarrow> session_inv (cn_session c))"

text \<open>The live extranonces come from the first \<open>k\<close> values of the counter, one session each.\<close>

definition extranonces_ok :: "nat \<Rightarrow> (nat \<rightharpoonup> 'o connection) \<Rightarrow> bool" where
  "extranonces_ok k conns \<longleftrightarrow>
     (\<exists>num. \<forall>i c. conns i = Some c \<longrightarrow> subscribed (cn_session c) \<longrightarrow>
        num i < k \<and> ss_extranonce1 (cn_session c) = fmt_08x (1 + word_of_nat (num i))
        \<and> (\<forall>j c'. conns j = Some c' \<longrightarrow> subscribed (cn_session c') \<longrightarrow> num i = num j \<longrightarrow> i = j))"

lemma extranonces_ok_remove: "extranonces_ok k conns \<Longrightarrow> extranonces_ok k (conns(i := None))"
  unfolding extranonces_ok_def by (elim exE) (rule_tac x = num in exI, auto)

lemma extranonces_ok_mono: "extranonces_ok k conns \<Longrightarrow> k \<le> k' \<Longrightarrow> extranonces_ok k' conns"
  unfolding extranonces_ok_def by (elim exE) (rule_tac x = num in exI, fastforce)

lemma extranonces_ok_same:
  assumes "extranonces_ok k conns" and "conns i = Some c"
    and "subscribed (cn_session c') = subscribed (cn_session c)"
    and "ss_extranonce1 (cn_session c') = ss_extranonce1 (cn_session c)"
  shows "extranonces_ok k (conns(i \<mapsto> c'))"
  using assms unfolding extranonces_ok_def
  by (elim exE) (rule_tac x = num in exI, auto split: if_splits)

lemma extranonces_ok_fresh:
  assumes "extranonces_ok k conns" and "\<not> subscribed (cn_session c')"
  shows "extranonces_ok k (conns(i \<mapsto> c'))"
  using assms unfolding extranonces_ok_def
  by (elim exE) (rule_tac x = num in exI, auto split: if_splits)

lemma extranonces_ok_new:
  assumes ok: "extranonces_ok k conns"
    and new: "ss_extranonce1 (cn_session c') = fmt_08x (1 + word_of_nat k)"
  shows "extranonces_ok (Suc k) (conns(i \<mapsto> c'))"
proof -
  from ok obtain num where num: "\<forall>i c. conns i = Some c \<longrightarrow> subscribed (cn_session c) \<longrightarrow>
        num i < k \<and> ss_extranonce1 (cn_session c) = fmt_08x (1 + word_of_nat (num i))
        \<and> (\<forall>j c'. conns j = Some c' \<longrightarrow> subscribed (cn_session c') \<longrightarrow> num i = num j \<longrightarrow> i = j)"
    unfolding extranonces_ok_def by blast
  show ?thesis unfolding extranonces_ok_def
    by (rule exI [of _ "num(i := k)"]) (use num new in \<open>fastforce split: if_splits\<close>)
qed

lemma extranonces_ok_broadcast: "extranonces_ok k conns \<Longrightarrow> extranonces_ok k (broadcast j conns)"
  unfolding extranonces_ok_def broadcast_def
  by (elim exE) (rule_tac x = num in exI, auto split: option.splits)

definition system_inv :: "nat \<Rightarrow> ('w, 'o) system \<Rightarrow> bool" where
  "system_inv n s \<longleftrightarrow>
     pool_inv (pool (sys_server s)) \<and> sessions_ok (sys_conns s) \<and> receivers_ok (sys_conns s)
     \<and> (\<exists>k \<le> n. next_extranonce1 (sys_server s) = 1 + word_of_nat k \<and> extranonces_ok k (sys_conns s))"

lemma extranonces_ok_event:
  assumes ok: "extranonces_ok k conns" and nxt: "next_extranonce1 sv = 1 + word_of_nat k"
    and c: "conns i = Some c" and moves: "extranonce_moves (cn_session c) sv ss' sv'"
  shows "\<exists>k' \<le> Suc k. next_extranonce1 sv' = 1 + word_of_nat k'
     \<and> extranonces_ok k' (conns(i \<mapsto> \<lparr> cn_session = ss', cn_out = out, cn_rx = rx \<rparr>))
     \<and> extranonces_ok k' (conns(i := None))"
  using moves unfolding extranonce_moves_def
proof (elim disjE conjE)
  assume same: "next_extranonce1 sv' = next_extranonce1 sv" "ss_extranonce1 ss' = ss_extranonce1 (cn_session c)"
    "subscribed ss' = subscribed (cn_session c)"
  then show ?thesis
    using extranonces_ok_same [OF ok c, of "\<lparr> cn_session = ss', cn_out = out, cn_rx = rx \<rparr>"]
      extranonces_ok_remove [OF ok, of i] nxt by (intro exI [of _ k]) simp
next
  assume new: "next_extranonce1 sv' = next_extranonce1 sv + 1" "subscribed ss'"
    "ss_extranonce1 ss' = fmt_08x (next_extranonce1 sv)"
  then show ?thesis
    using extranonces_ok_new [OF ok, of "\<lparr> cn_session = ss', cn_out = out, cn_rx = rx \<rparr>" i] nxt
      extranonces_ok_mono [OF extranonces_ok_remove [OF ok, of i], of "Suc k"]
    by (intro exI [of _ "Suc k"]) (simp add: add.commute)
qed

lemma sessions_ok_update:
  "sessions_ok conns \<Longrightarrow> session_inv ss \<Longrightarrow>
     sessions_ok (conns(i \<mapsto> \<lparr> cn_session = ss, cn_out = out, cn_rx = rx \<rparr>))"
  "sessions_ok conns \<Longrightarrow> sessions_ok (conns(i := None))"
  by (simp_all add: sessions_ok_def)

lemma receivers_ok_update:
  "receivers_ok conns \<Longrightarrow> length (rx_queue rx) \<le> BROADCAST_CAPACITY \<Longrightarrow>
     receivers_ok (conns(i \<mapsto> \<lparr> cn_session = ss, cn_out = out, cn_rx = rx \<rparr>))"
  "receivers_ok conns \<Longrightarrow> receivers_ok (conns(i := None))"
  by (simp_all add: receivers_ok_def)

lemma rx_send_length: "length (rx_queue rx) \<le> BROADCAST_CAPACITY \<Longrightarrow>
    length (rx_queue (rx_send j rx)) \<le> BROADCAST_CAPACITY"
  by (simp add: rx_send_def BROADCAST_CAPACITY_def)

lemma rx_recv_length: "rx_recv rx = Some (ev, rx') \<Longrightarrow> length (rx_queue rx') \<le> length (rx_queue rx)"
  by (auto simp: rx_recv_def split: if_splits list.splits)

lemma event_inv:
  assumes inv: "system_inv n s" and c: "sys_conns s i = Some c"
    and step: "session_step hx (pool_handler hx btc sha self) wr d ev (cn_session c) (cn_out c) (sys_server s) = r"
    and rx: "length (rx_queue rx) \<le> BROADCAST_CAPACITY"
  shows "system_inv (Suc n) (after_event (pool_handler hx btc sha self) i peer r rx s)"
proof -
  obtain f ss out sv where r: "r = (f, ss, out, sv)" by (metis prod_cases4)
  from inv obtain k where k: "k \<le> n" "next_extranonce1 (sys_server s) = 1 + word_of_nat k"
    "extranonces_ok k (sys_conns s)" and p: "pool_inv (pool (sys_server s))"
    and so: "sessions_ok (sys_conns s)" and ro: "receivers_ok (sys_conns s)"
    unfolding system_inv_def by blast
  have p': "pool_inv (pool sv)" by (rule pool_events.step_inv [OF p step [unfolded r]])
  have "session_inv (cn_session c)" using so c by (simp add: sessions_ok_def)
  from step_session_inv [OF this step [unfolded r]] have ss: "session_inv ss" .
  from extranonces_ok_event [OF k(3,2) c step_moves [OF step [unfolded r]], of out rx]
  obtain k' where k': "k' \<le> Suc k" "next_extranonce1 sv = 1 + word_of_nat k'"
    "extranonces_ok k' ((sys_conns s)(i \<mapsto> \<lparr> cn_session = ss, cn_out = out, cn_rx = rx \<rparr>))"
    "extranonces_ok k' ((sys_conns s)(i := None))"
    by blast
  have n: "k' \<le> Suc n" using k(1) k'(1) by simp
  have d: "pool_inv (on_disconnect (pool_handler hx btc sha self) peer (pool sv))"
    by (rule pool_events.disconnect_inv [OF p'])
  show ?thesis
    using p' d n k'(2-) sessions_ok_update [OF so] ss receivers_ok_update [OF ro] rx
    by (cases f) (auto simp: r after_event_def system_inv_def)
qed

lemma system_step_inv:
  assumes "system_step hx (pool_handler hx btc sha self) src wr d s t" and inv: "system_inv n s"
  shows "system_inv (Suc n) t"
  using assms
proof (cases rule: system_step.cases)
  case (accept i out peer)
  have "pool_inv (on_connect (pool_handler hx btc sha self) peer (pool (sys_server s)))"
    using inv by (intro pool_events.connect_inv) (simp add: system_inv_def)
  moreover have "\<not> subscribed session_state_default" by (simp add: session_state_default_def)
  ultimately show ?thesis
    using inv accept
    by (auto simp: system_inv_def sessions_ok_update receivers_ok_update
        intro!: extranonces_ok_fresh)
      (metis le_Suc_eq connection.select_convs(1) extranonces_ok_fresh)
next
  case (read i c ev line r peer)
  have "length (rx_queue (cn_rx c)) \<le> BROADCAST_CAPACITY"
    using inv read by (auto simp: system_inv_def receivers_ok_def)
  with event_inv [OF inv] read show ?thesis by blast
next
  case (recv i c ev rx r peer)
  have "length (rx_queue (cn_rx c)) \<le> BROADCAST_CAPACITY"
    using inv recv by (auto simp: system_inv_def receivers_ok_def)
  with rx_recv_length [OF recv(3)] have "length (rx_queue rx) \<le> BROADCAST_CAPACITY" by linarith
  with event_inv [OF inv] recv show ?thesis by blast
next
  case (poll current w sent po)
  have "sessions_ok (broadcast sent (sys_conns s))" "receivers_ok (broadcast sent (sys_conns s))"
    using inv by (auto simp: system_inv_def broadcast_def sessions_ok_def receivers_ok_def
        rx_send_length split: option.splits)
  then show ?thesis
    using inv poll
    by (auto simp: system_inv_def pool_inv_def pool_jobs_def)
      (metis extranonces_ok_broadcast le_SucI)
qed

lemma system_start_inv: "system_inv 0 (system_start cr config w)"
  by (simp add: system_inv_def system_start_def server_start_def main_pool_state_def pool_inv_def
      pool_jobs_def services_state_def build_pool_services_def services_new_inner_def
      services_new_with_validator_and_share_sink_def sessions_ok_def receivers_ok_def
      extranonces_ok_def workers_inv_def workers_new_def Let_def)

lemma system_reaches_inv:
  assumes "system_reaches hx (pool_handler hx btc sha self) src wr d (system_start cr config w) n s"
  shows "system_inv n s"
  using assms
proof (induction rule: system_reaches.induct)
  case start
  show ?case by (rule system_start_inv)
next
  case (step n s t)
  then show ?case by (blast intro: system_step_inv)
qed

section \<open>Properties of the running pool\<close>

definition sample_crates :: "http_request list crates" where
  "sample_crates =
     \<lparr> cr_hex = sample_hex, cr_btc = sample_btc, cr_sha = sample_sha,
       cr_http = sample_http (Inl ''down''), cr_block_template = (\<lambda>j. Inr sample_template),
       cr_node_api_template = (\<lambda>j. Inl ''none''), cr_now = (\<lambda>w. 0) \<rparr>"

definition sample_main :: "http_request list sv1_handler" where
  "sample_main =
     \<lparr> sh_job_source = build_job_source sample_crates pool_config_default,
       sh_processor = processor_new, sh_submitter = (\<lambda>b w. (Inr True, w)),
       sh_payout_script_pubkey = None \<rparr>"

abbreviation sample_events :: "http_request list pool_state session_handler" where
  "sample_events \<equiv> pool_handler sample_hex sample_btc sample_sha sample_main"

abbreviation sample_reaches ::
  "nat \<Rightarrow> (http_request list, nat) system \<Rightarrow> bool" where
  "sample_reaches \<equiv> system_reaches sample_hex sample_events (sh_job_source sample_main)
     (sample_wire sample_subscribe) 1 (system_start sample_crates pool_config_default [])"

text \<open>Accepting connections 0 and 1 and then a subscribe request on each.\<close>

lemma sample_subscribe_step:
  "session_step sample_hex h (sample_wire sample_subscribe) d (Read_Line ''x'') ss out sv
   = (Running, ss\<lparr> subscribed := True, ss_extranonce1 := fmt_08x (next_extranonce1 sv), extranonce2_size := 4 \<rparr>,
      Suc out, sv\<lparr> next_extranonce1 := next_extranonce1 sv + 1 \<rparr>)"
proof -
  have t: "trim ''x'' = ''x''" by (rule trim_printable) (simp add: printable_def char_nat_def)
  show ?thesis
    by (simp add: t sample_wire_def handle_request_def dispatch_request_def map_request_to_command_def
        sample_subscribe_def dispatch_subscribe_def write_json_line_def Let_def)
qed

lemma sample_reach_accept:
  assumes "sample_reaches n s" and "sys_conns s i = None"
  shows "\<exists>t c. sample_reaches (Suc n) t \<and> sys_conns t = (sys_conns s)(i \<mapsto> c)
     \<and> next_extranonce1 (sys_server t) = next_extranonce1 (sys_server s)"
  using system_reaches.step [OF assms(1) system_step.accept [where out = 0, OF assms(2)]]
  by fastforce

lemma sample_reach_subscribe:
  assumes "sample_reaches n s" and "sys_conns s i = Some c"
  shows "\<exists>t c'. sample_reaches (Suc n) t \<and> sys_conns t = (sys_conns s)(i \<mapsto> c')
     \<and> subscribed (cn_session c') \<and> ss_extranonce1 (cn_session c') = fmt_08x (next_extranonce1 (sys_server s))
     \<and> next_extranonce1 (sys_server t) = next_extranonce1 (sys_server s) + 1"
proof -
  let ?t = "after_event sample_events i [] (session_step sample_hex sample_events
      (sample_wire sample_subscribe) 1 (Read_Line ''x'') (cn_session c) (cn_out c) (sys_server s)) (cn_rx c) s"
  have "sample_reaches (Suc n) ?t"
    by (rule system_reaches.step [OF assms(1) system_step.read [OF assms(2) disjI2 [OF refl] refl]])
  then show ?thesis unfolding sample_subscribe_step by (fastforce simp: after_event_def)
qed

lemma sample_two_subscribed:
  "\<exists>s c0 c1. sample_reaches 4 s \<and> sys_conns s 0 = Some c0 \<and> sys_conns s 1 = Some c1
     \<and> subscribed (cn_session c0) \<and> subscribed (cn_session c1)"
proof -
  let ?s0 = "system_start sample_crates pool_config_default [] :: (http_request list, nat) system"
  have r0: "sample_reaches 0 ?s0" by (rule system_reaches.start)
  have e0: "sys_conns ?s0 = Map.empty" by (simp add: system_start_def)
  from sample_reach_accept [OF r0, of 0] e0 obtain s1 c where r1: "sample_reaches (Suc 0) s1"
    and e1: "sys_conns s1 = [0 \<mapsto> c]" by auto
  from sample_reach_accept [OF r1, of 1] e1 obtain s2 c' where r2: "sample_reaches (Suc (Suc 0)) s2"
    and e2: "sys_conns s2 = [0 \<mapsto> c, 1 \<mapsto> c']" by auto
  from sample_reach_subscribe [OF r2, of 0] e2 obtain s3 d where
    r3: "sample_reaches (Suc (Suc (Suc 0))) s3" and e3: "sys_conns s3 = [0 \<mapsto> d, 1 \<mapsto> c']"
    and d: "subscribed (cn_session d)" by (auto simp: fun_upd_twist)
  from sample_reach_subscribe [OF r3, of 1] e3 obtain s4 d' where
    r4: "sample_reaches (Suc (Suc (Suc (Suc 0)))) s4" and e4: "sys_conns s4 = [0 \<mapsto> d, 1 \<mapsto> d']"
    and d': "subscribed (cn_session d')" by auto
  have four: "Suc (Suc (Suc (Suc 0))) = 4" by simp
  from r4 have "sample_reaches 4 s4" unfolding four .
  with e4 d d' show ?thesis by (intro exI [of _ s4]) simp
qed

text \<open>
  Property C7. No two live miners share an extranonce1: in every state the running pool can
  reach within \<open>2^32 - 1\<close> steps, whatever the interleaving of connections, requests, pushes
  and polls, two different subscribed connections have different extranonces, so their
  shares never search the same coinbase.
\<close>

theorem live_extranonces_unique:
  assumes "system_reaches hx (pool_handler hx btc sha self) src wr d (system_start cr config w) n s"
    and "n < 2 ^ 32" and "i \<noteq> j"
    and "sys_conns s i = Some ci" "subscribed (cn_session ci)"
    and "sys_conns s j = Some cj" "subscribed (cn_session cj)"
  shows "ss_extranonce1 (cn_session ci) \<noteq> ss_extranonce1 (cn_session cj)"
proof -
  from system_reaches_inv [OF assms(1)] obtain k where k: "k \<le> n" "extranonces_ok k (sys_conns s)"
    unfolding system_inv_def by blast
  then obtain num where num: "num i < k" "num j < k" "num i \<noteq> num j"
    "ss_extranonce1 (cn_session ci) = fmt_08x (1 + word_of_nat (num i))"
    "ss_extranonce1 (cn_session cj) = fmt_08x (1 + word_of_nat (num j))"
    using assms(3-) unfolding extranonces_ok_def by metis
  have "unat (word_of_nat m :: u32) = m" if "m < k" for m
    using that k(1) assms(2) by (intro unat_of_nat_less) simp
  with num have "(word_of_nat (num i) :: u32) \<noteq> word_of_nat (num j)" by metis
  then show ?thesis using num by (simp add: fmt_08x_inject)
qed

theorem live_extranonces_unique_witness:
  "\<exists>s ci cj. sample_reaches 4 s \<and> sys_conns s 0 = Some ci \<and> sys_conns s 1 = Some cj
     \<and> ss_extranonce1 (cn_session ci) \<noteq> ss_extranonce1 (cn_session cj)"
proof -
  obtain s c0 c1 where s: "sample_reaches 4 s" "sys_conns s 0 = Some c0" "sys_conns s 1 = Some c1"
    "subscribed (cn_session c0)" "subscribed (cn_session c1)"
    using sample_two_subscribed by blast
  have "(4 :: nat) < 2 ^ 32" "(0 :: nat) \<noteq> 1" by simp_all
  from live_extranonces_unique [OF s(1) this s(2,4,3,5)] s(1-3) show ?thesis by blast
qed

text \<open>
  Property C9. Invariant of the running pool, over every interleaving: at most 64 live jobs,
  each found under its own id; one registry entry per worker; every session's state
  coherent (see the session property); no receiver holds more than 16 unsent jobs.
\<close>

theorem running_pool_invariant:
  assumes "system_reaches hx (pool_handler hx btc sha self) src wr d (system_start cr config w) n s"
  shows "length (order (pool_jobs (pool (sys_server s)))) \<le> 64
     \<and> (\<forall>i j. get_job i (pool_jobs (pool (sys_server s))) = Some j \<longrightarrow> job_id j = i)
     \<and> distinct (map worker_id (workers_list (pl_workers (pool (sys_server s)))))
     \<and> (\<forall>i c. sys_conns s i = Some c \<longrightarrow>
          session_inv (cn_session c) \<and> length (rx_queue (cn_rx c)) \<le> 16)"
proof -
  have inv: "registry_inv (pool_jobs (pool (sys_server s)))" "workers_inv (pl_workers (pool (sys_server s)))"
    "sessions_ok (sys_conns s)" "receivers_ok (sys_conns s)"
    using system_reaches_inv [OF assms] by (auto simp: system_inv_def pool_inv_def)
  have "map worker_id (workers_list ws) = map fst ws" if "workers_inv ws" for ws
    using that by (auto simp: workers_list_def workers_inv_def)
  with inv(2) have "distinct (map worker_id (workers_list (pl_workers (pool (sys_server s)))))"
    by (simp add: workers_inv_def)
  with inv show ?thesis
    by (auto simp: registry_inv_def get_job_def ACTIVE_JOBS_MAX_def sessions_ok_def receivers_ok_def
        BROADCAST_CAPACITY_def)
qed

theorem running_pool_invariant_witness:
  "\<exists>s c. sample_reaches 4 s \<and> sys_conns s 0 = Some c \<and> session_inv (cn_session c)
     \<and> length (order (pool_jobs (pool (sys_server s)))) \<le> 64"
proof -
  obtain s c0 where s: "sample_reaches 4 s" "sys_conns s 0 = Some c0"
    using sample_two_subscribed by blast
  with running_pool_invariant [OF s(1)] show ?thesis by blast
qed

end
