(* ===== verification/System_Jobs.thy ===== *)
theory System_Jobs
  imports System
begin

text \<open>
  The jobs that travel through the running pool: from the job source to the poller, the
  broadcast queues, the sessions and the registry. The locale \<open>pool_carrier\<close> is what a
  handler and a job source have to promise so that only good jobs travel. The pool's handler
  keeps it over every job source whose jobs are good (\<open>good_source\<close>), which is interpreted on
  the source that \<open>main\<close> builds with \<open>job_ok\<close>, the lengths of a job's byte arrays.
\<close>

section \<open>The interface\<close>

definition queues_good :: "(job \<Rightarrow> bool) \<Rightarrow> (nat \<rightharpoonup> 'o connection) \<Rightarrow> bool" where
  "queues_good good conns \<longleftrightarrow> (\<forall>i c. conns i = Some c \<longrightarrow> list_all good (rx_queue (cn_rx c)))"

lemma queues_good_update:
  "queues_good good conns \<Longrightarrow> list_all good (rx_queue rx) \<Longrightarrow>
     queues_good good (conns(i \<mapsto> \<lparr> cn_session = ss, cn_out = out, cn_rx = rx \<rparr>))"
  "queues_good good conns \<Longrightarrow> queues_good good (conns(i := None))"
  by (simp_all add: queues_good_def)

lemma rx_send_good: "list_all good (rx_queue rx) \<Longrightarrow> good j \<Longrightarrow> list_all good (rx_queue (rx_send j rx))"
  by (cases "rx_queue rx") (auto simp: rx_send_def)

lemma rx_recv_good:
  "rx_recv rx = Some (ev, rx') \<Longrightarrow> list_all good (rx_queue rx)
     \<Longrightarrow> event_good good ev \<and> list_all good (rx_queue rx')"
  by (auto simp: rx_recv_def event_good_def split: if_splits list.splits)

lemma queues_good_broadcast:
  "queues_good good conns \<Longrightarrow> (\<And>j. sent = Some j \<Longrightarrow> good j) \<Longrightarrow> queues_good good (broadcast sent conns)"
  by (auto simp: queues_good_def broadcast_def rx_send_good split: option.splits)

lemma poll_tick_sent: "poll_tick current po = (Some j, po') \<Longrightarrow> current = Some j"
  by (auto simp: poll_tick_def Let_def split: option.splits if_splits)

locale pool_carrier = guarded_events h inv good
  for h :: "'w pool_state session_handler" and inv and good +
  fixes src :: "'w job_source"
  assumes world_keeps: "inv p \<Longrightarrow> inv (set_world w p)"
    and source_good: "fst (src w) = Some j \<Longrightarrow> good j"
begin

lemma after_event_keeps:
  assumes "inv (pool sv)" and "r = (f, ss, out, sv)" and "queues_good good (sys_conns s)"
    and "list_all good (rx_queue rx)"
  shows "inv (pool (sys_server (after_event h i peer r rx s)))
     \<and> queues_good good (sys_conns (after_event h i peer r rx s))"
  using assms disconnect_keeps by (cases f) (simp_all add: after_event_def queues_good_update)

lemma system_keeps:
  assumes "system_step hx h src wr d s t"
    and inv: "inv (pool (sys_server s))" and queues: "queues_good good (sys_conns s)"
  shows "inv (pool (sys_server t)) \<and> queues_good good (sys_conns t)"
  using assms(1)
proof (cases rule: system_step.cases)
  case (accept i out peer)
  then show ?thesis using inv queues connect_keeps by (simp add: queues_good_update)
next
  case (read i c ev line r peer)
  obtain f ss out sv where r: "r = (f, ss, out, sv)" by (metis prod_cases4)
  have "event_good good ev" using read(3) by auto
  then have "inv (pool sv)" by (rule step_keeps [OF inv _ read(4) [unfolded r]])
  moreover have "list_all good (rx_queue (cn_rx c))" using queues read(2) by (simp add: queues_good_def)
  ultimately show ?thesis unfolding read(1) by (intro after_event_keeps [OF _ r queues])
next
  case (recv i c ev rx r peer)
  obtain f ss out sv where r: "r = (f, ss, out, sv)" by (metis prod_cases4)
  have "list_all good (rx_queue (cn_rx c))" using queues recv(2) by (simp add: queues_good_def)
  with recv(3) have ok: "event_good good ev" "list_all good (rx_queue rx)"
    by (auto dest: rx_recv_good)
  have "inv (pool sv)" by (rule step_keeps [OF inv ok(1) recv(4) [unfolded r]])
  then show ?thesis unfolding recv(1) by (rule after_event_keeps [OF _ r queues ok(2)])
next
  case (poll current w sent po)
  have "good j" if "sent = Some j" for j
    using source_good [of "pool_world (pool (sys_server s))" j] poll(2,3) that by (auto dest: poll_tick_sent)
  then show ?thesis using inv queues world_keeps poll(1) by (simp add: queues_good_broadcast)
qed

lemma reaches_keeps:
  assumes "system_reaches hx h src wr d s0 n s" and "inv (pool (sys_server s0))"
    and "queues_good good (sys_conns s0)"
  shows "inv (pool (sys_server s)) \<and> queues_good good (sys_conns s)"
  using assms by (induction rule: system_reaches.induct) (auto dest: system_keeps)

end

lemma queues_good_start: "queues_good good (sys_conns (system_start cr config w))"
  by (simp add: queues_good_def system_start_def)

text \<open>A poll as a function of what the job source answered.\<close>

definition after_poll :: "job option \<Rightarrow> 'w \<Rightarrow> ('w, 'o) system \<Rightarrow> ('w, 'o) system" where
  "after_poll current w s =
     (case poll_tick current (sys_poller s) of
        (sent, po) \<Rightarrow>
          s\<lparr> sys_server := (sys_server s)\<lparr> pool := set_world w (pool (sys_server s)) \<rparr>,
             sys_conns := broadcast sent (sys_conns s), sys_poller := po \<rparr>)"

lemma after_poll_step:
  assumes "src (pool_world (pool (sys_server s))) = (current, w)"
  shows "system_step hx h src wr d s (after_poll current w s)"
proof -
  obtain sent po where tick: "poll_tick current (sys_poller s) = (sent, po)"
    by (cases "poll_tick current (sys_poller s)")
  have "after_poll current w s
      = s\<lparr> sys_server := (sys_server s)\<lparr> pool := set_world w (pool (sys_server s)) \<rparr>,
          sys_conns := broadcast sent (sys_conns s), sys_poller := po \<rparr>"
    by (simp add: after_poll_def tick)
  then show ?thesis using system_step.poll [where hx = hx and h = h and wr = wr and d = d, of src s, OF assms tick]
    by simp
qed

section \<open>Good jobs only\<close>

definition live_jobs :: "(job \<Rightarrow> bool) \<Rightarrow> 'w pool_state \<Rightarrow> bool" where
  "live_jobs good p \<longleftrightarrow>
     registry_inv (pool_jobs p) \<and> (\<forall>i j. get_job i (pool_jobs p) = Some j \<longrightarrow> good j)"

lemma live_jobs_register:
  assumes "live_jobs good p" and "good j" and "pool_jobs p' = register j (pool_jobs p)"
  shows "live_jobs good p'"
proof -
  have inv: "registry_inv (pool_jobs p)" using assms(1) by (simp add: live_jobs_def)
  have "good k" if "get_job i (register j (pool_jobs p)) = Some k" for i k
    using registry.get_reg_source [OF inv that] assms(1,2) by (auto simp: live_jobs_def)
  then show ?thesis using assms(3) registry.inv_reg [OF inv] by (auto simp: live_jobs_def)
qed

lemma live_jobs_same: "live_jobs good p \<Longrightarrow> pool_jobs p' = pool_jobs p \<Longrightarrow> live_jobs good p'"
  by (simp add: live_jobs_def)

text \<open>A job source that only ever answers with good jobs: then only good jobs travel.\<close>

locale good_source =
  fixes src :: "'w job_source" and good :: "job \<Rightarrow> bool"
  assumes answers_good: "fst (src w) = Some j \<Longrightarrow> good j"

sublocale good_source \<subseteq> travel: pool_carrier
  "pool_handler hx btc sha (self\<lparr> sh_job_source := src \<rparr>)" "live_jobs good" good src
  for hx btc sha self
proof unfold_locales
  let ?h = "pool_handler hx btc sha (self\<lparr> sh_job_source := src \<rparr>)"
  fix p :: "'w pool_state" and peer u x w and j :: job
  assume p: "live_jobs good p"
  show "live_jobs good (on_connect ?h peer p)" "live_jobs good (on_disconnect ?h peer p)"
    "live_jobs good (snd (on_authorize ?h u p))" "live_jobs good (snd (on_submit ?h x p))"
    by (rule live_jobs_same [OF p],
        simp add: pool_events.connect_jobs pool_events.disconnect_jobs pool_events.authorize_jobs
          pool_events.submit_jobs)+
  show "good j" if "fst (on_authorize ?h u p) = Inr (Some j)"
    using that by (auto simp: pool_handler_def pool_on_authorize_def Let_def
        split: prod.splits dest: answers_good [OF arg_cong [of _ _ fst, THEN trans]])
  show "live_jobs good (on_notify_sent ?h j p)" if "good j"
    by (rule live_jobs_register [OF p that]) (rule pool_events.notify_jobs)
  show "live_jobs good (set_world w p)" by (rule live_jobs_same [OF p]) (simp add: pool_jobs_def)
qed (rule answers_good)

interpretation main_jobs: good_source "build_job_source cr config" job_ok for cr config
  by unfold_locales (use rpc_source.well_formed node_api_source.well_formed in
    \<open>auto simp: build_job_source_def Let_def split: job_source_mode.splits\<close>)

lemma main_handler_source:
  assumes "main_handler cr config = Inr self"
  shows "self\<lparr> sh_job_source := build_job_source cr config \<rparr> = self"
    and "sh_job_source self = build_job_source cr config"
  using assms by (auto simp: main_handler_def build_pool_services_def services_new_inner_def
      services_new_with_validator_and_share_sink_def and_then_Inr Let_def)

lemma live_jobs_start: "live_jobs good (pool (sys_server (system_start cr config w)))"
  by (simp add: live_jobs_def system_start_def server_start_def main_pool_state_def pool_jobs_def
      build_pool_services_def services_state_def services_new_with_validator_and_share_sink_def
      services_new_inner_def registry.get_empty Let_def)

text \<open>
  Property C10. Well-typed jobs: in every state the pool of \<open>main\<close> can reach, over every
  interleaving, every live job and every job waiting in a session's queue has a 32-byte
  previous hash and merkle branch hashes of 32 bytes, whichever of the two job sources the
  configuration selects and whatever the node answers.
\<close>

theorem running_pool_jobs_well_typed:
  assumes "main_handler cr config = Inr self"
    and "system_reaches hx (pool_handler hx btc sha self) (sh_job_source self) wr d
           (system_start cr config w) n s"
  shows "(\<forall>i j. get_job i (pool_jobs (pool (sys_server s))) = Some j \<longrightarrow>
            length (job_prev_hash j) = 32 \<and> (\<forall>b \<in> set (merkle_branch j). length b = 32))
     \<and> (\<forall>i c. sys_conns s i = Some c \<longrightarrow> (\<forall>j \<in> set (rx_queue (cn_rx c)).
            length (job_prev_hash j) = 32 \<and> (\<forall>b \<in> set (merkle_branch j). length b = 32)))"
proof -
  have "live_jobs job_ok (pool (sys_server s)) \<and> queues_good job_ok (sys_conns s)"
    using main_jobs.travel.reaches_keeps [where self = self and cr = cr and config = config,
        unfolded main_handler_source(1) [OF assms(1)],
        OF assms(2) [unfolded main_handler_source(2) [OF assms(1)]] live_jobs_start queues_good_start] .
  then show ?thesis by (auto simp: live_jobs_def queues_good_def job_ok_def list_all_iff)
qed

text \<open>A node that always answers with the sample template, and a pool that pays to the sample script.\<close>

definition live_crates :: "http_request list crates" where
  "live_crates = sample_crates\<lparr> cr_http := sample_http
     (Inr \<lparr> resp_status = 200, resp_json = Inr (JObject [(''result'', JNull)]) \<rparr>) \<rparr>"

definition live_config :: pool_config where
  "live_config = pool_config_default\<lparr> cfg_pool := pool_section_default\<lparr>
     payout_script_pubkey_hex := hex_text sample_payout \<rparr> \<rparr>"

lemma live_payout: "payout_script_pubkey_bytes sample_hex (cfg_pool live_config) = Inr (Some sample_payout)"
proof -
  have "length (hex_text sample_payout) \<noteq> 0" by (simp add: sample_payout_def)
  then have "hex_text sample_payout \<noteq> []" by (metis list.size(3))
  then show ?thesis
    by (simp add: payout_script_pubkey_bytes_def live_config_def hex_decode_hex_text Let_def)
qed

lemma live_current:
  "\<exists>j. template_to_job sample_hex sample_btc sample_template sample_payout = Inr j
     \<and> (\<forall>w. \<exists>w'. build_job_source live_crates live_config w = (Some j, w'))"
proof -
  obtain j where j: "template_to_job sample_hex sample_btc sample_template sample_payout = Inr j"
    using sample_mapped by blast
  have "\<exists>w'. build_job_source live_crates live_config w = (Some j, w')" for w
    using j live_payout
    by (simp add: build_job_source_def live_crates_def sample_crates_def ok_flatten_def Let_def
        rpc_current_job_def get_block_template_def rpc_call_def rpc_response_def sample_http_def
        is_success_def rpc_job_source_new_def json_get_def obj_get_def live_config_def
        pool_config_default_def daemon_section_default_def word_le_nat_alt word_less_nat_alt)
  with j show ?thesis by blast
qed

lemma live_main:
  "\<exists>self j. main_handler live_crates live_config = Inr self \<and> job_height j = 100
     \<and> (\<forall>w. \<exists>w'. sh_job_source self w = (Some j, w'))"
proof -
  have pay: "payout_script_pubkey_bytes (cr_hex live_crates) (cfg_pool live_config) = Inr (Some sample_payout)"
    using live_payout by (simp add: live_crates_def sample_crates_def)
  obtain self where self: "main_handler live_crates live_config = Inr self"
    unfolding main_handler_def Let_def pay by simp
  obtain j where mapped: "template_to_job sample_hex sample_btc sample_template sample_payout = Inr j"
    and cur: "\<forall>w. \<exists>w'. build_job_source live_crates live_config w = (Some j, w')"
    using live_current by blast
  have "job_height j = 100"
    by (rule template_to_job_Inr [OF mapped]) (simp add: job_height_def sample_template_def)
  with self cur main_handler_source(2) [OF self] show ?thesis by metis
qed

text \<open>The live pool after one connection has been accepted.\<close>

lemma live_accept:
  "\<exists>s c. system_reaches sample_hex (pool_handler sample_hex sample_btc sample_sha self) src wr 1
        (system_start live_crates live_config [] :: (http_request list, nat) system) 1 s
     \<and> sys_conns s = [0 \<mapsto> c] \<and> sys_poller s = poller_start
     \<and> cn_session c = session_state_default \<and> cn_rx c = \<lparr> rx_queue = [], rx_missed = 0 \<rparr>"
proof -
  let ?h = "pool_handler sample_hex sample_btc sample_sha self"
  let ?s0 = "system_start live_crates live_config [] :: (http_request list, nat) system"
  have "sys_conns ?s0 0 = None" by (simp add: system_start_def)
  from system_reaches.step [OF system_reaches.start system_step.accept
      [where hx = sample_hex and h = ?h and src = src and wr = wr and d = 1 and out = 0, OF this]]
  show ?thesis by (fastforce simp: system_start_def)
qed

text \<open>One miner connects and the poller finds the template: the job waits in its queue.\<close>

theorem running_pool_jobs_well_typed_witness:
  "\<exists>self s c j. main_handler live_crates live_config = Inr self
     \<and> system_reaches sample_hex (pool_handler sample_hex sample_btc sample_sha self) (sh_job_source self)
          (sample_wire sample_subscribe) 1 (system_start live_crates live_config []) 2 s
     \<and> sys_conns s 0 = Some c \<and> rx_queue (cn_rx c) = [j] \<and> length (job_prev_hash j) = 32"
proof -
  obtain self j where self: "main_handler live_crates live_config = Inr self"
    and height: "job_height j = 100" and cur: "\<And>w. \<exists>w'. sh_job_source self w = (Some j, w')"
    using live_main by blast
  let ?h = "pool_handler sample_hex sample_btc sample_sha self" and ?wr = "sample_wire sample_subscribe"
  let ?r = "system_reaches sample_hex ?h (sh_job_source self) ?wr 1
    (system_start live_crates live_config [] :: (http_request list, nat) system)"
  obtain s1 c where r1: "?r 1 s1" and s1: "sys_conns s1 = [0 \<mapsto> c]" "sys_poller s1 = poller_start"
    and c: "cn_rx c = \<lparr> rx_queue = [], rx_missed = 0 \<rparr>"
    using live_accept [where self = self and src = "sh_job_source self" and wr = "?wr"] by blast
  obtain w where w: "sh_job_source self (pool_world (pool (sys_server s1))) = (Some j, w)" using cur by blast
  have tick: "poll_tick (Some j) (sys_poller s1) = (Some j, \<lparr> last_job_id = job_id j, last_height = 100 \<rparr>)"
    by (simp add: s1 poll_tick_def poller_start_def height)
  let ?s2 = "after_poll (Some j) w s1"
  from system_reaches.step [OF r1 after_poll_step [where src = "sh_job_source self", OF w]] have r2: "?r 2 ?s2" by (simp add: numeral_2_eq_2)
  obtain c2 where c2: "sys_conns ?s2 0 = Some c2" "rx_queue (cn_rx c2) = [j]"
    unfolding after_poll_def tick by (simp add: broadcast_def s1 rx_send_def c BROADCAST_CAPACITY_def)
  have "length (job_prev_hash j) = 32"
    using running_pool_jobs_well_typed [OF self r2] c2 by auto
  with self r2 c2 show ?thesis by blast
qed

end
