(* ===== verification/System_Progress.thy ===== *)
theory System_Progress
  imports System_Jobs
begin

text \<open>
  Progress of the running pool: a new job reaches every authorized miner. A poll that finds
  a new job puts it at the end of every session's queue (dropping the oldest entry of a full
  one); a session that keeps receiving works its queue off, one event at a time, and a
  healthy socket lets it deliver what it takes out. \<open>session_recvs\<close> is the repetition of
  receive steps of one connection, a special case of the steps of the whole pool.
\<close>

section \<open>Receive steps of one connection\<close>

definition recv_step ::
  "hex_crate \<Rightarrow> 'w pool_state session_handler \<Rightarrow> 'o wire \<Rightarrow> u32 \<Rightarrow> nat
     \<Rightarrow> ('w, 'o) system \<Rightarrow> ('w, 'o) system \<Rightarrow> bool" where
  "recv_step hx h wr d i s t \<longleftrightarrow>
     (\<exists>c ev rx peer. sys_conns s i = Some c \<and> rx_recv (cn_rx c) = Some (ev, rx)
        \<and> t = after_event h i peer
               (session_step hx h wr d ev (cn_session c) (cn_out c) (sys_server s)) rx s)"

inductive session_recvs ::
  "hex_crate \<Rightarrow> 'w pool_state session_handler \<Rightarrow> 'o wire \<Rightarrow> u32 \<Rightarrow> nat \<Rightarrow> nat
     \<Rightarrow> ('w, 'o) system \<Rightarrow> ('w, 'o) system \<Rightarrow> bool"
  for hx h wr d i where
  recvs_0: "session_recvs hx h wr d i 0 s s"
| recvs_Suc: "recv_step hx h wr d i s t \<Longrightarrow> session_recvs hx h wr d i n t u
     \<Longrightarrow> session_recvs hx h wr d i (Suc n) s u"

inductive_cases session_recvs_0E: "session_recvs hx h wr d i 0 s t"
inductive_cases session_recvs_SucE: "session_recvs hx h wr d i (Suc n) s t"

lemma recv_step_system: "recv_step hx h wr d i s t \<Longrightarrow> system_step hx h src wr d s t"
  by (auto simp: recv_step_def intro: system_step.recv)

lemma session_recvs_reaches:
  "session_recvs hx h wr d i n s t \<Longrightarrow> system_reaches hx h src wr d s0 m s
     \<Longrightarrow> system_reaches hx h src wr d s0 (m + n) t"
proof (induction arbitrary: m rule: session_recvs.induct)
  case (recvs_0 s)
  then show ?case by simp
next
  case (recvs_Suc s t n u)
  from recvs_Suc.prems recvs_Suc.hyps(1) have "system_reaches hx h src wr d s0 (Suc m) t"
    by (blast intro: system_reaches.step recv_step_system)
  from recvs_Suc.IH [OF this] show ?case by simp
qed

text \<open>A socket that takes every line, and text for every message.\<close>

definition wire_up :: "'o wire \<Rightarrow> bool" where
  "wire_up wr \<longleftrightarrow> (\<forall>j. \<exists>s. wr_to_string wr j = Inr s) \<and> (\<forall>l out. fst (wr_write wr l out))"

lemma send_job_notify_up:
  assumes "wire_up wr"
  shows "\<exists>out'. send_job_notify hx wr j d out = (True, out')"
proof -
  obtain s1 s2 where "wr_to_string wr (build_set_difficulty_notification d) = Inr s1"
    "wr_to_string wr (build_mining_notify hx j) = Inr s2"
    using assms by (meson wire_up_def)
  moreover have "\<exists>out'. wr_write wr l out = (True, out')" for l out
    using assms by (metis prod.collapse wire_up_def)
  ultimately show ?thesis
    by (simp add: send_job_notify_def write_json_line_def split: prod.split bool.split) (metis prod.inject)
qed

text \<open>One receive step of an authorized session with a job at the head of its queue.\<close>

lemma recv_job:
  assumes up: "wire_up wr" and c: "sys_conns s i = Some c"
    and auth: "authorized_worker (cn_session c) \<noteq> None"
    and queue: "rx_queue (cn_rx c) = j # js" "rx_missed (cn_rx c) = 0"
    and step: "recv_step hx h wr d i s t"
  shows "\<exists>c'. sys_conns t i = Some c' \<and> authorized_worker (cn_session c') = authorized_worker (cn_session c)
     \<and> last_notify_job_id (cn_session c') = Some (job_id j)
     \<and> rx_queue (cn_rx c') = js \<and> rx_missed (cn_rx c') = 0"
proof -
  obtain out' where send: "send_job_notify hx wr j d (cn_out c) = (True, out')"
    using send_job_notify_up [OF up] by blast
  from step c queue obtain peer where t: "t = after_event h i peer
      (session_step hx h wr d (Recv_Job j) (cn_session c) (cn_out c) (sys_server s))
      ((cn_rx c)\<lparr> rx_queue := js \<rparr>) s"
    by (auto simp: recv_step_def rx_recv_def)
  show ?thesis
    using auth queue by (auto simp: t after_event_def deliver_job_def send)
qed

lemma recv_lag:
  assumes "sys_conns s i = Some c" and "rx_missed (cn_rx c) \<noteq> 0" and "recv_step hx h wr d i s t"
  shows "\<exists>c'. sys_conns t i = Some c' \<and> cn_session c' = cn_session c
     \<and> rx_queue (cn_rx c') = rx_queue (cn_rx c) \<and> rx_missed (cn_rx c') = 0"
  using assms by (auto simp: recv_step_def rx_recv_def after_event_def)

lemma recv_enabled:
  assumes "sys_conns s i = Some c" and "rx_queue (cn_rx c) \<noteq> [] \<or> rx_missed (cn_rx c) \<noteq> 0"
  shows "\<exists>t. recv_step hx h wr d i s t"
proof -
  have "rx_recv (cn_rx c) \<noteq> None" using assms(2) by (auto simp: rx_recv_def split: list.splits)
  then obtain ev rx where "rx_recv (cn_rx c) = Some (ev, rx)" by auto
  with assms(1) show ?thesis by (auto simp: recv_step_def)
qed

text \<open>Draining the queue: as many steps as there are jobs, and the last one stays the current.\<close>

lemma drain_queue:
  assumes up: "wire_up wr"
  shows "sys_conns s i = Some c \<Longrightarrow> authorized_worker (cn_session c) \<noteq> None \<Longrightarrow>
     rx_queue (cn_rx c) = js \<Longrightarrow> rx_missed (cn_rx c) = 0 \<Longrightarrow> js \<noteq> [] \<Longrightarrow>
     (\<exists>t. session_recvs hx h wr d i (length js) s t)
     \<and> (\<forall>t. session_recvs hx h wr d i (length js) s t \<longrightarrow>
          (\<exists>c'. sys_conns t i = Some c' \<and> last_notify_job_id (cn_session c') = Some (job_id (last js))
             \<and> rx_queue (cn_rx c') = []))"
proof (induction js arbitrary: s c)
  case Nil
  then show ?case by simp
next
  case (Cons j js)
  note step = recv_job [OF up Cons.prems(1,2,3,4), where hx = hx and h = h and d = d]
  obtain t where t: "recv_step hx h wr d i s t"
    using recv_enabled [OF Cons.prems(1), where hx = hx and h = h and wr = wr and d = d] Cons.prems(3)
    by auto
  show ?case
  proof (cases "js = []")
    case True
    with t step show ?thesis
      by (auto intro: session_recvs.intros elim!: session_recvs_SucE session_recvs_0E)
  next
    case False
    from step [OF t] obtain c' where c': "sys_conns t i = Some c'" "authorized_worker (cn_session c') \<noteq> None"
      "rx_queue (cn_rx c') = js" "rx_missed (cn_rx c') = 0"
      using Cons.prems(2) by auto
    from Cons.IH [OF c' False] obtain u where "session_recvs hx h wr d i (length js) t u" by blast
    then have ex: "\<exists>u. session_recvs hx h wr d i (length (j # js)) s u"
      using recvs_Suc [OF t] by auto
    have "\<exists>c'. sys_conns u i = Some c' \<and> last_notify_job_id (cn_session c') = Some (job_id (last (j # js)))
             \<and> rx_queue (cn_rx c') = []" if "session_recvs hx h wr d i (length (j # js)) s u" for u
    proof -
      from that obtain t' where t': "recv_step hx h wr d i s t'" "session_recvs hx h wr d i (length js) t' u"
        by (auto elim: session_recvs_SucE)
      from step [OF t'(1)] obtain c2 where "sys_conns t' i = Some c2" "authorized_worker (cn_session c2) \<noteq> None"
        "rx_queue (cn_rx c2) = js" "rx_missed (cn_rx c2) = 0"
        using Cons.prems(2) by auto
      from Cons.IH [OF this False] t'(2) False show ?thesis by auto
    qed
    with ex show ?thesis by blast
  qed
qed

text \<open>The same with a missed-jobs notice in front: one more step.\<close>

lemma drain_receiver:
  assumes up: "wire_up wr" and c: "sys_conns s i = Some c"
    and auth: "authorized_worker (cn_session c) \<noteq> None" and queue: "rx_queue (cn_rx c) \<noteq> []"
    and k: "k = length (rx_queue (cn_rx c)) + (if rx_missed (cn_rx c) = 0 then 0 else 1)"
  shows "(\<exists>t. session_recvs hx h wr d i k s t)
     \<and> (\<forall>t. session_recvs hx h wr d i k s t \<longrightarrow>
          (\<exists>c'. sys_conns t i = Some c'
             \<and> last_notify_job_id (cn_session c') = Some (job_id (last (rx_queue (cn_rx c))))
             \<and> rx_queue (cn_rx c') = []))"
proof (cases "rx_missed (cn_rx c) = 0")
  case True
  then show ?thesis using drain_queue [OF up c auth refl True queue] k by simp
next
  case False
  note lag = recv_lag [OF c False, where hx = hx and h = h and wr = wr and d = d]
  have drained: "(\<exists>u. session_recvs hx h wr d i (length (rx_queue (cn_rx c))) t u)
      \<and> (\<forall>u. session_recvs hx h wr d i (length (rx_queue (cn_rx c))) t u \<longrightarrow>
          (\<exists>c'. sys_conns u i = Some c'
             \<and> last_notify_job_id (cn_session c') = Some (job_id (last (rx_queue (cn_rx c))))
             \<and> rx_queue (cn_rx c') = []))" if t: "recv_step hx h wr d i s t" for t
  proof -
    from lag [OF t] obtain c1 where "sys_conns t i = Some c1" "authorized_worker (cn_session c1) \<noteq> None"
      "rx_queue (cn_rx c1) = rx_queue (cn_rx c)" "rx_missed (cn_rx c1) = 0"
      using auth by auto
    from drain_queue [OF up this queue] show ?thesis .
  qed
  obtain t where t: "recv_step hx h wr d i s t" using recv_enabled [OF c] False by blast
  from k False have k: "k = Suc (length (rx_queue (cn_rx c)))" by simp
  show ?thesis unfolding k
    using drained recvs_Suc [OF t] drained [OF t] by (blast elim: session_recvs_SucE)
qed

lemma rx_send_last:
  "rx_queue (rx_send j rx) \<noteq> [] \<and> last (rx_queue (rx_send j rx)) = j"
  by (simp add: rx_send_def)

section \<open>Properties\<close>


text \<open>A miner that authorizes right after it has connected.\<close>

definition sample_authorize :: sv1_request where
  "sample_authorize = \<lparr> rq_id = None, rq_method = ''mining.authorize'',
     rq_params = Some (JArray [JString ''u'']) \<rparr>"

lemma sample_authorize_step:
  assumes "\<And>w. \<exists>w'. sh_job_source self w = (Some j, w')"
  shows "\<exists>sv'. session_step sample_hex (pool_handler sample_hex btc sha self) (sample_wire sample_authorize) d
      (Read_Line ''x'') session_state_default out sv
    = (Running, session_state_default\<lparr> authorized_worker := Some (worker_identity_new ''u''),
         last_notify_job_id := Some (job_id j) \<rparr>, Suc (Suc (Suc out)), sv')"
proof -
  have t: "trim ''x'' = ''x''" by (rule trim_printable) (simp add: printable_def char_nat_def)
  have m: "map_request_to_command sample_hex sample_authorize = Inr (Some (Authorize ''u'' []))"
    by (simp add: map_request_to_command_def sample_authorize_def param_str_def list_get_def)
  define p1 where "p1 = (pool sv)\<lparr> pl_workers := workers_register (worker_identity_new ''u'') (pl_workers (pool sv)) \<rparr>"
  obtain w' where w': "sh_job_source self (pool_world p1) = (Some j, w')" using assms by blast
  show ?thesis
    by (simp add: t sample_wire_def handle_request_def dispatch_request_def m dispatch_authorize_def
        pool_handler_def pool_on_authorize_def Let_def w' deliver_job_def send_job_notify_def
        write_json_line_def flip: p1_def)
qed


end
