(* ===== verification/Aggregation.thy ===== *)
theory Aggregation
  imports Prelude
begin

text \<open>
  \<open>sv2_scaffold/src/aggregation.rs\<close>: in-memory share accounting per miner. An \<open>f64\<close> is
  only stored, as its bit pattern. The interface is the locale \<open>share_ledger\<close>: recording a
  share changes one miner's account by one share and nothing else.
\<close>

record miner_id =
  mi_username :: string
  mi_worker :: string

type_synonym f64 = u64

record share_record =
  rec_miner :: miner_id
  rec_difficulty :: f64
  rec_timestamp :: u64
  rec_accepted :: bool

datatype rejection_reason = Duplicate | Stale | Low_Difficulty | Other string

datatype miner_event_kind =
    Registered
  | Authorized
  | DifficultyAssigned f64
  | JobObserved string
  | ShareSubmitted f64
  | ShareAccepted f64
  | ShareRejected rejection_reason

record miner_event =
  ev_timestamp :: u64
  ev_kind :: miner_event_kind

record miner_stats =
  total_shares :: u64
  accepted_shares :: u64
  rejected_shares :: u64
  last_share_time :: u64

definition miner_stats_default :: miner_stats where
  "miner_stats_default =
     \<lparr> total_shares = 0, accepted_shares = 0, rejected_shares = 0, last_share_time = 0 \<rparr>"

record aggregation_engine =
  ae_miners :: "miner_id \<rightharpoonup> miner_stats"
  ae_events :: "miner_id \<rightharpoonup> miner_event list"

definition engine_new :: aggregation_engine where
  "engine_new = \<lparr> ae_miners = Map.empty, ae_events = Map.empty \<rparr>"

text \<open>\<open>entry(k).or_default()\<close>: the map with the default in place of a missing value.\<close>

definition or_default :: "'k \<Rightarrow> 'v \<Rightarrow> ('k \<rightharpoonup> 'v) \<Rightarrow> 'k \<rightharpoonup> 'v" where
  "or_default k d m = (case m k of None \<Rightarrow> m(k \<mapsto> d) | Some v \<Rightarrow> m)"

definition entry_value :: "'k \<Rightarrow> 'v \<Rightarrow> ('k \<rightharpoonup> 'v) \<Rightarrow> 'v" where
  "entry_value k d m = (case m k of None \<Rightarrow> d | Some v \<Rightarrow> v)"

definition register_miner :: "miner_id \<Rightarrow> aggregation_engine \<Rightarrow> aggregation_engine" where
  "register_miner miner e =
     e\<lparr> ae_miners := or_default miner miner_stats_default (ae_miners e),
        ae_events := or_default miner [] (ae_events e) \<rparr>"

definition record_event :: "miner_id \<Rightarrow> miner_event \<Rightarrow> aggregation_engine \<Rightarrow> aggregation_engine" where
  "record_event miner event e =
     e\<lparr> ae_miners := or_default miner miner_stats_default (ae_miners e),
        ae_events := (ae_events e)(miner \<mapsto> entry_value miner [] (ae_events e) @ [event]) \<rparr>"

definition count_share :: "share_record \<Rightarrow> miner_stats \<Rightarrow> miner_stats" where
  "count_share r stats =
     (let stats = stats\<lparr> total_shares := total_shares stats + 1, last_share_time := rec_timestamp r \<rparr>
      in if rec_accepted r then stats\<lparr> accepted_shares := accepted_shares stats + 1 \<rparr>
         else stats\<lparr> rejected_shares := rejected_shares stats + 1 \<rparr>)"

definition record_share :: "share_record \<Rightarrow> aggregation_engine \<Rightarrow> aggregation_engine" where
  "record_share r e =
     e\<lparr> ae_events := or_default (rec_miner r) [] (ae_events e),
        ae_miners := (ae_miners e)(rec_miner r \<mapsto>
          count_share r (entry_value (rec_miner r) miner_stats_default (ae_miners e))) \<rparr>"

definition get_stats :: "miner_id \<Rightarrow> aggregation_engine \<Rightarrow> miner_stats option" where
  "get_stats miner e = ae_miners e miner"

definition get_events :: "miner_id \<Rightarrow> aggregation_engine \<Rightarrow> miner_event list option" where
  "get_events miner e = ae_events e miner"

section \<open>The interface\<close>

locale share_ledger =
  fixes put :: "share_record \<Rightarrow> 'e \<Rightarrow> 'e"
    and account :: "miner_id \<Rightarrow> 'e \<Rightarrow> miner_stats"
  assumes put_own: "account (rec_miner r) (put r e) = count_share r (account (rec_miner r) e)"
    and put_other: "m \<noteq> rec_miner r \<Longrightarrow> account m (put r e) = account m e"
begin

lemma account_run:
  "account m (fold put rs e) = fold count_share (filter (\<lambda>r. rec_miner r = m) rs) (account m e)"
proof (induction rs arbitrary: e)
  case Nil
  then show ?case by simp
next
  case (Cons r rs)
  then show ?case using put_own [of r e] put_other [of m r e] by auto
qed

end

definition account_of :: "miner_id \<Rightarrow> aggregation_engine \<Rightarrow> miner_stats" where
  "account_of m e = entry_value m miner_stats_default (ae_miners e)"

interpretation engine: share_ledger record_share account_of
  by unfold_locales (simp_all add: record_share_def account_of_def entry_value_def)

section \<open>Operations in sequence\<close>

datatype engine_op = Op_Register miner_id | Op_Event miner_id miner_event | Op_Share share_record

fun engine_apply :: "engine_op \<Rightarrow> aggregation_engine \<Rightarrow> aggregation_engine" where
  "engine_apply (Op_Register m) e = register_miner m e"
| "engine_apply (Op_Event m ev) e = record_event m ev e"
| "engine_apply (Op_Share r) e = record_share r e"

fun shares_of :: "miner_id \<Rightarrow> engine_op list \<Rightarrow> share_record list" where
  "shares_of m [] = []"
| "shares_of m (Op_Share r # ops) = (if rec_miner r = m then r # shares_of m ops else shares_of m ops)"
| "shares_of m (_ # ops) = shares_of m ops"

fun events_of :: "miner_id \<Rightarrow> engine_op list \<Rightarrow> miner_event list" where
  "events_of m [] = []"
| "events_of m (Op_Event m' ev # ops) = (if m' = m then ev # events_of m ops else events_of m ops)"
| "events_of m (_ # ops) = events_of m ops"

lemma account_or_default [simp]:
  "entry_value k d (or_default k' d m) = entry_value k d m"
  by (simp add: or_default_def entry_value_def split: option.split)

lemma account_ops:
  "account_of m (fold engine_apply ops e) = fold count_share (shares_of m ops) (account_of m e)"
proof (induction ops arbitrary: e)
  case Nil
  then show ?case by simp
next
  case (Cons op ops)
  show ?case
  proof (cases op)
    case (Op_Share r)
    then show ?thesis using Cons engine.put_own [of r e] engine.put_other [of m r e] by auto
  qed (use Cons in \<open>simp_all add: account_of_def register_miner_def record_event_def\<close>)
qed

lemma entry_value_upd [simp]:
  "entry_value k d (m(k' \<mapsto> v)) = (if k = k' then v else entry_value k d m)"
  by (simp add: entry_value_def)

lemma events_op:
  "entry_value m [] (ae_events (engine_apply op e)) = entry_value m [] (ae_events e) @ events_of m [op]"
  by (cases op) (simp_all add: register_miner_def record_event_def record_share_def)

lemma events_of_Cons: "events_of m (op # ops) = events_of m [op] @ events_of m ops"
  by (cases op) simp_all

lemma events_ops:
  "entry_value m [] (ae_events (fold engine_apply ops e))
   = entry_value m [] (ae_events e) @ events_of m ops"
proof (induction ops arbitrary: e)
  case Nil
  then show ?case by simp
next
  case (Cons op ops)
  show ?case
    unfolding events_of_Cons [of m op ops] by (simp add: Cons events_op del: events_of.simps)
qed

lemma count_run:
  "total_shares (fold count_share rs s) = total_shares s + word_of_nat (length rs)
   \<and> accepted_shares (fold count_share rs s) = accepted_shares s + word_of_nat (length (filter rec_accepted rs))
   \<and> rejected_shares (fold count_share rs s)
       = rejected_shares s + word_of_nat (length (filter (\<lambda>r. \<not> rec_accepted r) rs))
   \<and> last_share_time (fold count_share rs s) = (if rs = [] then last_share_time s else rec_timestamp (last rs))"
  by (induction rs arbitrary: s) (auto simp: count_share_def Let_def algebra_simps)

section \<open>Properties\<close>

text \<open>
  Property C38. Accounting is exact and per miner: after any sequence of registrations, events
  and shares a miner's counters are the numbers of its own shares, accepted and rejected
  (modulo \<open>2^64\<close>), the total is their sum, the time is that of its last share, and its
  events are exactly its own in order, untouched by shares.
\<close>

theorem accounting_exact:
  "let e = fold engine_apply ops engine_new; a = account_of m e; rs = shares_of m ops in
     total_shares a = word_of_nat (length rs)
     \<and> accepted_shares a = word_of_nat (length (filter rec_accepted rs))
     \<and> rejected_shares a = word_of_nat (length (filter (\<lambda>r. \<not> rec_accepted r) rs))
     \<and> total_shares a = accepted_shares a + rejected_shares a
     \<and> last_share_time a = (if rs = [] then 0 else rec_timestamp (last rs))
     \<and> entry_value m [] (ae_events e) = events_of m ops"
proof -
  have start: "account_of m engine_new = miner_stats_default"
    by (simp add: account_of_def engine_new_def entry_value_def)
  have events: "entry_value m [] (ae_events engine_new) = []"
    by (simp add: engine_new_def entry_value_def)
  let ?rs = "shares_of m ops"
  have "length ?rs = length (filter rec_accepted ?rs) + length (filter (\<lambda>r. \<not> rec_accepted r) ?rs)"
    by (rule sum_length_filter_compl [symmetric])
  then have "word_of_nat (length ?rs) = (word_of_nat (length (filter rec_accepted ?rs))
      + word_of_nat (length (filter (\<lambda>r. \<not> rec_accepted r) ?rs)) :: u64)"
    by (metis of_nat_add)
  then show ?thesis
    using count_run [of ?rs miner_stats_default] account_ops [of m ops engine_new]
      events_ops [of m ops engine_new]
    unfolding Let_def start events by (simp add: miner_stats_default_def)
qed

end
