(* ===== verification/Sv2_Bridge.thy ===== *)
theory Sv2_Bridge
  imports Aggregation Chain_Jobs
begin

text \<open>
  The SV2 scaffold around the existing job path: \<open>sv2_scaffold/src/template_adapter.rs\<close> (a
  second decoder of block templates, with its own hex reader), \<open>job_bridge.rs\<close>,
  \<open>pool_flow.rs\<close> and \<open>share_flow_check.rs\<close>. The lemmas show that the adapter agrees with
  the template mapper of \<open>coin_azcoin\<close>.
\<close>

section \<open>The template adapter\<close>

record azcoin_job_template =
  aj_job_id :: string
  aj_prev_hash :: bytes
  aj_version :: u32
  aj_nbits :: u32
  aj_ntime :: u32
  aj_height :: u32
  aj_coinbase_value :: u64

datatype adapter_error =
    MissingRequiredField string
  | HexDecodeFailure string string
  | InvalidNumericConversion string string

fun adapter_error_display :: "adapter_error \<Rightarrow> string" where
  "adapter_error_display (MissingRequiredField field) = ''missing required field '' @ field"
| "adapter_error_display (HexDecodeFailure field message) = field @ '' hex decode failed: '' @ message"
| "adapter_error_display (InvalidNumericConversion field v) =
     ''invalid numeric conversion for '' @ field @ '': '' @ v"

definition decode_hex_nibble :: "char \<Rightarrow> u8 option" where
  "decode_hex_nibble c =
     (let b = char_nat c
      in if 48 \<le> b \<and> b \<le> 57 then Some (word_of_nat (b - 48))
         else if 97 \<le> b \<and> b \<le> 102 then Some (word_of_nat (b - 97 + 10))
         else if 65 \<le> b \<and> b \<le> 70 then Some (word_of_nat (b - 65 + 10))
         else None)"

text \<open>
  The \<open>while i < bytes.len()\<close> loop at index \<open>i\<close>, over the bytes from \<open>i\<close> on. The length
  is even when it starts, so a single remaining byte does not occur.
\<close>

fun decode_hex_loop :: "string \<Rightarrow> nat \<Rightarrow> string \<Rightarrow> adapter_error + bytes" where
  "decode_hex_loop field i (c # d # cs) =
     and_then (ok_or (HexDecodeFailure field (''invalid hex at byte '' @ dec_string i)) (decode_hex_nibble c)) (\<lambda>hi.
     and_then (ok_or (HexDecodeFailure field (''invalid hex at byte '' @ dec_string (i + 1))) (decode_hex_nibble d)) (\<lambda>lo.
     and_then (decode_hex_loop field (i + 2) cs) (\<lambda>out.
     Inr ((push_bit 4 hi OR lo) # out))))"
| "decode_hex_loop field i _ = Inr []"

definition decode_hex :: "string \<Rightarrow> string \<Rightarrow> adapter_error + bytes" where
  "decode_hex s field =
     (let h = trim s
      in if length h mod 2 \<noteq> 0 then Inl (HexDecodeFailure field ''odd-length hex string'')
         else decode_hex_loop field 0 h)"

definition adapter_decode_prev_hash :: "string \<Rightarrow> adapter_error + bytes" where
  "adapter_decode_prev_hash s =
     (if trim s = [] then Inl (MissingRequiredField ''previousblockhash'')
      else and_then (decode_hex s ''previousblockhash'') (\<lambda>bs.
        if length bs \<noteq> 32
        then Inl (HexDecodeFailure ''previousblockhash''
               (''decoded length '' @ dec_string (length bs) @ '' != 32''))
        else Inr (rev bs)))"

definition decode_nbits :: "string \<Rightarrow> adapter_error + u32" where
  "decode_nbits s =
     (if trim s = [] then Inl (MissingRequiredField ''bits'')
      else and_then (decode_hex s ''bits'') (\<lambda>bs.
        if length bs \<noteq> 4 then Inl (InvalidNumericConversion ''bits'' s)
        else Inr (from_be_bytes32 [bs ! 0, bs ! 1, bs ! 2, bs ! 3])))"

definition u32_try_from :: "u64 \<Rightarrow> u32 option" where
  "u32_try_from n = (if unat n < 2 ^ 32 then Some (ucast n) else None)"

definition from_block_template :: "block_template \<Rightarrow> adapter_error + azcoin_job_template" where
  "from_block_template template =
     and_then (adapter_decode_prev_hash (previousblockhash template)) (\<lambda>prev_hash.
     and_then (decode_nbits (bits template)) (\<lambda>nbits.
     and_then (ok_or (InvalidNumericConversion ''curtime'' (dec_string (unat (curtime template))))
                 (u32_try_from (curtime template))) (\<lambda>ntime.
     and_then (ok_or (InvalidNumericConversion ''height'' (dec_string (unat (bt_height template))))
                 (u32_try_from (bt_height template))) (\<lambda>height.
     Inr \<lparr> aj_job_id = dec_string (unat (bt_height template)) @ '':'' @ previousblockhash template
             @ '':'' @ dec_string (unat (curtime template)),
           aj_prev_hash = prev_hash, aj_version = bt_version template, aj_nbits = nbits,
           aj_ntime = ntime, aj_height = height, aj_coinbase_value = coinbasevalue template \<rparr>))))"

section \<open>Bridge and flows\<close>

record azcoin_job_bridge =
  br_canonical :: azcoin_job_template
  br_job :: job

datatype bridge_error = Adapter adapter_error | JobConstruction string

fun bridge_error_display :: "bridge_error \<Rightarrow> string" where
  "bridge_error_display (Adapter e) = ''template adapter error: '' @ adapter_error_display e"
| "bridge_error_display (JobConstruction e) = ''job construction error: '' @ e"

definition bridge_block_template ::
  "hex_crate \<Rightarrow> bitcoin_crate \<Rightarrow> block_template \<Rightarrow> bytes \<Rightarrow> bridge_error + azcoin_job_bridge" where
  "bridge_block_template hx btc template payout =
     and_then (map_err Adapter (from_block_template template)) (\<lambda>canonical.
     and_then (map_err (\<lambda>e. JobConstruction (pool_error_to_string e))
                 (template_to_job hx btc template payout)) (\<lambda>job.
     Inr \<lparr> br_canonical = canonical, br_job = job \<rparr>))"

record pool_flow_result =
  pf_bridge :: azcoin_job_bridge
  pf_miner :: miner_id
  pf_stats :: miner_stats

datatype pool_flow_error = Flow_Bridge bridge_error | MinerStatsMissing

fun pool_flow_error_display :: "pool_flow_error \<Rightarrow> string" where
  "pool_flow_error_display (Flow_Bridge e) = ''bridge error: '' @ bridge_error_display e"
| "pool_flow_error_display MinerStatsMissing = ''miner stats missing after share record''"

definition run_pool_flow ::
  "hex_crate \<Rightarrow> bitcoin_crate \<Rightarrow> block_template \<Rightarrow> bytes \<Rightarrow> miner_id \<Rightarrow> share_record \<Rightarrow> aggregation_engine
     \<Rightarrow> (pool_flow_error + pool_flow_result) \<times> aggregation_engine" where
  "run_pool_flow hx btc template payout miner share engine =
     (case bridge_block_template hx btc template payout of
        Inl e \<Rightarrow> (Inl (Flow_Bridge e), engine)
      | Inr bridge \<Rightarrow>
          let engine = record_share share engine
          in (and_then (ok_or MinerStatsMissing (get_stats miner engine)) (\<lambda>stats.
                Inr \<lparr> pf_bridge = bridge, pf_miner = miner, pf_stats = stats \<rparr>), engine))"

record share_flow_compatibility =
  sf_bridge :: azcoin_job_bridge
  sf_solved_header :: bytes
  sf_validation_result :: share_result

datatype share_flow_check_error = Check_Bridge bridge_error | HeaderBuild string

fun share_flow_check_error_display :: "share_flow_check_error \<Rightarrow> string" where
  "share_flow_check_error_display (Check_Bridge e) = ''bridge error: '' @ bridge_error_display e"
| "share_flow_check_error_display (HeaderBuild e) = ''header build error: '' @ e"

definition compat_share :: "job \<Rightarrow> share_submission" where
  "compat_share job =
     \<lparr> share_job_id = job_id job, share_worker = worker_identity_new ''compat.worker'',
       extra_nonce2 = [0, 0, 0, 0], share_ntime = job_ntime job, share_nonce = 0,
       validation_context = None \<rparr>"

definition check_share_flow_compatibility ::
  "hex_crate \<Rightarrow> bitcoin_crate \<Rightarrow> hasher \<Rightarrow> block_template \<Rightarrow> bytes
     \<Rightarrow> share_flow_check_error + share_flow_compatibility" where
  "check_share_flow_compatibility hx btc sha template payout =
     and_then (map_err Check_Bridge (bridge_block_template hx btc template payout)) (\<lambda>bridge.
     let share = compat_share (br_job bridge); extranonce1 = replicate 4 0
     in and_then (map_err HeaderBuild (build_solved_block_header hx sha (br_job bridge) share extranonce1)) (\<lambda>header.
        Inr \<lparr> sf_bridge = bridge, sf_solved_header = header,
              sf_validation_result =
                validate_share hx sha azcoin_share_validator_new (br_job bridge) share extranonce1 1 \<rparr>))"

section \<open>The adapter's hex reader\<close>

lemma nibble_to_digit: "decode_hex_nibble c = map_option word_of_nat (to_digit 16 c)"
proof -
  define b where "b = char_nat c"
  consider "48 \<le> b \<and> b \<le> 57" | "97 \<le> b \<and> b \<le> 102" | "102 < b" | "65 \<le> b \<and> b \<le> 70"
    | "70 < b \<and> b < 97" | "57 < b \<and> b < 65" | "b < 48"
    by linarith
  then show ?thesis
    unfolding decode_hex_nibble_def to_digit_def Let_def b_def [symmetric] by cases auto
qed

lemma to_digit_less: "to_digit r c = Some d \<Longrightarrow> d < r"
  by (auto simp: to_digit_def Let_def split: option.splits if_splits)

lemma to_digit_printable: "to_digit 16 c = Some d \<Longrightarrow> 32 < char_nat c \<and> char_nat c < 127"
  by (auto simp: to_digit_def Let_def split: option.splits if_splits)

text \<open>The two nibbles of a byte, decided for all 256 values.\<close>

lemma nibbles_byte_all:
  "list_all (\<lambda>hi. list_all (\<lambda>lo.
     push_bit 4 (word_of_nat hi) OR word_of_nat lo = (16 * word_of_nat hi + word_of_nat lo :: u8)) [0..<16]) [0..<16]"
  by code_simp

lemma nibbles_byte:
  assumes "hi < 16" and "lo < 16"
  shows "(push_bit 4 (word_of_nat hi) OR word_of_nat lo :: u8) = 16 * word_of_nat hi + word_of_nat lo"
proof -
  from assms have "hi \<in> set [0..<16]" and "lo \<in> set [0..<16]" by simp_all
  then show ?thesis
    using nibbles_byte_all unfolding list_all_iff by (blast dest: bspec)
qed

lemma decode_hex_loop_pairs:
  "even (length s) \<Longrightarrow> decode_hex_loop f i s = Inr bs \<longleftrightarrow> hex_pairs s = Some bs"
proof (induction s arbitrary: i bs rule: hex_pairs.induct)
  case (3 c d cs)
  then show ?case
    by (cases "to_digit 16 c"; cases "to_digit 16 d")
       (auto simp: and_then_Inr nibble_to_digit nibbles_byte [OF to_digit_less to_digit_less] split: option.splits)
qed auto

lemma decode_hex_Inr: "decode_hex s f = Inr bs \<longleftrightarrow> hex_pairs (trim s) = Some bs"
proof (cases "even (length (trim s))")
  case True
  then show ?thesis by (simp add: decode_hex_def decode_hex_loop_pairs Let_def even_iff_mod_2_eq_zero)
next
  case False
  then have "hex_pairs (trim s) \<noteq> Some bs" using length_hex_pairs [of "trim s" bs] by auto
  with False show ?thesis by (simp add: decode_hex_def Let_def even_iff_mod_2_eq_zero)
qed

lemma hex_pairs_printable: "hex_pairs s = Some bs \<Longrightarrow> printable s"
  by (induction s arbitrary: bs rule: hex_pairs.induct)
     (auto simp: printable_def dest: to_digit_printable split: option.splits)

section \<open>Agreement with the template mapper\<close>

text \<open>
  Both decoders read the same fields of a template. The mapper hands the text to the crate
  \<open>hex\<close>, the adapter trims it and reads it itself.
\<close>

lemma hex_documented_decode:
  "hex_documented hx \<Longrightarrow> hex_decode hx s = Inr bs \<Longrightarrow> hex_pairs s = Some bs"
  by (auto simp: hex_documented_def split: option.splits elim!: allE [where x = s])

lemma decode_hex_of_crate:
  "hex_documented hx \<Longrightarrow> hex_decode hx s = Inr bs \<Longrightarrow> decode_hex s f = Inr bs"
  using hex_pairs_printable [of s bs] by (simp add: decode_hex_Inr hex_documented_decode)

lemma trim_hex_nonempty:
  assumes "hex_documented hx" and "hex_decode hx s = Inr bs" and "bs \<noteq> []"
  shows "trim s \<noteq> []"
proof -
  have "hex_pairs s = Some bs" by (rule hex_documented_decode [OF assms(1,2)])
  then have "trim s = s" and "length s = 2 * length bs"
    using hex_pairs_printable length_hex_pairs by auto
  with assms(3) show ?thesis by auto
qed

lemma adapter_prev_hash_agrees:
  assumes "hex_documented hx" and "decode_prev_hash hx s = Inr h"
  shows "adapter_decode_prev_hash s = Inr h"
proof -
  obtain bs where bs: "hex_decode hx s = Inr bs" "length bs = 32" "h = rev bs"
    using assms(2) by (auto simp: decode_prev_hash_Inr)
  then have "bs \<noteq> []" by auto
  with bs show ?thesis
    using trim_hex_nonempty [OF assms(1) bs(1)] decode_hex_of_crate [OF assms(1) bs(1)]
    by (auto simp: adapter_decode_prev_hash_def and_then_Inr)
qed

lemma adapter_nbits_agrees:
  assumes "hex_documented hx" and "decode_bits hx s = Inr n"
  shows "decode_nbits s = Inr n"
proof -
  obtain bs where bs: "hex_decode hx s = Inr bs" "length bs = 4" "n = from_be_bytes32 bs"
    using assms(2) by (auto simp: decode_bits_Inr)
  then have "[bs ! 0, bs ! 1, bs ! 2, bs ! 3] = bs" by (intro list_of_length_4)
  moreover from bs have "bs \<noteq> []" by auto
  ultimately show ?thesis
    using bs trim_hex_nonempty [OF assms(1) bs(1)] decode_hex_of_crate [OF assms(1) bs(1)]
    by (auto simp: decode_nbits_def and_then_Inr)
qed

lemma from_block_template_decoded:
  assumes "adapter_decode_prev_hash (previousblockhash t) = Inr prev" and "decode_nbits (bits t) = Inr n"
  shows "from_block_template t =
    (if \<not> unat (curtime t) < 2 ^ 32
     then Inl (InvalidNumericConversion ''curtime'' (dec_string (unat (curtime t))))
     else if \<not> unat (bt_height t) < 2 ^ 32
     then Inl (InvalidNumericConversion ''height'' (dec_string (unat (bt_height t))))
     else Inr \<lparr> aj_job_id = dec_string (unat (bt_height t)) @ '':'' @ previousblockhash t
                 @ '':'' @ dec_string (unat (curtime t)),
               aj_prev_hash = prev, aj_version = bt_version t, aj_nbits = n,
               aj_ntime = ucast (curtime t), aj_height = ucast (bt_height t),
               aj_coinbase_value = coinbasevalue t \<rparr>)"
  using assms by (simp add: from_block_template_def u32_try_from_def)

section \<open>Properties\<close>

text \<open>
  Property C36. Whenever the template mapper produces a job, the adapter decodes the same
  template exactly when its time and height fit in 32 bits, and then previous hash, target
  bits, version, time and coinbase value are those of the job; otherwise the adapter names
  the field that does not fit, while the mapper has cut the time down to its low 32 bits.
\<close>

theorem adapter_agrees_with_mapper:
  assumes hx: "hex_documented hx" and mapped: "template_to_job hx btc t payout = Inr j"
  shows "case from_block_template t of
       Inl e \<Rightarrow> 2 ^ 32 \<le> unat (curtime t)
                  \<and> e = InvalidNumericConversion ''curtime'' (dec_string (unat (curtime t)))
                \<or> 2 ^ 32 \<le> unat (bt_height t)
                  \<and> e = InvalidNumericConversion ''height'' (dec_string (unat (bt_height t)))
     | Inr c \<Rightarrow> unat (curtime t) < 2 ^ 32 \<and> unat (bt_height t) < 2 ^ 32
                \<and> aj_prev_hash c = job_prev_hash j \<and> aj_nbits c = job_nbits j
                \<and> aj_version c = job_version j \<and> aj_ntime c = job_ntime j
                \<and> unat (aj_ntime c) = unat (curtime t) \<and> unat (aj_height c) = unat (job_height j)
                \<and> (\<exists>asm. block_assembly j = Some asm \<and> asm_coinbase_value asm = aj_coinbase_value c)"
proof -
  obtain prev nb where prev: "decode_prev_hash hx (previousblockhash t) = Inr prev"
    and nb: "decode_bits hx (bits t) = Inr nb" and j: "job_prev_hash j = prev" "job_nbits j = nb"
      "job_version j = bt_version t" "job_ntime j = ucast (curtime t)" "job_height j = bt_height t"
      "\<exists>asm. block_assembly j = Some asm \<and> asm_coinbase_value asm = coinbasevalue t"
    by (rule template_to_job_Inr [OF mapped]) (auto simp: ntime_to_u32_def job_height_def)
  have fit: "unat (ucast w :: u32) = unat w" if "unat w < 2 ^ 32" for w :: u64
    using that by (simp add: unsigned_ucast_eq take_bit_nat_eq_self)
  show ?thesis
    unfolding from_block_template_decoded
        [OF adapter_prev_hash_agrees [OF hx prev] adapter_nbits_agrees [OF hx nb]]
    using j fit by auto
qed

theorem adapter_agrees_with_mapper_witness:
  "\<exists>c. from_block_template sample_template = Inr c \<and> aj_prev_hash c = replicate 32 1
     \<and> aj_nbits c = 0x1d00ffff"
proof -
  obtain j where j: "template_to_job sample_hex sample_btc sample_template sample_payout = Inr j"
    using sample_mapped by blast
  have fits: "unat (curtime sample_template) < 2 ^ 32" "unat (bt_height sample_template) < 2 ^ 32"
    by (simp_all add: sample_template_def)
  have "job_prev_hash j = replicate 32 1 \<and> job_nbits j = 0x1d00ffff"
    by (rule template_to_job_Inr [OF j]) (auto simp: sample_decoded)
  then show ?thesis
    using adapter_agrees_with_mapper [OF sample_hex_documented j] fits
    by (auto split: sum.splits)
qed

end
