(* ===== verification/Storage_Api.thy ===== *)
theory Storage_Api
  imports System_Jobs
begin

text \<open>
  The operational HTTP API (\<open>api_server/src/routes.rs\<close>) over the state of the running pool,
  and the database crate (\<open>storage/src/models.rs\<close>, \<open>repositories.rs\<close>), whose repositories
  are stubs. The locale \<open>pool_reports\<close> extends the session interface by what the
  endpoints rely on: an invariant of the pool that also survives a change of the world.
\<close>

section \<open>Routes\<close>

record worker_summary =
  ws_id :: string
  ws_username :: "string option"

record job_summary =
  js_job_id :: string
  js_prev_hash :: string
  js_version :: u32
  js_nbits :: u32
  js_ntime :: u32
  js_clean_jobs :: bool

definition api_health :: string where
  "api_health = ''OK''"

definition api_ready :: string where
  "api_ready = ''OK''"

definition api_pool_stats :: "'w pool_state \<Rightarrow> pool_stats" where
  "api_pool_stats p = (snapshot (pl_stats p))\<lparr> stats_worker_count := workers_count (pl_workers p) \<rparr>"

definition api_pool_workers :: "'w pool_state \<Rightarrow> worker_summary list" where
  "api_pool_workers p =
     map (\<lambda>w. \<lparr> ws_id = worker_id w, ws_username = worker_username w \<rparr>) (workers_list (pl_workers p))"

text \<open>Asking for the current job calls the job source, which acts on the world.\<close>

definition api_pool_jobs_current ::
  "hex_crate \<Rightarrow> 'w job_source \<Rightarrow> 'w pool_state \<Rightarrow> job_summary option \<times> 'w pool_state" where
  "api_pool_jobs_current hx src p =
     (case src (pool_world p) of
        (job, w) \<Rightarrow>
          (map_option (\<lambda>j. \<lparr> js_job_id = job_id j, js_prev_hash = hex_encode hx (job_prev_hash j),
                js_version = job_version j, js_nbits = job_nbits j, js_ntime = job_ntime j,
                js_clean_jobs = clean_jobs j \<rparr>) job,
           set_world w p))"

definition api_pool_shares_recent :: "'w pool_state \<Rightarrow> share_attempt list" where
  "api_pool_shares_recent p = recent (st_recent (pl_share p))"

text \<open>
  \<open>api_router\<close>. The library \<open>axum\<close> answers 404 on other paths, 405 on other methods of a path
  with a \<open>get\<close> route, and a HEAD request with the answer to GET without its body.
\<close>

datatype http_method = Get | Head | Other_Method string

datatype api_body =
    Empty_Body
  | Plain_Text string
  | Stats_Json pool_stats
  | Workers_Json "worker_summary list"
  | Job_Json "job_summary option"
  | Shares_Json "share_attempt list"

definition api_get ::
  "hex_crate \<Rightarrow> 'w job_source \<Rightarrow> string \<Rightarrow> 'w pool_state \<Rightarrow> (api_body \<times> 'w pool_state) option" where
  "api_get hx src path p =
     (if path = ''/health'' then Some (Plain_Text api_health, p)
      else if path = ''/ready'' then Some (Plain_Text api_ready, p)
      else if path = ''/v1/pool/stats'' then Some (Stats_Json (api_pool_stats p), p)
      else if path = ''/v1/pool/workers'' then Some (Workers_Json (api_pool_workers p), p)
      else if path = ''/v1/pool/jobs/current'' then
        (case api_pool_jobs_current hx src p of (job, p) \<Rightarrow> Some (Job_Json job, p))
      else if path = ''/v1/pool/shares/recent'' then Some (Shares_Json (api_pool_shares_recent p), p)
      else None)"

definition api_router ::
  "hex_crate \<Rightarrow> 'w job_source \<Rightarrow> http_method \<Rightarrow> string \<Rightarrow> 'w pool_state \<Rightarrow> (nat \<times> api_body) \<times> 'w pool_state" where
  "api_router hx src meth path p =
     (case api_get hx src path p of
        None \<Rightarrow> ((404, Empty_Body), p)
      | Some (body, q) \<Rightarrow>
          (case meth of
             Get \<Rightarrow> ((200, body), q)
           | Head \<Rightarrow> ((200, Empty_Body), q)
           | Other_Method m \<Rightarrow> ((405, Empty_Body), p)))"

text \<open>The API only reads: a request changes the pool at most through the job source.\<close>

lemma api_router_reads:
  "\<exists>w. snd (api_router hx src meth path p) = set_world w p
     \<and> (path \<noteq> ''/v1/pool/jobs/current'' \<longrightarrow> w = pool_world p)"
proof -
  have same: "set_world (pool_world p) p = p" by (simp add: set_world_def pool_world_def)
  show ?thesis
  proof (cases "path = ''/v1/pool/jobs/current'' \<and> (\<forall>m. meth \<noteq> Other_Method m)")
    case True
    then show ?thesis
      by (cases meth) (auto simp: api_router_def api_get_def api_pool_jobs_current_def split: prod.split)
  next
    case False
    then have "snd (api_router hx src meth path p) = p"
      by (cases meth) (auto simp: api_router_def api_get_def api_pool_jobs_current_def split: prod.split)
    with same show ?thesis by (intro exI [of _ "pool_world p"]) simp
  qed
qed

section \<open>Storage\<close>

record worker_model =
  wm_id :: string
  wm_username :: "string option"
  wm_worker_name :: "string option"

definition worker_model_from :: "worker_identity \<Rightarrow> worker_model" where
  "worker_model_from w =
     \<lparr> wm_id = worker_id w, wm_username = worker_username w, wm_worker_name = worker_name w \<rparr>"

definition worker_identity_from :: "worker_model \<Rightarrow> worker_identity" where
  "worker_identity_from m =
     \<lparr> worker_id = wm_id m, worker_username = wm_username m, worker_name = wm_worker_name m \<rparr>"

record share_model =
  sm_id :: i64
  sm_worker_id :: string
  sm_job_id :: string
  sm_result :: string
  sm_created_at :: i64

record round_model =
  rm_round_id :: string
  rm_height :: i64
  rm_prev_hash :: bytes
  rm_started_at :: i64
  rm_status :: string

record balance_model =
  bm_worker_id :: string
  bm_amount_sat :: i64
  bm_updated_at :: i64

record payout_model =
  pm_payout_id :: string
  pm_worker_id :: string
  pm_amount_sat :: i64
  pm_txid :: "string option"
  pm_created_at :: i64

text \<open>The stub repositories keep nothing.\<close>

definition repo_get_worker :: "string \<Rightarrow> worker_identity option" where
  "repo_get_worker i = None"

definition repo_upsert_worker :: "worker_identity \<Rightarrow> string + unit" where
  "repo_upsert_worker w = Inr ()"

definition repo_store_share :: "share_submission \<Rightarrow> share_result \<Rightarrow> string + unit" where
  "repo_store_share s r = Inr ()"

definition repo_get_round :: "string \<Rightarrow> round option" where
  "repo_get_round i = None"

definition repo_insert_round :: "round \<Rightarrow> string + unit" where
  "repo_insert_round r = Inr ()"

text \<open>
  The traits of rounds, balances, payouts and persistence (\<open>pool_core/src/traits.rs\<close>), as
  records of functions on a world; nothing in the sources calls them. The repositories have
  the stubs above as their one implementation, the others have none.
\<close>

record 'w round_manager =
  current_round :: "'w \<Rightarrow> round option \<times> 'w"
  close_round :: "string \<Rightarrow> 'w \<Rightarrow> (string + unit) \<times> 'w"

record 'w balance_ledger =
  get_balance :: "worker_identity \<Rightarrow> 'w \<Rightarrow> i64 \<times> 'w"
  credit :: "worker_identity \<Rightarrow> i64 \<Rightarrow> 'w \<Rightarrow> (string + unit) \<times> 'w"

record 'w payout_executor =
  execute_payout :: "worker_identity \<Rightarrow> i64 \<Rightarrow> 'w \<Rightarrow> (string + payout_record) \<times> 'w"

record 'w worker_repository =
  get_worker :: "string \<Rightarrow> 'w \<Rightarrow> worker_identity option \<times> 'w"
  upsert_worker :: "worker_identity \<Rightarrow> 'w \<Rightarrow> (string + unit) \<times> 'w"

record 'w share_repository =
  store_share :: "share_submission \<Rightarrow> share_result \<Rightarrow> 'w \<Rightarrow> (string + unit) \<times> 'w"

record 'w round_repository =
  get_round :: "string \<Rightarrow> 'w \<Rightarrow> round option \<times> 'w"
  insert_round :: "round \<Rightarrow> 'w \<Rightarrow> (string + unit) \<times> 'w"

definition stub_worker_repository :: "'w worker_repository" where
  "stub_worker_repository =
     \<lparr> get_worker = (\<lambda>i w. (repo_get_worker i, w)), upsert_worker = (\<lambda>x w. (repo_upsert_worker x, w)) \<rparr>"

definition stub_share_repository :: "'w share_repository" where
  "stub_share_repository = \<lparr> store_share = (\<lambda>s r w. (repo_store_share s r, w)) \<rparr>"

definition stub_round_repository :: "'w round_repository" where
  "stub_round_repository =
     \<lparr> get_round = (\<lambda>i w. (repo_get_round i, w)), insert_round = (\<lambda>r w. (repo_insert_round r, w)) \<rparr>"

text \<open>The stub does not give back what was stored in it.\<close>

lemma stub_worker_forgets:
  "fst (upsert_worker stub_worker_repository x w) = Inr ()
     \<and> fst (get_worker stub_worker_repository (worker_id x) (snd (upsert_worker stub_worker_repository x w))) = None"
  by (simp add: stub_worker_repository_def repo_get_worker_def repo_upsert_worker_def)

lemma worker_model_round_trip [simp]:
  "worker_identity_from (worker_model_from w) = w" "worker_model_from (worker_identity_from m) = m"
  by (simp_all add: worker_model_from_def worker_identity_from_def)

section \<open>The interface\<close>

locale pool_reports = session_events h inv for h :: "'w pool_state session_handler" and inv +
  assumes world_inv: "inv p \<Longrightarrow> inv (set_world w p)"

sublocale pool_reports \<subseteq> carried: pool_carrier h inv "\<lambda>_. True" src for src
  by unfold_locales (simp_all add: world_inv)

context pool_reports
begin

lemma reaches_inv:
  assumes "system_reaches hx h src wr d s0 n s" and "inv (pool (sys_server s0))"
  shows "inv (pool (sys_server s))"
  using carried.reaches_keeps [OF assms] by (simp add: queues_good_def list_all_iff)

end

text \<open>What the endpoints report is stable: the statistics keep their initial values apart from the
  connection counter, and the log of shares stays within its bound.\<close>

definition reports_inv :: "string \<Rightarrow> 'w pool_state \<Rightarrow> bool" where
  "reports_inv name p \<longleftrightarrow>
     snap_pool_name (pl_stats p) = name \<and> snap_round_height (pl_stats p) = 0
     \<and> snap_round_status (pl_stats p) = ''open'' \<and> workers_inv (pl_workers p)
     \<and> length (recent (st_recent (pl_share p))) \<le> MAX_RECENT"

lemma record_attempt_bounded: "length l \<le> MAX_RECENT \<Longrightarrow> length (record_attempt s r l) \<le> MAX_RECENT"
  by (simp add: record_attempt_eq)

lemma maybe_submit_stats [simp]:
  "pl_stats (snd (maybe_submit_block_candidate hx btc sha self share p)) = pl_stats p"
  "st_recent (pl_share (snd (maybe_submit_block_candidate hx btc sha self share p))) = st_recent (pl_share p)"
  by (simp_all add: maybe_submit_block_candidate_def Let_def
      split: option.split prod.split sum.split candidate_submission_result.split)

lemma on_submit_reports:
  "pl_stats (snd (pool_on_submit hx btc sha self share p)) = pl_stats p"
  "length (st_recent (pl_share p)) \<le> MAX_RECENT
     \<Longrightarrow> length (st_recent (pl_share (snd (pool_on_submit hx btc sha self share p)))) \<le> MAX_RECENT"
proof -
  obtain r st where s: "process_share hx (sh_processor self) share (pl_share p) = (r, st)"
    by (cases "process_share hx (sh_processor self) share (pl_share p)")
  obtain o' q where m: "maybe_submit_block_candidate hx btc sha self share (p\<lparr> pl_share := st \<rparr>) = (o', q)"
    by (cases "maybe_submit_block_candidate hx btc sha self share (p\<lparr> pl_share := st \<rparr>)")
  have q: "pl_stats q = pl_stats p" "st_recent (pl_share q) = st_recent st"
    using maybe_submit_stats [of hx btc sha self share "p\<lparr> pl_share := st \<rparr>"] m by simp_all
  have st: "st_recent st = record_attempt share r (st_recent (pl_share p))"
    using arg_cong [OF s, of fst] arg_cong [OF s, of snd] by (auto simp: process_share_eq)
  show "pl_stats (snd (pool_on_submit hx btc sha self share p)) = pl_stats p"
    using q by (simp add: pool_on_submit_def s m Let_def split: option.split)
  show "length (st_recent (pl_share p)) \<le> MAX_RECENT
      \<Longrightarrow> length (st_recent (pl_share (snd (pool_on_submit hx btc sha self share p)))) \<le> MAX_RECENT"
    using q st by (simp add: pool_on_submit_def s m Let_def record_attempt_bounded split: option.split)
qed

interpretation reports: pool_reports "pool_handler hx btc sha self" "reports_inv name"
  for hx btc sha self name
  by unfold_locales
    (auto simp: pool_handler_def reports_inv_def pool_on_connect_def pool_on_disconnect_def
      pool_on_authorize_def pool_on_notify_sent_def Let_def workers_register_inv on_submit_reports
      record_connection_def record_disconnection_def recent_def split: prod.split)

lemma length_api_workers: "length (api_pool_workers p) = length (pl_workers p)"
  by (simp add: api_pool_workers_def workers_list_def)

lemma system_start_reports:
  "reports_inv (pool_name (cfg_pool config)) (pool (sys_server (system_start cr config w)))"
  by (simp add: reports_inv_def system_start_def server_start_def main_pool_state_def
      build_pool_services_def services_state_def services_new_with_validator_and_share_sink_def
      services_new_inner_def stats_new_def workers_inv_def workers_new_def recent_def
      recent_shares_new_def Let_def)

section \<open>Properties\<close>

text \<open>
  Property C37. What the API reports of a running pool, in every state it can reach: the
  configured name, hashrate 0, round height 0 and status \<open>open\<close> always (no part of the
  program sets them), and as worker count the length of the worker list, which has one entry
  per user name that ever authorized; at most 100 recent shares.
\<close>

theorem api_reports_running_pool:
  assumes "system_reaches hx (pool_handler hx btc sha self) src wr d (system_start cr config w) n s"
  shows "let p = pool (sys_server s) in
       api_pool_stats p = \<lparr> stats_pool_name = pool_name (cfg_pool config), stats_hashrate = 0,
         stats_worker_count = word_of_nat (length (api_pool_workers p)), stats_round_height = 0,
         stats_round_status = ''open'' \<rparr>
       \<and> distinct (map ws_id (api_pool_workers p))
       \<and> length (api_pool_shares_recent p) \<le> 100"
proof -
  let ?p = "pool (sys_server s)"
  have inv: "reports_inv (pool_name (cfg_pool config)) ?p"
    by (rule reports.reaches_inv [OF assms system_start_reports])
  have "map ws_id (api_pool_workers ?p) = map fst (pl_workers ?p)"
    using inv by (auto simp: reports_inv_def workers_inv_def api_pool_workers_def workers_list_def)
  moreover have "distinct (map fst (pl_workers ?p))" using inv by (simp add: reports_inv_def workers_inv_def)
  ultimately have "distinct (map ws_id (api_pool_workers ?p))" by simp
  with inv show ?thesis
    by (simp add: Let_def reports_inv_def workers_inv_def api_pool_stats_def snapshot_def
        workers_count_def length_api_workers api_pool_shares_recent_def MAX_RECENT_def)
qed

theorem api_reports_running_pool_witness:
  "\<exists>s. sample_reaches 4 s \<and> stats_round_status (api_pool_stats (pool (sys_server s))) = ''open''"
proof -
  obtain s where s: "sample_reaches 4 s"
    using sample_two_subscribed by blast
  with api_reports_running_pool [OF s] show ?thesis by (auto simp: Let_def)
qed

end
