(* ===== verification/Sv1_Responses.thy ===== *)
theory Sv1_Responses
  imports Sv1_Invariants
begin

text \<open>
  The conversation of a session as the miner sees it: the lines written to the socket. Every
  response echoes the request's id and carries a result or an error but not both, and every
  request line gets exactly one response, in order, followed by at most one pushed job.
\<close>

section \<open>Responses\<close>

definition response_for :: "sv1_request \<Rightarrow> sv1_response \<Rightarrow> bool" where
  "response_for req r \<longleftrightarrow>
     rs_id r = rq_id req \<and> (rs_result r = None \<longleftrightarrow> rs_error r \<noteq> None)"

lemma response_for_simps [simp]:
  "response_for req (build_configure_response (rq_id req) es v)"
  "response_for req (build_subscribe_response (rq_id req) e)"
  "response_for req (build_authorize_success (rq_id req))"
  "response_for req (build_submit_success (rq_id req))"
  "response_for req (build_submit_reject (rq_id req) m)"
  "response_for req (build_error_response (rq_id req) c m)"
  "response_for req (submit_response (rq_id req) result)"
  by (simp_all add: response_for_def build_configure_response_def build_subscribe_response_def
      build_authorize_success_def build_submit_success_def build_submit_reject_def
      build_error_response_def submit_response_def)

lemma dispatch_response_for:
  assumes "dispatch_request hx h req ss sv = (Some (nj, r), ss', sv')"
  shows "response_for req r"
  using assms
  by (auto simp: dispatch_request_def dispatch_configure_def dispatch_subscribe_def
      dispatch_authorize_def dispatch_submit_def Let_def
      split: sum.splits option.splits sv1_domain_command.splits prod.splits if_splits)

lemma dispatch_answers:
  assumes "\<And>x s. fst (on_submit h x s) \<noteq> None"
  shows "fst (dispatch_request hx h req ss sv) \<noteq> None"
proof -
  have "on_submit h x s \<noteq> (None, p)" for x s p
    using assms [of x s] by auto
  then show ?thesis
    by (auto simp: dispatch_request_def dispatch_configure_def dispatch_subscribe_def
        dispatch_authorize_def dispatch_submit_def Let_def
        split: sum.split option.split sv1_domain_command.split prod.split)
qed

section \<open>The lines on the socket\<close>

text \<open>A socket that keeps the lines written to it.\<close>

definition records_lines :: "string list wire \<Rightarrow> bool" where
  "records_lines wr \<longleftrightarrow>
     (\<forall>j. \<exists>s. wr_to_string wr j = Inr s) \<and> (\<forall>l out. wr_write wr l out = (True, out @ [l]))"

definition json_line :: "'o wire \<Rightarrow> json \<Rightarrow> string" where
  "json_line wr j = (case wr_to_string wr j of Inr s \<Rightarrow> s @ [CHR 0x0A] | Inl e \<Rightarrow> [])"

definition push_lines :: "hex_crate \<Rightarrow> 'o wire \<Rightarrow> u32 \<Rightarrow> job option \<Rightarrow> string list" where
  "push_lines hx wr d pushed =
     (case pushed of None \<Rightarrow> []
      | Some j \<Rightarrow> [json_line wr (build_set_difficulty_notification d), json_line wr (build_mining_notify hx j)])"

definition answer_lines :: "hex_crate \<Rightarrow> 'o wire \<Rightarrow> u32 \<Rightarrow> sv1_response \<times> job option \<Rightarrow> string list" where
  "answer_lines hx wr d a = json_line wr (response_json (fst a)) # push_lines hx wr d (snd a)"

lemma records_write:
  assumes "records_lines wr"
  obtains s where "wr_to_string wr j = Inr s"
    and "\<And>out. write_json_line wr s out = (True, out @ [json_line wr j])"
  using assms by (auto simp: records_lines_def write_json_line_def json_line_def) metis

lemma deliver_lines:
  assumes rec: "records_lines wr"
  shows "deliver_job hx h wr d j ss out sv =
     (Running, ss\<lparr> last_notify_job_id := Some (job_id j) \<rparr>, out @ push_lines hx wr d (Some j),
      sv\<lparr> pool := on_notify_sent h j (pool sv) \<rparr>)"
proof -
  obtain s1 where s1: "wr_to_string wr (build_set_difficulty_notification d) = Inr s1"
    "\<And>out. write_json_line wr s1 out = (True, out @ [json_line wr (build_set_difficulty_notification d)])"
    using records_write [OF rec] by metis
  obtain s2 where s2: "wr_to_string wr (build_mining_notify hx j) = Inr s2"
    "\<And>out. write_json_line wr s2 out = (True, out @ [json_line wr (build_mining_notify hx j)])"
    using records_write [OF rec] by metis
  show ?thesis by (simp add: deliver_job_def send_job_notify_def s1 s2 push_lines_def)
qed

lemma handle_lines:
  assumes rec: "records_lines wr" and answers: "\<And>x s. fst (on_submit h x s) \<noteq> None"
  shows "\<exists>a ss' sv'. handle_request hx h wr d req ss out sv = (Running, ss', out @ answer_lines hx wr d a, sv')
     \<and> response_for req (fst a)"
proof -
  obtain nj r ss1 sv1 where disp: "dispatch_request hx h req ss sv = (Some (nj, r), ss1, sv1)"
    using dispatch_answers [OF answers, of hx req ss sv] by (metis fst_conv option.exhaust prod_cases3 surj_pair)
  obtain s where s: "wr_to_string wr (response_json r) = Inr s"
    "\<And>out. write_json_line wr s out = (True, out @ [json_line wr (response_json r)])"
    using records_write [OF rec] by metis
  have "\<exists>ss' sv'. handle_request hx h wr d req ss out sv
      = (Running, ss', out @ answer_lines hx wr d (r, nj), sv')"
    by (cases nj) (simp_all add: handle_request_def disp s deliver_lines [OF rec] answer_lines_def push_lines_def)
  with dispatch_response_for [OF disp] show ?thesis by (metis fst_conv)
qed

text \<open>The request a line carries.\<close>

definition line_request :: "'o wire \<Rightarrow> string \<Rightarrow> sv1_request \<Rightarrow> bool" where
  "line_request wr line req \<longleftrightarrow> trim line \<noteq> [] \<and> wr_from_str wr (trim line) = Inr req"

lemma request_line_step:
  assumes "line_request wr line req"
  shows "session_step hx h wr d (Read_Line line) ss out sv = handle_request hx h wr d req ss out sv"
proof -
  have "trim [] = []" by (rule trim_printable) (simp add: printable_def)
  with assms show ?thesis by (auto simp: line_request_def Let_def)
qed

section \<open>Properties\<close>

text \<open>
  Property C11. Every request is answered. With a socket that takes what is written and a pool
  that does not panic, a session fed any number of request lines stays alive and writes for
  each of them, in order, exactly one response with the request's id and either a result or
  an error, followed by nothing or by the two notifications of one job.
\<close>

theorem every_request_answered:
  assumes rec: "records_lines wr" and answers: "\<And>x s. fst (on_submit h x s) \<noteq> None"
    and reqs: "list_all2 (line_request wr) lines reqs"
  shows "\<exists>conversation ss' sv'.
       run_session hx h wr d (map Read_Line lines) ss out sv
         = (Running, ss', out @ concat (map (answer_lines hx wr d) conversation), sv')
     \<and> list_all2 (\<lambda>req a. response_for req (fst a)) reqs conversation"
  using reqs
proof (induction lines reqs arbitrary: ss out sv rule: list_all2_induct)
  case Nil
  then show ?case by simp
next
  case (Cons line lines req reqs)
  obtain a ss1 sv1 where step: "session_step hx h wr d (Read_Line line) ss out sv
      = (Running, ss1, out @ answer_lines hx wr d a, sv1)" and a: "response_for req (fst a)"
    using handle_lines [where h = h, OF rec answers] request_line_step [OF Cons.hyps(1)] by metis
  obtain conversation ss' sv' where
    "run_session hx h wr d (map Read_Line lines) ss1 (out @ answer_lines hx wr d a) sv1
       = (Running, ss', (out @ answer_lines hx wr d a) @ concat (map (answer_lines hx wr d) conversation), sv')"
    "list_all2 (\<lambda>req a. response_for req (fst a)) reqs conversation"
    using Cons.IH by blast
  with step a show ?case
    by (intro exI [of _ "a # conversation"]) (simp del: session_step.simps)
qed

text \<open>A socket for a miner that always sends the subscribe request, and two of its lines.\<close>

definition recording_wire :: "string list wire" where
  "recording_wire =
     \<lparr> wr_to_string = (\<lambda>j. Inr ''line''), wr_from_str = (\<lambda>s. Inr sample_subscribe),
       wr_write = (\<lambda>s out. (True, out @ [s])) \<rparr>"

theorem every_request_answered_witness:
  "\<exists>a b ss' sv'. run_session sample_hex unit_handler recording_wire 1
       [Read_Line ''x'', Read_Line ''x''] session_state_default [] (server_start ())
     = (Running, ss', answer_lines sample_hex recording_wire 1 a @ answer_lines sample_hex recording_wire 1 b, sv')
     \<and> response_for sample_subscribe (fst a) \<and> response_for sample_subscribe (fst b)"
proof -
  have rec: "records_lines recording_wire" by (simp add: records_lines_def recording_wire_def)
  have "trim ''x'' = ''x''" by (rule trim_printable) (simp add: printable_def char_nat_def)
  then have reqs: "list_all2 (line_request recording_wire) [''x'', ''x''] [sample_subscribe, sample_subscribe]"
    by (simp add: line_request_def recording_wire_def)
  have "fst (on_submit unit_handler x s) \<noteq> None" for x s by (simp add: unit_handler_def)
  from every_request_answered [OF rec this reqs, of sample_hex 1 session_state_default "[]" "server_start ()"]
  show ?thesis by (fastforce simp: list_all2_Cons1)
qed

end
