(* ===== verification/Mining.thy ===== *)
theory Mining
  imports Sv1_Handler
begin

text \<open>
  The pool as a miner sees it. The definitions here are a Stratum v1 miner: it decodes
  \<open>mining.notify\<close>, assembles coinbase and header from the job, the extranonce1 it was given
  and its own choices, and submits. They model no code of the repository; they are the
  specification against which the pool's messages, session, registry and validator are
  checked together.
\<close>

section \<open>A miner\<close>

record mining_work =
  wk_job_id :: string
  wk_prev_hash :: bytes
  wk_coinbase1 :: bytes
  wk_coinbase2 :: bytes
  wk_branch :: "bytes list"
  wk_version :: u32
  wk_nbits :: u32
  wk_ntime :: u32

definition hex_param :: "json list \<Rightarrow> nat \<Rightarrow> bytes option" where
  "hex_param ps i = Option.bind (Option.bind (list_get i ps) as_str) hex_pairs"

definition number_param :: "json list \<Rightarrow> nat \<Rightarrow> u32 option" where
  "number_param ps i = Option.bind (Option.bind (list_get i ps) as_str) (\<lambda>s. u32_from_str_radix s 16)"

definition branch_param :: "json list \<Rightarrow> nat \<Rightarrow> bytes list option" where
  "branch_param ps i =
     Option.bind (Option.bind (list_get i ps) as_array)
       (\<lambda>hs. those (map (\<lambda>h. Option.bind (as_str h) hex_pairs) hs))"

definition read_notify :: "json \<Rightarrow> mining_work option" where
  "read_notify notification =
     Option.bind (Option.bind (json_get ''params'' notification) as_array) (\<lambda>ps.
     Option.bind (Option.bind (list_get 0 ps) as_str) (\<lambda>jid.
     Option.bind (hex_param ps 1) (\<lambda>prev.
     Option.bind (hex_param ps 2) (\<lambda>c1.
     Option.bind (hex_param ps 3) (\<lambda>c2.
     Option.bind (branch_param ps 4) (\<lambda>branch.
     Option.bind (number_param ps 5) (\<lambda>ver.
     Option.bind (number_param ps 6) (\<lambda>nb.
     Option.bind (number_param ps 7) (\<lambda>nt.
       Some \<lparr> wk_job_id = jid, wk_prev_hash = swap_words prev, wk_coinbase1 = c1, wk_coinbase2 = c2,
              wk_branch = branch, wk_version = ver, wk_nbits = nb, wk_ntime = nt \<rparr>)))))))))"

definition miner_root :: "hasher \<Rightarrow> mining_work \<Rightarrow> bytes \<Rightarrow> bytes \<Rightarrow> bytes" where
  "miner_root sha work en1 en2 =
     foldl (\<lambda>root b. double_sha256 sha (root @ b))
       (double_sha256 sha (wk_coinbase1 work @ en1 @ en2 @ wk_coinbase2 work)) (wk_branch work)"

text \<open>Version rolling as a miner does it: its bits inside the mask it was granted.\<close>

definition miner_version :: "u32 \<Rightarrow> (u32 \<times> u32) option \<Rightarrow> u32" where
  "miner_version version rolled =
     (case rolled of None \<Rightarrow> version
      | Some (version_mask, version_bits) \<Rightarrow>
          (version AND NOT version_mask) OR (version_bits AND version_mask))"

definition miner_header ::
  "hasher \<Rightarrow> mining_work \<Rightarrow> bytes \<Rightarrow> bytes \<Rightarrow> u32 \<Rightarrow> u32 \<Rightarrow> (u32 \<times> u32) option \<Rightarrow> bytes" where
  "miner_header sha work en1 en2 ntime nonce rolled =
     to_le_bytes32 (miner_version (wk_version work) rolled) @ wk_prev_hash work
     @ miner_root sha work en1 en2
     @ to_le_bytes32 ntime @ to_le_bytes32 (wk_nbits work) @ to_le_bytes32 nonce"

section \<open>The miner's header is the pool's\<close>

definition job_work :: "job \<Rightarrow> mining_work" where
  "job_work j =
     \<lparr> wk_job_id = job_id j, wk_prev_hash = job_prev_hash j, wk_coinbase1 = coinbase_part1 j,
       wk_coinbase2 = coinbase_part2 j, wk_branch = map rev (merkle_branch j),
       wk_version = job_version j, wk_nbits = job_nbits j, wk_ntime = job_ntime j \<rparr>"

lemma those_map_Some: "those (map (\<lambda>x. Some (f x)) xs) = Some (map f xs)"
  by (induction xs) simp_all

lemma read_notify_job:
  assumes hx: "hex_documented hx" and ok: "job_ok j"
  shows "read_notify (build_mining_notify hx j) = Some (job_work j)"
proof -
  have swap: "swap_words (swap_words (job_prev_hash j)) = job_prev_hash j"
    using ok by (simp add: swap_words_swap_words job_ok_def)
  have branch: "those (map ((\<lambda>h. Option.bind (as_str h) hex_pairs)
        \<circ> (JString \<circ> hex_encode_reversed hx)) (merkle_branch j)) = Some (map rev (merkle_branch j))"
    by (simp add: o_def hex_encode_reversed_def hex_encode_text [OF hx] those_map_Some)
  show ?thesis
    by (simp add: read_notify_def build_mining_notify_def json_get_def obj_get_def hex_param_def
        number_param_def branch_param_def branch job_work_def hex_encode_prevhash_sv1_def
        hex_encode_text [OF hx] swap)
qed

lemma miner_root_share:
  assumes "merkle_branch j = []"
  shows "miner_root sha (job_work j) e (extra_nonce2 share) = share_merkle_root sha j share e"
  using assms by (simp add: miner_root_def job_work_def share_merkle_root_def build_coinbase_def)

text \<open>The version the pool resolves for a share is the one the miner used.\<close>

definition version_allowed :: "session_state \<Rightarrow> u32 option \<Rightarrow> bool" where
  "version_allowed ss version_bits \<longleftrightarrow>
     (case (version_bits, ss_version_rolling ss) of
        (None, _) \<Rightarrow> True
      | (Some b, None) \<Rightarrow> False
      | (Some b, Some config) \<Rightarrow> b AND NOT (vr_mask config) = 0)"

definition rolled_bits :: "session_state \<Rightarrow> u32 option \<Rightarrow> (u32 \<times> u32) option" where
  "rolled_bits ss version_bits =
     Option.bind (ss_version_rolling ss) (\<lambda>config. map_option (\<lambda>b. (vr_mask config, b)) version_bits)"

lemma resolved_session_version:
  "version_allowed ss b \<Longrightarrow>
   resolved_version v (session_share ss worker jid en2 t n b) = Inr (miner_version v (rolled_bits ss b))"
  by (auto simp: version_allowed_def resolved_version_def session_share_def rolled_bits_def
      miner_version_def split: option.splits)

lemma session_header:
  assumes "merkle_branch j = []"
  shows "share_header sha (miner_version (job_version j) r) j (session_share ss worker jid en2 t n b) e
       = miner_header sha (job_work j) e en2 t n r"
  using miner_root_share [OF assms, of sha e "session_share ss worker jid en2 t n b"]
  by (simp add: share_header_def build_block_header_def miner_header_def job_work_def session_share_def)

lemma submit_request_id [simp]: "rq_id (submit_request i u jid en2 t n b) = i"
  by (simp add: submit_request_def)

section \<open>A submission, from the miner's hash to the answer\<close>

lemma session_extranonce1_share:
  assumes hx: "hex_documented hx" and inv: "session_inv ss" and sub: "subscribed ss"
  obtains en1 where "hex_pairs (ss_extranonce1 ss) = Some en1" "length en1 = 4"
    and "\<And>w j en2 t n b. session_extranonce1 hx (session_share ss w j en2 t n b) = Inr en1"
proof -
  from inv sub obtain c where c: "ss_extranonce1 ss = fmt_08x c" by (auto simp: session_inv_def)
  show ?thesis
  proof
    show "hex_pairs (ss_extranonce1 ss) = Some (rev (to_le_bytes32 c))"
      by (simp add: c fmt_08x_hex_text)
    show "length (rev (to_le_bytes32 c)) = 4" by simp
    show "session_extranonce1 hx (session_share ss w j en2 t n b) = Inr (rev (to_le_bytes32 c))"
      for w j en2 t n b
      by (simp add: session_extranonce1_def session_share_def c fmt_08x_hex_text hex_decode_hex_text [OF hx])
  qed
qed

lemma check_shape_session:
  assumes "session_inv ss" and "subscribed ss"
  shows "check_shape (session_share ss worker jid en2 t n b) = None
     \<longleftrightarrow> length en2 = 4 \<and> version_allowed ss b"
  using assms
  by (auto simp: check_shape_def session_share_def session_inv_def version_allowed_def
      split: option.splits)

definition share_goal :: "job \<Rightarrow> u32 \<Rightarrow> nat" where
  "share_goal j d = max (be_nat (nbits_to_target (job_nbits j))) (0xffff * 256 ^ 26 div max 1 (unat d))"

lemma verdict_accepted:
  assumes hx: "hex_documented hx" and sha: "sha256_documented sha"
    and v: "sp_validator self = Some (validate_share hx sha av)"
    and inv: "session_inv ss" and sub: "subscribed ss" and en1: "hex_pairs (ss_extranonce1 ss) = Some en1"
    and live: "get_job jid reg = Some j" and branch: "merkle_branch j = []"
  shows "is_accepted (share_verdict hx self (session_share ss worker jid en2 t n b) reg) \<longleftrightarrow>
     length en2 = 4 \<and> version_allowed ss b
     \<and> le_nat (double_sha256 sha (miner_header sha (job_work j) en1 en2 t n (rolled_bits ss b)))
         \<le> share_goal j (sp_pool_difficulty self)"
proof (cases "length en2 = 4 \<and> version_allowed ss b")
  case True
  let ?share = "session_share ss worker jid en2 t n b"
  have shape: "check_shape ?share = None" using True check_shape_session [OF inv sub] by blast
  have e: "session_extranonce1 hx ?share = Inr en1"
    using session_extranonce1_share [OF hx inv sub] en1 by (metis option.inject)
  have jid: "share_job_id ?share = jid" by (simp add: session_share_def)
  have "share_verdict hx self ?share reg = validate_share hx sha av j ?share en1 (sp_pool_difficulty self)"
    by (simp add: share_verdict_def shape v e jid live)
  then show ?thesis
    using True resolved_session_version [of ss b "job_version j" worker jid en2 t n]
    by (simp add: validate_share_cases [OF sha] session_header [OF branch] share_goal_def Let_def le_max_iff_disj)
next
  case False
  then obtain r where r: "check_shape (session_share ss worker jid en2 t n b) = Some r"
    using check_shape_session [OF inv sub] by (metis option.exhaust)
  then have "\<not> is_accepted r" using check_shape_rejects [OF r] by auto
  then show ?thesis using False r by (auto simp: share_verdict_def)
qed

lemma on_submit_verdict:
  assumes "pool_on_submit hx btc sha self share p = (Some r, p')"
  shows "r = share_verdict hx (sh_processor self) share (pool_jobs p)"
  using assms
  by (auto simp: pool_on_submit_def process_share_eq finish_def Let_def pool_jobs_def
      split: if_splits prod.splits option.splits)


text \<open>A share of a job without witness commitment never panics.\<close>

definition plain_coinbase :: "job \<Rightarrow> bool" where
  "plain_coinbase j \<longleftrightarrow>
     (case block_assembly j of None \<Rightarrow> True | Some b \<Rightarrow> asm_default_witness_commitment b = None)"

lemma plain_candidate_answered:
  "plain_coinbase j \<Longrightarrow> fst (submit_block_candidate btc submitter header j en1 en2 w) \<noteq> None"
  by (auto simp: submit_block_candidate_def candidate_coinbase_def plain_coinbase_def
      split: option.split sum.split prod.split)

lemma plain_maybe_submit_answered:
  assumes job: "get_job (share_job_id share) (st_registry (pl_share p)) = Some j" and plain: "plain_coinbase j"
  shows "fst (maybe_submit_block_candidate hx btc sha self share p) \<noteq> None"
proof -
  obtain current w where cur: "sh_job_source self (pool_world p) = (current, w)" by fastforce
  show ?thesis
  proof (cases "session_extranonce1 hx share")
    case (Inl e)
    then show ?thesis by (simp add: maybe_submit_block_candidate_def job cur Let_def)
  next
    case e: (Inr e)
    show ?thesis
    proof (cases "build_solved_block_header hx sha j share e")
      case (Inl m)
      then show ?thesis by (simp add: maybe_submit_block_candidate_def job cur e Inl Let_def)
    next
      case header: (Inr header)
      then show ?thesis
        using plain_candidate_answered [OF plain, of btc "sh_submitter self" header e "extra_nonce2 share" w]
        by (simp add: maybe_submit_eq [OF job cur e header] submit_solved_def split_beta)
    qed
  qed
qed

lemma plain_submit_answered:
  assumes "get_job (share_job_id share) (pool_jobs p) = Some j" and "plain_coinbase j"
  obtains r p' where "pool_on_submit hx btc sha self share p = (Some r, p')"
proof -
  obtain r st where proc: "process_share hx (sh_processor self) share (pl_share p) = (r, st)" by fastforce
  have "st_registry st = pool_jobs p"
    using process_share_registry [of hx "sh_processor self" share "pl_share p"] by (simp add: proc pool_jobs_def)
  then have "fst (maybe_submit_block_candidate hx btc sha self share (p\<lparr> pl_share := st \<rparr>)) \<noteq> None"
    using plain_maybe_submit_answered [of share "p\<lparr> pl_share := st \<rparr>" j] assms by simp
  then obtain p' where "maybe_submit_block_candidate hx btc sha self share (p\<lparr> pl_share := st \<rparr>) = (Some (), p')"
    by (cases "maybe_submit_block_candidate hx btc sha self share (p\<lparr> pl_share := st \<rparr>)") auto
  then show ?thesis using that by (cases "r = Block") (simp_all add: pool_on_submit_def proc Let_def)
qed

text \<open>A miner that subscribes and authorizes, and a session that has seen both requests.\<close>

definition sample_login :: sv1_request where
  "sample_login =
     \<lparr> rq_id = None, rq_method = ''mining.authorize'', rq_params = Some (JArray [JString ''u.w'']) \<rparr>"

definition login_wire :: "nat wire" where
  "login_wire =
     \<lparr> wr_to_string = (\<lambda>j. Inr ''line''),
       wr_from_str = (\<lambda>s. Inr (if s = ''s'' then sample_subscribe else sample_login)),
       wr_write = (\<lambda>s n. (True, Suc n)) \<rparr>"

definition sample_session :: session_state where
  "sample_session =
     \<lparr> authorized_worker = Some (worker_identity_new ''u.w''), subscribed = True,
       ss_extranonce1 = fmt_08x 1, extranonce2_size = 4, ss_version_rolling = None,
       last_notify_job_id = Some ''0'' \<rparr>"

lemma sample_session_reached:
  "session_reaches sample_hex (pool_handler sample_hex btc sha (sample_handler sha)) login_wire 1 sample_session"
proof -
  let ?h = "pool_handler sample_hex btc sha (sample_handler sha)"
  have trim1: "trim [c] = [c]" if "printable [c]" for c using that by (rule trim_printable)
  have s: "trim ''s'' = ''s''" "trim ''a'' = ''a''"
    by (rule trim1, simp add: printable_def char_nat_def)+
  let ?s = "session_state_default\<lparr> subscribed := True, ss_extranonce1 := fmt_08x 1, extranonce2_size := 4 \<rparr>"
  have "session_step sample_hex ?h login_wire 1 (Read_Line ''s'') session_state_default 0 (server_start sample_pool)
      = (Running, ?s, 1, (server_start sample_pool)\<lparr> next_extranonce1 := 2 \<rparr>)"
    by (simp add: s login_wire_def handle_request_def dispatch_request_def map_request_to_command_def
        sample_subscribe_def dispatch_subscribe_def server_start_def write_json_line_def Let_def)
  then have r: "session_reaches sample_hex ?h login_wire 1 ?s"
    by (rule session_reaches.step [OF session_reaches.start])
  have "\<exists>sv. session_step sample_hex ?h login_wire 1 (Read_Line ''a'') ?s 1 (server_start sample_pool)
      = (Running, sample_session, 4, sv)"
    by (simp add: s login_wire_def handle_request_def dispatch_request_def map_request_to_command_def
        sample_login_def dispatch_authorize_def write_json_line_def Let_def pool_handler_def
        pool_on_authorize_def sample_handler_def stub_current_job_def param_str_def deliver_job_def
        send_job_notify_def sample_session_def session_state_default_def job_placeholder_def)
  then show ?thesis by (elim exE) (rule session_reaches.step [OF r])
qed


end
