(* ===== verification/Mined_Block.thy ===== *)
theory Mined_Block
  imports Template_Mapper Candidate_Submit
begin

text \<open>
  One solved block from its template to the daemon: the block handed to the submitter
  carries the transactions its header commits to. What the crate and the daemon are relied
  on for is named: the crate reads back what it wrote (\<open>legacy_round_trip\<close>), and the
  template gives each transaction's own id (\<open>honest_entry\<close>).
\<close>

section \<open>Transaction ids\<close>

definition strip_witness :: "transaction \<Rightarrow> transaction" where
  "strip_witness tx = tx\<lparr> tx_input := map (\<lambda>i. i\<lparr> witness := [] \<rparr>) (tx_input tx) \<rparr>"

text \<open>Documented: a legacy serialization is read as the transaction without witnesses.\<close>

definition legacy_round_trip :: "bitcoin_crate \<Rightarrow> transaction \<Rightarrow> bool" where
  "legacy_round_trip btc tx \<longleftrightarrow>
     tx_deserialize btc (serialize_no_witness btc tx) = Inr (strip_witness tx)"

definition txid :: "bitcoin_crate \<Rightarrow> hasher \<Rightarrow> transaction \<Rightarrow> bytes" where
  "txid btc sha tx = double_sha256 sha (serialize_no_witness btc tx)"

text \<open>The id of the transaction some bytes of a block hold.\<close>

definition bytes_txid :: "bitcoin_crate \<Rightarrow> hasher \<Rightarrow> bytes \<Rightarrow> bytes option" where
  "bytes_txid btc sha bs =
     (case tx_deserialize btc bs of Inl e \<Rightarrow> None | Inr tx \<Rightarrow> Some (txid btc sha tx))"

definition honest_entry :: "hex_crate \<Rightarrow> bitcoin_crate \<Rightarrow> hasher \<Rightarrow> transaction_entry \<Rightarrow> bool" where
  "honest_entry hx btc sha e \<longleftrightarrow>
     (\<exists>raw tx. hex_decode hx (te_data e) = Inr raw \<and> tx_deserialize btc raw = Inr tx
        \<and> te_txid e = Some (hex_text (rev (txid btc sha tx))))"

lemma serialize_strip [simp]:
  assumes "bitcoin_documented btc"
  shows "serialize_no_witness btc (strip_witness tx) = serialize_no_witness btc tx"
proof -
  have "map encode_tx_in (map (\<lambda>i. i\<lparr> witness := [] \<rparr>) is) = map encode_tx_in is" for "is"
    by (simp add: encode_tx_in_def)
  then show ?thesis
    by (simp add: serialize_no_witness_def strip_witness_def bitcoin_laws [OF assms] del: map_map)
qed

lemma txid_strip [simp]: "bitcoin_documented btc \<Longrightarrow> txid btc sha (strip_witness tx) = txid btc sha tx"
  by (simp add: txid_def)

lemma honest_branch_entry:
  assumes hx: "hex_documented hx" and sha: "sha256_documented sha" and honest: "honest_entry hx btc sha e"
    and raw: "hex_decode hx (te_data e) = Inr raw"
  obtains h where "merkle_branch_entry hx e = [h]" "bytes_txid btc sha raw = Some h"
  using honest raw sha
  by (auto simp: honest_entry_def merkle_branch_entry_def hex_decode_hex_text [OF hx] bytes_txid_def txid_def)

lemma honest_branch:
  assumes hx: "hex_documented hx" and sha: "sha256_documented sha"
    and honest: "list_all (honest_entry hx btc sha) es"
    and raws: "map (\<lambda>e. hex_decode hx (te_data e)) es = map Inr raws"
  shows "map Some (concat (map (merkle_branch_entry hx) es)) = map (bytes_txid btc sha) raws"
  using honest raws
proof (induction es arbitrary: raws)
  case (Cons e es)
  then obtain raw rest where r: "raws = raw # rest" "hex_decode hx (te_data e) = Inr raw"
    "map (\<lambda>e. hex_decode hx (te_data e)) es = map Inr rest" by auto
  obtain h where "merkle_branch_entry hx e = [h]" "bytes_txid btc sha raw = Some h"
    using honest_branch_entry [OF hx sha _ r(2)] Cons.prems(1) by auto
  then show ?case using Cons.IH [OF _ r(3)] Cons.prems(1) by (simp add: r(1))
qed simp

section \<open>The coinbase in the block\<close>

text \<open>The coinbase of a solved share: the template's, with the two extranonces filled in.\<close>

definition solved_coinbase ::
  "bitcoin_crate \<Rightarrow> block_template \<Rightarrow> bytes \<Rightarrow> bytes option \<Rightarrow> bytes option \<Rightarrow> bytes \<Rightarrow> transaction" where
  "solved_coinbase btc t payout aux_opt com fill =
     coinbase_transaction btc (coinbase_inputs t payout (aux_bytes aux_opt @ fill) com)"

lemma candidate_coinbase_solved:
  assumes rt: "legacy_round_trip btc (solved_coinbase btc t payout aux_opt com fill)"
    and com: "asm_default_witness_commitment asm = com"
  shows "candidate_coinbase btc asm (serialize_no_witness btc (solved_coinbase btc t payout aux_opt com fill))
     = Some (Inr (if com = None then serialize_no_witness btc (solved_coinbase btc t payout aux_opt com fill)
                  else tx_serialize btc (solved_coinbase btc t payout aux_opt com fill)))"
proof (cases com)
  case None
  then show ?thesis by (simp add: candidate_coinbase_def com)
next
  case (Some c)
  let ?tx = "solved_coinbase btc t payout aux_opt com fill"
  obtain i where i: "tx_input ?tx = [i]" "witness i = [replicate 32 0]"
    by (simp add: Some solved_coinbase_def coinbase_transaction_def coinbase_inputs_def Let_def)
  have "(strip_witness ?tx)\<lparr> tx_input := [i\<lparr> witness := [replicate 32 0] \<rparr>] \<rparr> = ?tx"
    using i by (cases i, cases ?tx) (simp add: strip_witness_def)
  moreover have "tx_input (strip_witness ?tx) = [i\<lparr> witness := [] \<rparr>]" by (simp add: strip_witness_def i)
  ultimately show ?thesis
    using rt by (simp add: candidate_coinbase_def com Some restore_coinbase_witness_def legacy_round_trip_def)
qed

section \<open>Property\<close>

lemma coinbase_bytes_txid:
  assumes btc: "bitcoin_documented btc" and "legacy_round_trip btc tx" and "round_trips btc tx"
  shows "bytes_txid btc sha (if plain then serialize_no_witness btc tx else tx_serialize btc tx)
     = Some (txid btc sha tx)"
  using assms by (simp add: bytes_txid_def legacy_round_trip_def round_trips_def)

text \<open>
  Property C3. The submitted block is the one the header commits to. For a job mapped from a
  template with at most one transaction, whose id the template gives truthfully, a submitted
  candidate is the solved header, the transaction count, the coinbase with the miner's
  extranonces (with its witness when the template asks for a commitment) and the template's
  transactions as they are, and the header's merkle root is the root of the ids of exactly
  these transactions.
\<close>

theorem submitted_block_consistent:
  assumes btc: "bitcoin_documented btc" and hx: "hex_documented hx" and sha: "sha256_documented sha"
    and mapped: "template_to_job hx btc t payout = Inr j"
    and aux: "decode_coinbase_aux_flags hx t = Inr aux_opt"
    and com: "decode_default_witness_commitment hx t = Inr com"
    and rt: "round_trips btc (placeholder_tx btc t payout aux_opt com)"
    and uniq: "placeholder_first btc (bt_height t) (aux_bytes aux_opt)"
    and len: "length en1 + length (extra_nonce2 share) = 8"
    and coinbase: "solved_coinbase btc t payout aux_opt com (en1 @ extra_nonce2 share) = cb"
    and reads: "legacy_round_trip btc cb" "round_trips btc cb"
    and small: "length (transactions t) \<le> 1" and honest: "list_all (honest_entry hx btc sha) (transactions t)"
    and header: "build_solved_block_header hx sha j share en1 = Inr header"
    and submitted: "submit_block_candidate btc submitter header j en1 (extra_nonce2 share) w
        = (Some Submitted, w')"
  shows "\<exists>cb_bytes raws ids.
       cb_bytes = (if com = None then serialize_no_witness btc cb else tx_serialize btc cb)
     \<and> map (hex_decode hx \<circ> te_data) (transactions t) = map Inr raws
     \<and> submitter \<lparr> cand_block_hash = replicate 32 0, cand_height = bt_height t,
           cand_raw_block = header @ compact_size (length raws + 1) @ cb_bytes @ concat raws \<rparr> w
         = (Inr True, w')
     \<and> map (bytes_txid btc sha) (cb_bytes # raws) = map Some ids
     \<and> take 32 (drop 36 header) = merkle_root sha ids"
proof -
  let ?cb = "if com = None then serialize_no_witness btc cb else tx_serialize btc cb"
  note fields = template_job_fields [OF mapped]
  obtain asm where asm: "block_assembly j = Some asm" "asm_height asm = bt_height t"
    "asm_default_witness_commitment asm = com"
    using mapped com by (elim template_to_job_Inr) simp
  from fields asm obtain raws where raws: "asm_template_transactions asm = raws"
    "map (hex_decode hx \<circ> te_data) (transactions t) = map Inr raws" by auto
  have mc: "coinbase_part1 j @ en1 @ extra_nonce2 share @ coinbase_part2 j = serialize_no_witness btc cb"
    using mapped_coinbase [OF btc mapped aux com rt uniq len] coinbase
    by (simp add: build_coinbase_def solved_coinbase_def)
  have "candidate_coinbase btc asm (serialize_no_witness btc cb) = Some (Inr ?cb)"
    using candidate_coinbase_solved [of btc t payout aux_opt com "en1 @ extra_nonce2 share" asm]
      reads(1) asm(3) unfolding coinbase by blast
  with submitted asm raws(1) have sub: "submitter \<lparr> cand_block_hash = replicate 32 0, cand_height = bt_height t,
           cand_raw_block = header @ compact_size (length raws + 1) @ ?cb @ concat raws \<rparr> w = (Inr True, w')"
    by (auto simp: candidate_submitted [OF btc] mc)
  let ?ids = "txid btc sha cb # merkle_branch j"
  have branch: "merkle_branch j = build_merkle_branch hx t" using fields by blast
  have "map Some (merkle_branch j) = map (bytes_txid btc sha) raws"
    using honest_branch [OF hx sha honest] raws(2) by (simp add: branch build_merkle_branch_def comp_def)
  then have ids: "map (bytes_txid btc sha) (?cb # raws) = map Some ?ids"
    using coinbase_bytes_txid [OF btc reads, of sha "com = None"] by simp
  have "take 32 (drop 36 header) = apply_merkle_branch sha (txid btc sha cb) (merkle_branch j)"
    using header_merkle_root [OF sha _ header] fields
    by (simp add: share_merkle_root_def build_coinbase_def mc txid_def)
  also have "\<dots> = merkle_root sha ?ids"
    unfolding branch by (rule merkle_root_small_block [OF small])
  finally show ?thesis using sub raws(2) ids by blast
qed

text \<open>
  A template with one transaction, a crate that knows the three transactions involved, and
  a share that solves the mapped job.
\<close>

definition sample_solved :: transaction where
  "sample_solved =
     solved_coinbase (sample_bitcoin []) sample_template sample_payout None None [1, 2, 3, 4, 0, 0, 0, 0]"

definition mined_btc :: bitcoin_crate where
  "mined_btc = sample_bitcoin [sample_coinbase, sample_solved, sample_tx]"

definition mined_template :: block_template where
  "mined_template = sample_template\<lparr> transactions :=
     [\<lparr> te_data = hex_text (sample_serialize sample_tx),
        te_txid = Some (hex_text (rev (txid mined_btc sample_sha sample_tx))), te_hash = None \<rparr>] \<rparr>"

lemma mined_coinbases:
  "placeholder_tx mined_btc mined_template sample_payout None None = sample_coinbase"
  "solved_coinbase mined_btc mined_template sample_payout None None [1, 2, 3, 4, 0, 0, 0, 0] = sample_solved"
  by (simp_all add: sample_coinbase_def placeholder_tx_def sample_solved_def solved_coinbase_def
      coinbase_transaction_def coinbase_inputs_def mined_btc_def mined_template_def sample_bitcoin_def)

lemma mined_btc_documented: "bitcoin_documented mined_btc"
  by (simp add: mined_btc_def)

lemma plain_serialize:
  assumes "list_all (\<lambda>i. witness i = []) (tx_input tx)"
  shows "sample_serialize tx = serialize_no_witness mined_btc tx"
  using assms by (simp add: sample_serialize_def serialize_no_witness_def mined_btc_def sample_bitcoin_def)

lemma mined_serialized:
  "sample_serialize sample_coinbase = coinbase_prefix mined_btc 100 [] @ SV1_EXTRANONCE_PLACEHOLDER
     @ coinbase_suffix mined_btc mined_template sample_payout None"
  "sample_serialize sample_solved = coinbase_prefix mined_btc 100 [] @ [1, 2, 3, 4, 0, 0, 0, 0]
     @ coinbase_suffix mined_btc mined_template sample_payout None"
  "sample_serialize sample_solved = serialize_no_witness mined_btc sample_solved"
proof -
  have plain: "list_all (\<lambda>i. witness i = []) (tx_input sample_coinbase)"
      "list_all (\<lambda>i. witness i = []) (tx_input sample_solved)"
    by (simp_all add: sample_coinbase_def placeholder_tx_def sample_solved_def solved_coinbase_def
        coinbase_transaction_def coinbase_inputs_def)
  have t: "bt_height mined_template = 100" by (simp add: mined_template_def sample_template_def)
  show "sample_serialize sample_solved = serialize_no_witness mined_btc sample_solved"
    by (rule plain_serialize [OF plain(2)])
  show "sample_serialize sample_coinbase = coinbase_prefix mined_btc 100 [] @ SV1_EXTRANONCE_PLACEHOLDER
     @ coinbase_suffix mined_btc mined_template sample_payout None"
    using coinbase_no_witness_fill [OF mined_btc_documented length_placeholder, of mined_template sample_payout "[]" None]
    unfolding plain_serialize [OF plain(1)]
    by (simp add: mined_coinbases(1) [symmetric] placeholder_tx_def aux_bytes_def t)
  show "sample_serialize sample_solved = coinbase_prefix mined_btc 100 [] @ [1, 2, 3, 4, 0, 0, 0, 0]
     @ coinbase_suffix mined_btc mined_template sample_payout None"
    using coinbase_no_witness_fill [OF mined_btc_documented, of "[1, 2, 3, 4, 0, 0, 0, 0]" mined_template sample_payout "[]" None]
    unfolding plain_serialize [OF plain(2)]
    by (simp add: mined_coinbases(2) [symmetric] solved_coinbase_def aux_bytes_def t)
qed

lemma mined_reads:
  "tx_deserialize mined_btc (sample_serialize sample_coinbase) = Inr sample_coinbase"
  "tx_deserialize mined_btc (sample_serialize sample_solved) = Inr sample_solved"
  "tx_deserialize mined_btc (sample_serialize sample_tx) = Inr sample_tx"
proof -
  have ne: "sample_serialize sample_coinbase \<noteq> sample_serialize sample_solved"
    by (simp add: mined_serialized SV1_EXTRANONCE_PLACEHOLDER_def)
  have "length (sample_serialize sample_tx) = 10"
    by (simp add: sample_serialize_def sample_tx_def compact_size_def)
  moreover have "32 \<le> length (coinbase_prefix mined_btc 100 [])"
    by (simp add: coinbase_prefix_def mined_btc_def sample_bitcoin_def encode_out_point_def)
  ultimately have "sample_serialize sample_coinbase \<noteq> sample_serialize sample_tx"
    "sample_serialize sample_solved \<noteq> sample_serialize sample_tx"
    by (auto simp: mined_serialized dest: arg_cong [of _ _ length])
  with ne show "tx_deserialize mined_btc (sample_serialize sample_coinbase) = Inr sample_coinbase"
    "tx_deserialize mined_btc (sample_serialize sample_solved) = Inr sample_solved"
    "tx_deserialize mined_btc (sample_serialize sample_tx) = Inr sample_tx"
    by (simp_all add: mined_btc_def sample_bitcoin_def)
qed

lemma mined_decoded:
  "decode_coinbase_aux_flags sample_hex mined_template = Inr None"
  "decode_default_witness_commitment sample_hex mined_template = Inr None"
  "decode_prev_hash sample_hex (previousblockhash mined_template) = Inr (replicate 32 1)"
  "decode_bits sample_hex (bits mined_template) = Inr 0x1d00ffff"
  "decode_template_transactions sample_hex mined_template = Inr [sample_serialize sample_tx]"
  using sample_decoded
  by (simp_all add: mined_template_def decode_coinbase_aux_flags_def decode_default_witness_commitment_def
      decode_template_transactions_def hex_decode_hex_text)

lemma mined_placeholder_first: "placeholder_first mined_btc (bt_height mined_template) (aux_bytes None)"
  using sample_placeholder_first
  by (simp add: placeholder_first_def coinbase_prefix_def mined_btc_def sample_btc_def sample_bitcoin_def
      mined_template_def)

lemma mined_round_trips: "round_trips mined_btc (placeholder_tx mined_btc mined_template sample_payout None None)"
  using mined_reads(1) by (simp add: mined_coinbases round_trips_def) (simp add: mined_btc_def sample_bitcoin_def)

lemma mined_mapped:
  "\<exists>j. template_to_job sample_hex mined_btc mined_template sample_payout = Inr j"
  using build_coinbase_parts_eq [OF mined_btc_documented _ mined_round_trips mined_placeholder_first]
  by (simp add: template_to_job_def mined_decoded sample_payout_def)

theorem submitted_block_consistent_witness:
  "\<exists>j header w' ids. template_to_job sample_hex mined_btc mined_template sample_payout = Inr j
     \<and> build_solved_block_header sample_hex sample_sha j sample_share [1, 2, 3, 4] = Inr header
     \<and> submit_block_candidate mined_btc (\<lambda>b seen. (Inr True, seen @ [cand_raw_block b])) header j
         [1, 2, 3, 4] (extra_nonce2 sample_share) [] = (Some Submitted, w')
     \<and> length ids = 2 \<and> take 32 (drop 36 header) = merkle_root sample_sha ids"
proof -
  obtain j where j: "template_to_job sample_hex mined_btc mined_template sample_payout = Inr j"
    using mined_mapped by blast
  note fields = template_job_fields [OF j]
  have len: "length [1, 2, 3, 4 :: u8] + length (extra_nonce2 sample_share) = 8"
    by (simp add: sample_share_def)
  have cb: "solved_coinbase mined_btc mined_template sample_payout None None
      ([1, 2, 3, 4] @ extra_nonce2 sample_share) = sample_solved"
    by (simp add: mined_coinbases sample_share_def)
  have strip: "strip_witness sample_solved = sample_solved"
    by (simp add: strip_witness_def sample_solved_def solved_coinbase_def coinbase_transaction_def
        coinbase_inputs_def)
  have reads: "legacy_round_trip mined_btc sample_solved" "round_trips mined_btc sample_solved"
    using mined_reads(2) by (simp_all add: legacy_round_trip_def round_trips_def strip
        mined_serialized(3) [symmetric]) (simp add: mined_btc_def sample_bitcoin_def)
  have small: "length (transactions mined_template) \<le> 1" by (simp add: mined_template_def)
  have honest: "list_all (honest_entry sample_hex mined_btc sample_sha) (transactions mined_template)"
    using mined_reads(3) by (simp add: mined_template_def honest_entry_def hex_decode_hex_text)
  obtain header where header: "build_solved_block_header sample_hex sample_sha j sample_share [1, 2, 3, 4] = Inr header"
    "length header = 80"
    using fields by (simp add: solved_header_cases resolved_version_def sample_share_def length_share_header)
  let ?accept = "\<lambda>b seen. (Inr True, seen @ [cand_raw_block b])"
  obtain asm where asm: "block_assembly j = Some asm" "asm_default_witness_commitment asm = None"
    "asm_template_transactions asm = [sample_serialize sample_tx]"
    using j by (elim template_to_job_Inr) (simp add: mined_decoded)
  have "coinbase_part1 j @ [1, 2, 3, 4] @ extra_nonce2 sample_share @ coinbase_part2 j
      = sample_serialize sample_solved"
    using mapped_coinbase [OF mined_btc_documented j mined_decoded(1,2) mined_round_trips
        mined_placeholder_first len] cb
    by (simp add: build_coinbase_def solved_coinbase_def mined_serialized(3))
  then obtain w' where sub: "submit_block_candidate mined_btc ?accept header j [1, 2, 3, 4]
      (extra_nonce2 sample_share) [] = (Some Submitted, w')"
    using asm mined_reads(2,3)
    by (simp add: candidate_submitted [OF mined_btc_documented] header(2) candidate_coinbase_def parses_def)
  obtain cb_bytes raws ids where "map (hex_decode sample_hex \<circ> te_data) (transactions mined_template) = map Inr raws"
    and ids: "map (bytes_txid mined_btc sample_sha) (cb_bytes # raws) = map Some ids"
      "take 32 (drop 36 header) = merkle_root sample_sha ids"
    using submitted_block_consistent [OF mined_btc_documented sample_hex_documented sample_sha_documented j
        mined_decoded(1,2) mined_round_trips mined_placeholder_first len cb reads small honest header(1) sub]
    by blast
  then have "length raws = 1" by (auto simp: mined_template_def dest: arg_cong [of _ _ length])
  with arg_cong [OF ids(1), of length] have "length ids = 2" by simp
  with j header(1) sub ids(2) show ?thesis by blast
qed

end
