(* ===== verification/Submit_Steps.thy ===== *)
theory Submit_Steps
  imports Sv1_Handler
begin

text \<open>
  The callback \<open>on_submit\<close> (\<open>azcoin-pool/src/sv1_handler.rs\<close>) at the granularity at which
  the runtime can switch to another session: it awaits the registry lookup of the verdict, the
  share sink, a second lookup, the job source and the submitter. One \<open>submit_turn\<close> runs from
  one of these points to the next; other submissions and callbacks may act in between. The
  rest of the development treats the callback as one step, which \<open>submit_turns_alone\<close>
  justifies when nothing interferes; the properties here say what holds when something does.
\<close>

section \<open>The callback in turns\<close>

datatype submit_stage =
    Judging
  | Recording share_result
  | Finding_Job
  | Guarding job
  | Submitting job
  | Returned "share_result option"

definition submit_turn ::
  "hex_crate \<Rightarrow> bitcoin_crate \<Rightarrow> hasher \<Rightarrow> 'w sv1_handler \<Rightarrow> share_submission
     \<Rightarrow> submit_stage \<times> 'w pool_state \<Rightarrow> submit_stage \<times> 'w pool_state" where
  "submit_turn hx btc sha self share st =
     (case st of (stage, p) \<Rightarrow>
       (case stage of
          Judging \<Rightarrow>
            (Recording (share_verdict hx (sh_processor self) share (st_registry (pl_share p))), p)
        | Recording result \<Rightarrow>
            (if result = Block then Finding_Job else Returned (Some result),
             p\<lparr> pl_share := record_share_result (sh_processor self) share result (pl_share p) \<rparr>)
        | Finding_Job \<Rightarrow>
            (case get_job (share_job_id share) (st_registry (pl_share p)) of
               None \<Rightarrow> (Returned (Some Block), p)
             | Some job \<Rightarrow> (Guarding job, p))
        | Guarding job \<Rightarrow>
            (case sh_job_source self (pool_world p) of
               (current, w) \<Rightarrow>
                 (if stale_block current job then Returned (Some Block) else Submitting job,
                  set_world w p))
        | Submitting job \<Rightarrow>
            (case session_extranonce1 hx share of
               Inl e \<Rightarrow> (Returned (Some Block), p)
             | Inr extranonce1 \<Rightarrow>
                 (case build_solved_block_header hx sha job share extranonce1 of
                    Inl message \<Rightarrow> (Returned (Some Block), p)
                  | Inr solved_header \<Rightarrow>
                      (case submit_block_candidate btc (sh_submitter self) solved_header job
                              extranonce1 (extra_nonce2 share) (pool_world p) of
                         (r, w) \<Rightarrow> (Returned (map_option (\<lambda>_. Block) r), set_world w p))))
        | Returned r \<Rightarrow> (Returned r, p)))"

lemma submit_turn_simps [simp]:
  "submit_turn hx btc sha self share (Judging, p) =
     (Recording (share_verdict hx (sh_processor self) share (st_registry (pl_share p))), p)"
  "submit_turn hx btc sha self share (Recording result, p) =
     (if result = Block then Finding_Job else Returned (Some result),
      p\<lparr> pl_share := record_share_result (sh_processor self) share result (pl_share p) \<rparr>)"
  "submit_turn hx btc sha self share (Returned r, p) = (Returned r, p)"
  by (simp_all add: submit_turn_def)

lemma maybe_submit_turns:
  "(submit_turn hx btc sha self share ^^ 3) (Finding_Job, p) =
     (case maybe_submit_block_candidate hx btc sha self share p of
        (r, p') \<Rightarrow> (Returned (map_option (\<lambda>_. Block) r), p'))"
proof -
  have sw: "set_world w' (set_world w p) = set_world w' p" for w w' by (simp add: set_world_def)
  show ?thesis
    by (simp add: submit_turn_def maybe_submit_block_candidate_def numeral_3_eq_3 Let_def sw
        split: option.split prod.split sum.split candidate_submission_result.split)
qed

lemma on_submit_turns:
  "(submit_turn hx btc sha self share ^^ 5) (Judging, p) =
     (case pool_on_submit hx btc sha self share p of (r, p') \<Rightarrow> (Returned r, p'))"
proof -
  let ?f = "submit_turn hx btc sha self share"
  obtain r st where proc: "process_share hx (sh_processor self) share (pl_share p) = (r, st)" by fastforce
  have first: "(?f ^^ 2) (Judging, p)
      = (if r = Block then Finding_Job else Returned (Some r), p\<lparr> pl_share := st \<rparr>)"
    using proc by (auto simp: numeral_2_eq_2 process_share_eq finish_def)
  have five: "(?f ^^ 5) x = (?f ^^ 3) ((?f ^^ 2) x)" for x
    using funpow_add [of 3 2 ?f] by simp
  have stays: "(?f ^^ n) (Returned v, q) = (Returned v, q)" for n v q by (induction n) simp_all
  show ?thesis
  proof (cases "r = Block")
    case True
    obtain u p' where "maybe_submit_block_candidate hx btc sha self share (p\<lparr> pl_share := st \<rparr>) = (u, p')"
      by fastforce
    then show ?thesis unfolding five first using True
      by (cases u) (simp_all add: maybe_submit_turns pool_on_submit_def proc Let_def)
  next
    case False
    then show ?thesis unfolding five first by (simp add: stays pool_on_submit_def proc Let_def)
  qed
qed

section \<open>Interleaved submissions\<close>

text \<open>
  Any number of submissions, each at its own stage, and the other callbacks of the pool. The
  third component of the state is the history of the attempts recorded so far.
\<close>

datatype pool_action =
    Turn nat
  | Job_Sent job
  | Logged_In string
  | Connected string
  | Disconnected string

type_synonym 'w race = "(share_submission \<times> submit_stage) list \<times> 'w pool_state \<times> (nat \<times> share_result) list"

definition recorded_by :: "nat \<Rightarrow> submit_stage \<Rightarrow> (nat \<times> share_result) list" where
  "recorded_by i stage = (case stage of Recording r \<Rightarrow> [(i, r)] | _ \<Rightarrow> [])"

fun race_step ::
  "hex_crate \<Rightarrow> bitcoin_crate \<Rightarrow> hasher \<Rightarrow> 'w sv1_handler \<Rightarrow> pool_action \<Rightarrow> 'w race \<Rightarrow> 'w race" where
  "race_step hx btc sha self (Turn i) (ts, p, history) =
     (if i < length ts then
        (case ts ! i of (share, stage) \<Rightarrow>
           (case submit_turn hx btc sha self share (stage, p) of
              (stage', p') \<Rightarrow> (ts[i := (share, stage')], p', history @ recorded_by i stage)))
      else (ts, p, history))"
| "race_step hx btc sha self (Job_Sent job) (ts, p, history) = (ts, pool_on_notify_sent job p, history)"
| "race_step hx btc sha self (Logged_In username) (ts, p, history) =
     (ts, snd (pool_on_authorize self username p), history)"
| "race_step hx btc sha self (Connected peer) (ts, p, history) = (ts, pool_on_connect peer p, history)"
| "race_step hx btc sha self (Disconnected peer) (ts, p, history) = (ts, pool_on_disconnect peer p, history)"

definition race_run ::
  "hex_crate \<Rightarrow> bitcoin_crate \<Rightarrow> hasher \<Rightarrow> 'w sv1_handler \<Rightarrow> pool_action list
     \<Rightarrow> share_submission list \<Rightarrow> 'w pool_state \<Rightarrow> 'w race" where
  "race_run hx btc sha self actions shares p =
     fold (race_step hx btc sha self) actions (map (\<lambda>s. (s, Judging)) shares, p, [])"

text \<open>What the history holds of one submission, and what its stage says it must be.\<close>

definition logged_of :: "nat \<Rightarrow> (nat \<times> share_result) list \<Rightarrow> share_result list" where
  "logged_of i history = map snd (filter (\<lambda>(k, r). k = i) history)"

fun stage_log :: "submit_stage \<Rightarrow> share_result list" where
  "stage_log Judging = []"
| "stage_log (Recording r) = []"
| "stage_log (Returned (Some r)) = [r]"
| "stage_log _ = [Block]"

definition race_inv :: "share_submission list \<Rightarrow> 'w race \<Rightarrow> bool" where
  "race_inv shares st \<longleftrightarrow>
     (case st of (ts, p, history) \<Rightarrow>
        map fst ts = shares
        \<and> recent (st_recent (pl_share p))
          = last_n MAX_RECENT (map (\<lambda>(i, r). share_attempt_of (shares ! i) r) history)
        \<and> (\<forall>i < length shares. logged_of i history = stage_log (snd (ts ! i))))"

lemma stage_log_answered [simp]: "stage_log (Returned (map_option (\<lambda>_. Block) r)) = [Block]"
  by (cases r) simp_all

lemma submit_turn_log:
  assumes "submit_turn hx btc sha self share (stage, p) = (stage', p')"
  shows "st_recent (pl_share p') =
       (case stage of Recording r \<Rightarrow> record_attempt share r (st_recent (pl_share p)) | _ \<Rightarrow> st_recent (pl_share p))"
    and "stage_log stage' = stage_log stage @ map snd (recorded_by i stage)"
  using assms
  by (auto simp: submit_turn_def recorded_by_def
      split: submit_stage.splits option.splits prod.splits sum.splits if_splits)

lemma race_step_inv:
  assumes "race_inv shares st"
  shows "race_inv shares (race_step hx btc sha self a st)"
proof -
  obtain ts p history where st: "st = (ts, p, history)" by (metis prod_cases3)
  show ?thesis
  proof (cases a)
    case (Turn i)
    show ?thesis
    proof (cases "i < length ts")
      case False
      then show ?thesis using assms by (simp add: st Turn)
    next
      case True
      obtain share stage where t: "ts ! i = (share, stage)" by fastforce
      obtain stage' p' where turn: "submit_turn hx btc sha self share (stage, p) = (stage', p')" by fastforce
      note log = submit_turn_log [OF turn]
      have share: "share = shares ! i" and i: "i < length shares"
        using assms True t by (auto simp: st race_inv_def dest: arg_cong [of _ _ length])
      have "length (st_recent (pl_share p)) \<le> MAX_RECENT"
        using assms by (simp add: st race_inv_def recent_def)
      then have "recent (st_recent (pl_share p')) = last_n MAX_RECENT
          (map (\<lambda>(i, r). share_attempt_of (shares ! i) r) (history @ recorded_by i stage))"
        using assms log(1)
        by (auto simp: st race_inv_def recent_def recorded_by_def share record_attempt_eq last_n_snoc
            split: submit_stage.splits)
      moreover have "map fst (ts[i := (share, stage')]) = shares"
        using assms True t by (auto simp: st race_inv_def map_update list_update_same_conv)
      moreover have "logged_of k (history @ recorded_by i stage) = stage_log (snd (ts[i := (share, stage')] ! k))"
        if "k < length shares" for k
        using assms that True t log(2)
        by (cases "k = i") (auto simp: st race_inv_def logged_of_def recorded_by_def
            split: submit_stage.splits)
      ultimately show ?thesis using True by (simp add: st Turn t turn race_inv_def)
    qed
  qed (use assms in \<open>auto simp: st race_inv_def pool_on_notify_sent_def pool_on_connect_def
        pool_on_disconnect_def pool_on_authorize_def Let_def split: prod.split\<close>)
qed

lemma race_run_inv:
  assumes "st_recent (pl_share p) = recent_shares_new"
  shows "race_inv shares (race_run hx btc sha self actions shares p)"
proof -
  have "race_inv shares (fold (race_step hx btc sha self) actions st)" if "race_inv shares st" for st
    using that by (induction actions arbitrary: st) (simp_all add: race_step_inv)
  moreover have "race_inv shares (map (\<lambda>s. (s, Judging)) shares, p, [])"
    using assms by (simp add: race_inv_def comp_def logged_of_def recent_def recent_shares_new_def)
  ultimately show ?thesis by (simp add: race_run_def)
qed

section \<open>Properties\<close>


text \<open>
  Property C13. Interleaved submissions are logged once each. However the turns of any number
  of submissions and the other callbacks interleave, the recent-shares log is the last 100 of
  the recorded attempts in the order they were recorded, and a submission that has been
  answered has exactly one of them, with the verdict of its answer (\<open>Block\<close> when the
  callback panicked); one that has not been answered has at most one.
\<close>

theorem interleaved_submissions_logged:
  assumes fresh: "st_recent (pl_share p) = recent_shares_new"
    and run: "race_run hx btc sha self actions shares p = (ts, p', history)"
  shows "recent (st_recent (pl_share p'))
       = last_n 100 (map (\<lambda>(i, r). share_attempt_of (shares ! i) r) history)
     \<and> (\<forall>i < length shares.
          case snd (ts ! i) of
            Returned (Some r) \<Rightarrow> logged_of i history = [r]
          | Returned None \<Rightarrow> logged_of i history = [Block]
          | stage \<Rightarrow> length (logged_of i history) \<le> 1)"
proof -
  have inv: "race_inv shares (ts, p', history)"
    using race_run_inv [OF fresh, of shares hx btc sha self actions] by (simp add: run)
  then show ?thesis
    by (auto simp: race_inv_def MAX_RECENT_def split: submit_stage.split option.split)
qed

text \<open>Two submissions for a job the pool does not know, interleaved.\<close>

definition empty_pool :: "unit pool_state" where
  "empty_pool = sample_pool\<lparr> pl_share := (pl_share sample_pool)\<lparr> st_registry := registry_new \<rparr> \<rparr>"

theorem interleaved_submissions_logged_witness:
  "\<exists>ts p' history. race_run sample_hex (sample_bitcoin []) sample_sha (sample_handler sample_sha)
       [Turn 0, Turn 1, Turn 1, Turn 0] [sample_share, sample_share] empty_pool = (ts, p', history)
     \<and> length (recent (st_recent (pl_share p'))) = 2
     \<and> logged_of 0 history = [UnknownJob ''unknown job_id 0'']"
proof -
  let ?run = "race_run sample_hex (sample_bitcoin []) sample_sha (sample_handler sample_sha)
       [Turn 0, Turn 1, Turn 1, Turn 0] [sample_share, sample_share] empty_pool"
  obtain ts p' history where run: "?run = (ts, p', history)" by (metis prod_cases3)
  have fresh: "st_recent (pl_share empty_pool) = recent_shares_new"
    by (simp add: empty_pool_def sample_pool_def)
  have v: "share_verdict sample_hex (sh_processor (sample_handler sample_sha)) sample_share
      (st_registry (pl_share empty_pool)) = UnknownJob ''unknown job_id 0''"
    by (simp add: share_verdict_def check_shape_def sample_share_def empty_pool_def get_job_def registry_new_def)
  have "map snd ts = [Returned (Some (UnknownJob ''unknown job_id 0'')), Returned (Some (UnknownJob ''unknown job_id 0''))]
      \<and> length history = 2"
    using run v by (auto simp: race_run_def recorded_by_def)
  then show ?thesis
    using interleaved_submissions_logged [OF fresh run] run by auto
qed

text \<open>
  Property C14. A new job can overtake a solved block. After a share was judged \<open>Block\<close> and
  recorded, let another session's clean job be registered before the callback looks the job
  up again. If it has another id, the miner is answered \<open>Block\<close> and nobody is contacted; if
  it has the same id (another template of the same height), the block that is submitted, if
  the job source does not call it stale, is rebuilt from the new job and not from the one
  that was solved.
\<close>

theorem clean_job_overtakes_block:
  assumes block: "share_verdict hx (sh_processor self) share (st_registry (pl_share p)) = Block"
    and clean: "clean_jobs j" and en1: "session_extranonce1 hx share = Inr extranonce1"
    and turns: "(submit_turn hx btc sha self share ^^ 2) (Judging, p) = (stage, q)"
    and sent: "pool_on_notify_sent j q = q'"
  shows "stage = Finding_Job
     \<and> (job_id j \<noteq> share_job_id share \<longrightarrow>
          (submit_turn hx btc sha self share ^^ 3) (stage, q') = (Returned (Some Block), q'))
     \<and> (job_id j = share_job_id share \<longrightarrow>
          (submit_turn hx btc sha self share ^^ 3) (stage, q') =
            (let (current, w) = sh_job_source self (pool_world q')
             in if stale_block current j then (Returned (Some Block), set_world w q')
                else let (r, w') = submit_solved hx btc sha self j share extranonce1 w
                     in (Returned (map_option (\<lambda>_. Block) r), set_world w' q')))"
proof -
  have stage: "stage = Finding_Job" using turns block by (simp add: numeral_2_eq_2)
  have found: "get_job i (st_registry (pl_share q')) = (if i = job_id j then Some j else None)" for i
    using clean sent by (auto simp: pool_on_notify_sent_def register_def register_entry_def get_job_def
        split: prod.split)
  have sw: "set_world w' (set_world w q') = set_world w' q'" for w w' by (simp add: set_world_def)
  show ?thesis
    by (auto simp: stage maybe_submit_turns maybe_submit_block_candidate_def found en1 Let_def submit_solved_def sw
        split: prod.split option.split sum.split candidate_submission_result.split)
qed

theorem clean_job_overtakes_block_witness:
  "let sha = (\<lambda>m. replicate 32 0); self = sample_handler sha;
       j = job_placeholder\<lparr> job_id := ''1'', clean_jobs := True \<rparr>;
       turn = submit_turn sample_hex (sample_bitcoin []) sha self sample_share;
       (stage, q) = (turn ^^ 2) (Judging, sample_pool); q' = pool_on_notify_sent j q
   in (turn ^^ 3) (stage, q') = (Returned (Some Block), q')"
proof -
  let ?sha = "\<lambda>m. replicate 32 0 :: bytes" and ?j = "job_placeholder\<lparr> job_id := ''1'', clean_jobs := True \<rparr>"
  let ?self = "sample_handler ?sha"
  let ?turn = "submit_turn sample_hex (sample_bitcoin []) ?sha ?self sample_share"
  note sample = sample_share_solves
  have block: "share_verdict sample_hex (sh_processor ?self) sample_share (st_registry (pl_share sample_pool)) = Block"
    using sample_pool_live by (simp add: share_verdict_def sample sample_handler_validator pool_jobs_def)
  obtain stage q where turns: "(?turn ^^ 2) (Judging, sample_pool) = (stage, q)" by fastforce
  have "clean_jobs ?j" "job_id ?j \<noteq> share_job_id sample_share" by (simp_all add: sample_share_def)
  with clean_job_overtakes_block [OF block _ sample(3) turns refl, of ?j] show ?thesis
    unfolding Let_def turns prod.case by blast
qed

end
