(* ===== verification/Loops.thy ===== *)
theory Loops
  imports Coinbase_Builder Job_Registry Sv2_Bridge "HOL-Library.While_Combinator"
begin

text \<open>
  The three \<open>while\<close> loops of the sources in the form they are written: a test and a body
  on the variables they change. Elsewhere in the development each is a recursive function;
  here the loops are shown to stop and to compute these functions. The loop over a hex
  string indexes its bytes, so its state says whether an index was out of range.
\<close>

section \<open>\<open>encode_script_num\<close>\<close>

fun encode_turn :: "bytes \<times> u64 \<Rightarrow> bytes \<times> u64" where
  "encode_turn (encoded, remaining) = (encoded @ [ucast (remaining AND 0xff)], drop_bit 8 remaining)"

definition encode_loop :: "u64 \<Rightarrow> (bytes \<times> u64) option" where
  "encode_loop v = while_option (\<lambda>st. 0 < snd st) encode_turn ([], v)"

lemma encode_loop_from:
  "while_option (\<lambda>st. 0 < snd st) encode_turn (acc, w) = Some (acc @ script_num_bytes w, 0)"
proof (induction w arbitrary: acc rule: script_num_bytes.induct)
  case (1 w)
  show ?case
  proof (cases "w = 0")
    case True
    then show ?thesis by (subst while_option_unfold) simp
  next
    case False
    then show ?thesis
      using "1.IH" [OF False, of "acc @ [ucast (w AND 0xff)]"]
      by (subst while_option_unfold) (simp add: script_num_bytes_step word_neq_0_conv)
  qed
qed

section \<open>The eviction loop of the registry\<close>

fun evict_turn :: "(string \<rightharpoonup> job) \<times> string list \<Rightarrow> (string \<rightharpoonup> job) \<times> string list" where
  "evict_turn (m, []) = (m, [])"
| "evict_turn (m, old_id # ids) = (m(old_id := None), ids)"

definition evict_loop ::
  "(string \<rightharpoonup> job) \<Rightarrow> string list \<Rightarrow> ((string \<rightharpoonup> job) \<times> string list) option" where
  "evict_loop m ids = while_option (\<lambda>st. ACTIVE_JOBS_MAX \<le> length (snd st)) evict_turn (m, ids)"

lemma evict_loop_eq: "evict_loop m ids = Some (evict m ids)"
  unfolding evict_loop_def
proof (induction m ids rule: evict.induct)
  case (1 m)
  show ?case by (subst while_option_unfold) (simp add: ACTIVE_JOBS_MAX_def)
next
  case (2 m old_id ids)
  show ?case
  proof (cases "ACTIVE_JOBS_MAX \<le> length (old_id # ids)")
    case True
    then show ?thesis using "2.IH" [OF True] by (subst while_option_unfold) (simp del: fun_upd_apply)
  next
    case False
    then show ?thesis by (subst while_option_unfold) simp
  qed
qed

section \<open>The adapter's \<open>decode_hex\<close>\<close>

datatype decode_state = Decoding bytes nat | Decode_Failed adapter_error | Index_Out_Of_Range

fun decoding :: "string \<Rightarrow> decode_state \<Rightarrow> bool" where
  "decoding s (Decoding out i) \<longleftrightarrow> i < length s"
| "decoding s _ \<longleftrightarrow> False"

definition nibble_at :: "string \<Rightarrow> nat \<Rightarrow> u8 option option" where
  "nibble_at s i = (if i < length s then Some (decode_hex_nibble (s ! i)) else None)"

fun decode_turn :: "string \<Rightarrow> string \<Rightarrow> decode_state \<Rightarrow> decode_state" where
  "decode_turn field s (Decoding out i) =
     (case nibble_at s i of
        None \<Rightarrow> Index_Out_Of_Range
      | Some None \<Rightarrow> Decode_Failed (HexDecodeFailure field (''invalid hex at byte '' @ dec_string i))
      | Some (Some hi) \<Rightarrow>
          (case nibble_at s (i + 1) of
             None \<Rightarrow> Index_Out_Of_Range
           | Some None \<Rightarrow>
               Decode_Failed (HexDecodeFailure field (''invalid hex at byte '' @ dec_string (i + 1)))
           | Some (Some lo) \<Rightarrow> Decoding (out @ [push_bit 4 hi OR lo]) (i + 2)))"
| "decode_turn field s st = st"

definition decode_hex_while :: "string \<Rightarrow> string \<Rightarrow> decode_state option" where
  "decode_hex_while field s = while_option (decoding s) (decode_turn field s) (Decoding [] 0)"

definition decode_state_of :: "nat \<Rightarrow> bytes \<Rightarrow> adapter_error + bytes \<Rightarrow> decode_state" where
  "decode_state_of n out r = (case r of Inl e \<Rightarrow> Decode_Failed e | Inr bs \<Rightarrow> Decoding (out @ bs) n)"

lemma decode_hex_from:
  assumes "even (length cs)"
  shows "while_option (decoding (pre @ cs)) (decode_turn field (pre @ cs)) (Decoding out (length pre))
     = Some (decode_state_of (length (pre @ cs)) out (decode_hex_loop field (length pre) cs))"
  using assms
proof (induction field "length pre" cs arbitrary: pre out rule: decode_hex_loop.induct)
  case (1 field c d cs)
  have nib: "nibble_at (pre @ c # d # cs) (length pre) = Some (decode_hex_nibble c)"
    "nibble_at (pre @ c # d # cs) (Suc (length pre)) = Some (decode_hex_nibble d)"
    by (simp_all add: nibble_at_def nth_append)
  have stop: "while_option (decoding (pre @ c # d # cs)) (decode_turn field (pre @ c # d # cs)) (Decode_Failed e)
      = Some (Decode_Failed e)" for e
    by (subst while_option_unfold) simp
  have next_turn: "while_option (decoding (pre @ c # d # cs)) (decode_turn field (pre @ c # d # cs))
       (Decoding (out @ [b]) (length pre + 2))
     = Some (decode_state_of (length (pre @ c # d # cs)) (out @ [b]) (decode_hex_loop field (length pre + 2) cs))"
    if "decode_hex_nibble c = Some hi" "decode_hex_nibble d = Some lo" for b hi lo
    using "1.hyps" [of "pre @ [c, d]" "out @ [b]"] "1.prems" that by simp
  show ?case
  proof (cases "decode_hex_nibble c")
    case None
    then show ?thesis
      by (subst while_option_unfold) (simp add: nib stop decode_state_of_def)
  next
    case c: (Some hi)
    show ?thesis
    proof (cases "decode_hex_nibble d")
      case None
      then show ?thesis
        by (subst while_option_unfold) (simp add: nib stop c decode_state_of_def)
    next
      case d: (Some lo)
      show ?thesis using next_turn [OF c d]
        by (subst while_option_unfold)
          (simp add: nib c d decode_state_of_def and_then_def split: sum.split)
    qed
  qed
qed (auto simp: decode_state_of_def while_option_unfold)

section \<open>The functions around the loops\<close>

text \<open>\<open>None\<close> is a loop that does not end, or an index out of range.\<close>

definition encode_script_num_while :: "u64 \<Rightarrow> bytes option" where
  "encode_script_num_while v =
     (if v = 0 then Some []
      else map_option
        (\<lambda>(encoded, remaining).
           if encoded \<noteq> [] \<and> last encoded AND 0x80 \<noteq> 0 then encoded @ [0] else encoded)
        (encode_loop v))"

definition register_while :: "job \<Rightarrow> active_jobs \<Rightarrow> active_jobs option" where
  "register_while j r =
     (let r = (if clean_jobs j then r\<lparr> by_id := Map.empty, order := [] \<rparr> else r)
      in if by_id r (job_id j) \<noteq> None then Some r
         else map_option
           (\<lambda>(m, ids). r\<lparr> by_id := m(job_id j \<mapsto> j), order := ids @ [job_id j] \<rparr>)
           (evict_loop (by_id r) (order r)))"

definition decode_hex_result :: "decode_state \<Rightarrow> (adapter_error + bytes) option" where
  "decode_hex_result st =
     (case st of Decoding out i \<Rightarrow> Some (Inr out) | Decode_Failed e \<Rightarrow> Some (Inl e)
      | Index_Out_Of_Range \<Rightarrow> None)"

definition decode_hex_as_written :: "string \<Rightarrow> string \<Rightarrow> (adapter_error + bytes) option" where
  "decode_hex_as_written s field =
     (let h = trim s
      in if length h mod 2 \<noteq> 0 then Some (Inl (HexDecodeFailure field ''odd-length hex string''))
         else Option.bind (decode_hex_while field h) decode_hex_result)"

text \<open>
  Property C21. Every \<open>while\<close> loop of the pool ends: on every input encoding a script number,
  registering a job (even in a registry that holds more than its bound) and decoding the
  adapter's hex strings stop without an index out of range, with the results that the
  recursive definitions of this development give.
\<close>

theorem while_loops_end:
  "encode_script_num_while v = Some (encode_script_num v)
   \<and> register_while j r = Some (register j r)
   \<and> decode_hex_as_written s field = Some (decode_hex s field)"
proof (intro conjI)
  show "encode_script_num_while v = Some (encode_script_num v)"
    by (simp add: encode_script_num_while_def encode_script_num_def encode_loop_def encode_loop_from Let_def)
  show "register_while j r = Some (register j r)"
    by (simp add: register_while_def register_def register_entry_def evict_loop_eq Let_def split: prod.split)
  show "decode_hex_as_written s field = Some (decode_hex s field)"
    using decode_hex_from [of "trim s" "[]" field "[]"]
    by (auto simp: decode_hex_as_written_def decode_hex_def decode_hex_while_def Let_def
        decode_state_of_def decode_hex_result_def split: sum.split)
qed

end
