(* ===== verification/Sv1_Reader.thy ===== *)
theory Sv1_Reader
  imports Sv1_Server "HOL-Library.Sublist"
begin

text \<open>
  The input side of \<open>handle_sv1_session\<close> (\<open>protocol_sv1/src/server.rs\<close>): bytes from the socket
  become the events of \<open>Sv1_Server\<close>. \<open>reader.read_line(&mut line)\<close> is a branch of
  \<open>tokio::select!\<close>. While it waits for the end of a line it owns the bytes it has taken from
  the buffer; when the other branch, \<open>job_rx.recv()\<close>, completes first, the unfinished
  \<open>read_line\<close> is dropped with these bytes, as the documentation of \<open>read_line\<close> says.
\<close>

section \<open>UTF-8\<close>

text \<open>
  \<open>read_line\<close> answers with an error when the bytes of the line are not UTF-8. \<open>utf8_tail b bs\<close>
  is the number of continuation bytes that follow the first byte \<open>b\<close> of a character.
\<close>

definition continuation :: "nat \<Rightarrow> bool" where
  "continuation b \<longleftrightarrow> 0x80 \<le> b \<and> b \<le> 0xBF"

definition second_byte :: "nat \<Rightarrow> nat \<Rightarrow> bool" where
  "second_byte b b1 \<longleftrightarrow> continuation b1
     \<and> (b = 0xE0 \<longrightarrow> 0xA0 \<le> b1) \<and> (b = 0xED \<longrightarrow> b1 \<le> 0x9F)
     \<and> (b = 0xF0 \<longrightarrow> 0x90 \<le> b1) \<and> (b = 0xF4 \<longrightarrow> b1 \<le> 0x8F)"

definition utf8_tail :: "nat \<Rightarrow> nat list \<Rightarrow> nat option" where
  "utf8_tail b bs =
     (if b < 0x80 then Some 0
      else if 0xC2 \<le> b \<and> b \<le> 0xDF then
        (case bs of b1 # _ \<Rightarrow> if continuation b1 then Some 1 else None | _ \<Rightarrow> None)
      else if 0xE0 \<le> b \<and> b \<le> 0xEF then
        (case bs of b1 # b2 # _ \<Rightarrow> if second_byte b b1 \<and> continuation b2 then Some 2 else None | _ \<Rightarrow> None)
      else if 0xF0 \<le> b \<and> b \<le> 0xF4 then
        (case bs of
           b1 # b2 # b3 # _ \<Rightarrow>
             if second_byte b b1 \<and> continuation b2 \<and> continuation b3 then Some 3 else None
         | _ \<Rightarrow> None)
      else None)"

fun utf8_valid :: "string \<Rightarrow> bool" where
  "utf8_valid [] \<longleftrightarrow> True"
| "utf8_valid (c # s) \<longleftrightarrow>
     (case utf8_tail (char_nat c) (map char_nat s) of None \<Rightarrow> False | Some n \<Rightarrow> utf8_valid (drop n s))"

abbreviation newline :: char where
  "newline \<equiv> CHR 0x0A"

lemma newline_no_continuation [simp]: "\<not> continuation (char_nat newline)" "\<not> second_byte b (char_nat newline)"
  by (simp_all add: continuation_def second_byte_def char_nat_def)

lemma utf8_tail_bound: "utf8_tail b bs = Some n \<Longrightarrow> n \<le> length bs"
  by (auto simp: utf8_tail_def split: if_splits list.splits)

lemma utf8_tail_newline:
  "utf8_tail b (bs @ char_nat newline # cs) = utf8_tail b bs"
proof -
  consider "bs = []" | b1 where "bs = [b1]" | b1 b2 where "bs = [b1, b2]"
    | b1 b2 b3 r where "bs = b1 # b2 # b3 # r"
    by (metis list.exhaust)
  then show ?thesis
    by cases (simp_all add: utf8_tail_def split: list.split)
qed

lemma utf8_valid_split_newline:
  "utf8_valid (s @ newline # t) \<longleftrightarrow> utf8_valid s \<and> utf8_valid t"
proof (induction s rule: utf8_valid.induct)
  case 1
  then show ?case by (simp add: utf8_tail_def char_nat_def)
next
  case (2 c s)
  show ?case
  proof (cases "utf8_tail (char_nat c) (map char_nat s)")
    case None
    then show ?thesis by (simp add: utf8_tail_newline)
  next
    case (Some n)
    then have "n \<le> length s" using utf8_tail_bound by fastforce
    with Some show ?thesis by (simp add: utf8_tail_newline "2.IH" [OF Some])
  qed
qed

lemma utf8_valid_ascii: "\<forall>c \<in> set s. char_nat c < 0x80 \<Longrightarrow> utf8_valid s"
  by (induction s) (simp_all add: utf8_tail_def)

section \<open>The reader\<close>

text \<open>
  \<open>unread\<close> holds the bytes that have arrived and that no \<open>read_line\<close> has taken (the socket's
  buffer and the \<open>BufReader\<close>), \<open>part\<close> the bytes inside the \<open>read_line\<close> that is waiting.
\<close>

record line_reader =
  unread :: string
  part :: string
  at_end :: bool

definition reader_new :: line_reader where
  "reader_new = \<lparr> unread = [], part = [], at_end = False \<rparr>"

datatype recv_result = Recv_Ok job | Lagged u64 | Closed

definition recv_event :: "recv_result \<Rightarrow> session_event" where
  "recv_event r =
     (case r of Recv_Ok job \<Rightarrow> Recv_Job job | Lagged n \<Rightarrow> Recv_Lagged n | Closed \<Rightarrow> Recv_Closed)"

text \<open>
  What happens to a connection: bytes arrive, the peer closes its side, the socket fails, the
  loop polls \<open>read_line\<close>, or the channel has something and its branch wins.
\<close>

datatype socket_event = Arrive string | Peer_Close | Socket_Error | Poll_Line | Recv_Wins recv_result

definition line_event :: "string \<Rightarrow> session_event" where
  "line_event l = (if utf8_valid l then Read_Line l else Read_Error)"

definition poll_line :: "line_reader \<Rightarrow> session_event option \<times> line_reader" where
  "poll_line rd =
     (if newline \<in> set (unread rd)
      then (Some (line_event (part rd @ takeWhile (\<lambda>c. c \<noteq> newline) (unread rd) @ [newline])),
            rd\<lparr> unread := tl (dropWhile (\<lambda>c. c \<noteq> newline) (unread rd)), part := [] \<rparr>)
      else if at_end rd
      then (Some (line_event (part rd @ unread rd)), rd\<lparr> unread := [], part := [] \<rparr>)
      else (None, rd\<lparr> unread := [], part := part rd @ unread rd \<rparr>))"

fun reader_step :: "socket_event \<Rightarrow> line_reader \<Rightarrow> session_event option \<times> line_reader" where
  "reader_step (Arrive s) rd = (None, if at_end rd then rd else rd\<lparr> unread := unread rd @ s \<rparr>)"
| "reader_step Peer_Close rd = (None, rd\<lparr> at_end := True \<rparr>)"
| "reader_step Socket_Error rd = (Some Read_Error, rd\<lparr> part := [] \<rparr>)"
| "reader_step Poll_Line rd = poll_line rd"
| "reader_step (Recv_Wins r) rd = (Some (recv_event r), rd\<lparr> part := [] \<rparr>)"

text \<open>The loop of the session over its socket, and the events it hands to the branches.\<close>

fun run_socket ::
  "hex_crate \<Rightarrow> 's session_handler \<Rightarrow> 'o wire \<Rightarrow> u32 \<Rightarrow> socket_event list \<Rightarrow> line_reader
     \<Rightarrow> session_state \<Rightarrow> 'o \<Rightarrow> 's server \<Rightarrow> flow \<times> session_state \<times> 'o \<times> 's server" where
  "run_socket hx h wr d [] rd ss out sv = (Running, ss, out, sv)"
| "run_socket hx h wr d (ev # evs) rd ss out sv =
     (case reader_step ev rd of
        (None, rd) \<Rightarrow> run_socket hx h wr d evs rd ss out sv
      | (Some e, rd) \<Rightarrow>
          (case session_step hx h wr d e ss out sv of
             (Running, ss, out, sv) \<Rightarrow> run_socket hx h wr d evs rd ss out sv
           | stopped \<Rightarrow> stopped))"

fun read_events :: "socket_event list \<Rightarrow> line_reader \<Rightarrow> session_event list \<times> line_reader" where
  "read_events [] rd = ([], rd)"
| "read_events (ev # evs) rd =
     (let (e, rd) = reader_step ev rd; (es, rd) = read_events evs rd
      in ((case e of None \<Rightarrow> es | Some e \<Rightarrow> e # es), rd))"

text \<open>
  A session over a socket is a session over the events read from it, so what is shown for
  every list of events holds for every socket.
\<close>

lemma run_socket_run_session:
  "run_socket hx h wr d evs rd ss out sv = run_session hx h wr d (fst (read_events evs rd)) ss out sv"
proof (induction evs arbitrary: rd ss out sv)
  case (Cons ev evs)
  show ?case
    by (cases "reader_step ev rd") (auto simp: Cons.IH split: option.splits prod.splits flow.splits)
qed simp

section \<open>Lines of the stream\<close>

text \<open>The complete lines of a text, and what a connection's events say about its bytes.\<close>

function lines_of :: "string \<Rightarrow> string list" where
  "lines_of s =
     (if newline \<in> set s
      then (takeWhile (\<lambda>c. c \<noteq> newline) s @ [newline]) # lines_of (tl (dropWhile (\<lambda>c. c \<noteq> newline) s))
      else [])"
  by pat_completeness auto
termination
proof (relation "measure length")
  fix s :: string
  assume "newline \<in> set s"
  then have "dropWhile (\<lambda>c. c \<noteq> newline) s \<noteq> []" by (auto simp: dropWhile_eq_Nil_conv)
  moreover have "length (dropWhile (\<lambda>c. c \<noteq> newline) s) \<le> length s" by (rule length_dropWhile_le)
  ultimately show "(tl (dropWhile (\<lambda>c. c \<noteq> newline) s), s) \<in> measure length"
    by (cases "dropWhile (\<lambda>c. c \<noteq> newline) s") auto
qed simp

declare lines_of.simps [simp del]

lemma lines_of_none: "newline \<notin> set s \<Longrightarrow> lines_of s = []"
  by (simp add: lines_of.simps)

lemma lines_of_line:
  "newline \<notin> set l \<Longrightarrow> lines_of (l @ newline # t) = (l @ [newline]) # lines_of t"
proof -
  assume "newline \<notin> set l"
  then have "takeWhile (\<lambda>c. c \<noteq> newline) (l @ newline # t) = l"
    and "dropWhile (\<lambda>c. c \<noteq> newline) (l @ newline # t) = newline # t"
    by (induction l) auto
  then show ?thesis by (subst lines_of.simps) simp
qed

definition arrived :: "socket_event list \<Rightarrow> string" where
  "arrived evs = concat (map (\<lambda>ev. case ev of Arrive s \<Rightarrow> s | _ \<Rightarrow> []) evs)"

definition lines_read :: "session_event list \<Rightarrow> string list" where
  "lines_read es = concat (map (\<lambda>e. case e of Read_Line l \<Rightarrow> [l] | _ \<Rightarrow> []) es)"

text \<open>The channel's branch wins between lines only, and the connection stays up.\<close>

fun between_lines :: "socket_event list \<Rightarrow> line_reader \<Rightarrow> bool" where
  "between_lines [] rd \<longleftrightarrow> True"
| "between_lines (ev # evs) rd \<longleftrightarrow>
     (case ev of Recv_Wins r \<Rightarrow> part rd = [] | Peer_Close \<Rightarrow> False | Socket_Error \<Rightarrow> False | _ \<Rightarrow> True)
     \<and> between_lines evs (snd (reader_step ev rd))"

lemma split_at_newline:
  "newline \<in> set s \<Longrightarrow>
     s = takeWhile (\<lambda>c. c \<noteq> newline) s @ newline # tl (dropWhile (\<lambda>c. c \<noteq> newline) s)"
proof (induction s)
  case (Cons c s)
  then show ?case by (cases "c = newline") auto
qed simp

lemma takeWhile_no_newline: "newline \<notin> set (takeWhile (\<lambda>c. c \<noteq> newline) s)"
  using set_takeWhileD by fastforce

lemma arrived_simps [simp]:
  "arrived [] = []" "arrived (Arrive s # evs) = s @ arrived evs" "arrived (Poll_Line # evs) = arrived evs"
  "arrived (Recv_Wins r # evs) = arrived evs"
  by (simp_all add: arrived_def)

lemma lines_read_simps [simp]:
  "lines_read [] = []" "lines_read (Read_Line l # es) = l # lines_read es"
  "lines_read (recv_event r # es) = lines_read es"
  by (simp_all add: lines_read_def recv_event_def split: recv_result.split)

lemma lines_read_of_stream:
  assumes "between_lines evs rd" and "\<not> at_end rd" and "newline \<notin> set (part rd)"
    and "utf8_valid (part rd @ unread rd @ arrived evs)"
  shows "lines_of (part rd @ unread rd @ arrived evs)
           = lines_read (fst (read_events evs rd))
             @ lines_of (part (snd (read_events evs rd)) @ unread (snd (read_events evs rd)))"
  using assms
proof (induction evs arbitrary: rd)
  case (Cons ev evs)
  show ?case
  proof (cases ev)
    case (Arrive s)
    with Cons.prems Cons.IH [of "rd\<lparr> unread := unread rd @ s \<rparr>"] show ?thesis
      by (simp add: case_prod_beta Let_def)
  next
    case Poll_Line
    show ?thesis
    proof (cases "newline \<in> set (unread rd)")
      case True
      define l where "l = takeWhile (\<lambda>c. c \<noteq> newline) (unread rd)"
      define t where "t = tl (dropWhile (\<lambda>c. c \<noteq> newline) (unread rd))"
      have u: "unread rd = l @ newline # t"
        unfolding l_def t_def by (rule split_at_newline [OF True])
      have nl: "newline \<notin> set (part rd @ l)"
        using Cons.prems by (simp add: l_def takeWhile_no_newline)
      have step: "reader_step ev rd = (Some (line_event ((part rd @ l) @ [newline])), rd\<lparr> unread := t, part := [] \<rparr>)"
        using True Poll_Line by (simp add: poll_line_def l_def t_def)
      have bytes: "part rd @ unread rd @ arrived (ev # evs) = (part rd @ l) @ newline # (t @ arrived evs)"
        using Poll_Line u by simp
      have valid: "utf8_valid (part rd @ l)" "utf8_valid (t @ arrived evs)"
        using Cons.prems(4) unfolding bytes utf8_valid_split_newline by blast+
      then have "line_event ((part rd @ l) @ [newline]) = Read_Line ((part rd @ l) @ [newline])"
        unfolding line_event_def utf8_valid_split_newline by simp
      with step Cons.prems valid Cons.IH [of "rd\<lparr> unread := t, part := [] \<rparr>"] show ?thesis
        unfolding bytes lines_of_line [OF nl] by (simp add: case_prod_beta Let_def)
    next
      case False
      with Poll_Line Cons.prems Cons.IH [of "rd\<lparr> unread := [], part := part rd @ unread rd \<rparr>"] show ?thesis
        by (simp add: poll_line_def case_prod_beta Let_def)
    qed
  next
    case (Recv_Wins r)
    with Cons.prems Cons.IH [of "rd\<lparr> part := [] \<rparr>"] show ?thesis
      by (simp add: case_prod_beta Let_def)
  qed (use Cons.prems in auto)
qed simp

lemma part_no_newline:
  "newline \<notin> set (part rd) \<Longrightarrow> newline \<notin> set (part (snd (read_events evs rd)))"
proof (induction evs arbitrary: rd)
  case (Cons ev evs)
  have "newline \<notin> set (part (snd (reader_step ev rd)))"
    using Cons.prems by (cases ev) (auto simp: poll_line_def)
  then show ?case using Cons.IH by (simp add: case_prod_beta Let_def)
qed simp

text \<open>
  What is handled when the channel's branch may win at any time: of each line of the stream a
  suffix, in order. Bytes are lost at the front of a line only, and never moved to another.
\<close>

definition stays_up :: "socket_event list \<Rightarrow> bool" where
  "stays_up evs \<longleftrightarrow> Peer_Close \<notin> set evs \<and> Socket_Error \<notin> set evs"

lemma line_event_simps: "line_event l = Read_Line l \<or> line_event l = Read_Error"
  by (simp add: line_event_def)

lemma lines_cut_at_front_only:
  assumes "stays_up evs" and "\<not> at_end rd" and "newline \<notin> set p" and "suffix (part rd) p"
    and "Read_Error \<notin> set (fst (read_events evs rd))"
  shows "\<exists>ls rest. lines_of (p @ unread rd @ arrived evs) = ls @ rest
     \<and> list_all2 suffix (lines_read (fst (read_events evs rd))) ls"
  using assms
proof (induction evs arbitrary: rd p)
  case (Cons ev evs)
  show ?case
  proof (cases ev)
    case (Arrive s)
    with Cons.prems Cons.IH [of "rd\<lparr> unread := unread rd @ s \<rparr>" p] show ?thesis
      by (simp add: case_prod_beta Let_def stays_up_def)
  next
    case Poll_Line
    show ?thesis
    proof (cases "newline \<in> set (unread rd)")
      case True
      define l where "l = takeWhile (\<lambda>c. c \<noteq> newline) (unread rd)"
      define t where "t = tl (dropWhile (\<lambda>c. c \<noteq> newline) (unread rd))"
      have u: "unread rd = l @ newline # t"
        unfolding l_def t_def by (rule split_at_newline [OF True])
      have nl: "newline \<notin> set (p @ l)"
        using Cons.prems(3) by (simp add: l_def takeWhile_no_newline)
      have step: "reader_step ev rd = (Some (line_event (part rd @ l @ [newline])), rd\<lparr> unread := t, part := [] \<rparr>)"
        using True Poll_Line by (simp add: poll_line_def l_def t_def)
      then have valid: "line_event (part rd @ l @ [newline]) = Read_Line (part rd @ l @ [newline])"
        using Cons.prems(5) line_event_simps [of "part rd @ l @ [newline]"]
        by (auto simp: case_prod_beta Let_def)
      obtain ls rest where ls: "lines_of (t @ arrived evs) = ls @ rest"
        "list_all2 suffix (lines_read (fst (read_events evs (rd\<lparr> unread := t, part := [] \<rparr>)))) ls"
        using Cons.IH [of "rd\<lparr> unread := t, part := [] \<rparr>" "[]"] Cons.prems(1,2,5) step
        by (auto simp: stays_up_def case_prod_beta Let_def)
      have "p @ unread rd @ arrived (ev # evs) = (p @ l) @ newline # (t @ arrived evs)"
        using Poll_Line u by simp
      then have "lines_of (p @ unread rd @ arrived (ev # evs)) = (p @ l @ [newline]) # ls @ rest"
        using lines_of_line [OF nl] ls(1) by simp
      moreover have "suffix (part rd @ l @ [newline]) (p @ l @ [newline])"
        using Cons.prems(4) by (auto simp: suffix_def)
      ultimately show ?thesis
        using ls(2) step valid
        by (intro exI [of _ "(p @ l @ [newline]) # ls"] exI [of _ rest]) (simp add: case_prod_beta Let_def)
    next
      case False
      have "newline \<notin> set (p @ unread rd)" "suffix (part rd @ unread rd) (p @ unread rd)"
        using False Cons.prems(3,4) by (auto simp: suffix_def)
      with Poll_Line False Cons.prems Cons.IH [of "rd\<lparr> unread := [], part := part rd @ unread rd \<rparr>" "p @ unread rd"]
      show ?thesis by (simp add: poll_line_def case_prod_beta Let_def stays_up_def)
    qed
  next
    case (Recv_Wins r)
    with Cons.prems Cons.IH [of "rd\<lparr> part := [] \<rparr>" p] show ?thesis
      by (simp add: case_prod_beta Let_def stays_up_def)
  qed (use Cons.prems in \<open>auto simp: stays_up_def\<close>)
qed auto

text \<open>What a fragment that is not a request leads to: an answer, and no change of the pool.\<close>

lemma fragment_answered:
  assumes "wr_from_str wr (trim l) = Inl e" and "trim l \<noteq> []"
  shows "session_step hx h wr d (Read_Line l) ss out sv = parse_failure wr ss out sv"
    and "snd (snd (snd (parse_failure wr ss out sv))) = sv"
proof -
  have "l \<noteq> []"
  proof
    assume "l = []"
    moreover have "trim [] = []" by code_simp
    ultimately show False using assms(2) by simp
  qed
  then show "session_step hx h wr d (Read_Line l) ss out sv = parse_failure wr ss out sv"
    using assms by (simp add: Let_def)
  show "snd (snd (snd (parse_failure wr ss out sv))) = sv"
    by (auto simp: parse_failure_def split: sum.splits prod.splits bool.splits)
qed

section \<open>Properties\<close>

text \<open>
  Property C23.
  A session reads the lines of the byte stream whatever packets it arrives in: when the
  channel's branch wins between lines only, the requests handled are the complete lines of
  the bytes that arrived, in order, up to what is still waiting; nothing is lost, doubled or
  cut at another place.
\<close>

theorem socket_lines_delivered:
  assumes "between_lines evs reader_new" and "utf8_valid (arrived evs)"
    and "read_events evs reader_new = (es, rd)" and "unread rd = []"
  shows "lines_read es = lines_of (arrived evs)
         \<and> run_socket hx h wr d evs reader_new ss out sv = run_session hx h wr d es ss out sv"
proof -
  have "lines_of (arrived evs) = lines_read es @ lines_of (part rd @ unread rd)"
    using lines_read_of_stream [OF assms(1)] assms by (simp add: reader_new_def)
  moreover have "newline \<notin> set (part rd)"
    using part_no_newline [of reader_new evs] assms(3) by (simp add: reader_new_def)
  ultimately show ?thesis
    using assms(3,4) by (simp add: lines_of_none run_socket_run_session)
qed

definition sample_packets :: "socket_event list" where
  "sample_packets =
     [Arrive ''ab'', Poll_Line, Arrive (''c'' @ [newline] @ ''d''), Poll_Line,
      Recv_Wins (Lagged 1), Poll_Line, Arrive (''e'' @ [newline]), Poll_Line]"

lemmas reader_eval = reader_new_def poll_line_def line_event_def utf8_tail_def char_nat_def recv_event_def

theorem socket_lines_delivered_witness:
  "[''abc'' @ [newline], ''de'' @ [newline]] = lines_of (arrived sample_packets)"
proof -
  have "between_lines sample_packets reader_new" and "utf8_valid (arrived sample_packets)"
    by (simp_all add: sample_packets_def reader_eval)
  moreover have "read_events sample_packets reader_new
      = ([Read_Line (''abc'' @ [newline]), Recv_Lagged 1, Read_Line (''de'' @ [newline])], reader_new)"
    by (simp add: sample_packets_def reader_eval)
  moreover have "unread reader_new = []" by (simp add: reader_new_def)
  ultimately have "lines_read [Read_Line (''abc'' @ [newline]), Recv_Lagged 1, Read_Line (''de'' @ [newline])]
      = lines_of (arrived sample_packets)"
    by (rule socket_lines_delivered [THEN conjunct1])
  then show ?thesis by (simp add: lines_read_def)
qed

text \<open>
  Property C25.
  A request in two packets is lost when the job channel's branch wins in between. The bytes
  \<open>a\<close> that have been read are dropped, whatever they are, and the session handles the second
  part as a line of its own; without the interruption it handles the request. So a job that
  is pushed, or a lagged receiver, while a miner's submission is on its way makes the pool
  answer a parse error, and the share never reaches it.
\<close>

theorem split_request_lost:
  assumes "newline \<notin> set a" and "newline \<notin> set b" and "utf8_valid (a @ b)" and "utf8_valid b"
  shows "run_socket hx h wr d [Arrive a, Poll_Line, Recv_Wins r, Arrive (b @ [newline]), Poll_Line]
           reader_new ss out sv
         = run_session hx h wr d [recv_event r, Read_Line (b @ [newline])] ss out sv
       \<and> run_socket hx h wr d [Arrive a, Poll_Line, Arrive (b @ [newline]), Poll_Line, Recv_Wins r]
           reader_new ss out sv
         = run_session hx h wr d [Read_Line (a @ b @ [newline]), recv_event r] ss out sv"
proof -
  have take: "takeWhile (\<lambda>c. c \<noteq> newline) (b @ [newline]) = b"
    and drop: "dropWhile (\<lambda>c. c \<noteq> newline) (b @ [newline]) = [newline]"
    using assms(2) by (induction b) auto
  have "utf8_valid ((a @ b) @ [newline])" and "utf8_valid (b @ [newline])"
    using assms(3,4) unfolding utf8_valid_split_newline by simp_all
  then show ?thesis
    unfolding run_socket_run_session
    using assms(1,2) take drop by (simp add: reader_new_def poll_line_def line_event_def)
qed

text \<open>A submission cut in two: its second half alone is read, and it is not a request.\<close>

definition half_wire :: "string list wire" where
  "half_wire =
     \<lparr> wr_to_string = (\<lambda>j. Inr ''json''), wr_from_str = (\<lambda>s. Inl ''expected value''),
       wr_write = (\<lambda>s out. (True, out @ [s])) \<rparr>"

theorem split_request_lost_witness:
  "run_socket sample_hex unit_handler half_wire 1
     [Arrive ''{method: submit'', Poll_Line, Recv_Wins (Lagged 1), Arrive ('', id: 4}'' @ [newline]), Poll_Line]
     reader_new session_state_default [] (server_start ())
   = (Running, session_state_default, [''json'' @ [newline]], server_start ())"
proof -
  have "trim ('', id: 4}'' @ [newline]) = '', id: 4}''" by code_simp
  moreover have "newline \<notin> set ''{method: submit''" "newline \<notin> set '', id: 4}''"
    "utf8_valid (''{method: submit'' @ '', id: 4}'')" "utf8_valid '', id: 4}''"
    by (simp_all add: utf8_tail_def char_nat_def)
  from split_request_lost [OF this, of sample_hex unit_handler half_wire 1 "Lagged 1"
      session_state_default "[]" "server_start ()", THEN conjunct1]
  show ?thesis
    using calculation
    by (simp add: recv_event_def Let_def parse_failure_def half_wire_def write_json_line_def)
qed

end
