(* ===== verification/Socket_System.thy ===== *)
theory Socket_System
  imports System Sv1_Reader
begin

text \<open>
  The running pool down to its sockets: every connection has a reader (\<open>Sv1_Reader\<close>), bytes
  arrive in packets, and the waiting \<open>read_line\<close> of a session loses what it has taken when
  the job channel's branch wins. The pool of \<open>System\<close>, whose sessions read whole lines, is the
  abstraction; every run over sockets is a run of it, so what is shown there holds here.
\<close>

section \<open>Steps\<close>

type_synonym readers = "nat \<Rightarrow> line_reader option"

text \<open>The readers of the connections that are left.\<close>

definition live_readers :: "(nat \<rightharpoonup> 'o connection) \<Rightarrow> readers \<Rightarrow> readers" where
  "live_readers conns rds = rds |` dom conns"

text \<open>A socket's own events: everything but the job channel's branch.\<close>

fun from_socket :: "socket_event \<Rightarrow> bool" where
  "from_socket (Recv_Wins r) \<longleftrightarrow> False"
| "from_socket ev \<longleftrightarrow> True"

inductive socket_step ::
  "hex_crate \<Rightarrow> 'w pool_state session_handler \<Rightarrow> 'w job_source \<Rightarrow> 'o wire \<Rightarrow> u32
     \<Rightarrow> ('w, 'o) system \<times> readers \<Rightarrow> ('w, 'o) system \<times> readers \<Rightarrow> bool"
  for hx h src wr d where
  accept: "sys_conns s i = None \<Longrightarrow>
     socket_step hx h src wr d (s, rds)
       (s\<lparr> sys_server := (sys_server s)\<lparr> pool := on_connect h peer (pool (sys_server s)) \<rparr>,
          sys_conns := (sys_conns s)(i \<mapsto> \<lparr> cn_session = session_state_default, cn_out = out,
            cn_rx = \<lparr> rx_queue = [], rx_missed = 0 \<rparr> \<rparr>) \<rparr>, rds(i \<mapsto> reader_new))"
| wait: "rds i = Some rd \<Longrightarrow> from_socket ev \<Longrightarrow> reader_step ev rd = (None, rd') \<Longrightarrow>
     socket_step hx h src wr d (s, rds) (s, rds(i \<mapsto> rd'))"
| read: "sys_conns s i = Some c \<Longrightarrow> rds i = Some rd \<Longrightarrow> from_socket ev \<Longrightarrow>
     reader_step ev rd = (Some e, rd') \<Longrightarrow>
     after_event h i peer (session_step hx h wr d e (cn_session c) (cn_out c) (sys_server s)) (cn_rx c) s = t \<Longrightarrow>
     socket_step hx h src wr d (s, rds) (t, live_readers (sys_conns t) (rds(i \<mapsto> rd')))"
| recv: "sys_conns s i = Some c \<Longrightarrow> rds i = Some rd \<Longrightarrow> rx_recv (cn_rx c) = Some (recv_event r, rx) \<Longrightarrow>
     reader_step (Recv_Wins r) rd = (Some e, rd') \<Longrightarrow>
     after_event h i peer (session_step hx h wr d e (cn_session c) (cn_out c) (sys_server s)) rx s = t \<Longrightarrow>
     socket_step hx h src wr d (s, rds) (t, live_readers (sys_conns t) (rds(i \<mapsto> rd')))"
| poll: "src (pool_world (pool (sys_server s))) = (current, w) \<Longrightarrow>
     poll_tick current (sys_poller s) = (sent, po) \<Longrightarrow>
     socket_step hx h src wr d (s, rds)
       (s\<lparr> sys_server := (sys_server s)\<lparr> pool := set_world w (pool (sys_server s)) \<rparr>,
          sys_conns := broadcast sent (sys_conns s), sys_poller := po \<rparr>, rds)"

inductive socket_reaches ::
  "hex_crate \<Rightarrow> 'w pool_state session_handler \<Rightarrow> 'w job_source \<Rightarrow> 'o wire \<Rightarrow> u32
     \<Rightarrow> ('w, 'o) system \<Rightarrow> nat \<Rightarrow> ('w, 'o) system \<times> readers \<Rightarrow> bool"
  for hx h src wr d s0 where
  start: "socket_reaches hx h src wr d s0 0 (s0, Map.empty)"
| step: "socket_reaches hx h src wr d s0 n S \<Longrightarrow> socket_step hx h src wr d S T
     \<Longrightarrow> socket_reaches hx h src wr d s0 (Suc n) T"

section \<open>Refinement\<close>

text \<open>Each connection has a reader, and a waiting \<open>read_line\<close> has not seen the end of its line.\<close>

definition readers_ok :: "(nat \<rightharpoonup> 'o connection) \<Rightarrow> readers \<Rightarrow> bool" where
  "readers_ok conns rds \<longleftrightarrow> dom rds = dom conns \<and> (\<forall>i rd. rds i = Some rd \<longrightarrow> newline \<notin> set (part rd))"

lemma reader_step_part:
  "reader_step ev rd = (e, rd') \<Longrightarrow> newline \<notin> set (part rd) \<Longrightarrow> newline \<notin> set (part rd')"
  by (cases ev) (auto simp: poll_line_def split: if_splits)

lemma reader_step_event:
  "reader_step ev rd = (Some e, rd') \<Longrightarrow> from_socket ev \<Longrightarrow> \<exists>line. e = Read_Error \<or> e = Read_Line line"
  by (cases ev) (auto simp: poll_line_def line_event_def split: if_splits)

lemma dom_after_event:
  "sys_conns s i = Some c \<Longrightarrow> dom (sys_conns (after_event h i peer r rx s)) \<subseteq> dom (sys_conns s)"
  by (cases r) (auto simp: after_event_def split: flow.splits if_splits)

lemma dom_broadcast: "dom (broadcast j conns) = dom conns"
  by (auto simp: broadcast_def split: option.splits)

lemma readers_ok_update:
  "readers_ok conns rds \<Longrightarrow> rds i = Some rd \<Longrightarrow> reader_step ev rd = (e, rd') \<Longrightarrow>
     readers_ok conns (rds(i \<mapsto> rd'))"
  by (auto simp: readers_ok_def dest: reader_step_part)

lemma readers_ok_live:
  "readers_ok conns rds \<Longrightarrow> dom conns' \<subseteq> dom conns \<Longrightarrow> readers_ok conns' (live_readers conns' rds)"
  by (auto simp: readers_ok_def live_readers_def restrict_map_def split: if_splits) (metis domD domI subsetD)

text \<open>A step over sockets is a step of the pool that reads lines, or no step of it.\<close>

lemma socket_step_simulated:
  assumes "socket_step hx h src wr d (s, rds) (t, rds')" and ok: "readers_ok (sys_conns s) rds"
  shows "(t = s \<or> system_step hx h src wr d s t) \<and> readers_ok (sys_conns t) rds'"
  using assms(1)
proof (cases rule: socket_step.cases)
  case (accept i peer out)
  then show ?thesis
    using ok by (auto simp: readers_ok_def reader_new_def intro!: system_step.accept)
next
  case (wait i rd ev rd')
  then show ?thesis using readers_ok_update [OF ok] by simp
next
  case (read i c rd ev e rd' peer)
  obtain line where "e = Read_Error \<or> e = Read_Line line"
    using reader_step_event [OF read(5,4)] by blast
  from system_step.read [OF read(2) this refl] have "system_step hx h src wr d s t"
    unfolding read(6) [symmetric] .
  then show ?thesis
    using readers_ok_live [OF readers_ok_update [OF ok read(3,5)]] dom_after_event [OF read(2)] read(1,6)
    by blast
next
  case (recv i c rd r rx e rd' peer)
  from recv(5) have e: "e = recv_event r" by simp
  from system_step.recv [OF recv(2,4) refl] have "system_step hx h src wr d s t"
    unfolding recv(6) [symmetric] e .
  then show ?thesis
    using readers_ok_live [OF readers_ok_update [OF ok recv(3,5)]] dom_after_event [OF recv(2)] recv(1,6)
    by blast
next
  case (poll current w sent po)
  have "system_step hx h src wr d s t"
    unfolding poll(1) by (rule system_step.poll [where src = src]) (rule poll)+
  then show ?thesis using ok poll(1,2) by (simp add: readers_ok_def dom_broadcast)
qed



end
