(* ===== verification/Replay.thy ===== *)
theory Replay
  imports Mining Node_Api
begin

text \<open>
  Submitting the same share again. Neither the session, the handler nor the share processor
  remembers a share, so a share that was accepted once is accepted each time it is sent.
\<close>

text \<open>The same request handled \<open>n\<close> times, with its answers.\<close>

fun dispatch_times ::
  "hex_crate \<Rightarrow> 's session_handler \<Rightarrow> nat \<Rightarrow> sv1_request \<Rightarrow> session_state \<Rightarrow> 's server
     \<Rightarrow> (job option \<times> sv1_response) option list \<times> session_state \<times> 's server" where
  "dispatch_times hx h 0 req ss sv = ([], ss, sv)"
| "dispatch_times hx h (Suc n) req ss sv =
     (let (r, ss, sv) = dispatch_request hx h req ss sv; (rs, ss, sv) = dispatch_times hx h n req ss sv
      in (r # rs, ss, sv))"

text \<open>What the share API is told of a share, \<open>n\<close> times.\<close>

definition reports ::
  "'w share_processor \<Rightarrow> share_submission \<Rightarrow> share_result \<Rightarrow> nat \<Rightarrow> 'w \<Rightarrow> 'w" where
  "reports self share r n =
     ((\<lambda>w. case sp_share_sink self of None \<Rightarrow> w
                                 | Some sink \<Rightarrow> snd (sink share r (sp_pool_difficulty self) w)) ^^ n)"

lemma reports_Suc:
  "reports self share r (Suc n) (st_world st) = reports self share r n (st_world (record_share_result self share r st))"
proof -
  have "st_world (record_share_result self share r st)
      = (case sp_share_sink self of None \<Rightarrow> st_world st
         | Some sink \<Rightarrow> snd (sink share r (sp_pool_difficulty self) (st_world st)))"
    by (auto simp: record_share_result_def Let_def split: option.split prod.split sum.split)
  then show ?thesis by (simp add: reports_def funpow_Suc_right del: funpow.simps)
qed

lemma last_n_replicate:
  "length l \<le> n \<Longrightarrow> last_n n (last_n n (l @ [e]) @ replicate k e) = last_n n (l @ replicate (Suc k) e)"
proof (induction k)
  case (Suc k)
  have "last_n n (last_n n (l @ [e]) @ replicate (Suc k) e)
      = last_n n (last_n n (last_n n (l @ [e]) @ replicate k e) @ [e])"
    by (simp add: last_n_snoc replicate_append_same)
  with Suc show ?case by (simp add: last_n_snoc replicate_append_same)
qed (simp add: last_n_def)

lemma accepted_submit:
  assumes "share_verdict hx (sh_processor self) share (st_registry (pl_share p)) = Accepted"
  shows "pool_on_submit hx btc sha self share p
     = (Some Accepted, p\<lparr> pl_share := record_share_result (sh_processor self) share Accepted (pl_share p) \<rparr>)"
  using assms by (simp add: pool_on_submit_def process_share_eq finish_def Let_def)

text \<open>
  Property C15.
  A share that the pool accepts is accepted every time it is sent: \<open>n\<close> equal submissions of
  an authorized session are all answered true, the log gets \<open>n\<close> equal accepted attempts, and
  the share API is told \<open>n\<close> times of an accepted share, each time with \<open>duplicate\<close> false. There is no step at which a share is compared with earlier ones.
\<close>

theorem replayed_share_paid_again:
  assumes "map_request_to_command hx req = Inr (Some (SubmitShare u jid en2 nt nonce b))"
    and "authorized_worker ss = Some worker" and "submit_allowed ss u b"
    and share: "share = session_share ss worker jid en2 nt nonce b"
    and "share_verdict hx (sh_processor self) share (pool_jobs (pool sv)) = Accepted"
    and "length (st_recent (pl_share (pool sv))) \<le> 100"
  shows "\<exists>sv'. dispatch_times hx (pool_handler hx btc sha self) n req ss sv
       = (replicate n (Some (None, build_submit_success (rq_id req))), ss, sv')
     \<and> recent (st_recent (pl_share (pool sv')))
         = last_n 100 (recent (st_recent (pl_share (pool sv))) @ replicate n (share_attempt_of share Accepted))
     \<and> pool_world (pool sv') = reports (sh_processor self) share Accepted n (pool_world (pool sv))
     \<and> json_get ''duplicate'' (share_request_json (build_share_request hx now share Accepted d)) = Some (JBool False)"
proof -
  have dup: "json_get ''duplicate'' (share_request_json (build_share_request hx now share Accepted d)) = Some (JBool False)"
    by (simp add: share_request_json_def json_get_def obj_get_def build_share_request_def)
  have once: "dispatch_request hx (pool_handler hx btc sha self) req ss sv
      = (Some (None, build_submit_success (rq_id req)), ss,
         sv\<lparr> pool := (pool sv)\<lparr> pl_share := record_share_result (sh_processor self) share Accepted (pl_share (pool sv)) \<rparr> \<rparr>)"
    if "share_verdict hx (sh_processor self) share (pool_jobs (pool sv)) = Accepted" for sv
    using assms(1-4) that
    by (cases b) (auto simp: dispatch_request_def dispatch_submit_def submit_allowed_def pool_handler_def
        accepted_submit pool_jobs_def submit_response_def)
  show ?thesis
    using assms(5,6)
  proof (induction n arbitrary: sv)
    case 0
    then show ?case by (simp add: dup reports_def recent_def last_n_def)
  next
    case (Suc n)
    let ?st = "record_share_result (sh_processor self) share Accepted (pl_share (pool sv))"
    let ?sv = "sv\<lparr> pool := (pool sv)\<lparr> pl_share := ?st \<rparr> \<rparr>"
    have log: "st_recent ?st = last_n 100 (st_recent (pl_share (pool sv)) @ [share_attempt_of share Accepted])"
      using Suc.prems(2) by (simp add: record_attempt_eq MAX_RECENT_def)
    have "share_verdict hx (sh_processor self) share (pool_jobs (pool ?sv)) = Accepted"
      using Suc.prems(1) by (simp add: pool_jobs_def)
    moreover have "length (st_recent (pl_share (pool ?sv))) \<le> 100"
      using log by (simp del: record_share_result_simps)
    ultimately obtain sv' where sv': "dispatch_times hx (pool_handler hx btc sha self) n req ss ?sv
        = (replicate n (Some (None, build_submit_success (rq_id req))), ss, sv')"
      "recent (st_recent (pl_share (pool sv')))
         = last_n 100 (recent (st_recent ?st) @ replicate n (share_attempt_of share Accepted))"
      "pool_world (pool sv') = reports (sh_processor self) share Accepted n (st_world ?st)"
      using Suc.IH [of ?sv] by (auto simp: pool_world_def)
    have "reports (sh_processor self) share Accepted (Suc n) (pool_world (pool sv))
        = reports (sh_processor self) share Accepted n (st_world ?st)"
      by (simp add: pool_world_def reports_Suc)
    with sv' show ?case
      using once [OF Suc.prems(1)] last_n_replicate [OF Suc.prems(2)] dup log
      by (simp add: recent_def del: record_share_result_simps)
  qed
qed

text \<open>A pool without a validator, whose share API counts what it is told.\<close>

definition counting_handler :: "nat sv1_handler" where
  "counting_handler =
     \<lparr> sh_job_source = (\<lambda>w. (None, w)),
       sh_processor = processor_new_with_share_sink (Some (\<lambda>share r d w. (Inr (), w + 1))),
       sh_submitter = (\<lambda>b w. (Inr True, w)), sh_payout_script_pubkey = None \<rparr>"

definition counting_pool :: "nat pool_state" where
  "counting_pool =
     \<lparr> pl_stats = stats_new ''p'', pl_workers = workers_new,
       pl_share = \<lparr> st_registry = register job_placeholder registry_new,
                    st_recent = recent_shares_new, st_world = 0 \<rparr> \<rparr>"

theorem replayed_share_paid_again_witness:
  "\<exists>sv'. dispatch_times sample_hex (pool_handler sample_hex (sample_bitcoin []) sample_sha counting_handler) 3
       (submit_request None ''u.w'' ''0'' [1, 2, 3, 4] 0 0 None) sample_session (server_start counting_pool)
     = (replicate 3 (Some (None, build_submit_success None)), sample_session, sv')
   \<and> length (recent (st_recent (pl_share (pool sv')))) = 3 \<and> pool_world (pool sv') = 3"
proof -
  let ?worker = "worker_identity_new ''u.w''"
  let ?share = "session_share sample_session ?worker ''0'' [1, 2, 3, 4] 0 0 None"
  have cmd: "map_request_to_command sample_hex (submit_request None ''u.w'' ''0'' [1, 2, 3, 4] 0 0 None)
      = Inr (Some (SubmitShare ''u.w'' ''0'' [1, 2, 3, 4] 0 0 None))"
    using map_submit_request [OF sample_hex_documented, of None "''u.w''" "''0''" "[1, 2, 3, 4]" 0 0 None]
    by (simp add: map_request_to_command_def submit_request_def)
  have auth: "authorized_worker sample_session = Some ?worker" and ok: "submit_allowed sample_session ''u.w'' None"
    by (simp_all add: sample_session_def submit_allowed_def worker_identity_new_def split: prod.split)
  have live: "get_job ''0'' (register job_placeholder registry_new) = Some job_placeholder"
    using sample_pool_live by (simp add: sample_pool_def sample_share_def pool_jobs_def)
  have verdict: "share_verdict sample_hex (sh_processor counting_handler) ?share
      (pool_jobs (pool (server_start counting_pool))) = Accepted"
    using live
    by (simp add: share_verdict_def check_shape_def session_share_def sample_session_def counting_handler_def
        processor_new_with_share_sink_def pool_jobs_def server_start_def counting_pool_def)
  have fresh: "st_recent (pl_share (pool (server_start counting_pool))) = []"
    by (simp add: server_start_def counting_pool_def recent_shares_new_def)
  have counted: "reports (sh_processor counting_handler) ?share Accepted 3 (pool_world (pool (server_start counting_pool))) = 3"
    by (simp add: reports_def counting_handler_def processor_new_with_share_sink_def pool_world_def
        server_start_def counting_pool_def numeral_3_eq_3)
  have id: "rq_id (submit_request None ''u.w'' ''0'' [1, 2, 3, 4] 0 0 None) = None"
    by (simp add: submit_request_def)
  obtain sv' where "dispatch_times sample_hex (pool_handler sample_hex (sample_bitcoin []) sample_sha counting_handler) 3
       (submit_request None ''u.w'' ''0'' [1, 2, 3, 4] 0 0 None) sample_session (server_start counting_pool)
     = (replicate 3 (Some (None, build_submit_success None)), sample_session, sv')"
    and "recent (st_recent (pl_share (pool sv'))) = last_n 100 ([] @ replicate 3 (share_attempt_of ?share Accepted))"
    and "pool_world (pool sv') = 3"
    using replayed_share_paid_again [OF cmd auth ok refl verdict, of "sample_bitcoin []" sample_sha 3]
    unfolding counted id fresh recent_def by auto
  then show ?thesis by auto
qed

end
