(* ===== verification/Late_Delivery.thy ===== *)
theory Late_Delivery
  imports System_Progress
begin

text \<open>
  Jobs are registered when they are sent to a miner (\<open>on_notify_sent\<close>), one session at a time
  and each at its own pace, and a clean job empties the registry. So a session that is behind
  registers an old job after a faster one has registered the newest.
\<close>

lemma pool_handler_notify: "on_notify_sent (pool_handler hx btc sha self) = pool_on_notify_sent"
  by (simp add: pool_handler_def)

lemma register_clean:
  "clean_jobs c \<Longrightarrow> get_job i (register c r) = (if i = job_id c then Some c else None)"
  by (simp add: register_def register_entry_def get_job_def)

lemma recv_step_ex:
  assumes "sys_conns s b = Some c" and "rx_recv (cn_rx c) = Some (ev, rx)"
  shows "recv_step hx h wr d b s
     (after_event h b peer (session_step hx h wr d ev (cn_session c) (cn_out c) (sys_server s)) rx s)"
  using assms unfolding recv_step_def by blast

text \<open>A delivery to session \<open>b\<close> registers the job and leaves the other connections alone.\<close>

lemma recv_delivers:
  assumes up: "wire_up wr" and b: "sys_conns s b = Some cb" "authorized_worker (cn_session cb) \<noteq> None"
    and queue: "rx_queue (cn_rx cb) = j # js" "rx_missed (cn_rx cb) = 0"
    and new: "last_notify_job_id (cn_session cb) \<noteq> Some (job_id j)"
    and step: "recv_step hx (pool_handler hx btc sha self) wr d b s t"
  shows "pool_jobs (pool (sys_server t)) = register j (pool_jobs (pool (sys_server s)))
     \<and> (\<forall>a. a \<noteq> b \<longrightarrow> sys_conns t a = sys_conns s a)
     \<and> pool_world (pool (sys_server t)) = pool_world (pool (sys_server s))"
proof -
  obtain out' where send: "send_job_notify hx wr j d (cn_out cb) = (True, out')"
    using send_job_notify_up [OF up] by blast
  from step b queue obtain peer where t: "t = after_event (pool_handler hx btc sha self) b peer
      (session_step hx (pool_handler hx btc sha self) wr d (Recv_Job j) (cn_session cb) (cn_out cb) (sys_server s))
      ((cn_rx cb)\<lparr> rx_queue := js \<rparr>) s"
    by (auto simp: recv_step_def rx_recv_def)
  show ?thesis
    using b new by (auto simp: t after_event_def deliver_job_def send pool_handler_notify pool_on_notify_sent_def
        pool_jobs_def pool_world_def)
qed

lemma unknown_never_accepted:
  assumes "get_job (share_job_id share) (pool_jobs p) = None"
  shows "\<exists>r. fst (pool_on_submit hx btc sha self share p) = Some r \<and> \<not> is_accepted r"
proof -
  have v: "\<not> is_accepted (share_verdict hx (sh_processor self) share (st_registry (pl_share p)))"
    using assms check_shape_rejects [of share]
    by (auto simp: share_verdict_def pool_jobs_def split: option.split)
  then have "share_verdict hx (sh_processor self) share (st_registry (pl_share p)) \<noteq> Block"
    by auto
  with v show ?thesis
    by (simp add: pool_on_submit_def process_share_eq Let_def split: prod.split) (simp add: finish_def)
qed

text \<open>
  Property C16.
  A session that is behind takes the newest job away from everybody. Let session \<open>a\<close> have been
  sent the job \<open>new\<close>, and let an older clean job be next in the queue of session \<open>b\<close>. When it is
  received, the pool's registry holds the old job only: nothing has changed for \<open>a\<close>, whose
  last notification is still \<open>new\<close>, and no share on it is accepted any more.
\<close>

theorem late_clean_job_invalidates_newest:
  assumes up: "wire_up wr" and a: "sys_conns s a = Some ca" and ab: "a \<noteq> b"
    and b: "sys_conns s b = Some cb" "authorized_worker (cn_session cb) \<noteq> None"
    and queue: "rx_queue (cn_rx cb) = old # js" "rx_missed (cn_rx cb) = 0"
    and fresh: "last_notify_job_id (cn_session cb) \<noteq> Some (job_id old)"
    and old: "clean_jobs old" "job_id old \<noteq> job_id new"
    and told: "last_notify_job_id (cn_session ca) = Some (job_id new)"
    and step: "recv_step hx (pool_handler hx btc sha self) wr d b s t"
  shows "(\<exists>c. sys_conns t a = Some c \<and> last_notify_job_id (cn_session c) = Some (job_id new))
     \<and> get_job (job_id old) (pool_jobs (pool (sys_server t))) = Some old
     \<and> get_job (job_id new) (pool_jobs (pool (sys_server t))) = None
     \<and> (\<forall>share. share_job_id share = job_id new \<longrightarrow>
          (\<exists>r. fst (pool_on_submit hx btc sha self share (pool (sys_server t))) = Some r \<and> \<not> is_accepted r))"
proof -
  note d = recv_delivers [OF up b queue fresh step]
  then have "get_job (job_id new) (pool_jobs (pool (sys_server t))) = None"
    and "get_job (job_id old) (pool_jobs (pool (sys_server t))) = Some old"
    using old by (auto simp: register_clean)
  with d a ab told show ?thesis by (auto intro: unknown_never_accepted)
qed

text \<open>
  A run that gets there: two connections authorize before there is a job, the poller announces
  an old and a new job, and the first session receives both before the second receives any.
\<close>

definition script_source :: "job option list job_source" where
  "script_source w = (case w of [] \<Rightarrow> (None, []) | j # js \<Rightarrow> (j, js))"

definition script_handler :: "job option list sv1_handler" where
  "script_handler =
     \<lparr> sh_job_source = script_source, sh_processor = processor_new_with_share_sink None,
       sh_submitter = (\<lambda>b w. (Inr True, w)), sh_payout_script_pubkey = None \<rparr>"

definition numbered_job :: "string \<Rightarrow> job" where
  "numbered_job i = job_placeholder\<lparr> job_id := i \<rparr>"

definition script_start :: "(job option list, nat) system" where
  "script_start =
     \<lparr> sys_server = server_start
          \<lparr> pl_stats = stats_new ''p'', pl_workers = workers_new,
            pl_share = \<lparr> st_registry = registry_new, st_recent = recent_shares_new,
              st_world = [None, None, Some (numbered_job ''1''), Some (numbered_job ''2'')] \<rparr> \<rparr>,
       sys_conns = Map.empty, sys_poller = poller_start \<rparr>"

abbreviation script_step ::
  "(job option list, nat) system \<Rightarrow> (job option list, nat) system \<Rightarrow> bool" where
  "script_step \<equiv> system_step sample_hex (pool_handler sample_hex sample_btc sample_sha script_handler)
     script_source (sample_wire sample_authorize) 1"

abbreviation script_reaches :: "nat \<Rightarrow> (job option list, nat) system \<Rightarrow> bool" where
  "script_reaches \<equiv> system_reaches sample_hex (pool_handler sample_hex sample_btc sample_sha script_handler)
     script_source (sample_wire sample_authorize) 1 script_start"

lemma script_accept:
  assumes "script_reaches n s" and "sys_conns s i = None"
  shows "\<exists>t c. script_reaches (Suc n) t \<and> sys_conns t = (sys_conns s)(i \<mapsto> c)
     \<and> cn_session c = session_state_default \<and> cn_rx c = \<lparr> rx_queue = [], rx_missed = 0 \<rparr>
     \<and> sys_poller t = sys_poller s \<and> pool_world (pool (sys_server t)) = pool_world (pool (sys_server s))"
  using system_reaches.step [OF assms(1) system_step.accept [where out = 0, OF assms(2)]]
  by (fastforce simp: pool_handler_def pool_on_connect_def pool_world_def)

lemma script_authorize_step:
  assumes "script_source (pool_world (pool sv)) = (None, w)"
  shows "\<exists>sv'. session_step sample_hex (pool_handler sample_hex sample_btc sample_sha script_handler)
       (sample_wire sample_authorize) 1 (Read_Line ''x'') session_state_default out sv
     = (Running, session_state_default\<lparr> authorized_worker := Some (worker_identity_new ''u'') \<rparr>, Suc out, sv')
     \<and> pool_world (pool sv') = w"
proof -
  have t: "trim ''x'' = ''x''" by (rule trim_printable) (simp add: printable_def char_nat_def)
  have m: "map_request_to_command sample_hex sample_authorize = Inr (Some (Authorize ''u'' []))"
    by (simp add: map_request_to_command_def sample_authorize_def param_str_def list_get_def)
  show ?thesis
    using assms
    by (simp add: t sample_wire_def handle_request_def dispatch_request_def m dispatch_authorize_def
        pool_handler_def pool_on_authorize_def Let_def script_handler_def write_json_line_def
        pool_world_def [of "_\<lparr> pl_workers := _ \<rparr>"] flip: pool_world_def)
qed

lemma script_authorize:
  assumes reach: "script_reaches n s" and c: "sys_conns s i = Some c" "cn_session c = session_state_default"
    and src: "script_source (pool_world (pool (sys_server s))) = (None, w)"
  shows "\<exists>t c'. script_reaches (Suc n) t \<and> sys_conns t = (sys_conns s)(i \<mapsto> c') \<and> cn_rx c' = cn_rx c
     \<and> cn_session c' = session_state_default\<lparr> authorized_worker := Some (worker_identity_new ''u'') \<rparr>
     \<and> sys_poller t = sys_poller s \<and> pool_world (pool (sys_server t)) = w"
proof -
  obtain sv' where st: "session_step sample_hex (pool_handler sample_hex sample_btc sample_sha script_handler)
       (sample_wire sample_authorize) 1 (Read_Line ''x'') (cn_session c) (cn_out c) (sys_server s)
     = (Running, session_state_default\<lparr> authorized_worker := Some (worker_identity_new ''u'') \<rparr>, Suc (cn_out c), sv')"
    and w: "pool_world (pool sv') = w"
    using script_authorize_step [OF src] unfolding c(2) by blast
  note r = system_reaches.step [OF reach system_step.read [OF c(1) disjI2 [OF refl] st]]
  show ?thesis
    using r [of "[]"] w by (fastforce simp: after_event_def)
qed

lemma script_poll:
  assumes reach: "script_reaches n s" and src: "script_source (pool_world (pool (sys_server s))) = (Some j, w)"
    and new: "job_id j \<noteq> last_job_id (sys_poller s)"
  shows "\<exists>t. script_reaches (Suc n) t \<and> sys_conns t = broadcast (Some j) (sys_conns s)
     \<and> last_job_id (sys_poller t) = job_id j \<and> pool_world (pool (sys_server t)) = w"
  using system_reaches.step [OF reach after_poll_step [where src = script_source, OF src]] new
  by (fastforce simp: after_poll_def poll_tick_def Let_def)

lemma script_recv:
  assumes reach: "script_reaches n s" and c: "sys_conns s i = Some c" "authorized_worker (cn_session c) \<noteq> None"
    and queue: "rx_queue (cn_rx c) = j # js" "rx_missed (cn_rx c) = 0"
    and fresh: "last_notify_job_id (cn_session c) \<noteq> Some (job_id j)"
  shows "\<exists>t c'. script_reaches (Suc n) t \<and> sys_conns t i = Some c' \<and> authorized_worker (cn_session c') \<noteq> None
     \<and> last_notify_job_id (cn_session c') = Some (job_id j) \<and> rx_queue (cn_rx c') = js \<and> rx_missed (cn_rx c') = 0
     \<and> (\<forall>a. a \<noteq> i \<longrightarrow> sys_conns t a = sys_conns s a)"
proof -
  have up: "wire_up (sample_wire sample_authorize)" by (simp add: wire_up_def sample_wire_def)
  have "rx_queue (cn_rx c) \<noteq> [] \<or> rx_missed (cn_rx c) \<noteq> 0" using queue by simp
  from recv_enabled [OF c(1) this] obtain t where
    t: "recv_step sample_hex (pool_handler sample_hex sample_btc sample_sha script_handler)
          (sample_wire sample_authorize) 1 i s t" by blast
  from system_reaches.step [OF reach recv_step_system [OF t]] recv_job [OF up c queue t]
    recv_delivers [OF up c queue fresh t] c(2)
  show ?thesis by auto
qed

lemma script_late:
  "\<exists>s c0 c1. script_reaches 8 s \<and> sys_conns s 0 = Some c0 \<and> sys_conns s (Suc 0) = Some c1
     \<and> last_notify_job_id (cn_session c0) = Some ''2'' \<and> authorized_worker (cn_session c1) \<noteq> None
     \<and> last_notify_job_id (cn_session c1) = None
     \<and> rx_queue (cn_rx c1) = [numbered_job ''1'', numbered_job ''2''] \<and> rx_missed (cn_rx c1) = 0"
proof -
  have ids: "job_id (numbered_job i) = i" for i by (simp add: numbered_job_def)
  have fresh: "last_notify_job_id session_state_default = None" by (simp add: session_state_default_def)
  have r0: "script_reaches 0 script_start" by (rule system_reaches.start)
  obtain s1 c where s1: "script_reaches (Suc 0) s1" "sys_conns s1 = [0 \<mapsto> c]"
    "cn_session c = session_state_default" "cn_rx c = \<lparr> rx_queue = [], rx_missed = 0 \<rparr>"
    "sys_poller s1 = poller_start"
    "pool_world (pool (sys_server s1)) = [None, None, Some (numbered_job ''1''), Some (numbered_job ''2'')]"
    using script_accept [OF r0, of 0] by (auto simp: script_start_def server_start_def pool_world_def)
  obtain s2 c' where s2: "script_reaches (Suc (Suc 0)) s2" "sys_conns s2 = [0 \<mapsto> c, Suc 0 \<mapsto> c']"
    "cn_session c' = session_state_default" "cn_rx c' = \<lparr> rx_queue = [], rx_missed = 0 \<rparr>"
    "sys_poller s2 = poller_start"
    "pool_world (pool (sys_server s2)) = [None, None, Some (numbered_job ''1''), Some (numbered_job ''2'')]"
    using script_accept [OF s1(1), of "Suc 0"] s1(2,5,6) by auto
  let ?auth = "session_state_default\<lparr> authorized_worker := Some (worker_identity_new ''u'') \<rparr>"
  obtain s3 d where s3: "script_reaches (Suc (Suc (Suc 0))) s3" "sys_conns s3 = [0 \<mapsto> d, Suc 0 \<mapsto> c']"
    "cn_rx d = \<lparr> rx_queue = [], rx_missed = 0 \<rparr>" "cn_session d = ?auth" "sys_poller s3 = poller_start"
    "pool_world (pool (sys_server s3)) = [None, Some (numbered_job ''1''), Some (numbered_job ''2'')]"
    using script_authorize [OF s2(1), of 0 c] s1(3,4) s2(2,5,6) by (auto simp: script_source_def fun_upd_twist)
  obtain s4 d' where s4: "script_reaches (Suc (Suc (Suc (Suc 0)))) s4" "sys_conns s4 = [0 \<mapsto> d, Suc 0 \<mapsto> d']"
    "cn_rx d' = \<lparr> rx_queue = [], rx_missed = 0 \<rparr>" "cn_session d' = ?auth" "sys_poller s4 = poller_start"
    "pool_world (pool (sys_server s4)) = [Some (numbered_job ''1''), Some (numbered_job ''2'')]"
    using script_authorize [OF s3(1), of "Suc 0" c'] s2(3,4) s3(2,5,6) by (auto simp: script_source_def)
  obtain s5 where s5: "script_reaches (Suc (Suc (Suc (Suc (Suc 0))))) s5"
    "sys_conns s5 = broadcast (Some (numbered_job ''1'')) (sys_conns s4)" "last_job_id (sys_poller s5) = ''1''"
    "pool_world (pool (sys_server s5)) = [Some (numbered_job ''2'')]"
    using script_poll [OF s4(1)] s4(5,6) by (auto simp: script_source_def poller_start_def ids)
  obtain s6 where s6: "script_reaches (Suc (Suc (Suc (Suc (Suc (Suc 0)))))) s6"
    "sys_conns s6 = broadcast (Some (numbered_job ''2'')) (sys_conns s5)"
    using script_poll [OF s5(1)] s5(3,4) by (auto simp: script_source_def ids)
  let ?queued = "\<lambda>d :: nat connection. d\<lparr> cn_rx := \<lparr> rx_queue = [numbered_job ''1'', numbered_job ''2''], rx_missed = 0 \<rparr> \<rparr>"
  have q: "sys_conns s6 0 = Some (?queued d)" "sys_conns s6 (Suc 0) = Some (?queued d')"
    unfolding s6(2) s5(2) s4(2) using s3(3) s4(3)
    by (simp_all add: broadcast_def rx_send_def BROADCAST_CAPACITY_def)
  obtain s7 e where s7: "script_reaches (Suc (Suc (Suc (Suc (Suc (Suc (Suc 0))))))) s7" "sys_conns s7 0 = Some e"
    "authorized_worker (cn_session e) \<noteq> None" "last_notify_job_id (cn_session e) = Some ''1''"
    "rx_queue (cn_rx e) = [numbered_job ''2'']" "rx_missed (cn_rx e) = 0" "sys_conns s7 (Suc 0) = sys_conns s6 (Suc 0)"
    using script_recv [OF s6(1) q(1)] s3(4) fresh by (auto simp: ids)
  obtain s8 e' where s8: "script_reaches (Suc (Suc (Suc (Suc (Suc (Suc (Suc (Suc 0)))))))) s8" "sys_conns s8 0 = Some e'"
    "last_notify_job_id (cn_session e') = Some ''2''" "sys_conns s8 (Suc 0) = sys_conns s7 (Suc 0)"
    using script_recv [OF s7(1,2,3,5,6)] s7(4) by (auto simp: ids)
  have eight: "Suc (Suc (Suc (Suc (Suc (Suc (Suc (Suc 0))))))) = 8" by simp
  from s8(1) have "script_reaches 8 s8" unfolding eight .
  then show ?thesis using s8(2-) s7(7) q(2) s4(4) fresh by (intro exI [of _ s8]) auto
qed

theorem late_clean_job_invalidates_newest_witness:
  "\<exists>s t c. script_reaches 9 t \<and> sys_conns t 0 = Some c \<and> last_notify_job_id (cn_session c) = Some ''2''
     \<and> get_job ''2'' (pool_jobs (pool (sys_server t))) = None"
proof -
  obtain s c0 c1 where s: "script_reaches 8 s" "sys_conns s 0 = Some c0" "sys_conns s (Suc 0) = Some c1"
    "last_notify_job_id (cn_session c0) = Some ''2''" "authorized_worker (cn_session c1) \<noteq> None"
    "last_notify_job_id (cn_session c1) = None"
    "rx_queue (cn_rx c1) = [numbered_job ''1'', numbered_job ''2'']" "rx_missed (cn_rx c1) = 0"
    using script_late by blast
  have up: "wire_up (sample_wire sample_authorize)" by (simp add: wire_up_def sample_wire_def)
  have "rx_queue (cn_rx c1) \<noteq> [] \<or> rx_missed (cn_rx c1) \<noteq> 0" using s(7) by simp
  from recv_enabled [OF s(3) this] obtain t where
    t: "recv_step sample_hex (pool_handler sample_hex sample_btc sample_sha script_handler)
          (sample_wire sample_authorize) 1 (Suc 0) s t" by blast
  have jobs: "last_notify_job_id (cn_session c1) \<noteq> Some (job_id (numbered_job ''1''))" "clean_jobs (numbered_job ''1'')"
    "job_id (numbered_job ''1'') \<noteq> job_id (numbered_job ''2'')"
    "last_notify_job_id (cn_session c0) = Some (job_id (numbered_job ''2''))"
    using s(4,6) by (simp_all add: numbered_job_def job_placeholder_def)
  have r9: "script_reaches 9 t"
    using system_reaches.step [OF s(1) recv_step_system [OF t]] by simp
  have ne: "(0 :: nat) \<noteq> Suc 0" by simp
  from late_clean_job_invalidates_newest [OF up s(2) ne s(3,5,7,8) jobs t] r9 s(2)
  show ?thesis by (auto simp: numbered_job_def)
qed

end
