(* ===== verification/Submission_Modes.thy ===== *)
theory Submission_Modes
  imports System_Jobs
begin

text \<open>
  Which configurations of the pool can submit a block at all. A job carries the parts of its
  block (\<open>block_assembly\<close>) only when it comes from a template of the daemon, and the RPC job
  source needs a payout script.
\<close>

interpretation api_source: good_source "node_api_current_job crate http fv client" "\<lambda>j. block_assembly j = None"
  for crate http fv client
  by unfold_locales (auto simp: node_api_current_job_def api_job_Inr split: prod.splits sum.splits option.splits)

interpretation unpaid_source: good_source "rpc_current_job crate coin http fv (rpc_job_source_new daemon None)"
    "\<lambda>j. False" for crate coin http fv daemon
  by unfold_locales (auto simp: rpc_current_job_def rpc_job_source_new_def split: prod.splits sum.splits option.splits)

text \<open>A share on a job without a block does not reach the submitter.\<close>

lemma unassembled_not_submitted:
  assumes "\<And>j. get_job (share_job_id share) (pool_jobs p) = Some j \<Longrightarrow> block_assembly j = None"
  shows "pool_on_submit hx btc sha (self\<lparr> sh_submitter := submit \<rparr>) share p = pool_on_submit hx btc sha self share p"
proof -
  have "maybe_submit_block_candidate hx btc sha (self\<lparr> sh_submitter := submit \<rparr>) share q
      = maybe_submit_block_candidate hx btc sha self share q" if "pool_jobs q = pool_jobs p" for q
    using assms that
    by (auto simp: maybe_submit_block_candidate_def Let_def submit_block_candidate_def pool_jobs_def
        split: option.split prod.split sum.split)
  then show ?thesis
    by (simp add: pool_on_submit_def pool_jobs_def process_share_eq finish_def Let_def)
qed

text \<open>
  Property C26.
  Without RPC mode and a payout script no block is ever submitted. When the configuration
  selects the node API, every job that lives in a reachable state of the pool is without the
  parts of its block; when it selects RPC without a payout script there are no jobs at all. So
  the block submitter is never called: another one in its place changes no answer and no state.
\<close>

theorem submission_needs_rpc_and_script:
  assumes main: "main_handler cr config = Inr self"
    and mode: "ds_job_source_mode (cfg_daemon config) = Api
       \<or> payout_script_pubkey_bytes (cr_hex cr) (cfg_pool config) = Inr None"
    and reach: "system_reaches hx (pool_handler hx btc sha self) (sh_job_source self) wr d
           (system_start cr config w) n s"
  shows "(\<forall>i j. get_job i (pool_jobs (pool (sys_server s))) = Some j \<longrightarrow>
            ds_job_source_mode (cfg_daemon config) = Api \<and> block_assembly j = None)
     \<and> pool_on_submit hx btc sha (self\<lparr> sh_submitter := submit \<rparr>) share (pool (sys_server s))
         = pool_on_submit hx btc sha self share (pool (sys_server s))"
proof -
  have reach': "system_reaches hx (pool_handler hx btc sha (self\<lparr> sh_job_source := build_job_source cr config \<rparr>))
      (build_job_source cr config) wr d (system_start cr config w) n s"
    using reach by (simp only: main_handler_source [OF main])
  have live: "ds_job_source_mode (cfg_daemon config) = Api \<and> block_assembly j = None"
    if "get_job i (pool_jobs (pool (sys_server s))) = Some j" for i j
  proof (cases "ds_job_source_mode (cfg_daemon config)")
    case Api
    then have src: "build_job_source cr config = node_api_current_job (cr_hex cr) (cr_http cr) (cr_node_api_template cr)
        (node_api_job_source_new (ds_url (cfg_daemon config)) (token_option (ds_node_api_token (cfg_daemon config))))"
      by (simp add: build_job_source_def)
    from api_source.travel.reaches_keeps [OF reach' [unfolded src] live_jobs_start queues_good_start] Api that
    show ?thesis by (auto simp: live_jobs_def)
  next
    case Rpc
    with mode have src: "build_job_source cr config = rpc_current_job (cr_hex cr) (cr_btc cr) (cr_http cr) (cr_block_template cr)
        (rpc_job_source_new (cfg_daemon config) None)"
      by (simp add: build_job_source_def ok_flatten_def)
    from unpaid_source.travel.reaches_keeps [OF reach' [unfolded src] live_jobs_start queues_good_start] that
    show ?thesis by (auto simp: live_jobs_def)
  qed
  then show ?thesis using unassembled_not_submitted [of share "pool (sys_server s)"] by blast
qed

text \<open>The default configuration, with a connection.\<close>

theorem submission_needs_rpc_and_script_witness:
  "\<exists>self s c. main_handler sample_crates pool_config_default = Inr self
     \<and> system_reaches sample_hex (pool_handler sample_hex sample_btc sample_sha self) (sh_job_source self)
          (sample_wire sample_subscribe) 1 (system_start sample_crates pool_config_default []) 1 s
     \<and> sys_conns s 0 = Some (c :: nat connection)
     \<and> pool_on_submit sample_hex sample_btc sample_sha (self\<lparr> sh_submitter := \<lambda>b w. (Inl ''down'', w) \<rparr>)
          sample_share (pool (sys_server s))
         = pool_on_submit sample_hex sample_btc sample_sha self sample_share (pool (sys_server s))"
proof -
  have "trim [] = []" by (rule trim_printable) (simp add: printable_def)
  then have script: "payout_script_pubkey_bytes (cr_hex sample_crates) (cfg_pool pool_config_default) = Inr None"
    by (simp add: payout_script_pubkey_bytes_def pool_config_default_def pool_section_default_def)
  then obtain self where self: "main_handler sample_crates pool_config_default = Inr self"
    unfolding main_handler_def Let_def by simp
  let ?s0 = "system_start sample_crates pool_config_default [] :: (http_request list, nat) system"
  have "sys_conns ?s0 0 = None" by (simp add: system_start_def)
  from system_reaches.step [OF system_reaches.start system_step.accept [where out = 0, OF this]]
  obtain s c where reach: "system_reaches sample_hex (pool_handler sample_hex sample_btc sample_sha self)
      (sh_job_source self) (sample_wire sample_subscribe) 1 ?s0 1 s" and c: "sys_conns s 0 = Some c"
    by fastforce
  from submission_needs_rpc_and_script [OF self disjI2 [OF script] reach] self reach c show ?thesis by blast
qed

end
