(* ===== verification/Start_Up.thy ===== *)
theory Start_Up
  imports System
begin

text \<open>
  From the environment and the configuration file to the running pool: what \<open>main\<close> starts, and
  when it does not start.
\<close>

text \<open>The settings before the environment: the file \<open>config.toml\<close>, or the defaults without one.\<close>

definition file_settings ::
  "(string \<Rightarrow> string + pool_config) \<Rightarrow> (string \<Rightarrow> string option) \<Rightarrow> string + pool_config" where
  "file_settings toml read_to_string =
     (case read_to_string ''config.toml'' of None \<Rightarrow> Inr pool_config_default | Some s \<Rightarrow> toml s)"

definition script_setting :: "(string \<Rightarrow> string option) \<Rightarrow> pool_config \<Rightarrow> string" where
  "script_setting env base =
     trim (or_else (map_option trim (env ''POOL__PAYOUT_SCRIPT_PUBKEY_HEX'')) (payout_script_pubkey_hex (cfg_pool base)))"

definition mode_setting :: "(string \<Rightarrow> string option) \<Rightarrow> pool_config \<Rightarrow> job_source_mode" where
  "mode_setting env base =
     or_else (Option.bind (env ''DAEMON__JOB_SOURCE_MODE'') parse_job_source_mode) (ds_job_source_mode (cfg_daemon base))"

definition difficulty_setting :: "(string \<Rightarrow> string option) \<Rightarrow> pool_config \<Rightarrow> u32" where
  "difficulty_setting env base =
     or_else (Option.bind (env ''POOL__INITIAL_DIFFICULTY'') (parse_u32 \<circ> trim)) (initial_difficulty (cfg_pool base))"

definition token_setting :: "(string \<Rightarrow> string option) \<Rightarrow> pool_config \<Rightarrow> string" where
  "token_setting env base =
     or_else (env ''DAEMON__NODE_API_TOKEN'') (or_else (env ''AZ_NODE_API_TOKEN'') (ds_node_api_token (cfg_daemon base)))"

definition url_setting :: "(string \<Rightarrow> string option) \<Rightarrow> pool_config \<Rightarrow> string" where
  "url_setting env base = or_else (map_option trim (env ''DAEMON__URL'')) (ds_url (cfg_daemon base))"

lemma settings:
  "payout_script_pubkey_hex (cfg_pool (apply_env_overrides env base))
     = or_else (map_option trim (env ''POOL__PAYOUT_SCRIPT_PUBKEY_HEX'')) (payout_script_pubkey_hex (cfg_pool base))"
  "ds_job_source_mode (cfg_daemon (apply_env_overrides env base)) = mode_setting env base"
  "initial_difficulty (cfg_pool (apply_env_overrides env base)) = difficulty_setting env base"
  "ds_node_api_token (cfg_daemon (apply_env_overrides env base)) = token_setting env base"
  "ds_url (cfg_daemon (apply_env_overrides env base)) = url_setting env base"
  "pool_name (cfg_pool (apply_env_overrides env base)) = pool_name (cfg_pool base)"
  using env_override_precedence [of env base]
  by (simp_all add: Let_def mode_setting_def difficulty_setting_def token_setting_def url_setting_def)

lemma script_bytes:
  "payout_script_pubkey_bytes hx (cfg_pool (apply_env_overrides env base))
     = (if script_setting env base = [] then Inr None
        else map_err (\<lambda>e. Config_Error (''invalid pool.payout_script_pubkey_hex: '' @ e))
               (and_then (hex_decode hx (script_setting env base)) (\<lambda>bs. Inr (Some bs))))"
  by (cases "hex_decode hx (script_setting env base)")
    (simp_all add: payout_script_pubkey_bytes_def settings script_setting_def Let_def)

text \<open>A loaded configuration is the file's settings with the environment's on top.\<close>

lemma load_settings:
  "load_config hx toml rd env None = Inr config \<longleftrightarrow>
     (\<exists>base. file_settings toml rd = Inr base \<and> config = apply_env_overrides env base
        \<and> (script_setting env base = [] \<or> is_ok (hex_decode hx (script_setting env base))))"
proof -
  have "is_ok (payout_script_pubkey_bytes hx (cfg_pool (apply_env_overrides env base)))
      \<longleftrightarrow> script_setting env base = [] \<or> is_ok (hex_decode hx (script_setting env base))" for base
    unfolding script_bytes by (cases "hex_decode hx (script_setting env base)") (simp_all add: is_ok_def)
  then show ?thesis
    by (cases "rd ''config.toml''")
      (auto simp: load_config_def file_settings_def Let_def result_simps is_ok_iff)
qed



end
