(* ===== verification/Config_File.thy ===== *)
theory Config_File
  imports Config
begin

text \<open>
  Reading the configuration file: the derived \<open>Deserialize\<close> of the sections of
  \<open>common/src/config.rs\<close>, over the values the crate \<open>toml\<close> produces. A section or a field
  that is missing takes its default (the \<open>serde(default)\<close> attributes), an unknown one is
  ignored, and a value of another type or an integer out of range is an error. The texts of
  these errors are the crate's.
\<close>

section \<open>The crate\<close>

datatype toml_value =
    Toml_String string
  | Toml_Integer i64
  | Toml_Float u64
  | Toml_Boolean bool
  | Toml_Datetime string
  | Toml_Array "toml_value list"
  | Toml_Table "(string \<times> toml_value) list"

record toml_crate =
  toml_parse :: "string \<Rightarrow> string + toml_value"
  invalid_type :: "toml_value \<Rightarrow> string \<Rightarrow> string"

section \<open>Deserializing the sections\<close>

definition toml_string :: "toml_crate \<Rightarrow> toml_value \<Rightarrow> string + string" where
  "toml_string tc v = (case v of Toml_String s \<Rightarrow> Inr s | _ \<Rightarrow> Inl (invalid_type tc v ''a string''))"

definition toml_u32 :: "toml_crate \<Rightarrow> toml_value \<Rightarrow> string + u32" where
  "toml_u32 tc v =
     (case v of
        Toml_Integer n \<Rightarrow>
          if 0 \<le> sint n \<and> sint n < 2 ^ 32 then Inr (word_of_int (sint n)) else Inl (invalid_type tc v ''u32'')
      | _ \<Rightarrow> Inl (invalid_type tc v ''u32''))"

definition toml_u16 :: "toml_crate \<Rightarrow> toml_value \<Rightarrow> string + u16" where
  "toml_u16 tc v =
     (case v of
        Toml_Integer n \<Rightarrow>
          if 0 \<le> sint n \<and> sint n < 2 ^ 16 then Inr (word_of_int (sint n)) else Inl (invalid_type tc v ''u16'')
      | _ \<Rightarrow> Inl (invalid_type tc v ''u16''))"

definition toml_mode :: "toml_crate \<Rightarrow> toml_value \<Rightarrow> string + job_source_mode" where
  "toml_mode tc v = and_then (toml_string tc v) job_source_mode_deserialize"

text \<open>
  A section as the fields it has. A struct is read from a table or, field by field in the
  order of its declaration, from an array; a field beyond the end of the array is missing.
\<close>

definition toml_struct ::
  "toml_crate \<Rightarrow> string \<Rightarrow> string list \<Rightarrow> toml_value \<Rightarrow> string + (string \<times> toml_value) list" where
  "toml_struct tc name ks v =
     (case v of
        Toml_Table t \<Rightarrow> Inr t
      | Toml_Array vs \<Rightarrow> Inr (zip ks vs)
      | _ \<Rightarrow> Inl (invalid_type tc v (''struct '' @ name)))"

text \<open>A field with its default.\<close>

definition toml_field ::
  "(string \<times> toml_value) list \<Rightarrow> string \<Rightarrow> (toml_value \<Rightarrow> string + 'a) \<Rightarrow> 'a \<Rightarrow> string + 'a" where
  "toml_field t k read d = (case map_of t k of None \<Rightarrow> Inr d | Some v \<Rightarrow> read v)"

definition pool_section_from_toml :: "toml_crate \<Rightarrow> toml_value \<Rightarrow> string + pool_section" where
  "pool_section_from_toml tc v =
     and_then (toml_struct tc ''PoolSection'' [''name'', ''initial_difficulty'', ''payout_script_pubkey_hex''] v) (\<lambda>t.
     and_then (toml_field t ''name'' (toml_string tc) default_pool_name) (\<lambda>n.
     and_then (toml_field t ''initial_difficulty'' (toml_u32 tc) default_pool_initial_difficulty) (\<lambda>d.
     and_then (toml_field t ''payout_script_pubkey_hex'' (toml_string tc) []) (\<lambda>p.
       Inr \<lparr> pool_name = n, initial_difficulty = d, payout_script_pubkey_hex = p \<rparr>))))"

definition api_section_from_toml :: "toml_crate \<Rightarrow> toml_value \<Rightarrow> string + api_section" where
  "api_section_from_toml tc v =
     and_then (toml_struct tc ''ApiSection'' [''bind'', ''port''] v) (\<lambda>t.
     and_then (toml_field t ''bind'' (toml_string tc) ''0.0.0.0'') (\<lambda>b.
     and_then (toml_field t ''port'' (toml_u16 tc) 8080) (\<lambda>p.
       Inr \<lparr> api_bind = b, api_port = p \<rparr>)))"

definition stratum_section_from_toml :: "toml_crate \<Rightarrow> toml_value \<Rightarrow> string + stratum_section" where
  "stratum_section_from_toml tc v =
     and_then (toml_struct tc ''StratumSection'' [''bind'', ''port''] v) (\<lambda>t.
     and_then (toml_field t ''bind'' (toml_string tc) ''0.0.0.0'') (\<lambda>b.
     and_then (toml_field t ''port'' (toml_u16 tc) 3333) (\<lambda>p.
       Inr \<lparr> stratum_bind = b, stratum_port = p \<rparr>)))"

definition daemon_section_from_toml :: "toml_crate \<Rightarrow> toml_value \<Rightarrow> string + daemon_section" where
  "daemon_section_from_toml tc v =
     and_then (toml_struct tc ''DaemonSection''
        [''url'', ''rpc_user'', ''rpc_password'', ''job_source_mode'', ''node_api_token'', ''share_api_url''] v) (\<lambda>t.
     and_then (toml_field t ''url'' (toml_string tc) ''http://127.0.0.1:8332'') (\<lambda>u.
     and_then (toml_field t ''rpc_user'' (toml_string tc) []) (\<lambda>ru.
     and_then (toml_field t ''rpc_password'' (toml_string tc) []) (\<lambda>rp.
     and_then (toml_field t ''job_source_mode'' (toml_mode tc) Rpc) (\<lambda>m.
     and_then (toml_field t ''node_api_token'' (toml_string tc) []) (\<lambda>nt.
     and_then (toml_field t ''share_api_url'' (toml_string tc) []) (\<lambda>su.
       Inr \<lparr> ds_url = u, ds_rpc_user = ru, ds_rpc_password = rp, ds_job_source_mode = m,
             ds_node_api_token = nt, ds_share_api_url = su \<rparr>)))))))"

definition pool_config_from_toml :: "toml_crate \<Rightarrow> toml_value \<Rightarrow> string + pool_config" where
  "pool_config_from_toml tc v =
     and_then (toml_struct tc ''PoolConfig'' [''pool'', ''api'', ''stratum'', ''daemon''] v) (\<lambda>t.
     and_then (toml_field t ''pool'' (pool_section_from_toml tc) pool_section_default) (\<lambda>p.
     and_then (toml_field t ''api'' (api_section_from_toml tc) api_section_default) (\<lambda>a.
     and_then (toml_field t ''stratum'' (stratum_section_from_toml tc) stratum_section_default) (\<lambda>s.
     and_then (toml_field t ''daemon'' (daemon_section_from_toml tc) daemon_section_default) (\<lambda>d.
       Inr \<lparr> cfg_pool = p, cfg_api = a, cfg_stratum = s, cfg_daemon = d \<rparr>)))))"

definition toml_from_str :: "toml_crate \<Rightarrow> string \<Rightarrow> string + pool_config" where
  "toml_from_str tc s = and_then (toml_parse tc s) (pool_config_from_toml tc)"

section \<open>Documents\<close>

text \<open>
  The TOML text of a document of sections with string and number fields, with the empty
  first line that the raw strings of the tests have. \<open>toml_reads\<close> says that the crate reads
  the text of a document as the tables it shows, which it documents for texts without
  characters that need escaping and numbers in range.
\<close>

datatype toml_scalar = Text string | Number nat

type_synonym toml_document = "(string \<times> (string \<times> toml_scalar) list) list"

definition toml_scalar_text :: "toml_scalar \<Rightarrow> string" where
  "toml_scalar_text v =
     (case v of Text s \<Rightarrow> [CHR 0x22] @ s @ [CHR 0x22] | Number n \<Rightarrow> dec_string n)"

definition toml_section_text :: "string \<times> (string \<times> toml_scalar) list \<Rightarrow> string" where
  "toml_section_text sec =
     ''['' @ fst sec @ '']'' @ [CHR 0x0A]
     @ concat (map (\<lambda>(k, v). k @ '' = '' @ toml_scalar_text v @ [CHR 0x0A]) (snd sec))"

definition toml_text :: "toml_document \<Rightarrow> string" where
  "toml_text doc = [CHR 0x0A] @ concat (map toml_section_text doc)"

definition toml_scalar_value :: "toml_scalar \<Rightarrow> toml_value" where
  "toml_scalar_value v = (case v of Text s \<Rightarrow> Toml_String s | Number n \<Rightarrow> Toml_Integer (word_of_nat n))"

definition toml_document_value :: "toml_document \<Rightarrow> toml_value" where
  "toml_document_value doc =
     Toml_Table (map (\<lambda>(k, sec). (k, Toml_Table (map (\<lambda>(k, v). (k, toml_scalar_value v)) sec))) doc)"

definition toml_reads :: "toml_crate \<Rightarrow> toml_document \<Rightarrow> bool" where
  "toml_reads tc doc \<longleftrightarrow> toml_parse tc (toml_text doc) = Inr (toml_document_value doc)"

lemma toml_from_document:
  "toml_reads tc doc \<Longrightarrow> toml_from_str tc (toml_text doc) = pool_config_from_toml tc (toml_document_value doc)"
  by (simp add: toml_reads_def toml_from_str_def)

text \<open>A crate that knows one document.\<close>

definition sample_toml :: "toml_document \<Rightarrow> toml_crate" where
  "sample_toml doc =
     \<lparr> toml_parse = (\<lambda>s. if s = toml_text doc then Inr (toml_document_value doc) else Inl ''unknown document''),
       invalid_type = (\<lambda>v expected. ''invalid type, expected '' @ expected) \<rparr>"

lemma sample_toml_reads [simp]: "toml_reads (sample_toml doc) doc"
  by (simp add: toml_reads_def sample_toml_def)

end
