(* ===== verification/Tests_Support.thy ===== *)
theory Tests_Support
  imports Crates
begin

text \<open>
  What the translated unit tests share: \<open>str::contains\<close>, the numbers of the macro
  \<open>serde_json::json\<close>, and the equality of JSON objects, which does not depend on order.
\<close>

definition str_contains :: "string \<Rightarrow> string \<Rightarrow> bool" where
  "str_contains s sub \<longleftrightarrow> window_position sub s \<noteq> None"

lemma str_contains_inside: "str_contains (xs @ sub @ ys) sub"
  using window_position_exists [of "xs @ sub @ ys" xs sub ys] by (auto simp: str_contains_def)

definition json_nat :: "nat \<Rightarrow> json" where
  "json_nat n = JNumber (PosInt (word_of_nat n))"

definition json_strings :: "string list \<Rightarrow> json" where
  "json_strings ss = JArray (map JString ss)"

definition same_object :: "(string \<times> json) list \<Rightarrow> (string \<times> json) list \<Rightarrow> bool" where
  "same_object m m' \<longleftrightarrow> list_all (\<lambda>k. obj_get k m = obj_get k m') (map fst m @ map fst m')"

text \<open>\<open>assert_eq!(actual, Ok(expected))\<close> and an assertion on an \<open>unwrap_err\<close>.\<close>

definition ok_with :: "'e + 'a \<Rightarrow> ('a \<Rightarrow> bool) \<Rightarrow> bool" where
  "ok_with r P = (case r of Inr a \<Rightarrow> P a | Inl e \<Rightarrow> False)"

definition err_with :: "'e + 'a \<Rightarrow> ('e \<Rightarrow> bool) \<Rightarrow> bool" where
  "err_with r P = (case r of Inr a \<Rightarrow> False | Inl e \<Rightarrow> P e)"

lemma ok_with_simps [simp]: "ok_with (Inr a) P = P a" "\<not> ok_with (Inl e) P"
  and err_with_simps [simp]: "err_with (Inl e') Q = Q e'" "\<not> err_with (Inr b) Q"
  by (simp_all add: ok_with_def err_with_def)

text \<open>Printing concrete numbers in hexadecimal.\<close>

lemma hex_fixed_numeral:
  "hex_fixed (numeral k) v = hex_fixed (pred_numeral k) (v div 16) @ [hex_digit (v mod 16)]"
  using hex_fixed.simps(2) [of "pred_numeral k" v] by (simp only: numeral_eq_Suc [symmetric])

lemma hex_digits:
  "hex_digit 0 = CHR ''0''" "hex_digit (Suc 0) = CHR ''1''" "hex_digit 1 = CHR ''1''" "hex_digit 2 = CHR ''2''"
  "hex_digit 3 = CHR ''3''" "hex_digit 4 = CHR ''4''" "hex_digit 5 = CHR ''5''" "hex_digit 6 = CHR ''6''"
  "hex_digit 7 = CHR ''7''" "hex_digit 8 = CHR ''8''" "hex_digit 9 = CHR ''9''" "hex_digit 10 = CHR ''a''"
  "hex_digit 11 = CHR ''b''" "hex_digit 12 = CHR ''c''" "hex_digit 13 = CHR ''d''" "hex_digit 14 = CHR ''e''"
  "hex_digit 15 = CHR ''f''"
  by code_simp+

lemma replicate_more: "replicate (numeral k) x = x # replicate (pred_numeral k) x"
  using replicate_Suc [of "pred_numeral k" x] by (simp only: numeral_eq_Suc [symmetric])

lemmas hex_printing = hex_fixed_numeral hex_digits

end
