(* ===== verification/Tests_Config.thy ===== *)
theory Tests_Config
  imports Config_File Tests_Support
begin

text \<open>
  The unit tests of \<open>common/src/config.rs\<close>, translated: each definition is one test, with its
  texts as documents and its assertions as a conjunction, and the lemma after it shows that
  the model passes the test, for every \<open>hex\<close> crate as documented and every \<open>toml\<close> crate that
  reads the test's text. They check the model against what the authors of the code expect.
\<close>

section \<open>Documents and reading\<close>

definition config_of ::
  "hex_crate \<Rightarrow> toml_crate \<Rightarrow> toml_document \<Rightarrow> pool_error + pool_config" where
  "config_of hx tc doc = parse_config_toml hx (toml_from_str tc) (toml_text doc)"

definition url_line :: "string \<times> toml_scalar" where
  "url_line = (''url'', Text ''http://127.0.0.1:8332'')"

definition daemon_doc :: "string \<Rightarrow> toml_document" where
  "daemon_doc mode = [(''daemon'', [url_line, (''job_source_mode'', Text mode)])]"

definition url_doc :: toml_document where
  "url_doc = [(''daemon'', [url_line])]"

definition pool_doc :: "(string \<times> toml_scalar) list \<Rightarrow> toml_document" where
  "pool_doc fs = [(''pool'', (''name'', Text ''azcoin-pool'') # fs)]"

definition payout_hex :: string where
  "payout_hex = ''76a91400112233445566778899aabbccddeeff0011223388ac''"

lemmas doc_defs = url_line_def daemon_doc_def url_doc_def pool_doc_def

lemmas config_eval =
  config_of_def parse_config_toml_def toml_from_document toml_document_value_def toml_scalar_value_def
  pool_config_from_toml_def pool_section_from_toml_def api_section_from_toml_def
  stratum_section_from_toml_def daemon_section_from_toml_def toml_field_def toml_struct_def
  toml_string_def toml_mode_def toml_u32_def toml_u16_def doc_defs
  pool_section_default_def api_section_default_def
  stratum_section_default_def daemon_section_default_def

text \<open>Strings of the tests: no white space, and their lower-case form.\<close>

lemma trim_test_strings:
  "trim [] = []" "trim ''api'' = ''api''" "trim ''invalid'' = ''invalid''" "trim ''512'' = ''512''"
  "trim ''9090'' = ''9090''" "trim ''4444'' = ''4444''" "trim ''9999'' = ''9999''"
  "trim ''127.0.0.1'' = ''127.0.0.1''" "trim ''abc'' = ''abc''"
  "trim ''http://node.example.com:8332'' = ''http://node.example.com:8332''"
  "trim ''http://override.example.com:8332'' = ''http://override.example.com:8332''"
  "trim ''not_a_number'' = ''not_a_number''" "trim payout_hex = payout_hex"
  by (rule trim_printable, simp add: printable_def char_nat_def payout_hex_def)+

lemma lowercase_test_strings:
  "to_lowercase ''rpc'' = ''rpc''" "to_lowercase ''api'' = ''api''" "to_lowercase ''invalid'' = ''invalid''"
  by code_simp+

lemma parse_test_strings:
  "parse_u32 ''512'' = Some 512" "parse_u16 ''9090'' = Some 9090" "parse_u16 ''4444'' = Some 4444"
  "parse_u16 ''9999'' = Some 9999" "parse_u16 ''not_a_number'' = None"
  by (simp_all add: parse_u32_def parse_u16_def from_str_radix_def to_digit_def char_nat_def Let_def)

lemmas test_strings = trim_test_strings lowercase_test_strings parse_test_strings

lemma no_payout: "payout_script_pubkey_bytes hx p = Inr None" if "payout_script_pubkey_hex p = []"
  using that by (simp add: payout_script_pubkey_bytes_def trim_test_strings)

section \<open>The tests\<close>

definition test_job_source_mode_parses_rpc :: "hex_crate \<Rightarrow> toml_crate \<Rightarrow> bool" where
  "test_job_source_mode_parses_rpc hx tc \<longleftrightarrow>
     ok_with (config_of hx tc (daemon_doc ''rpc'')) (\<lambda>c. ds_job_source_mode (cfg_daemon c) = Rpc)"

definition test_job_source_mode_parses_api :: "hex_crate \<Rightarrow> toml_crate \<Rightarrow> bool" where
  "test_job_source_mode_parses_api hx tc \<longleftrightarrow>
     ok_with (config_of hx tc (daemon_doc ''api'')) (\<lambda>c. ds_job_source_mode (cfg_daemon c) = Api)"

definition test_job_source_mode_defaults_to_rpc :: "hex_crate \<Rightarrow> toml_crate \<Rightarrow> bool" where
  "test_job_source_mode_defaults_to_rpc hx tc \<longleftrightarrow>
     ok_with (config_of hx tc url_doc) (\<lambda>c. ds_job_source_mode (cfg_daemon c) = Rpc)"

definition test_job_source_mode_invalid_fails :: "hex_crate \<Rightarrow> toml_crate \<Rightarrow> bool" where
  "test_job_source_mode_invalid_fails hx tc \<longleftrightarrow>
     err_with (config_of hx tc (daemon_doc ''invalid'')) (\<lambda>e. case e of Config_Error m \<Rightarrow> True | _ \<Rightarrow> False)"

lemma job_source_mode_tests:
  "toml_reads tc (daemon_doc ''rpc'') \<Longrightarrow> test_job_source_mode_parses_rpc hx tc"
  "toml_reads tc (daemon_doc ''api'') \<Longrightarrow> test_job_source_mode_parses_api hx tc"
  "toml_reads tc url_doc \<Longrightarrow> test_job_source_mode_defaults_to_rpc hx tc"
  "toml_reads tc (daemon_doc ''invalid'') \<Longrightarrow> test_job_source_mode_invalid_fails hx tc"
  by (simp_all add: test_job_source_mode_parses_rpc_def test_job_source_mode_parses_api_def
      test_job_source_mode_defaults_to_rpc_def test_job_source_mode_invalid_fails_def
      config_eval job_source_mode_deserialize_def test_strings no_payout)

definition test_pool_payout_script_pubkey_empty_returns_none :: "hex_crate \<Rightarrow> toml_crate \<Rightarrow> bool" where
  "test_pool_payout_script_pubkey_empty_returns_none hx tc \<longleftrightarrow>
     ok_with (config_of hx tc (pool_doc [(''payout_script_pubkey_hex'', Text [])]))
       (\<lambda>c. payout_script_pubkey_bytes hx (cfg_pool c) = Inr None)"

definition test_pool_initial_difficulty_defaults_to_one :: "hex_crate \<Rightarrow> toml_crate \<Rightarrow> bool" where
  "test_pool_initial_difficulty_defaults_to_one hx tc \<longleftrightarrow>
     ok_with (config_of hx tc (pool_doc [])) (\<lambda>c. initial_difficulty (cfg_pool c) = 1)"

definition test_pool_initial_difficulty_parses_from_toml :: "hex_crate \<Rightarrow> toml_crate \<Rightarrow> bool" where
  "test_pool_initial_difficulty_parses_from_toml hx tc \<longleftrightarrow>
     ok_with (config_of hx tc (pool_doc [(''initial_difficulty'', Number 32)]))
       (\<lambda>c. initial_difficulty (cfg_pool c) = 32)"

definition test_pool_payout_script_pubkey_valid_hex_decodes :: "hex_crate \<Rightarrow> toml_crate \<Rightarrow> bool" where
  "test_pool_payout_script_pubkey_valid_hex_decodes hx tc \<longleftrightarrow>
     ok_with (config_of hx tc (pool_doc [(''payout_script_pubkey_hex'', Text payout_hex)]))
       (\<lambda>c. \<exists>bs. hex_decode hx payout_hex = Inr bs
          \<and> payout_script_pubkey_bytes hx (cfg_pool c) = Inr (Some bs))"

definition test_pool_payout_script_pubkey_invalid_hex_fails :: "hex_crate \<Rightarrow> toml_crate \<Rightarrow> bool" where
  "test_pool_payout_script_pubkey_invalid_hex_fails hx tc \<longleftrightarrow>
     err_with (config_of hx tc (pool_doc [(''payout_script_pubkey_hex'', Text ''abc'')]))
       (\<lambda>e. (case e of Config_Error m \<Rightarrow> True | _ \<Rightarrow> False)
          \<and> str_contains (pool_error_to_string e) ''invalid pool.payout_script_pubkey_hex'')"

lemma pool_section_tests:
  "toml_reads tc (pool_doc [(''payout_script_pubkey_hex'', Text [])]) \<Longrightarrow>
     test_pool_payout_script_pubkey_empty_returns_none hx tc"
  "toml_reads tc (pool_doc []) \<Longrightarrow> test_pool_initial_difficulty_defaults_to_one hx tc"
  "toml_reads tc (pool_doc [(''initial_difficulty'', Number 32)]) \<Longrightarrow>
     test_pool_initial_difficulty_parses_from_toml hx tc"
  by (simp_all add: test_pool_payout_script_pubkey_empty_returns_none_def
      test_pool_initial_difficulty_defaults_to_one_def test_pool_initial_difficulty_parses_from_toml_def
      config_eval no_payout)

lemma payout_hex_decodes:
  assumes "hex_documented hx"
  obtains bs where "hex_decode hx payout_hex = Inr bs"
proof -
  have "hex_pairs payout_hex \<noteq> None" by code_simp
  then show ?thesis using that by (auto simp: hex_decode_Inr [OF assms])
qed

lemma payout_hex_tests:
  assumes hx: "hex_documented hx"
  shows "toml_reads tc (pool_doc [(''payout_script_pubkey_hex'', Text payout_hex)]) \<Longrightarrow>
       test_pool_payout_script_pubkey_valid_hex_decodes hx tc" (is "?reads \<Longrightarrow> ?valid")
    and "toml_reads tc (pool_doc [(''payout_script_pubkey_hex'', Text ''abc'')]) \<Longrightarrow>
       test_pool_payout_script_pubkey_invalid_hex_fails hx tc" (is "?reads' \<Longrightarrow> ?invalid")
proof -
  obtain bs where bs: "hex_decode hx payout_hex = Inr bs" by (rule payout_hex_decodes [OF hx])
  have ne: "payout_hex \<noteq> []" by (simp add: payout_hex_def)
  show "?reads \<Longrightarrow> ?valid"
    by (simp add: test_pool_payout_script_pubkey_valid_hex_decodes_def config_eval
        payout_script_pubkey_bytes_def bs ne trim_test_strings)
  have "hex_pairs ''abc'' = None" by (simp split: option.split)
  then obtain e where e: "hex_decode hx ''abc'' = Inl e" using hex_decode_Inl [OF hx] by metis
  have "str_contains (''configuration error: '' @ ''invalid pool.payout_script_pubkey_hex'' @ '': '' @ e)
      ''invalid pool.payout_script_pubkey_hex''"
    by (rule str_contains_inside)
  then show "?reads' \<Longrightarrow> ?invalid"
    by (simp add: test_pool_payout_script_pubkey_invalid_hex_fails_def config_eval
        payout_script_pubkey_bytes_def e trim_test_strings)
qed

section \<open>Environment overrides\<close>

definition env_of :: "(string \<times> string) list \<Rightarrow> string \<Rightarrow> string option" where
  "env_of vars k = map_of vars k"

text \<open>\<open>apply_env_overrides_from\<close> on the configuration of a document, and an assertion.\<close>

definition overridden ::
  "hex_crate \<Rightarrow> toml_crate \<Rightarrow> toml_document \<Rightarrow> (string \<times> string) list \<Rightarrow> (pool_config \<Rightarrow> bool)
     \<Rightarrow> (pool_config \<Rightarrow> bool) \<Rightarrow> bool" where
  "overridden hx tc doc vars before_env after_env =
     ok_with (config_of hx tc doc)
       (\<lambda>c. before_env c \<and> after_env (apply_env_overrides_from (env_of vars) c))"

definition test_pool_initial_difficulty_env_override :: "hex_crate \<Rightarrow> toml_crate \<Rightarrow> bool" where
  "test_pool_initial_difficulty_env_override hx tc \<longleftrightarrow>
     overridden hx tc (pool_doc [(''initial_difficulty'', Number 1)])
       [(env_POOL_INITIAL_DIFFICULTY, ''512'')]
       (\<lambda>c. initial_difficulty (cfg_pool c) = 1) (\<lambda>c. initial_difficulty (cfg_pool c) = 512)"

definition test_env_override_job_source_mode_takes_precedence :: "hex_crate \<Rightarrow> toml_crate \<Rightarrow> bool" where
  "test_env_override_job_source_mode_takes_precedence hx tc \<longleftrightarrow>
     overridden hx tc (daemon_doc ''rpc'') [(env_DAEMON_JOB_SOURCE_MODE, ''api'')]
       (\<lambda>c. ds_job_source_mode (cfg_daemon c) = Rpc) (\<lambda>c. ds_job_source_mode (cfg_daemon c) = Api)"

definition test_env_override_daemon_url_takes_precedence :: "hex_crate \<Rightarrow> toml_crate \<Rightarrow> bool" where
  "test_env_override_daemon_url_takes_precedence hx tc \<longleftrightarrow>
     overridden hx tc url_doc [(env_DAEMON_URL, ''http://node.example.com:8332'')]
       (\<lambda>c. True) (\<lambda>c. ds_url (cfg_daemon c) = ''http://node.example.com:8332'')"

definition test_env_override_rpc_credentials_take_precedence :: "hex_crate \<Rightarrow> toml_crate \<Rightarrow> bool" where
  "test_env_override_rpc_credentials_take_precedence hx tc \<longleftrightarrow>
     overridden hx tc url_doc [(env_DAEMON_RPC_USER, ''rpcuser''), (env_DAEMON_RPC_PASSWORD, ''rpcpass'')]
       (\<lambda>c. True)
       (\<lambda>c. ds_rpc_user (cfg_daemon c) = ''rpcuser'' \<and> ds_rpc_password (cfg_daemon c) = ''rpcpass'')"

definition ports_doc :: toml_document where
  "ports_doc = [(''api'', [(''bind'', Text ''0.0.0.0''), (''port'', Number 8080)]),
     (''stratum'', [(''bind'', Text ''0.0.0.0''), (''port'', Number 3333)])]"

definition test_env_override_api_and_stratum_take_precedence :: "hex_crate \<Rightarrow> toml_crate \<Rightarrow> bool" where
  "test_env_override_api_and_stratum_take_precedence hx tc \<longleftrightarrow>
     overridden hx tc ports_doc
       [(env_API_BIND, ''127.0.0.1''), (env_API_PORT, ''9090''),
        (env_STRATUM_BIND, ''127.0.0.1''), (env_STRATUM_PORT, ''4444'')]
       (\<lambda>c. True)
       (\<lambda>c. api_bind (cfg_api c) = ''127.0.0.1'' \<and> api_port (cfg_api c) = 9090
          \<and> stratum_bind (cfg_stratum c) = ''127.0.0.1'' \<and> stratum_port (cfg_stratum c) = 4444)"

definition test_env_override_invalid_job_source_mode_ignored :: "hex_crate \<Rightarrow> toml_crate \<Rightarrow> bool" where
  "test_env_override_invalid_job_source_mode_ignored hx tc \<longleftrightarrow>
     overridden hx tc (daemon_doc ''rpc'') [(env_DAEMON_JOB_SOURCE_MODE, ''invalid'')]
       (\<lambda>c. True) (\<lambda>c. ds_job_source_mode (cfg_daemon c) = Rpc)"

definition test_env_override_invalid_port_ignored :: "hex_crate \<Rightarrow> toml_crate \<Rightarrow> bool" where
  "test_env_override_invalid_port_ignored hx tc \<longleftrightarrow>
     overridden hx tc [(''api'', [(''port'', Number 8080)])] [(env_API_PORT, ''not_a_number'')]
       (\<lambda>c. True) (\<lambda>c. api_port (cfg_api c) = 8080)"

text \<open>The file of the last test, found under any path, and the process environment.\<close>

definition load_doc :: toml_document where
  "load_doc = [(''daemon'', [url_line, (''job_source_mode'', Text ''rpc'')]),
     (''api'', [(''port'', Number 8080)]), (''stratum'', [(''port'', Number 3333)])]"

definition test_load_config_env_overrides_take_precedence_over_toml ::
  "hex_crate \<Rightarrow> toml_crate \<Rightarrow> string \<Rightarrow> bool" where
  "test_load_config_env_overrides_take_precedence_over_toml hx tc path \<longleftrightarrow>
     ok_with
       (load_config hx (toml_from_str tc)
          (\<lambda>p. if p = path then Some (toml_text load_doc) else None)
          (env_of [(env_DAEMON_JOB_SOURCE_MODE, ''api''),
             (env_DAEMON_URL, ''http://override.example.com:8332''), (env_API_PORT, ''9999'')])
          (Some path))
       (\<lambda>c. ds_job_source_mode (cfg_daemon c) = Api
          \<and> ds_url (cfg_daemon c) = ''http://override.example.com:8332'' \<and> api_port (cfg_api c) = 9999)"

lemmas env_key_defs =
  env_POOL_INITIAL_DIFFICULTY_def env_POOL_PAYOUT_SCRIPT_PUBKEY_HEX_def env_DAEMON_JOB_SOURCE_MODE_def
  env_DAEMON_URL_def env_DAEMON_RPC_USER_def env_DAEMON_RPC_PASSWORD_def env_AZ_NODE_API_TOKEN_def
  env_DAEMON_NODE_API_TOKEN_def env_DAEMON_SHARE_API_URL_def env_API_BIND_def env_API_PORT_def
  env_STRATUM_BIND_def env_STRATUM_PORT_def

lemmas env_eval = overridden_def env_of_def apply_env_overrides_from_def env_key_defs
  env_set_def env_parse_def parse_job_source_mode_def job_source_mode_deserialize_def

lemma env_override_tests:
  "toml_reads tc (pool_doc [(''initial_difficulty'', Number 1)]) \<Longrightarrow>
     test_pool_initial_difficulty_env_override hx tc"
  "toml_reads tc (daemon_doc ''rpc'') \<Longrightarrow> test_env_override_job_source_mode_takes_precedence hx tc"
  "toml_reads tc url_doc \<Longrightarrow> test_env_override_daemon_url_takes_precedence hx tc"
  "toml_reads tc url_doc \<Longrightarrow> test_env_override_rpc_credentials_take_precedence hx tc"
  "toml_reads tc ports_doc \<Longrightarrow> test_env_override_api_and_stratum_take_precedence hx tc"
  "toml_reads tc (daemon_doc ''rpc'') \<Longrightarrow> test_env_override_invalid_job_source_mode_ignored hx tc"
  "toml_reads tc [(''api'', [(''port'', Number 8080)])] \<Longrightarrow> test_env_override_invalid_port_ignored hx tc"
  by (simp_all add: test_pool_initial_difficulty_env_override_def
      test_env_override_job_source_mode_takes_precedence_def
      test_env_override_daemon_url_takes_precedence_def
      test_env_override_rpc_credentials_take_precedence_def
      test_env_override_api_and_stratum_take_precedence_def
      test_env_override_invalid_job_source_mode_ignored_def
      test_env_override_invalid_port_ignored_def
      config_eval env_eval test_strings no_payout ports_doc_def)

lemma load_config_test:
  "toml_reads tc load_doc \<Longrightarrow> test_load_config_env_overrides_take_precedence_over_toml hx tc path"
  by (simp add: test_load_config_env_overrides_take_precedence_over_toml_def load_config_def
      apply_env_overrides_def config_eval env_eval test_strings no_payout load_doc_def)

end
