(* ===== verification/Tests_Protocol.thy ===== *)
theory Tests_Protocol
  imports Sv1_Session Tests_Support
begin

text \<open>
  The unit tests of \<open>protocol_sv1\<close> (\<open>domain_mapper.rs\<close>, \<open>session.rs\<close>, \<open>notify.rs\<close>), translated
  test by test; the lemmas show that the model passes them for every documented \<open>hex\<close> crate.
\<close>

section \<open>Requests\<close>

definition request :: "nat option \<Rightarrow> string \<Rightarrow> json option \<Rightarrow> sv1_request" where
  "request i m params =
     \<lparr> rq_id = map_option json_nat i, rq_method = m, rq_params = params \<rparr>"

text \<open>\<open>map_request_to_command(..).unwrap().unwrap()\<close> and a match on the command.\<close>

definition command_with :: "hex_crate \<Rightarrow> sv1_request \<Rightarrow> (sv1_domain_command \<Rightarrow> bool) \<Rightarrow> bool" where
  "command_with hx req P \<longleftrightarrow>
     ok_with (map_request_to_command hx req) (\<lambda>c. case c of None \<Rightarrow> False | Some cmd \<Rightarrow> P cmd)"

definition test_configure_valid_params :: "hex_crate \<Rightarrow> bool" where
  "test_configure_valid_params hx \<longleftrightarrow>
     command_with hx
       (request (Some 1) ''mining.configure'' (Some (JArray
          [json_strings [''version-rolling'', ''minimum-difficulty'', ''subscribe-extranonce''],
           JObject [(''version-rolling.mask'', JString ''1fffe000''),
                    (''version-rolling.min-bit-count'', json_nat 2)]])))
       (\<lambda>cmd. case cmd of
          Configure extensions version_rolling \<Rightarrow>
            extensions = [''version-rolling'', ''minimum-difficulty'', ''subscribe-extranonce'']
            \<and> version_rolling = Some \<lparr> vr_mask = 0x1fffe000, vr_min_bit_count = 2 \<rparr>
        | _ \<Rightarrow> False)"

definition test_configure_missing_params_is_tolerated :: "hex_crate \<Rightarrow> bool" where
  "test_configure_missing_params_is_tolerated hx \<longleftrightarrow>
     command_with hx (request (Some 1) ''mining.configure'' None)
       (\<lambda>cmd. case cmd of
          Configure extensions version_rolling \<Rightarrow> extensions = [] \<and> version_rolling = None
        | _ \<Rightarrow> False)"

definition test_configure_version_rolling_defaults_when_params_missing :: "hex_crate \<Rightarrow> bool" where
  "test_configure_version_rolling_defaults_when_params_missing hx \<longleftrightarrow>
     command_with hx
       (request (Some 1) ''mining.configure''
          (Some (JArray [json_strings [''version-rolling''], JObject []])))
       (\<lambda>cmd. case cmd of
          Configure extensions version_rolling \<Rightarrow>
            version_rolling = Some \<lparr> vr_mask = 0xffffffff, vr_min_bit_count = 0 \<rparr>
        | _ \<Rightarrow> False)"

definition submit_params :: "string list \<Rightarrow> json option" where
  "submit_params rest = Some (json_strings (''user.worker1'' # ''job-123'' # rest))"

definition test_submit_valid_params :: "hex_crate \<Rightarrow> bool" where
  "test_submit_valid_params hx \<longleftrightarrow>
     command_with hx
       (request (Some 1) ''mining.submit'' (submit_params [''00000000'', ''69b33a70'', ''12345678'']))
       (\<lambda>cmd. case cmd of
          SubmitShare username jid en2 ntime nonce version_bits \<Rightarrow>
            username = ''user.worker1'' \<and> jid = ''job-123'' \<and> en2 = replicate 4 0
            \<and> ntime = 0x69b33a70 \<and> nonce = 0x12345678 \<and> version_bits = None
        | _ \<Rightarrow> False)"

definition test_submit_version_bits_parsed_when_present :: "hex_crate \<Rightarrow> bool" where
  "test_submit_version_bits_parsed_when_present hx \<longleftrightarrow>
     command_with hx
       (request (Some 1) ''mining.submit''
          (submit_params [''00000000'', ''69b33a70'', ''12345678'', ''00002000'']))
       (\<lambda>cmd. case cmd of
          SubmitShare username jid en2 ntime nonce version_bits \<Rightarrow> version_bits = Some 0x00002000
        | _ \<Rightarrow> False)"

definition test_submit_malformed_ntime_rejected :: "hex_crate \<Rightarrow> bool" where
  "test_submit_malformed_ntime_rejected hx \<longleftrightarrow>
     err_with (map_request_to_command hx
         (request None ''mining.submit'' (submit_params [''00000000'', ''zz'', ''12345678''])))
       (\<lambda>e. str_contains e ''ntime'')"

definition test_submit_too_few_params_rejected :: "hex_crate \<Rightarrow> bool" where
  "test_submit_too_few_params_rejected hx \<longleftrightarrow>
     err_with (map_request_to_command hx (request None ''mining.submit'' (submit_params [])))
       (\<lambda>e. str_contains e ''5 params'')"

definition test_submit_ntime_wrong_length_rejected :: "hex_crate \<Rightarrow> bool" where
  "test_submit_ntime_wrong_length_rejected hx \<longleftrightarrow>
     err_with (map_request_to_command hx
         (request None ''mining.submit'' (submit_params [''00000000'', ''123'', ''12345678''])))
       (\<lambda>e. str_contains e ''ntime'' \<and> str_contains e ''8 hex chars'')"

definition test_submit_nonce_wrong_length_rejected :: "hex_crate \<Rightarrow> bool" where
  "test_submit_nonce_wrong_length_rejected hx \<longleftrightarrow>
     err_with (map_request_to_command hx
         (request None ''mining.submit'' (submit_params [''00000000'', ''69b33a70'', ''123''])))
       (\<lambda>e. str_contains e ''nonce'' \<and> str_contains e ''8 hex chars'')"

lemma test_hex_numbers:
  "u32_from_str_radix ''1fffe000'' 16 = Some 0x1fffe000" "u32_from_str_radix ''69b33a70'' 16 = Some 0x69b33a70"
  "u32_from_str_radix ''12345678'' 16 = Some 0x12345678" "u32_from_str_radix ''00002000'' 16 = Some 0x2000"
  by (simp_all add: u32_from_str_radix_def from_str_radix_def to_digit_def char_nat_def Let_def)

lemma configure_tests:
  "test_configure_valid_params hx" "test_configure_missing_params_is_tolerated hx"
  "test_configure_version_rolling_defaults_when_params_missing hx"
  by (simp_all add: test_configure_valid_params_def test_configure_missing_params_is_tolerated_def
      test_configure_version_rolling_defaults_when_params_missing_def command_with_def request_def
      map_request_to_command_def map_configure_params_def parse_version_rolling_config_def
      parse_hex_u32_def json_strings_def json_nat_def obj_get_def list_get_def
      test_hex_numbers)

lemma zero_hex:
  assumes "hex_documented hx"
  shows "hex_decode hx ''00000000'' = Inr (replicate 4 0)"
proof -
  have "hex_pairs ''00000000'' = Some [0, 0, 0, 0]" by (simp add: to_digit_def char_nat_def)
  moreover have "replicate 4 (0 :: u8) = [0, 0, 0, 0]" by (simp add: numeral_eq_Suc)
  ultimately show ?thesis by (simp add: hex_decode_Inr [OF assms])
qed

lemmas submit_eval = command_with_def request_def submit_params_def
  map_request_to_command_def map_submit_params_def parse_hex_u32_def param_str_def json_strings_def
  list_get_def test_hex_numbers

lemma submit_tests:
  assumes "hex_documented hx"
  shows "test_submit_valid_params hx" and "test_submit_version_bits_parsed_when_present hx"
  by (simp_all add: test_submit_valid_params_def test_submit_version_bits_parsed_when_present_def
      submit_eval zero_hex [OF assms])

lemma submit_error_tests:
  assumes "hex_documented hx"
  shows "test_submit_malformed_ntime_rejected hx" and "test_submit_too_few_params_rejected hx"
    and "test_submit_ntime_wrong_length_rejected hx" and "test_submit_nonce_wrong_length_rejected hx"
  by (simp_all add: test_submit_malformed_ntime_rejected_def test_submit_too_few_params_rejected_def
      test_submit_ntime_wrong_length_rejected_def test_submit_nonce_wrong_length_rejected_def
      submit_eval zero_hex [OF assms] str_contains_def)

section \<open>Responses\<close>

definition negotiated :: sv1_version_rolling_config where
  "negotiated = \<lparr> vr_mask = 0x1fffe000, vr_min_bit_count = 2 \<rparr>"

definition test_negotiate_version_rolling_intersects_requested_mask :: bool where
  "test_negotiate_version_rolling_intersects_requested_mask \<longleftrightarrow>
     negotiate_version_rolling \<lparr> vr_mask = 0xffffffff, vr_min_bit_count = 2 \<rparr> = Some negotiated"

definition test_build_configure_response_enables_negotiated_version_rolling :: bool where
  "test_build_configure_response_enables_negotiated_version_rolling \<longleftrightarrow>
     (let response = build_configure_response (Some (json_nat 7))
            [''version-rolling'', ''minimum-difficulty'', ''subscribe-extranonce''] (Some negotiated)
      in rs_id response = Some (json_nat 7) \<and> rs_error response = None
         \<and> (case Option.bind (rs_result response) as_object of
              None \<Rightarrow> False
            | Some result \<Rightarrow> same_object result
                [(''version-rolling'', JBool True), (''version-rolling.mask'', JString ''1fffe000''),
                 (''version-rolling.min-bit-count'', json_nat 2), (''minimum-difficulty'', JBool False),
                 (''subscribe-extranonce'', JBool False)]))"

definition test_build_configure_response_version_rolling_only_when_negotiated :: bool where
  "test_build_configure_response_version_rolling_only_when_negotiated \<longleftrightarrow>
     (let response = build_configure_response (Some (json_nat 1)) [''version-rolling''] (Some negotiated)
      in case Option.bind (rs_result response) as_object of
           None \<Rightarrow> False
         | Some result \<Rightarrow> same_object result
             [(''version-rolling'', JBool True), (''version-rolling.mask'', JString ''1fffe000''),
              (''version-rolling.min-bit-count'', json_nat 2)])"

lemma fmt_test_mask: "fmt_08x 0x1fffe000 = ''1fffe000''"
  by (simp add: fmt_08x_def hex_printing)

lemma count_ones_mask: "count_ones 0x1fffe000 = 16"
  by (simp add: count_ones_def upt_rec)

lemma configure_response_tests:
  "test_negotiate_version_rolling_intersects_requested_mask"
  "test_build_configure_response_enables_negotiated_version_rolling"
  "test_build_configure_response_version_rolling_only_when_negotiated"
  by (simp_all add: test_negotiate_version_rolling_intersects_requested_mask_def
      test_build_configure_response_enables_negotiated_version_rolling_def
      test_build_configure_response_version_rolling_only_when_negotiated_def
      negotiate_version_rolling_def SV1_VERSION_ROLLING_MASK_def negotiated_def count_ones_mask Let_def
      build_configure_response_def configure_entry_def same_object_def fmt_test_mask json_u32_def
      json_nat_def obj_get_def obj_insert_def del: obj_get_insert)

section \<open>Notifications\<close>

definition live_job :: job where
  "live_job =
     \<lparr> job_id = ''live-job-123'', job_prev_hash = replicate 31 0 @ [0xab],
       coinbase_part1 = [0x01, 0x02], coinbase_part2 = [0xff, 0xfe], merkle_branch = [],
       job_version = 0x20000000, job_nbits = 0x1d00ffff, job_ntime = 0x69b33a70,
       clean_jobs = True, block_assembly = None \<rparr>"

definition notify_params :: "json \<Rightarrow> json list" where
  "notify_params notify =
     (case Option.bind (json_get ''params'' notify) as_array of None \<Rightarrow> [] | Some ps \<Rightarrow> ps)"

definition test_job_to_notify_mapping :: "hex_crate \<Rightarrow> bool" where
  "test_job_to_notify_mapping hx \<longleftrightarrow>
     (let notify = build_mining_notify hx live_job; params = notify_params notify
      in json_get ''method'' notify = Some (JString ''mining.notify'')
         \<and> params =
             [JString ''live-job-123'',
              JString ''00000000000000000000000000000000000000000000000000000000ab000000'',
              JString ''0102'', JString ''fffe'', JArray [], JString ''20000000'', JString ''1d00ffff'',
              JString ''69b33a70'', JBool True])"

definition test_job_to_notify_placeholder :: "hex_crate \<Rightarrow> bool" where
  "test_job_to_notify_placeholder hx \<longleftrightarrow>
     (let notify = build_mining_notify hx job_placeholder; params = notify_params notify
      in json_get ''method'' notify = Some (JString ''mining.notify'')
         \<and> list_get 0 params = Some (JString ''0'') \<and> list_get 8 params = Some (JBool True))"

definition test_prevhash_encodes_in_sv1_word_swapped_format :: "hex_crate \<Rightarrow> bool" where
  "test_prevhash_encodes_in_sv1_word_swapped_format hx \<longleftrightarrow>
     hex_encode_prevhash_sv1 hx (map word_of_nat [0..<32])
       = ''03020100070605040b0a09080f0e0d0c13121110171615141b1a19181f1e1d1c''"

lemma notify_tests:
  assumes "hex_documented hx"
  shows "test_job_to_notify_mapping hx" and "test_job_to_notify_placeholder hx"
    and "test_prevhash_encodes_in_sv1_word_swapped_format hx"
  by (simp_all add: test_job_to_notify_mapping_def test_job_to_notify_placeholder_def
      test_prevhash_encodes_in_sv1_word_swapped_format_def build_mining_notify_def live_job_def
      job_placeholder_def notify_params_def json_get_def obj_get_def hex_encode_prevhash_sv1_def
      hex_encode_text [OF assms] hex_text_def fmt_08x_def hex_printing upt_rec list_get_def replicate_more)

end
