(* ===== verification/Tests_Shares.thy ===== *)
theory Tests_Shares
  imports Share_Processor Tests_Support
begin

text \<open>
  The unit tests of \<open>coin_azcoin/src/share_validator.rs\<close> and \<open>pool_core/src/services.rs\<close>,
  translated test by test. They take the hash as a parameter; the one whose outcome depends
  on a particular hash says so in its lemma.
\<close>

section \<open>\<open>share_validator.rs\<close>\<close>

definition test_double_sha256 :: "hasher \<Rightarrow> bool" where
  "test_double_sha256 sha \<longleftrightarrow> length (double_sha256 sha []) = 32"

definition test_nbits_to_target_genesis :: bool where
  "test_nbits_to_target_genesis \<longleftrightarrow>
     (let t = nbits_to_target 0x1d00ffff
      in t ! 0 = 0 \<and> t ! 1 = 0 \<and> t ! 2 = 0 \<and> t ! 3 = 0 \<and> t ! 4 = 0xff \<and> t ! 5 = 0xff
         \<and> t ! 6 = 0 \<and> t ! 31 = 0)"

definition test_diff1_share_target_differs_from_live_network_block_target :: bool where
  "test_diff1_share_target_differs_from_live_network_block_target \<longleftrightarrow>
     (let block_target = nbits_to_target 0x170fffff;
          share_target = div_target_by_difficulty diff1_target 1
      in share_target = diff1_target \<and> share_target \<noteq> block_target)"

definition test_higher_pool_difficulty_produces_harder_share_target :: bool where
  "test_higher_pool_difficulty_produces_harder_share_target \<longleftrightarrow>
     (let share_target_diff1 = div_target_by_difficulty diff1_target 1;
          share_target_diff32 = div_target_by_difficulty diff1_target 32
      in share_target_diff32 \<noteq> share_target_diff1 \<and> leq_be share_target_diff32 share_target_diff1)"

definition test_build_block_header_len :: bool where
  "test_build_block_header_len \<longleftrightarrow>
     length (build_block_header 0x20000000 (replicate 32 0) (replicate 32 0) 0 0x1d00ffff 0) = 80"

definition low_job :: job where
  "low_job = job_placeholder\<lparr> job_id := ''test'' \<rparr>"

definition low_share :: share_submission where
  "low_share =
     \<lparr> share_job_id = ''test'', share_worker = worker_identity_new ''u.w'',
       extra_nonce2 = [0, 0, 0, 0], share_ntime = 0, share_nonce = 0, validation_context = None \<rparr>"

definition test_validate_share_low_difficulty :: "hex_crate \<Rightarrow> hasher \<Rightarrow> bool" where
  "test_validate_share_low_difficulty hx sha \<longleftrightarrow>
     (case validate_share hx sha azcoin_share_validator_new low_job low_share [0, 0, 0, 0] 4 of
        LowDifficulty r \<Rightarrow> True | _ \<Rightarrow> False)"

definition trace_job :: "u32 \<Rightarrow> bytes list \<Rightarrow> job" where
  "trace_job nbits branch =
     \<lparr> job_id = ''trace'', job_prev_hash = replicate 32 0, coinbase_part1 = [0x01, 0x02],
       coinbase_part2 = [0x03, 0x04], merkle_branch = branch, job_version = 0x20000000,
       job_nbits = nbits, job_ntime = 0x01020304, clean_jobs = True, block_assembly = None \<rparr>"

definition trace_share :: "share_validation_context option \<Rightarrow> share_submission" where
  "trace_share ctx =
     \<lparr> share_job_id = ''trace'', share_worker = worker_identity_new ''u.w'',
       extra_nonce2 = [0xbb, 0xcc], share_ntime = 0x05060708, share_nonce = 0x0a0b0c0d,
       validation_context = ctx \<rparr>"

definition test_block_target_still_comes_from_job_nbits :: "hex_crate \<Rightarrow> hasher \<Rightarrow> bool" where
  "test_block_target_still_comes_from_job_nbits hx sha \<longleftrightarrow>
     ok_with (build_share_validation_trace hx sha (trace_job 0x170fffff []) (trace_share None) [0xaa, 0xbb] 1)
       (\<lambda>t. tr_block_target t = nbits_to_target (job_nbits (trace_job 0x170fffff [])))"

definition rolling_share :: "u32 \<Rightarrow> share_submission" where
  "rolling_share b =
     low_share\<lparr> share_job_id := ''0'', validation_context := Some
       \<lparr> ctx_expected_extra_nonce2_len = None, ctx_extranonce1_hex = None,
         ctx_version_rolling_mask = Some 0x1fffe000, ctx_version_bits = Some b \<rparr> \<rparr>"

definition test_build_solved_block_header_applies_negotiated_version_bits ::
  "hex_crate \<Rightarrow> hasher \<Rightarrow> bool" where
  "test_build_solved_block_header_applies_negotiated_version_bits hx sha \<longleftrightarrow>
     ok_with (build_solved_block_header hx sha job_placeholder (rolling_share 0x00002000) [0, 0, 0, 0])
       (\<lambda>header. from_le_bytes32 (take 4 header) = 0x20002000)"

definition test_build_solved_block_header_rejects_version_bits_outside_mask ::
  "hex_crate \<Rightarrow> hasher \<Rightarrow> bool" where
  "test_build_solved_block_header_rejects_version_bits_outside_mask hx sha \<longleftrightarrow>
     err_with (build_solved_block_header hx sha job_placeholder (rolling_share 0x20000000) [0, 0, 0, 0])
       (\<lambda>e. str_contains e ''outside negotiated mask'')"

definition test_share_validation_trace_keeps_empty_merkle_branch_equivalent ::
  "hex_crate \<Rightarrow> hasher \<Rightarrow> bool" where
  "test_share_validation_trace_keeps_empty_merkle_branch_equivalent hx sha \<longleftrightarrow>
     ok_with (build_share_validation_trace hx sha (trace_job 0x1d00ffff []) (trace_share None) [0xaa, 0xbb] 1)
       (\<lambda>t. tr_coinbase_hash t = tr_validator_merkle_root t \<and> tr_branch_merkle_root_hex t = None)"

definition branch_ctx :: share_validation_context where
  "branch_ctx =
     \<lparr> ctx_expected_extra_nonce2_len = None, ctx_extranonce1_hex = Some ''aabb'',
       ctx_version_rolling_mask = Some 0x1fffe000, ctx_version_bits = Some 0x00002000 \<rparr>"

definition test_share_validation_trace_uses_branch_applied_merkle_root ::
  "hex_crate \<Rightarrow> hasher \<Rightarrow> bool" where
  "test_share_validation_trace_uses_branch_applied_merkle_root hx sha \<longleftrightarrow>
     (let job = trace_job 0x1d00ffff [replicate 32 0x11]
      in ok_with (build_share_validation_trace hx sha job (trace_share (Some branch_ctx)) [0xaa, 0xbb] 1)
           (\<lambda>t. tr_merged_version t = 0x20002000
              \<and> hex_encode hx (take 4 (tr_header t)) = ''00200020''
              \<and> tr_version_bits_hex t = Some ''00002000''
              \<and> tr_version_rolling_mask_hex t = Some ''1fffe000''
              \<and> tr_merkle_branch_hex t = [concat (replicate 32 ''11'')]
              \<and> tr_coinbase_hash t \<noteq> tr_validator_merkle_root t
              \<and> tr_validator_merkle_root t = apply_merkle_branch sha (tr_coinbase_hash t) (merkle_branch job)
              \<and> tr_branch_merkle_root_hex t = Some (hex_encode hx (tr_validator_merkle_root t))
              \<and> hex_encode hx (take 32 (drop 36 (tr_header t))) = hex_encode hx (tr_validator_merkle_root t)
              \<and> length (tr_block_target t) = 32 \<and> length (tr_share_target t) = 32))"

lemma genesis_target: "nbits_to_target 0x1d00ffff = [0, 0, 0, 0, 0xff, 0xff] @ replicate 26 0"
  by (simp add: nbits_to_target_def nbits_exponent_def nbits_mantissa_def replicate_more)

lemma live_target: "nbits_to_target 0x170fffff = replicate 9 0 @ [0x0f, 0xff, 0xff] @ replicate 20 0"
  by (simp add: nbits_to_target_def nbits_exponent_def nbits_mantissa_def replicate_more)

lemma diff_1_target: "div_target_by_difficulty t 1 = t"
  by (simp add: div_target_by_difficulty_def)

lemma diff_32_value: "be_nat (div_target_by_difficulty diff1_target 32) = 0xffff * 256 ^ 26 div 32"
  using be_nat_div_target [of diff1_target 32] by (simp add: diff1_target_value)

lemma target_tests:
  "test_nbits_to_target_genesis"
  "test_diff1_share_target_differs_from_live_network_block_target"
  "test_higher_pool_difficulty_produces_harder_share_target"
  "test_build_block_header_len"
proof -
  show "test_nbits_to_target_genesis"
    by (simp add: test_nbits_to_target_genesis_def genesis_target replicate_more)
  show "test_diff1_share_target_differs_from_live_network_block_target"
    by (simp add: test_diff1_share_target_differs_from_live_network_block_target_def diff_1_target
        diff1_target_def DIFF1_NBITS_def genesis_target live_target replicate_more)
  have "length diff1_target = 32" by (simp add: diff1_target_def DIFF1_NBITS_def genesis_target)
  moreover have "be_nat (div_target_by_difficulty diff1_target 32) < be_nat diff1_target"
    by (simp add: diff_32_value diff1_target_value)
  ultimately show "test_higher_pool_difficulty_produces_harder_share_target"
    by (auto simp: test_higher_pool_difficulty_produces_harder_share_target_def diff_1_target leq_be_iff)
  show "test_build_block_header_len"
    by (simp add: test_build_block_header_len_def length_build_block_header)
qed

lemma hash_tests:
  assumes sha: "sha256_documented sha"
  shows "test_double_sha256 sha"
    and "le_nat (double_sha256 sha (share_header sha 0x20000000 low_job low_share [0, 0, 0, 0])) > 0xffff * 256 ^ 26
       \<Longrightarrow> test_validate_share_low_difficulty hx sha"
proof -
  show "test_double_sha256 sha" by (simp add: test_double_sha256_def sha)
  have bits: "be_nat (nbits_to_target (job_nbits low_job)) = 0xffff * 256 ^ 26"
    using diff1_target_value by (simp add: low_job_def job_placeholder_def diff1_target_def DIFF1_NBITS_def)
  have v: "resolved_version (job_version low_job) low_share = Inr 0x20000000"
    by (simp add: resolved_version_def low_share_def low_job_def job_placeholder_def)
  have "(0xffff * 256 ^ 26 :: nat) div max 1 (unat (4 :: u32)) \<le> 0xffff * 256 ^ 26" by (rule div_le_dividend)
  then show "le_nat (double_sha256 sha (share_header sha 0x20000000 low_job low_share [0, 0, 0, 0])) > 0xffff * 256 ^ 26
       \<Longrightarrow> test_validate_share_low_difficulty hx sha"
    by (simp add: test_validate_share_low_difficulty_def validate_share_cases [OF sha] v bits Let_def)
qed

lemma rolled_version: "resolved_version 0x20000000 s = Inr 0x20002000"
  if "validation_context s = Some c" "ctx_version_bits c = Some 0x2000" "ctx_version_rolling_mask c = Some 0x1fffe000"
  using that by (simp add: resolved_version_def)

lemma solved_header_tests:
  "test_build_solved_block_header_applies_negotiated_version_bits hx sha"
  "test_build_solved_block_header_rejects_version_bits_outside_mask hx sha"
proof -
  show "test_build_solved_block_header_applies_negotiated_version_bits hx sha"
    by (simp add: test_build_solved_block_header_applies_negotiated_version_bits_def solved_header_cases
        rolling_share_def resolved_version_def job_placeholder_def share_header_def build_block_header_def)
  have "str_contains ((''version_bits '' @ fmt_08x 0x20000000 @ '' '') @ ''outside negotiated mask'' @ '' ''
      @ fmt_08x 0x1fffe000) ''outside negotiated mask''"
    by (rule str_contains_inside)
  then show "test_build_solved_block_header_rejects_version_bits_outside_mask hx sha"
    by (simp add: test_build_solved_block_header_rejects_version_bits_outside_mask_def solved_header_cases
        rolling_share_def resolved_version_def job_placeholder_def)
qed

lemma hex_text_11: "hex_text (replicate n 0x11) = concat (replicate n ''11'')"
  by (induction n) (simp_all add: hex_text_def hex_printing)

lemma trace_tests:
  shows "test_block_target_still_comes_from_job_nbits hx sha"
    and "test_share_validation_trace_keeps_empty_merkle_branch_equivalent hx sha"
    and "sha256_documented sha \<Longrightarrow> hex_documented hx \<Longrightarrow>
      (\<And>h. double_sha256 sha (h @ replicate 32 0x11) \<noteq> h) \<Longrightarrow>
      test_share_validation_trace_uses_branch_applied_merkle_root hx sha"
proof -
  show "test_block_target_still_comes_from_job_nbits hx sha"
    "test_share_validation_trace_keeps_empty_merkle_branch_equivalent hx sha"
    by (simp_all add: test_block_target_still_comes_from_job_nbits_def
        test_share_validation_trace_keeps_empty_merkle_branch_equivalent_def trace_cases trace_share_def
        trace_job_def resolved_version_def share_merkle_root_def)
  assume sha: "sha256_documented sha" and hx: "hex_documented hx"
    and fresh: "\<And>h. double_sha256 sha (h @ replicate 32 0x11) \<noteq> h"
  let ?job = "trace_job 0x1d00ffff [replicate 32 0x11]" and ?share = "trace_share (Some branch_ctx)"
  let ?h = "double_sha256 sha (build_coinbase ?job ?share [0xaa, 0xbb])"
  have root: "share_merkle_root sha ?job ?share [0xaa, 0xbb] = double_sha256 sha (?h @ replicate 32 0x11)"
    by (simp add: share_merkle_root_def trace_job_def)
  have v: "resolved_version (job_version ?job) ?share = Inr 0x20002000"
    by (simp add: trace_job_def trace_share_def branch_ctx_def resolved_version_def)
  have ok: "job_ok ?job" by (simp add: job_ok_def trace_job_def)
  have header: "share_header sha 0x20002000 ?job ?share [0xaa, 0xbb]
      = to_le_bytes32 0x20002000 @ replicate 32 0 @ share_merkle_root sha ?job ?share [0xaa, 0xbb]
        @ to_le_bytes32 0x05060708 @ to_le_bytes32 0x1d00ffff @ to_le_bytes32 0x0a0b0c0d"
    by (simp add: share_header_def build_block_header_def trace_job_def trace_share_def)
  have four: "hex_text (to_le_bytes32 0x20002000) = ''00200020''"
    by (simp add: hex_text_def hex_printing to_le_bytes32_def le_bytes_def upt_rec)
  have "length (share_merkle_root sha ?job ?share [0xaa, 0xbb]) = 32" by (simp add: root sha)
  then have root_bytes: "take 32 (drop 36 (share_header sha 0x20002000 ?job ?share [0xaa, 0xbb]))
      = share_merkle_root sha ?job ?share [0xaa, 0xbb]"
    by (simp add: header)
  have first_four: "take 4 (share_header sha 0x20002000 ?job ?share [0xaa, 0xbb]) = to_le_bytes32 0x20002000"
    by (simp add: header)
  show "test_share_validation_trace_uses_branch_applied_merkle_root hx sha"
    unfolding test_share_validation_trace_uses_branch_applied_merkle_root_def Let_def trace_cases v sum.case
    by (simp add: root_bytes first_four four fresh root)
      (simp add: four hex_encode_text [OF hx] trace_share_def branch_ctx_def trace_job_def
        hex_text_11 fmt_08x_def hex_printing share_merkle_root_def fresh [THEN not_sym])
qed

section \<open>\<open>services.rs\<close>\<close>

text \<open>\<open>FailingShareSink\<close>: the world is the number of calls.\<close>

definition failing_share_sink :: "nat share_sink" where
  "failing_share_sink share result d calls = (Inl ''share API unavailable'', calls + 1)"

definition test_share_sink_failure_is_non_fatal :: "hex_crate \<Rightarrow> bool" where
  "test_share_sink_failure_is_non_fatal hx \<longleftrightarrow>
     (let processor = processor_with_validator_and_share_sink accept_all_validate_share 4 (Some failing_share_sink);
          st = \<lparr> st_registry = register job_placeholder registry_new, st_recent = recent_shares_new,
                 st_world = 0 \<rparr>;
          share = low_share\<lparr> share_job_id := job_id job_placeholder \<rparr>
      in case process_share hx processor share st of
           (result, st) \<Rightarrow>
             result = Accepted \<and> st_world st = 1
             \<and> (let entries = recent (st_recent st) in length entries = 1 \<and> attempt_accepted (entries ! 0)))"

definition test_register_clean_jobs_invalidates_prior_jobs :: bool where
  "test_register_clean_jobs_invalidates_prior_jobs \<longleftrightarrow>
     (let registry = register (job_placeholder\<lparr> job_id := ''stale'', clean_jobs := False \<rparr>) registry_new;
          registry = register (job_placeholder\<lparr> job_id := ''fresh'', clean_jobs := True \<rparr>) registry
      in \<not> contains ''stale'' registry \<and> contains ''fresh'' registry)"

lemma services_tests:
  "test_share_sink_failure_is_non_fatal hx" "test_register_clean_jobs_invalidates_prior_jobs"
  by (simp_all add: test_share_sink_failure_is_non_fatal_def test_register_clean_jobs_invalidates_prior_jobs_def
      processor_with_validator_and_share_sink_def process_share_def check_shape_def session_extranonce1_def
      low_share_def finish_def record_share_result_def failing_share_sink_def accept_all_validate_share_def
      register_def register_entry_def registry_new_def get_job_def job_placeholder_def contains_def
      recent_shares_new_def record_attempt_def recent_def share_attempt_of_def MAX_RECENT_def)

end
