(* ===== verification/Json_Structs.thy ===== *)
theory Json_Structs
  imports Node_Api Sv1_Messages "HOL-Library.Monad_Syntax"
begin

text \<open>
  The derived \<open>Deserialize\<close> of the structs the pool reads as JSON: \<open>BlockTemplate\<close>
  (\<open>daemon.rs\<close>), \<open>NodeApiTemplate\<close> (\<open>node_api.rs\<close>) and \<open>Sv1Request\<close> (\<open>messages.rs\<close>), from the
  parsed JSON value. They are instances of the parameters \<open>from_value\<close> of \<open>Daemon_Client\<close> and
  \<open>Node_Api\<close>, and of \<open>wr_from_str\<close> of \<open>Sv1_Server\<close> after the text is parsed.

  A struct is read from an object, whose unknown keys are ignored and whose known keys must
  not repeat, or from an array with the fields in order. A missing field is an error, unless
  its type is an \<open>Option\<close>, and a value of another type or out of range is one too. The message
  of an error is rendered by the crate: \<open>deserialize\<close> has it as the parameter \<open>err\<close>.
\<close>

section \<open>Values\<close>

fun read_bool :: "json \<Rightarrow> bool option" where
  "read_bool (JBool b) = Some b"
| "read_bool _ = None"

definition read_u32 :: "json \<Rightarrow> u32 option" where
  "read_u32 j = do { n \<leftarrow> as_u64 j; if unat n < 2 ^ 32 then Some (ucast n) else None }"

fun read_list :: "(json \<Rightarrow> 'a option) \<Rightarrow> json \<Rightarrow> 'a list option" where
  "read_list read (JArray js) = those (map read js)"
| "read_list read _ = None"

definition read_option :: "(json \<Rightarrow> 'a option) \<Rightarrow> json \<Rightarrow> 'a option option" where
  "read_option read j = (if j = JNull then Some None else map_option Some (read j))"

fun struct_fields :: "string list \<Rightarrow> json \<Rightarrow> (string \<times> json) list option" where
  "struct_fields ks (JObject m) =
     (if distinct (filter (\<lambda>k. k \<in> set ks) (map fst m)) then Some m else None)"
| "struct_fields ks (JArray vs) = (if length vs = length ks then Some (zip ks vs) else None)"
| "struct_fields ks _ = None"

definition required :: "(string \<times> json) list \<Rightarrow> string \<Rightarrow> (json \<Rightarrow> 'a option) \<Rightarrow> 'a option" where
  "required m k read = do { j \<leftarrow> map_of m k; read j }"

definition optional :: "(string \<times> json) list \<Rightarrow> string \<Rightarrow> (json \<Rightarrow> 'a option) \<Rightarrow> 'a option option" where
  "optional m k read = (case map_of m k of None \<Rightarrow> Some None | Some j \<Rightarrow> read_option read j)"

definition deserialize :: "(json \<Rightarrow> string) \<Rightarrow> (json \<Rightarrow> 'a option) \<Rightarrow> json \<Rightarrow> string + 'a" where
  "deserialize err read j = (case read j of None \<Rightarrow> Inl (err j) | Some x \<Rightarrow> Inr x)"

section \<open>Structs\<close>

definition transaction_entry_from_json :: "json \<Rightarrow> transaction_entry option" where
  "transaction_entry_from_json j = do {
     m \<leftarrow> struct_fields [''data'', ''txid'', ''hash''] j;
     d \<leftarrow> required m ''data'' as_str;
     t \<leftarrow> optional m ''txid'' as_str;
     h \<leftarrow> optional m ''hash'' as_str;
     Some \<lparr> te_data = d, te_txid = t, te_hash = h \<rparr> }"

definition coinbase_aux_from_json :: "json \<Rightarrow> coinbase_aux option" where
  "coinbase_aux_from_json j = do {
     m \<leftarrow> struct_fields [''flags''] j;
     f \<leftarrow> optional m ''flags'' as_str;
     Some \<lparr> aux_flags = f \<rparr> }"

definition block_template_from_json :: "json \<Rightarrow> block_template option" where
  "block_template_from_json j = do {
     m \<leftarrow> struct_fields [''version'', ''previousblockhash'', ''bits'', ''curtime'', ''height'',
            ''transactions'', ''coinbasevalue'', ''coinbaseaux'', ''default_witness_commitment''] j;
     v \<leftarrow> required m ''version'' read_u32;
     p \<leftarrow> required m ''previousblockhash'' as_str;
     b \<leftarrow> required m ''bits'' as_str;
     c \<leftarrow> required m ''curtime'' as_u64;
     h \<leftarrow> required m ''height'' as_u64;
     ts \<leftarrow> required m ''transactions'' (read_list transaction_entry_from_json);
     cv \<leftarrow> required m ''coinbasevalue'' as_u64;
     a \<leftarrow> optional m ''coinbaseaux'' coinbase_aux_from_json;
     w \<leftarrow> optional m ''default_witness_commitment'' as_str;
     Some \<lparr> bt_version = v, previousblockhash = p, bits = b, curtime = c, bt_height = h,
            transactions = ts, coinbasevalue = cv, coinbaseaux = a, default_witness_commitment = w \<rparr> }"

definition node_api_template_from_json :: "json \<Rightarrow> node_api_template option" where
  "node_api_template_from_json j = do {
     m \<leftarrow> struct_fields [''job_id'', ''prev_hash'', ''version'', ''nbits'', ''ntime'', ''clean_jobs'', ''height''] j;
     i \<leftarrow> required m ''job_id'' as_str;
     p \<leftarrow> required m ''prev_hash'' as_str;
     v \<leftarrow> required m ''version'' read_u32;
     b \<leftarrow> required m ''nbits'' as_str;
     t \<leftarrow> required m ''ntime'' as_str;
     c \<leftarrow> required m ''clean_jobs'' read_bool;
     h \<leftarrow> required m ''height'' as_u64;
     Some \<lparr> nt_job_id = i, nt_prev_hash = p, nt_version = v, nt_nbits = b, nt_ntime = t,
            nt_clean_jobs = c, nt_height = h \<rparr> }"

definition sv1_request_from_json :: "json \<Rightarrow> sv1_request option" where
  "sv1_request_from_json j = do {
     m \<leftarrow> struct_fields [''id'', ''method'', ''params''] j;
     i \<leftarrow> optional m ''id'' Some;
     n \<leftarrow> required m ''method'' as_str;
     p \<leftarrow> optional m ''params'' Some;
     Some \<lparr> rq_id = i, rq_method = n, rq_params = p \<rparr> }"

section \<open>Lemmas\<close>

lemma deserialize_Inr [simp]: "deserialize err read j = Inr x \<longleftrightarrow> read j = Some x"
  by (simp add: deserialize_def split: option.split)

lemma bind_Some: "(x \<bind> f) = Some y \<longleftrightarrow> (\<exists>v. x = Some v \<and> f v = Some y)"
  by (cases x) simp_all

text \<open>
  What a template needs: fields that are absent or of another type are not made up. The
  values of the struct are the ones at the keys.
\<close>

lemma as_str_Some: "as_str j = Some s \<longleftrightarrow> j = JString s"
  by (cases j) auto

lemma as_u64_Some: "as_u64 j = Some n \<longleftrightarrow> j = JNumber (PosInt n)"
  by (cases j rule: as_u64.cases) auto

lemma read_bool_Some: "read_bool j = Some b \<longleftrightarrow> j = JBool b"
  by (cases j) auto

lemma read_u32_Some: "read_u32 j = Some n \<longleftrightarrow> j = json_u32 n"
proof
  assume "read_u32 j = Some n"
  then obtain m where m: "j = JNumber (PosInt m)" "unat m < 2 ^ 32" "n = ucast m"
    by (auto simp: read_u32_def bind_Some as_u64_Some split: if_splits)
  have "ucast n = m"
    using m(2,3) by (intro word_unat_eq_iff [THEN iffD2]) (simp add: unsigned_ucast_eq unsigned_take_bit_eq take_bit_nat_eq_self)
  then show "j = json_u32 n" using m by (simp add: json_u32_def)
next
  assume "j = json_u32 n"
  moreover have "unat n < 2 ^ 32" using unsigned_less [of n, where ?'a = nat] by simp
  ultimately show "read_u32 j = Some n"
    by (simp add: read_u32_def json_u32_def unsigned_ucast_eq unsigned_take_bit_eq take_bit_nat_eq_self
        word_unat_eq_iff)
qed

lemma node_api_template_object:
  assumes "node_api_template_from_json (JObject m) = Some t"
  shows "json_get ''job_id'' (JObject m) = Some (JString (nt_job_id t))
       \<and> json_get ''prev_hash'' (JObject m) = Some (JString (nt_prev_hash t))
       \<and> json_get ''version'' (JObject m) = Some (json_u32 (nt_version t))
       \<and> json_get ''nbits'' (JObject m) = Some (JString (nt_nbits t))
       \<and> json_get ''ntime'' (JObject m) = Some (JString (nt_ntime t))
       \<and> json_get ''clean_jobs'' (JObject m) = Some (JBool (nt_clean_jobs t))
       \<and> json_get ''height'' (JObject m) = Some (JNumber (PosInt (nt_height t)))"
  using assms
  by (auto simp: node_api_template_from_json_def bind_Some required_def as_str_Some as_u64_Some
      read_bool_Some read_u32_Some json_get_def obj_get_def split: if_splits)

lemma sv1_request_object:
  assumes "sv1_request_from_json (JObject m) = Some r"
  shows "json_get ''method'' (JObject m) = Some (JString (rq_method r))
       \<and> rq_id r = (case json_get ''id'' (JObject m) of Some JNull \<Rightarrow> None | v \<Rightarrow> v)
       \<and> rq_params r = (case json_get ''params'' (JObject m) of Some JNull \<Rightarrow> None | v \<Rightarrow> v)"
  using assms
  by (auto simp: sv1_request_from_json_def bind_Some required_def optional_def read_option_def
      as_str_Some json_get_def obj_get_def split: if_splits option.splits json.splits)

end
