(* ===== verification/Tests_Node.thy ===== *)
theory Tests_Node
  imports Json_Structs Tests_Support
begin

text \<open>
  The unit tests of \<open>daemon.rs\<close>, \<open>node_api.rs\<close> and \<open>api_template_mapper.rs\<close> (crate
  \<open>coin_azcoin\<close>), translated. A mock server answers the requests that match it and counts
  them; anything else is answered with the status 501. How statuses and JSON values are
  rendered is left open (\<open>http\<close>).
\<close>

section \<open>The mock server\<close>

definition server_url :: string where
  "server_url = ''http://127.0.0.1:1234''"

definition mock_server ::
  "nat http_crate \<Rightarrow> (http_request \<Rightarrow> bool) \<Rightarrow> http_response \<Rightarrow> nat http_crate" where
  "mock_server http expects resp =
     http\<lparr> http_send := (\<lambda>req hits.
       if expects req then (Inr resp, hits + 1)
       else (Inr \<lparr> resp_status = 501, resp_json = Inl ''no mock'' \<rparr>, hits)) \<rparr>"

definition json_answer :: "json \<Rightarrow> http_response" where
  "json_answer j = \<lparr> resp_status = 200, resp_json = Inr j \<rparr>"

definition rpc_answer :: "json \<Rightarrow> http_response" where
  "rpc_answer r =
     json_answer (JObject [(''result'', r), (''error'', JNull), (''id'', JString ''azcoin-pool'')])"

definition rpc_posted :: "http_request \<Rightarrow> bool" where
  "rpc_posted req \<longleftrightarrow> req_method req = POST \<and> req_url req = server_url @ ''/''"

definition body_field :: "string \<Rightarrow> http_request \<Rightarrow> json option" where
  "body_field k req = Option.bind (req_body req) (json_get k)"

section \<open>\<open>daemon.rs\<close>\<close>

definition test_submit_block_success_when_rpc_returns_null :: "hex_crate \<Rightarrow> nat http_crate \<Rightarrow> bool" where
  "test_submit_block_success_when_rpc_returns_null hx http \<longleftrightarrow>
     (let server = mock_server http
            (\<lambda>req. rpc_posted req \<and> body_field ''method'' req = Some (JString ''submitblock'')
                   \<and> body_field ''params'' req = Some (json_strings [''01020304'']))
            (rpc_answer JNull);
          (result, hits) = daemon_submit_block hx server (daemon_client_new server_url [] [])
            [0x01, 0x02, 0x03, 0x04] 0
      in hits = 1 \<and> ok_with result (\<lambda>b. b))"

definition test_submit_block_reject_when_rpc_returns_reason_string ::
  "hex_crate \<Rightarrow> nat http_crate \<Rightarrow> bool" where
  "test_submit_block_reject_when_rpc_returns_reason_string hx http \<longleftrightarrow>
     (let server = mock_server http rpc_posted (rpc_answer (JString ''high-hash''));
          (result, hits) = daemon_submit_block hx server (daemon_client_new server_url [] []) [0xaa, 0xbb] 0
      in err_with result (\<lambda>e. (case e of Daemon_Error _ \<Rightarrow> True | _ \<Rightarrow> False)
           \<and> str_contains (pool_error_to_string e) ''submitblock rejected: high-hash''))"

definition test_submit_block_unexpected_response_shape_fails_clearly ::
  "hex_crate \<Rightarrow> nat http_crate \<Rightarrow> bool" where
  "test_submit_block_unexpected_response_shape_fails_clearly hx http \<longleftrightarrow>
     (let server = mock_server http rpc_posted (rpc_answer (JObject [(''status'', JString ''ok'')]));
          (result, hits) = daemon_submit_block hx server (daemon_client_new server_url [] []) [0xaa, 0xbb] 0
      in err_with result (\<lambda>e. (case e of Daemon_Error _ \<Rightarrow> True | _ \<Rightarrow> False)
           \<and> str_contains (pool_error_to_string e) ''submitblock returned unexpected result''))"

definition test_submit_block_request_payload_contains_hex_encoded_block ::
  "hex_crate \<Rightarrow> nat http_crate \<Rightarrow> bool" where
  "test_submit_block_request_payload_contains_hex_encoded_block hx http \<longleftrightarrow>
     (let server = mock_server http
            (\<lambda>req. rpc_posted req \<and> body_field ''params'' req = Some (json_strings [''deadbeef'']))
            (rpc_answer (JString []));
          (result, hits) = daemon_submit_block hx server (daemon_client_new server_url [] [])
            [0xde, 0xad, 0xbe, 0xef] 0
      in hits = 1 \<and> ok_with result (\<lambda>b. b))"

lemma server_url_trimmed: "trim_end_matches CHR ''/'' server_url = server_url"
  unfolding server_url_def by code_simp

lemma trim_node_strings: "trim [] = []" "trim ''high-hash'' = ''high-hash''" "trim ''testtoken-123'' = ''testtoken-123''"
    "trim ''69b33a70'' = ''69b33a70''" "trim ''65900000'' = ''65900000''" "trim ''zz'' = ''zz''"
  by (rule trim_printable, simp add: printable_def char_nat_def)+

lemma rpc_call_mock:
  assumes "expects (rpc_request self m params)"
  shows "rpc_call (mock_server http expects (rpc_answer r)) self m params n = (Inr r, n + 1)"
  using assms
  by (simp add: rpc_call_def mock_server_def rpc_answer_def json_answer_def rpc_response_def
      is_success_def json_get_def obj_get_def and_then_def map_err_def ok_or_def Let_def)

lemma rpc_request_fields:
  "rpc_posted (rpc_request (daemon_client_new server_url [] []) m params)"
  "body_field ''method'' (rpc_request self m params) = Some (JString m)"
  "body_field ''params'' (rpc_request self m params) = Some params"
  by (simp_all add: rpc_posted_def rpc_request_def body_field_def daemon_client_new_def server_url_trimmed
      json_get_def obj_get_def)

lemma test_block_hex: "hex_text [0x01, 0x02, 0x03, 0x04] = ''01020304''" "hex_text [0xde, 0xad, 0xbe, 0xef] = ''deadbeef''"
  by (simp_all add: hex_text_def hex_fixed_2 hex_digits)

lemmas node_test_eval =
  daemon_submit_block_def rpc_call_mock rpc_request_fields trim_node_strings json_strings_def and_then_def

lemma daemon_tests:
  assumes "hex_documented hx"
  shows "test_submit_block_success_when_rpc_returns_null hx http"
    and "test_submit_block_reject_when_rpc_returns_reason_string hx http"
    and "test_submit_block_unexpected_response_shape_fails_clearly hx http"
    and "test_submit_block_request_payload_contains_hex_encoded_block hx http"
proof -
  note hex = hex_encode_text [OF assms] test_block_hex
  show "test_submit_block_success_when_rpc_returns_null hx http"
    by (simp add: test_submit_block_success_when_rpc_returns_null_def node_test_eval hex)
  show "test_submit_block_request_payload_contains_hex_encoded_block hx http"
    by (simp add: test_submit_block_request_payload_contains_hex_encoded_block_def node_test_eval hex)
  have "str_contains (''daemon/RPC error: '' @ ''submitblock rejected: high-hash'' @ [])
      ''submitblock rejected: high-hash''"
    by (rule str_contains_inside)
  then show "test_submit_block_reject_when_rpc_returns_reason_string hx http"
    by (simp add: test_submit_block_reject_when_rpc_returns_reason_string_def node_test_eval)
  have "str_contains (''daemon/RPC error: '' @ ''submitblock returned unexpected result'' @ '': '' @ s)
      ''submitblock returned unexpected result''" for s
    by (rule str_contains_inside)
  then show "test_submit_block_unexpected_response_shape_fails_clearly hx http"
    by (simp add: test_submit_block_unexpected_response_shape_fails_clearly_def node_test_eval)
qed

section \<open>\<open>node_api.rs\<close>\<close>

text \<open>\<open>REAL_API_PAYLOAD\<close>, as the JSON value its text stands for.\<close>

definition real_api_payload :: json where
  "real_api_payload =
     JObject [(''job_id'', JString ''c68fdce62b92e2d8''),
       (''prev_hash'', JString ''0000000000000000c589462bc769be8b4a12fddd736d5bd5e47966e10421222b''),
       (''version'', json_nat 536870912), (''nbits'', JString ''1a020e7c''), (''ntime'', JString ''69b33a70''),
       (''clean_jobs'', JBool True), (''height'', json_nat 808523)]"

definition read_template :: "(json \<Rightarrow> string) \<Rightarrow> json \<Rightarrow> string + node_api_template" where
  "read_template err = deserialize err node_api_template_from_json"

definition test_deserialize_real_api_payload :: "(json \<Rightarrow> string) \<Rightarrow> bool" where
  "test_deserialize_real_api_payload err \<longleftrightarrow>
     ok_with (read_template err real_api_payload) (\<lambda>template.
       nt_job_id template = ''c68fdce62b92e2d8''
       \<and> nt_prev_hash template = ''0000000000000000c589462bc769be8b4a12fddd736d5bd5e47966e10421222b''
       \<and> nt_version template = 536870912 \<and> nt_nbits template = ''1a020e7c''
       \<and> nt_ntime template = ''69b33a70'' \<and> nt_clean_jobs template \<and> nt_height template = 808523)"

definition bearer :: "http_request \<Rightarrow> bool" where
  "bearer req \<longleftrightarrow> req_auth req = Some (Bearer_Auth ''testtoken-123'')"

definition template_asked :: "http_request \<Rightarrow> bool" where
  "template_asked req \<longleftrightarrow>
     req_method req = GET \<and> req_url req = server_url @ ''/v1/az/mining/template/current''"

definition test_bearer_auth_header_present_and_formatted ::
  "nat http_crate \<Rightarrow> (json \<Rightarrow> string) \<Rightarrow> bool" where
  "test_bearer_auth_header_present_and_formatted http err \<longleftrightarrow>
     (let server = mock_server http (\<lambda>req. template_asked req \<and> bearer req) (json_answer real_api_payload);
          client = node_api_client_new server_url (Some ''testtoken-123'');
          (result, hits) = get_template_current server (read_template err) client 0
      in auth_configured client \<and> hits = 1
         \<and> ok_with result (\<lambda>t. case t of None \<Rightarrow> False
             | Some template \<Rightarrow> nt_height template = 808523 \<and> nt_job_id template = ''c68fdce62b92e2d8''))"

definition test_without_token_succeeds_when_server_does_not_require_auth ::
  "nat http_crate \<Rightarrow> (json \<Rightarrow> string) \<Rightarrow> bool" where
  "test_without_token_succeeds_when_server_does_not_require_auth http err \<longleftrightarrow>
     (let server = mock_server http template_asked (json_answer real_api_payload);
          client = node_api_client_new server_url None;
          (result, hits) = get_template_current server (read_template err) client 0
      in \<not> auth_configured client \<and> is_ok result)"

definition example_share :: share_submission where
  "example_share =
     \<lparr> share_job_id = ''job-1'', share_worker = worker_identity_new ''miner.worker'',
       extra_nonce2 = [0xaa, 0xbb, 0xcc, 0xdd], share_ntime = 0x69b33a70, share_nonce = 0x01020304,
       validation_context = None \<rparr>"

definition test_build_share_request_matches_live_contract :: "hex_crate \<Rightarrow> i64 \<Rightarrow> bool" where
  "test_build_share_request_matches_live_contract hx timestamp \<longleftrightarrow>
     (let accepted = build_share_request hx timestamp example_share Accepted 32;
          rejected = build_share_request hx timestamp example_share (Rejected ''low diff'') 32
      in 0 <s sr_ts accepted \<and> sr_worker accepted = ''miner.worker'' \<and> sr_job_id accepted = ''job-1''
         \<and> sr_extranonce2 accepted = ''aabbccdd'' \<and> sr_ntime accepted = ''69b33a70''
         \<and> sr_nonce accepted = ''01020304'' \<and> sr_accepted accepted \<and> \<not> sr_duplicate accepted
         \<and> sr_share_diff accepted = 32 \<and> sr_reason accepted = []
         \<and> \<not> sr_accepted rejected \<and> sr_reason rejected = ''low diff'')"

definition posted_share :: node_api_share_request where
  "posted_share =
     \<lparr> sr_ts = 1743339296, sr_worker = ''miner.worker'', sr_job_id = ''job-1'', sr_extranonce2 = ''aabbccdd'',
       sr_ntime = ''69b33a70'', sr_nonce = ''01020304'', sr_accepted = True, sr_duplicate = False,
       sr_share_diff = 32, sr_reason = [] \<rparr>"

definition test_post_share_uses_expected_path_and_auth :: "nat http_crate \<Rightarrow> bool" where
  "test_post_share_uses_expected_path_and_auth http \<longleftrightarrow>
     (let server = mock_server http
            (\<lambda>req. req_method req = POST \<and> req_url req = server_url @ ''/v1/mining/share'' \<and> bearer req
               \<and> list_all (\<lambda>(k, v). body_field k req = Some v)
                   [(''ts'', json_nat 1743339296), (''worker'', JString ''miner.worker''),
                    (''job_id'', JString ''job-1''), (''extranonce2'', JString ''aabbccdd''),
                    (''ntime'', JString ''69b33a70''), (''nonce'', JString ''01020304''),
                    (''accepted'', JBool True), (''duplicate'', JBool False),
                    (''share_diff'', json_nat 32), (''reason'', JString [])])
            \<lparr> resp_status = 200, resp_json = Inl ''empty body'' \<rparr>;
          client = node_api_client_new server_url (Some ''testtoken-123'');
          (result, hits) = post_share server client posted_share 0
      in hits = 1 \<and> is_ok result)"

definition real_template :: node_api_template where
  "real_template =
     \<lparr> nt_job_id = ''c68fdce62b92e2d8'',
       nt_prev_hash = ''0000000000000000c589462bc769be8b4a12fddd736d5bd5e47966e10421222b'',
       nt_version = 536870912, nt_nbits = ''1a020e7c'', nt_ntime = ''69b33a70'', nt_clean_jobs = True,
       nt_height = 808523 \<rparr>"

lemma read_real_payload: "read_template err real_api_payload = Inr real_template"
  by (simp add: read_template_def node_api_template_from_json_def real_api_payload_def required_def
      read_u32_def json_nat_def real_template_def)

lemma get_template_mock:
  assumes "expects (node_api_request self GET ''/v1/az/mining/template/current'' None)"
  shows "get_template_current (mock_server http expects (json_answer real_api_payload)) (read_template err) self n
           = (Inr (Some real_template), n + 1)"
  using assms
  by (simp add: get_template_current_def mock_server_def json_answer_def is_success_def read_real_payload
      and_then_def map_err_def)

lemma test_share_hex:
  "hex_text [0xaa, 0xbb, 0xcc, 0xdd] = ''aabbccdd''" "fmt_08x 0x69b33a70 = ''69b33a70''"
  "fmt_08x 0x01020304 = ''01020304''"
  by (simp_all add: hex_text_def hex_fixed_2 fmt_08x_def hex_printing)

lemma node_api_tests:
  "test_deserialize_real_api_payload err"
  "test_bearer_auth_header_present_and_formatted http err"
  "test_without_token_succeeds_when_server_does_not_require_auth http err"
  "test_post_share_uses_expected_path_and_auth http"
proof -
  show "test_deserialize_real_api_payload err"
    by (simp add: test_deserialize_real_api_payload_def read_real_payload real_template_def)
  show "test_bearer_auth_header_present_and_formatted http err"
    by (simp add: test_bearer_auth_header_present_and_formatted_def node_api_client_new_def
        auth_configured_def trim_node_strings get_template_mock node_api_request_def template_asked_def
        bearer_def server_url_trimmed real_template_def)
  show "test_without_token_succeeds_when_server_does_not_require_auth http err"
    by (simp add: test_without_token_succeeds_when_server_does_not_require_auth_def node_api_client_new_def
        auth_configured_def get_template_mock node_api_request_def template_asked_def
        server_url_trimmed is_ok_def)
  show "test_post_share_uses_expected_path_and_auth http"
    by (simp add: test_post_share_uses_expected_path_and_auth_def node_api_client_new_def
        trim_node_strings post_share_def mock_server_def node_api_request_def bearer_def server_url_trimmed
        body_field_def json_get_def obj_get_def share_request_json_def posted_share_def json_i64_def
        json_u32_def json_nat_def is_success_def is_ok_def)
qed

lemma share_request_test:
  assumes "hex_documented hx" and "0 <s timestamp"
  shows "test_build_share_request_matches_live_contract hx timestamp"
  using assms(2)
  by (simp add: test_build_share_request_matches_live_contract_def build_share_request_def
      example_share_def worker_identity_new_def hex_encode_text [OF assms(1)] test_share_hex
      split: prod.split)

section \<open>\<open>api_template_mapper.rs\<close>\<close>

definition fixture_api_template :: node_api_template where
  "fixture_api_template =
     \<lparr> nt_job_id = ''test-job-123'',
       nt_prev_hash = ''0000000000000000000000000000000000000000000000000000000000000001'',
       nt_version = 0x20000000, nt_nbits = ''1d00ffff'', nt_ntime = ''65900000'', nt_clean_jobs = True,
       nt_height = 200 \<rparr>"

definition test_api_template_to_job_maps_fields :: "hex_crate \<Rightarrow> bool" where
  "test_api_template_to_job_maps_fields hx \<longleftrightarrow>
     ok_with (api_template_to_job hx fixture_api_template) (\<lambda>job.
       job_id job = ''test-job-123'' \<and> job_version job = 0x20000000 \<and> job_nbits job = 0x1d00ffff
       \<and> clean_jobs job \<and> job_prev_hash job ! 0 = 0x01 \<and> job_prev_hash job ! 31 = 0x00
       \<and> 5 + 8 \<le> length (coinbase_part1 job) \<and> coinbase_part2 job = [0xff, 0xff, 0xff, 0xff])"

definition test_api_template_to_job_real_payload :: "hex_crate \<Rightarrow> (json \<Rightarrow> string) \<Rightarrow> bool" where
  "test_api_template_to_job_real_payload hx err \<longleftrightarrow>
     ok_with (read_template err real_api_payload) (\<lambda>template.
       ok_with (api_template_to_job hx template) (\<lambda>job.
         job_id job = ''c68fdce62b92e2d8'' \<and> job_version job = 536870912 \<and> clean_jobs job))"

definition test_api_template_to_job_invalid_prev_hash_fails :: "hex_crate \<Rightarrow> bool" where
  "test_api_template_to_job_invalid_prev_hash_fails hx \<longleftrightarrow>
     \<not> is_ok (api_template_to_job hx (fixture_api_template\<lparr> nt_prev_hash := ''zz'' \<rparr>))"

definition test_api_template_to_job_invalid_ntime_fails :: "hex_crate \<Rightarrow> bool" where
  "test_api_template_to_job_invalid_ntime_fails hx \<longleftrightarrow>
     \<not> is_ok (api_template_to_job hx (fixture_api_template\<lparr> nt_ntime := ''zz'' \<rparr>))"

lemma api_test_hex:
  "hex_text (replicate 31 0 @ [1]) = ''0000000000000000000000000000000000000000000000000000000000000001''"
  "hex_text [0, 0, 0, 0, 0, 0, 0, 0, 0xc5, 0x89, 0x46, 0x2b, 0xc7, 0x69, 0xbe, 0x8b, 0x4a, 0x12, 0xfd, 0xdd,
     0x73, 0x6d, 0x5b, 0xd5, 0xe4, 0x79, 0x66, 0xe1, 0x04, 0x21, 0x22, 0x2b]
   = ''0000000000000000c589462bc769be8b4a12fddd736d5bd5e47966e10421222b''"
  "hex_text [0x1d, 0x00, 0xff, 0xff] = ''1d00ffff''" "hex_text [0x1a, 0x02, 0x0e, 0x7c] = ''1a020e7c''"
  "hex_text [0x65, 0x90, 0x00, 0x00] = ''65900000''" "hex_text [0x69, 0xb3, 0x3a, 0x70] = ''69b33a70''"
  by (simp_all add: hex_text_def hex_fixed_2 hex_digits replicate_more)

lemma zz_no_hex: "hex_pairs ''zz'' = None"
  by code_simp

lemma api_template_tests:
  assumes "hex_documented hx"
  shows "test_api_template_to_job_maps_fields hx"
    and "test_api_template_to_job_real_payload hx err"
    and "test_api_template_to_job_invalid_prev_hash_fails hx"
    and "test_api_template_to_job_invalid_ntime_fails hx"
proof -
  note dec = hex_decode_hex_text [OF assms]
  obtain e where zz: "hex_decode hx ''zz'' = Inl e"
    using hex_decode_Inl [OF assms] zz_no_hex by blast
  have fixture: "decode_prev_hash hx (nt_prev_hash fixture_api_template) = Inr (rev (replicate 31 0 @ [1]))"
    "decode_bits hx (nt_nbits fixture_api_template) = Inr 0x1d00ffff"
    "\<exists>t. ntime_hex_to_u32 hx (nt_ntime fixture_api_template) = Inr t"
    by (simp_all add: fixture_api_template_def api_test_hex [symmetric] decode_prev_hash_Inr decode_bits_Inr
        ntime_hex_to_u32_Inr trim_node_strings dec from_be_bytes32_def be_nat_Cons)
  then show "test_api_template_to_job_maps_fields hx"
    by (auto simp: test_api_template_to_job_maps_fields_def api_template_to_job_def and_then_def
        api_build_coinbase_parts_def fixture_api_template_def to_le_bytes64_def replicate_more)
  have "decode_prev_hash hx (nt_prev_hash real_template)
      = Inr (rev [0, 0, 0, 0, 0, 0, 0, 0, 0xc5, 0x89, 0x46, 0x2b, 0xc7, 0x69, 0xbe, 0x8b, 0x4a, 0x12, 0xfd, 0xdd,
          0x73, 0x6d, 0x5b, 0xd5, 0xe4, 0x79, 0x66, 0xe1, 0x04, 0x21, 0x22, 0x2b])"
    and "\<exists>n. decode_bits hx (nt_nbits real_template) = Inr n"
    and "\<exists>t. ntime_hex_to_u32 hx (nt_ntime real_template) = Inr t"
    by (simp_all add: real_template_def api_test_hex [symmetric] decode_prev_hash_Inr decode_bits_Inr
        ntime_hex_to_u32_Inr trim_node_strings dec)
  then show "test_api_template_to_job_real_payload hx err"
    by (auto simp: test_api_template_to_job_real_payload_def read_real_payload api_template_to_job_def
        and_then_def api_build_coinbase_parts_def)
      (simp_all add: real_template_def)
  show "test_api_template_to_job_invalid_prev_hash_fails hx"
    by (simp add: test_api_template_to_job_invalid_prev_hash_fails_def api_template_to_job_def
        decode_prev_hash_def zz is_ok_def map_err_def and_then_def)
  show "test_api_template_to_job_invalid_ntime_fails hx"
    using fixture
    by (auto simp: test_api_template_to_job_invalid_ntime_fails_def api_template_to_job_def
        ntime_hex_to_u32_def trim_node_strings zz is_ok_def map_err_def and_then_def split: sum.split)
qed

end
