(* ===== verification/Tests_Coinbase.thy ===== *)
theory Tests_Coinbase
  imports Mined_Block Tests_Support
begin

text \<open>
  The unit tests of \<open>coinbase_builder.rs\<close> and \<open>raw_block_builder.rs\<close>, translated. They look at
  the bytes of a transaction and read them back with the crate \<open>bitcoin\<close>: \<open>wire_format\<close> is the
  documented layout of a serialized transaction with the constants of a coinbase, \<open>reads_back\<close>
  that the crate reads the two serializations of a transaction.
\<close>

section \<open>The crate and windows of bytes\<close>

definition wire_format :: "bitcoin_crate \<Rightarrow> bool" where
  "wire_format btc \<longleftrightarrow>
     bitcoin_documented btc \<and> (\<forall>tx. tx_serialize btc tx = sample_serialize tx)
     \<and> version_one btc = 1 \<and> lock_time_zero btc = 0 \<and> sequence_max btc = 0xFFFFFFFF
     \<and> null_out_point btc = \<lparr> op_txid = replicate 32 0, op_vout = 0xFFFFFFFF \<rparr>"

definition reads_back :: "bitcoin_crate \<Rightarrow> transaction \<Rightarrow> bool" where
  "reads_back btc tx \<longleftrightarrow> round_trips btc tx \<and> legacy_round_trip btc tx"

lemma wire_format_sample [simp]: "wire_format (sample_bitcoin known)"
  by (simp add: wire_format_def) (simp add: sample_bitcoin_def)

lemma reads_backD:
  assumes "reads_back btc tx"
  shows "tx_deserialize btc (tx_serialize btc tx) = Inr tx"
    and "tx_deserialize btc (serialize_no_witness btc tx) = Inr (strip_witness tx)"
  using assms by (simp_all add: reads_back_def round_trips_def legacy_round_trip_def)

text \<open>A crate of this kind: the decoder that knows a transaction with one input.\<close>

lemma sample_reads_back:
  assumes "tx_input tx = [i]"
  shows "reads_back (sample_bitcoin [tx, strip_witness tx]) tx"
proof -
  have same: "tx = strip_witness tx" if "witness i = []"
    using that assms by (cases tx, cases i) (simp add: strip_witness_def)
  have stripped: "serialize_no_witness (sample_bitcoin known) tx = sample_serialize (strip_witness tx)" for known
    by (simp add: sample_serialize_def serialize_no_witness_def sample_bitcoin_def strip_witness_def assms
        encode_tx_in_def)
  have "length (sample_serialize (strip_witness tx)) < length (sample_serialize tx)" if "witness i \<noteq> []"
    using that by (simp add: sample_serialize_def strip_witness_def assms encode_tx_in_def)
  then have "witness i = []" if "sample_serialize (strip_witness tx) = sample_serialize tx"
    using that by auto
  then have "sample_serialize tx = sample_serialize (strip_witness tx) \<Longrightarrow> tx = strip_witness tx"
    using same by metis
  then show ?thesis
    unfolding reads_back_def round_trips_def legacy_round_trip_def stripped
    by (auto simp: sample_bitcoin_def)
qed

text \<open>\<open>xs.windows(pat.len()).any(|w| w == pat)\<close>\<close>

definition has_window :: "bytes \<Rightarrow> bytes \<Rightarrow> bool" where
  "has_window pat xs \<longleftrightarrow> window_position pat xs \<noteq> None"

lemma has_window_inside: "has_window pat (ys @ pat @ zs)"
  using window_position_exists [of "ys @ pat @ zs" ys pat zs] by (auto simp: has_window_def)

lemma legacy_serialization:
  assumes "wire_format btc" and "list_all (\<lambda>i. witness i = []) (tx_input tx)"
  shows "tx_serialize btc tx = serialize_no_witness btc tx"
  using assms
  by (simp add: wire_format_def sample_serialize_def serialize_no_witness_def bitcoin_laws)

lemma witness_serialization:
  assumes "wire_format btc" and "\<not> list_all (\<lambda>i. witness i = []) (tx_input tx)"
  shows "length (serialize_no_witness btc tx) < length (tx_serialize btc tx)"
    and "tx_serialize btc tx ! 4 = 0" and "tx_serialize btc tx ! 5 = 1"
  using assms
  by (simp_all add: wire_format_def sample_serialize_def serialize_no_witness_def bitcoin_laws nth_append)

lemma legacy_input_count:
  assumes "wire_format btc"
  shows "serialize_no_witness btc (coinbase_transaction btc inputs) ! 4 = 1"
proof -
  have "compact_size 1 = [1]" by (simp add: compact_size_def)
  then show ?thesis
    using assms by (simp add: wire_format_def serialize_no_witness_def bitcoin_laws nth_append
        coinbase_transaction_def Let_def split: option.split)
qed

section \<open>\<open>coinbase_builder.rs\<close>\<close>

definition payout_script :: bytes where
  "payout_script =
     [0x76, 0xa9, 0x14, 0x00, 0x11, 0x22, 0x33, 0x44, 0x55, 0x66, 0x77, 0x88, 0x99, 0xaa, 0xbb, 0xcc,
      0xdd, 0xee, 0xff, 0x00, 0x11, 0x22, 0x33, 0x88, 0xac]"

definition commitment_script :: bytes where
  "commitment_script =
     [0x6a, 0x24, 0xaa, 0x21, 0xa9, 0xed, 0x11, 0x22, 0x33, 0x44, 0x55, 0x66, 0x77, 0x88, 0x99, 0x00,
      0xaa, 0xbb, 0xcc, 0xdd, 0xee, 0xff, 0x00, 0x11, 0x22, 0x33, 0x44, 0x55, 0x66, 0x77, 0x88, 0x99]"

definition fixture_inputs :: coinbase_build_inputs where
  "fixture_inputs =
     \<lparr> in_height = 100, in_coinbase_value = 5000000000, in_payout_script_pubkey = payout_script,
       in_coinbase_aux_flags = None, in_default_witness_commitment = None \<rparr>"

definition segwit_inputs :: coinbase_build_inputs where
  "segwit_inputs = fixture_inputs\<lparr> in_default_witness_commitment := Some commitment_script \<rparr>"

definition flags_inputs :: coinbase_build_inputs where
  "flags_inputs = fixture_inputs\<lparr> in_coinbase_aux_flags := Some [0xde, 0xad, 0xbe, 0xef] \<rparr>"

text \<open>\<open>let tx: Transaction = deserialize(&build_coinbase_transaction(inputs).unwrap()).unwrap();\<close>\<close>

definition built ::
  "bitcoin_crate \<Rightarrow> coinbase_build_inputs \<Rightarrow> (bytes \<Rightarrow> transaction \<Rightarrow> bool) \<Rightarrow> bool" where
  "built btc inputs P \<longleftrightarrow>
     ok_with (build_coinbase_transaction btc inputs) (\<lambda>bs. ok_with (tx_deserialize btc bs) (P bs))"

definition test_build_coinbase_transaction_non_segwit_succeeds :: "bitcoin_crate \<Rightarrow> bool" where
  "test_build_coinbase_transaction_non_segwit_succeeds btc \<longleftrightarrow>
     built btc fixture_inputs (\<lambda>bs tx.
       length (tx_input tx) = 1 \<and> length (tx_output tx) = 1 \<and> witness (tx_input tx ! 0) = []
       \<and> tx_value (tx_output tx ! 0) = 5000000000)"

definition test_build_coinbase_transaction_with_witness_commitment_succeeds :: "bitcoin_crate \<Rightarrow> bool" where
  "test_build_coinbase_transaction_with_witness_commitment_succeeds btc \<longleftrightarrow>
     built btc segwit_inputs (\<lambda>bs tx.
       length (tx_output tx) = 2
       \<and> Some (script_pubkey (tx_output tx ! 1)) = in_default_witness_commitment segwit_inputs
       \<and> tx_value (tx_output tx ! 1) = 0
       \<and> length (witness (tx_input tx ! 0)) = 1 \<and> witness (tx_input tx ! 0) ! 0 = replicate 32 0)"

definition test_build_coinbase_transaction_includes_payout_script :: "bitcoin_crate \<Rightarrow> bool" where
  "test_build_coinbase_transaction_includes_payout_script btc \<longleftrightarrow>
     built btc fixture_inputs (\<lambda>bs tx.
       script_pubkey (tx_output tx ! 0) = in_payout_script_pubkey fixture_inputs)"

definition test_build_coinbase_transaction_coinbase_aux_flags_affect_script_sig :: "bitcoin_crate \<Rightarrow> bool" where
  "test_build_coinbase_transaction_coinbase_aux_flags_affect_script_sig btc \<longleftrightarrow>
     built btc flags_inputs (\<lambda>with_flags tx.
       ok_with (build_coinbase_transaction btc fixture_inputs) (\<lambda>without_flags. without_flags \<noteq> with_flags)
       \<and> has_window [0xde, 0xad, 0xbe, 0xef] (script_sig (tx_input tx ! 0))
       \<and> script_sig (tx_input tx ! 0) ! 0 = 1 \<and> script_sig (tx_input tx ! 0) ! 1 = 100)"

definition test_build_coinbase_transaction_empty_payout_script_fails :: "bitcoin_crate \<Rightarrow> bool" where
  "test_build_coinbase_transaction_empty_payout_script_fails btc \<longleftrightarrow>
     err_with (build_coinbase_transaction btc (fixture_inputs\<lparr> in_payout_script_pubkey := [] \<rparr>)) (\<lambda>e.
       (case e of Config_Error _ \<Rightarrow> True | _ \<Rightarrow> False)
       \<and> str_contains (pool_error_to_string e) ''coinbase payout script_pubkey cannot be empty'')"

definition test_serialize_no_witness_excludes_marker_flag_and_witness_data :: "bitcoin_crate \<Rightarrow> bool" where
  "test_serialize_no_witness_excludes_marker_flag_and_witness_data btc \<longleftrightarrow>
     built btc segwit_inputs (\<lambda>witness_bytes tx.
       let no_witness_bytes = serialize_no_witness btc tx
       in length no_witness_bytes < length witness_bytes
          \<and> no_witness_bytes ! 4 = 0x01 \<and> witness_bytes ! 4 = 0x00
          \<and> ok_with (tx_deserialize btc no_witness_bytes) (\<lambda>tx_roundtrip.
              length (tx_output tx) = length (tx_output tx_roundtrip)
              \<and> script_sig (tx_input tx ! 0) = script_sig (tx_input tx_roundtrip ! 0)
              \<and> witness (tx_input tx_roundtrip ! 0) = []))"

lemma built_reads_back:
  assumes "reads_back btc (coinbase_transaction btc inputs)" and "in_payout_script_pubkey inputs \<noteq> []"
  shows "built btc inputs P
           \<longleftrightarrow> P (tx_serialize btc (coinbase_transaction btc inputs)) (coinbase_transaction btc inputs)"
  using assms by (simp add: built_def build_coinbase_transaction_def reads_backD)

lemma fixture_payout [simp]:
  "in_payout_script_pubkey fixture_inputs = payout_script" "in_payout_script_pubkey segwit_inputs = payout_script"
  "in_payout_script_pubkey flags_inputs = payout_script" "payout_script \<noteq> []"
  by (simp_all add: fixture_inputs_def segwit_inputs_def flags_inputs_def payout_script_def)

lemma height_100: "encode_script_num 100 = [100]"
  by (simp add: encode_script_num_def script_num_bytes_step drop_bit_eq_div)

lemmas fixture_tx = coinbase_transaction_def fixture_inputs_def segwit_inputs_def flags_inputs_def

lemma coinbase_tests:
  assumes "reads_back btc (coinbase_transaction btc fixture_inputs)"
  shows "test_build_coinbase_transaction_non_segwit_succeeds btc"
    and "test_build_coinbase_transaction_includes_payout_script btc"
    and "test_build_coinbase_transaction_empty_payout_script_fails btc"
proof -
  show "test_build_coinbase_transaction_non_segwit_succeeds btc"
    unfolding test_build_coinbase_transaction_non_segwit_succeeds_def
    by (subst built_reads_back) (simp_all add: assms, simp add: fixture_tx Let_def)
  show "test_build_coinbase_transaction_includes_payout_script btc"
    unfolding test_build_coinbase_transaction_includes_payout_script_def
    by (subst built_reads_back) (simp_all add: assms, simp add: fixture_tx Let_def)
  have "str_contains (''configuration error: '' @ ''coinbase payout script_pubkey cannot be empty'' @ [])
      ''coinbase payout script_pubkey cannot be empty''"
    by (rule str_contains_inside)
  then show "test_build_coinbase_transaction_empty_payout_script_fails btc"
    by (simp add: test_build_coinbase_transaction_empty_payout_script_fails_def build_coinbase_transaction_def)
qed

lemma flags_script: "build_coinbase_script_sig 100 (Some [0xde, 0xad, 0xbe, 0xef])
    = [1, 100, 4, 0xde, 0xad, 0xbe, 0xef]"
  and plain_script: "build_coinbase_script_sig 100 None = [1, 100]"
  by (simp_all add: build_coinbase_script_sig_def height_100 push_data_def Let_def)

lemma coinbase_flags_test:
  assumes "wire_format btc" and "reads_back btc (coinbase_transaction btc flags_inputs)"
  shows "test_build_coinbase_transaction_coinbase_aux_flags_affect_script_sig btc"
proof -
  have "has_window [0xde, 0xad, 0xbe, 0xef] ([1, 100, 4] @ [0xde, 0xad, 0xbe, 0xef] @ [])"
    by (rule has_window_inside)
  then have w: "has_window [0xde, 0xad, 0xbe, 0xef] [1, 100, 4, 0xde, 0xad, 0xbe, 0xef]" by simp
  have "length (tx_serialize btc (coinbase_transaction btc fixture_inputs))
      \<noteq> length (tx_serialize btc (coinbase_transaction btc flags_inputs))"
    using assms(1)
    by (simp add: wire_format_def sample_serialize_def fixture_tx Let_def flags_script plain_script
        encode_tx_in_def compact_size_def)
  then have "tx_serialize btc (coinbase_transaction btc fixture_inputs)
      \<noteq> tx_serialize btc (coinbase_transaction btc flags_inputs)" by metis
  then show ?thesis
    unfolding test_build_coinbase_transaction_coinbase_aux_flags_affect_script_sig_def
    by (subst built_reads_back)
      (simp_all add: assms build_coinbase_transaction_def,
        simp add: fixture_tx Let_def flags_script w)
qed

lemma coinbase_witness_tests:
  assumes "wire_format btc" and "reads_back btc (coinbase_transaction btc segwit_inputs)"
  shows "test_build_coinbase_transaction_with_witness_commitment_succeeds btc"
    and "test_serialize_no_witness_excludes_marker_flag_and_witness_data btc"
proof -
  show "test_build_coinbase_transaction_with_witness_commitment_succeeds btc"
    unfolding test_build_coinbase_transaction_with_witness_commitment_succeeds_def
    by (subst built_reads_back) (simp_all add: assms, simp add: fixture_tx Let_def)
  have "\<not> list_all (\<lambda>i. witness i = []) (tx_input (coinbase_transaction btc segwit_inputs))"
    by (simp add: fixture_tx Let_def)
  note segwit = witness_serialization [OF assms(1) this]
  show "test_serialize_no_witness_excludes_marker_flag_and_witness_data btc"
    unfolding test_serialize_no_witness_excludes_marker_flag_and_witness_data_def Let_def
    by (subst built_reads_back)
      (simp_all add: assms segwit legacy_input_count reads_backD(2) [OF assms(2)],
        simp add: strip_witness_def fixture_tx Let_def)
qed

section \<open>\<open>raw_block_builder.rs\<close>\<close>

text \<open>
  \<open>bitcoin::Block\<close> is read by the crate; \<open>txdata\<close> gives the transactions of a raw block. It is
  documented to read a header of 80 bytes, the number of transactions and the transactions.
\<close>

definition reads_block :: "bitcoin_crate \<Rightarrow> (bytes \<Rightarrow> string + transaction list) \<Rightarrow> bytes \<Rightarrow> transaction list \<Rightarrow> bool" where
  "reads_block btc txdata header txs \<longleftrightarrow>
     txdata (header @ compact_size (length txs) @ concat (map (tx_serialize btc) txs)) = Inr txs"

definition fixture_coinbase_inputs :: "u64 \<Rightarrow> coinbase_build_inputs" where
  "fixture_coinbase_inputs v = fixture_inputs\<lparr> in_coinbase_value := v \<rparr>"

definition paying :: "bitcoin_crate \<Rightarrow> u64 \<Rightarrow> transaction" where
  "paying btc v = coinbase_transaction btc (fixture_coinbase_inputs v)"

text \<open>The three transactions of the tests, built and serialized.\<close>

definition three_built ::
  "bitcoin_crate \<Rightarrow> (bytes \<Rightarrow> bytes \<Rightarrow> bytes \<Rightarrow> bool) \<Rightarrow> bool" where
  "three_built btc P \<longleftrightarrow>
     ok_with (build_coinbase_transaction btc (fixture_coinbase_inputs 50)) (\<lambda>coinbase_tx.
     ok_with (build_coinbase_transaction btc (fixture_coinbase_inputs 25)) (\<lambda>template_tx_1.
     ok_with (build_coinbase_transaction btc (fixture_coinbase_inputs 10)) (\<lambda>template_tx_2.
       P coinbase_tx template_tx_1 template_tx_2)))"

definition test_build_raw_block_with_coinbase_only_succeeds ::
  "bitcoin_crate \<Rightarrow> (bytes \<Rightarrow> string + transaction list) \<Rightarrow> bool" where
  "test_build_raw_block_with_coinbase_only_succeeds btc txdata \<longleftrightarrow>
     ok_with (build_coinbase_transaction btc (fixture_coinbase_inputs 50)) (\<lambda>coinbase_tx.
     ok_with (build_raw_block btc (replicate 80 0x11) coinbase_tx []) (\<lambda>raw_block.
     ok_with (txdata raw_block) (\<lambda>txs.
       take 80 raw_block = replicate 80 0x11 \<and> raw_block ! 80 = 1 \<and> length txs = 1
       \<and> tx_serialize btc (txs ! 0) = coinbase_tx)))"

definition test_build_raw_block_with_template_transactions_succeeds ::
  "bitcoin_crate \<Rightarrow> (bytes \<Rightarrow> string + transaction list) \<Rightarrow> bool" where
  "test_build_raw_block_with_template_transactions_succeeds btc txdata \<longleftrightarrow>
     three_built btc (\<lambda>coinbase_tx tx1 tx2.
       ok_with (build_raw_block btc (replicate 80 0x22) coinbase_tx [tx1, tx2]) (\<lambda>raw_block.
       ok_with (txdata raw_block) (\<lambda>txs.
         raw_block ! 80 = 3 \<and> length txs = 3
         \<and> tx_serialize btc (txs ! 1) = tx1 \<and> tx_serialize btc (txs ! 2) = tx2)))"

definition test_build_raw_block_preserves_transaction_order_with_coinbase_first ::
  "bitcoin_crate \<Rightarrow> (bytes \<Rightarrow> string + transaction list) \<Rightarrow> bool" where
  "test_build_raw_block_preserves_transaction_order_with_coinbase_first btc txdata \<longleftrightarrow>
     three_built btc (\<lambda>coinbase_tx tx1 tx2.
       ok_with (build_raw_block btc (replicate 80 0x33) coinbase_tx [tx1, tx2]) (\<lambda>raw_block.
       ok_with (txdata raw_block) (\<lambda>txs.
         tx_serialize btc (txs ! 0) = coinbase_tx
         \<and> tx_serialize btc (txs ! 1) = tx1 \<and> tx_serialize btc (txs ! 2) = tx2)))"

definition test_build_raw_block_invalid_header_length_fails :: "bitcoin_crate \<Rightarrow> bool" where
  "test_build_raw_block_invalid_header_length_fails btc \<longleftrightarrow>
     ok_with (build_coinbase_transaction btc (fixture_coinbase_inputs 50)) (\<lambda>coinbase_tx.
     err_with (build_raw_block btc (replicate 79 0) coinbase_tx []) (\<lambda>e.
       (case e of Internal_Error _ \<Rightarrow> True | _ \<Rightarrow> False)
       \<and> str_contains (pool_error_to_string e) ''block header length 79 != 80''))"

definition test_build_raw_block_tx_count_encoding_is_correct_for_small_counts :: "bitcoin_crate \<Rightarrow> bool" where
  "test_build_raw_block_tx_count_encoding_is_correct_for_small_counts btc \<longleftrightarrow>
     three_built btc (\<lambda>coinbase_tx tx1 tx2.
       ok_with (build_raw_block btc (replicate 80 0x44) coinbase_tx []) (\<lambda>coinbase_only.
       ok_with (build_raw_block btc (replicate 80 0x44) coinbase_tx [tx1, tx2]) (\<lambda>with_templates.
         coinbase_only ! 80 = 1 \<and> with_templates ! 80 = 3)))"

lemma build_paying:
  "build_coinbase_transaction btc (fixture_coinbase_inputs v) = Inr (tx_serialize btc (paying btc v))"
  by (simp add: build_coinbase_transaction_def fixture_coinbase_inputs_def paying_def)

lemma raw_block_of_built:
  assumes "bitcoin_documented btc" and "length header = 80" and "length txs \<le> 2"
    and "list_all (reads_back btc) (tx # txs)"
  shows "build_raw_block btc header (tx_serialize btc tx) (map (tx_serialize btc) txs)
           = Inr (header @ compact_size (length (tx # txs)) @ concat (map (tx_serialize btc) (tx # txs)))"
proof -
  have parses: "parses btc (tx_serialize btc t)" if "reads_back btc t" for t
    using that by (simp add: parses_def is_ok_def reads_backD)
  have "list_all (parses btc) (map (tx_serialize btc) txs)"
    using assms(4) parses by (induction txs) auto
  with assms parses show ?thesis by (simp add: build_raw_block_Inr)
qed

lemma small_counts: "compact_size (Suc 0) = [1]" "compact_size (Suc (Suc (Suc 0))) = [3]"
  by (simp_all add: compact_size_def)

lemma raw_block_tests:
  assumes "bitcoin_documented btc" and "list_all (reads_back btc) [paying btc 50, paying btc 25, paying btc 10]"
    and "reads_block btc txdata (replicate 80 0x11) [paying btc 50]"
    and "reads_block btc txdata (replicate 80 0x22) [paying btc 50, paying btc 25, paying btc 10]"
    and "reads_block btc txdata (replicate 80 0x33) [paying btc 50, paying btc 25, paying btc 10]"
  shows "test_build_raw_block_with_coinbase_only_succeeds btc txdata"
    and "test_build_raw_block_with_template_transactions_succeeds btc txdata"
    and "test_build_raw_block_preserves_transaction_order_with_coinbase_first btc txdata"
    and "test_build_raw_block_tx_count_encoding_is_correct_for_small_counts btc"
proof -
  have one: "build_raw_block btc header (tx_serialize btc (paying btc 50)) []
      = Inr (header @ 1 # tx_serialize btc (paying btc 50))" if "length header = 80" for header
    using raw_block_of_built [OF assms(1) that, of "[]" "paying btc 50"] assms(2)
    by (simp add: small_counts)
  have three: "build_raw_block btc header (tx_serialize btc (paying btc 50))
        [tx_serialize btc (paying btc 25), tx_serialize btc (paying btc 10)]
      = Inr (header @ 3 # tx_serialize btc (paying btc 50) @ tx_serialize btc (paying btc 25)
          @ tx_serialize btc (paying btc 10))" if "length header = 80" for header
    using raw_block_of_built [OF assms(1) that, of "[paying btc 25, paying btc 10]" "paying btc 50"] assms(2)
    by (simp add: small_counts)
  note eval = build_paying three_built_def one three nth_append
  note reads = assms(3-5) [unfolded reads_block_def, simplified small_counts list.size list.map concat.simps
      append_Cons append_Nil append_Nil2 add_0 add_0_right add_Suc_right One_nat_def]
  show "test_build_raw_block_with_coinbase_only_succeeds btc txdata"
    using reads by (simp add: test_build_raw_block_with_coinbase_only_succeeds_def eval)
  show "test_build_raw_block_with_template_transactions_succeeds btc txdata"
    using reads by (simp add: test_build_raw_block_with_template_transactions_succeeds_def eval)
  show "test_build_raw_block_preserves_transaction_order_with_coinbase_first btc txdata"
    using reads by (simp add: test_build_raw_block_preserves_transaction_order_with_coinbase_first_def eval)
  show "test_build_raw_block_tx_count_encoding_is_correct_for_small_counts btc"
    by (simp add: test_build_raw_block_tx_count_encoding_is_correct_for_small_counts_def eval)
qed

lemma raw_block_header_test: "test_build_raw_block_invalid_header_length_fails btc"
proof -
  have "str_contains (''internal error: '' @ ''block header length 79 != 80'' @ []) ''block header length 79 != 80''"
    by (rule str_contains_inside)
  moreover have "dec_string 79 = ''79''" by code_simp
  ultimately show ?thesis
    by (simp add: test_build_raw_block_invalid_header_length_fails_def build_paying build_raw_block_def)
qed

end
