(* ===== verification/Tests_Templates.thy ===== *)
theory Tests_Templates
  imports Tests_Coinbase
begin

text \<open>
  The unit tests of \<open>template_mapper.rs\<close>, translated. The coinbases they lead to are named, so
  that a test can be stated for a crate that reads these transactions.
\<close>

definition fixture_template :: block_template where
  "fixture_template =
     \<lparr> bt_version = 0x20000000,
       previousblockhash = ''0000000000000000000000000000000000000000000000000000000000000001'',
       bits = ''1d00ffff'', curtime = 1700000000, bt_height = 100,
       transactions = [\<lparr> te_data = ''deadbeef'', te_txid = Some (replicate 64 CHR ''a''),
                         te_hash = Some (replicate 64 CHR ''b'') \<rparr>],
       coinbasevalue = 5000000000, coinbaseaux = None, default_witness_commitment = None \<rparr>"

definition commitment_hex :: string where
  "commitment_hex = ''6a24aa21a9ed11223344556677889900aabbccddeeff00112233445566778899''"

definition flags_template :: "string \<Rightarrow> block_template" where
  "flags_template flags = fixture_template\<lparr> coinbaseaux := Some \<lparr> aux_flags = Some flags \<rparr> \<rparr>"

definition commitment_template :: block_template where
  "commitment_template = fixture_template\<lparr> default_witness_commitment := Some commitment_hex \<rparr>"

definition job_of :: "hex_crate \<Rightarrow> bitcoin_crate \<Rightarrow> block_template \<Rightarrow> (job \<Rightarrow> bool) \<Rightarrow> bool" where
  "job_of hx btc t P \<longleftrightarrow> ok_with (template_to_job hx btc t payout_script) P"

definition test_template_to_job_maps_fields :: "hex_crate \<Rightarrow> bitcoin_crate \<Rightarrow> bool" where
  "test_template_to_job_maps_fields hx btc \<longleftrightarrow>
     job_of hx btc fixture_template (\<lambda>job.
       job_id job = ''100'' \<and> job_version job = 0x20000000 \<and> job_nbits job = 0x1d00ffff
       \<and> job_ntime job = 1700000000 \<and> clean_jobs job
       \<and> job_prev_hash job ! 0 = 0x01 \<and> job_prev_hash job ! 31 = 0x00
       \<and> coinbase_part1 job \<noteq> [] \<and> coinbase_part2 job \<noteq> [] \<and> coinbase_part2 job \<noteq> [0xff, 0xff, 0xff, 0xff]
       \<and> Option.bind (block_assembly job) asm_coinbase_aux_flags = None
       \<and> map_option asm_template_transactions (block_assembly job) = Some [[0xde, 0xad, 0xbe, 0xef]])"

definition test_template_to_job_empty_transactions :: "hex_crate \<Rightarrow> bitcoin_crate \<Rightarrow> bool" where
  "test_template_to_job_empty_transactions hx btc \<longleftrightarrow>
     job_of hx btc (fixture_template\<lparr> transactions := [] \<rparr>) (\<lambda>job. merkle_branch job = [])"

definition test_template_to_job_invalid_prev_hash_fails :: "hex_crate \<Rightarrow> bitcoin_crate \<Rightarrow> bool" where
  "test_template_to_job_invalid_prev_hash_fails hx btc \<longleftrightarrow>
     \<not> is_ok (template_to_job hx btc (fixture_template\<lparr> previousblockhash := ''zz'' \<rparr>) payout_script)"

definition test_template_to_job_invalid_bits_fails :: "hex_crate \<Rightarrow> bitcoin_crate \<Rightarrow> bool" where
  "test_template_to_job_invalid_bits_fails hx btc \<longleftrightarrow>
     \<not> is_ok (template_to_job hx btc (fixture_template\<lparr> bits := ''1d00ff'' \<rparr>) payout_script)"

definition test_template_to_job_preserves_coinbase_aux_flags :: "hex_crate \<Rightarrow> bitcoin_crate \<Rightarrow> bool" where
  "test_template_to_job_preserves_coinbase_aux_flags hx btc \<longleftrightarrow>
     job_of hx btc (flags_template ''deadbeef'') (\<lambda>job.
       map_option asm_coinbase_aux_flags (block_assembly job) = Some (Some [0xde, 0xad, 0xbe, 0xef]))"

definition test_template_to_job_invalid_coinbase_aux_flags_fails :: "hex_crate \<Rightarrow> bitcoin_crate \<Rightarrow> bool" where
  "test_template_to_job_invalid_coinbase_aux_flags_fails hx btc \<longleftrightarrow>
     err_with (template_to_job hx btc (flags_template ''abc'') payout_script) (\<lambda>e.
       (case e of Daemon_Error _ \<Rightarrow> True | _ \<Rightarrow> False)
       \<and> str_contains (pool_error_to_string e) ''coinbaseaux.flags hex'')"

definition test_template_to_job_coinbase_parts_round_trip_with_extranonce ::
  "hex_crate \<Rightarrow> bitcoin_crate \<Rightarrow> bool" where
  "test_template_to_job_coinbase_parts_round_trip_with_extranonce hx btc \<longleftrightarrow>
     job_of hx btc (flags_template ''deadbeef'') (\<lambda>job.
       ok_with (tx_deserialize btc (coinbase_part1 job @ [0xaa, 0xbb, 0xcc, 0xdd]
                  @ [0x11, 0x22, 0x33, 0x44] @ coinbase_part2 job)) (\<lambda>tx.
         has_window [0xde, 0xad, 0xbe, 0xef] (script_sig (tx_input tx ! 0))
         \<and> has_window [0xaa, 0xbb, 0xcc, 0xdd, 0x11, 0x22, 0x33, 0x44] (script_sig (tx_input tx ! 0))
         \<and> tx_value (tx_output tx ! 0) = coinbasevalue (flags_template ''deadbeef'')
         \<and> script_pubkey (tx_output tx ! 0) = payout_script))"

definition test_coinbase_parts_are_non_witness_when_witness_commitment_present ::
  "hex_crate \<Rightarrow> bitcoin_crate \<Rightarrow> bool" where
  "test_coinbase_parts_are_non_witness_when_witness_commitment_present hx btc \<longleftrightarrow>
     job_of hx btc commitment_template (\<lambda>job.
       let coinbase = coinbase_part1 job @ replicate 4 0xaa @ replicate 4 0xbb @ coinbase_part2 job
       in coinbase ! 4 = 0x01
          \<and> ok_with (tx_deserialize btc coinbase) (\<lambda>tx.
              length (tx_output tx) = 2 \<and> witness (tx_input tx ! 0) = []))"

definition test_build_merkle_branch_prefers_txid_over_hash :: "hex_crate \<Rightarrow> bool" where
  "test_build_merkle_branch_prefers_txid_over_hash hx \<longleftrightarrow>
     (let branch = build_merkle_branch hx (fixture_template\<lparr> transactions :=
            [\<lparr> te_data = ''deadbeef'', te_txid = Some (concat (replicate 32 ''aa'')),
               te_hash = Some (concat (replicate 32 ''bb'')) \<rparr>] \<rparr>)
      in length branch = 1 \<and> branch ! 0 = rev (replicate 32 0xaa))"

section \<open>The model passes\<close>

text \<open>The coinbase of a job, its transactions, and the bytes of the texts.\<close>

definition miner_tx :: "bitcoin_crate \<Rightarrow> block_template \<Rightarrow> bytes option \<Rightarrow> bytes option \<Rightarrow> bytes \<Rightarrow> transaction" where
  "miner_tx btc t aux com fill = coinbase_transaction btc (coinbase_inputs t payout_script (aux_bytes aux @ fill) com)"

lemma template_hex:
  "hex_text (replicate 31 0 @ [1]) = ''0000000000000000000000000000000000000000000000000000000000000001''"
  "hex_text [0x1d, 0x00, 0xff, 0xff] = ''1d00ffff''" "hex_text [0x1d, 0x00, 0xff] = ''1d00ff''"
  "hex_text [0xde, 0xad, 0xbe, 0xef] = ''deadbeef''" "hex_text commitment_script = commitment_hex"
  by (simp_all add: hex_text_def hex_fixed_2 hex_digits replicate_more commitment_script_def commitment_hex_def)

lemma hex_repeat: "hex_text (replicate n 0xaa) = concat (replicate n ''aa'')"
  by (induction n) (simp_all add: hex_text_def hex_fixed_2 hex_digits)

lemma template_trim: "trim ''deadbeef'' = ''deadbeef''" "trim ''abc'' = ''abc''" "trim commitment_hex = commitment_hex"
  by (rule trim_printable, simp add: printable_def char_nat_def commitment_hex_def)+

lemma bad_hex: "hex_pairs ''zz'' = None" "hex_pairs ''abc'' = None"
  by code_simp+

lemma commitment_hex_text [simp]: "commitment_hex \<noteq> []"
  by (simp add: commitment_hex_def)

lemma fixture_decoded:
  assumes "hex_documented hx"
  shows "decode_prev_hash hx (previousblockhash fixture_template) = Inr (rev (replicate 31 0 @ [1]))"
    and "decode_bits hx (bits fixture_template) = Inr 0x1d00ffff"
    and "hex_decode hx ''deadbeef'' = Inr [0xde, 0xad, 0xbe, 0xef]"
    and "hex_decode hx commitment_hex = Inr commitment_script"
  by (simp_all add: fixture_template_def template_hex [symmetric] decode_prev_hash_Inr decode_bits_Inr
      hex_decode_hex_text [OF assms] from_be_bytes32_def be_nat_Cons)

lemma constant_bytes: "to_le_bytes32 1 = [1, 0, 0, 0]" "to_le_bytes32 0xFFFFFFFF = [0xFF, 0xFF, 0xFF, 0xFF]"
  by (simp_all add: to_le_bytes32_def le_bytes_def upt_conv_Cons drop_bit_eq_div)

lemma placeholder_first_100:
  assumes "wire_format btc" and "aux \<in> {[], [0xde, 0xad, 0xbe, 0xef]}"
  shows "placeholder_first btc 100 aux"
  using assms
  by (intro placeholder_first_if)
    (auto simp: wire_format_def coinbase_prefix_def script_prefix_def height_100 push_data_def Let_def
      push_header_def compact_size_def encode_out_point_def constant_bytes)

text \<open>The job of a template that differs from the fixture in flags, commitment or transactions.\<close>

lemma variant_job:
  assumes hx: "hex_documented hx" and wire: "wire_format btc"
    and t: "t = fixture_template\<lparr> coinbaseaux := ca, default_witness_commitment := dwc, transactions := ts \<rparr>"
    and aux: "decode_coinbase_aux_flags hx t = Inr aux" "aux_bytes aux \<in> {[], [0xde, 0xad, 0xbe, 0xef]}"
    and com: "decode_default_witness_commitment hx t = Inr com"
    and txs: "decode_template_transactions hx t = Inr txs"
    and reads: "reads_back btc (placeholder_tx btc t payout_script aux com)"
  shows "template_to_job hx btc t payout_script
     = Inr \<lparr> job_id = dec_string 100, job_prev_hash = rev (replicate 31 0 @ [1]),
             coinbase_part1 = coinbase_prefix btc 100 (aux_bytes aux),
             coinbase_part2 = coinbase_suffix btc t payout_script com,
             merkle_branch = build_merkle_branch hx t, job_version = 0x20000000, job_nbits = 0x1d00ffff,
             job_ntime = 1700000000, clean_jobs = True,
             block_assembly = Some \<lparr> asm_height = 100, asm_coinbase_value = 5000000000,
               asm_coinbase_aux_flags = aux, asm_template_transactions = txs,
               asm_default_witness_commitment = com \<rparr> \<rparr>"
proof -
  have fields: "previousblockhash t = previousblockhash fixture_template" "bits t = bits fixture_template"
    "bt_height t = 100" "bt_version t = 0x20000000" "curtime t = 1700000000" "coinbasevalue t = 5000000000"
    by (simp_all add: t fixture_template_def)
  have "build_coinbase_parts btc t payout_script aux com
      = Inr (coinbase_prefix btc (bt_height t) (aux_bytes aux), coinbase_suffix btc t payout_script com)"
    using wire reads placeholder_first_100 [OF wire aux(2)]
    by (intro build_coinbase_parts_eq) (simp_all add: wire_format_def reads_back_def fields)
  then show ?thesis
    by (simp add: template_to_job_def fields fixture_decoded [OF hx] aux(1) com txs ntime_to_u32_def)
qed

lemma variant_coinbase:
  assumes wire: "wire_format btc"
    and t: "t = fixture_template\<lparr> coinbaseaux := ca, default_witness_commitment := dwc, transactions := ts \<rparr>"
    and "length fill = 8"
  shows "coinbase_prefix btc 100 (aux_bytes aux) @ fill @ coinbase_suffix btc t payout_script com
     = serialize_no_witness btc (miner_tx btc t aux com fill)"
  using coinbase_no_witness_fill [of btc fill t payout_script "aux_bytes aux" com] assms
  by (simp add: miner_tx_def wire_format_def) (simp add: fixture_template_def)

lemma fixture_as_variant:
  "fixture_template = fixture_template\<lparr> coinbaseaux := None, default_witness_commitment := None,
     transactions := transactions fixture_template \<rparr>"
  "fixture_template\<lparr> transactions := [] \<rparr> = fixture_template\<lparr> coinbaseaux := None,
     default_witness_commitment := None, transactions := [] \<rparr>"
  "flags_template f = fixture_template\<lparr> coinbaseaux := Some \<lparr> aux_flags = Some f \<rparr>,
     default_witness_commitment := None, transactions := transactions fixture_template \<rparr>"
  "commitment_template = fixture_template\<lparr> coinbaseaux := None,
     default_witness_commitment := Some commitment_hex, transactions := transactions fixture_template \<rparr>"
  by (simp_all add: fixture_template_def flags_template_def commitment_template_def)

lemma variant_decoded:
  assumes "hex_documented hx"
  shows "decode_coinbase_aux_flags hx fixture_template = Inr None"
    and "decode_default_witness_commitment hx fixture_template = Inr None"
    and "decode_template_transactions hx fixture_template = Inr [[0xde, 0xad, 0xbe, 0xef]]"
    and "decode_coinbase_aux_flags hx (fixture_template\<lparr> transactions := [] \<rparr>) = Inr None"
    and "decode_default_witness_commitment hx (fixture_template\<lparr> transactions := [] \<rparr>) = Inr None"
    and "decode_template_transactions hx (fixture_template\<lparr> transactions := [] \<rparr>) = Inr []"
    and "decode_coinbase_aux_flags hx (flags_template ''deadbeef'') = Inr (Some [0xde, 0xad, 0xbe, 0xef])"
    and "decode_default_witness_commitment hx (flags_template ''deadbeef'') = Inr None"
    and "decode_template_transactions hx (flags_template ''deadbeef'') = Inr [[0xde, 0xad, 0xbe, 0xef]]"
    and "decode_coinbase_aux_flags hx commitment_template = Inr None"
    and "decode_default_witness_commitment hx commitment_template = Inr (Some commitment_script)"
    and "decode_template_transactions hx commitment_template = Inr [[0xde, 0xad, 0xbe, 0xef]]"
  by (simp_all add: decode_coinbase_aux_flags_def decode_default_witness_commitment_def
      decode_template_transactions_def flags_template_def commitment_template_def template_trim
      fixture_decoded(3,4) [OF assms])
    (simp_all add: fixture_template_def fixture_decoded(3,4) [OF assms])

lemmas mapped_fixture = variant_job [OF _ _ fixture_as_variant(1) variant_decoded(1) _ variant_decoded(2,3)]
lemmas mapped_empty = variant_job [OF _ _ fixture_as_variant(2) variant_decoded(4) _ variant_decoded(5,6)]
lemmas mapped_flags = variant_job [OF _ _ fixture_as_variant(3) variant_decoded(7) _ variant_decoded(8,9)]
lemmas mapped_commitment = variant_job [OF _ _ fixture_as_variant(4) variant_decoded(10) _ variant_decoded(11,12)]

lemma template_tests:
  assumes hx: "hex_documented hx" and wire: "wire_format btc"
    and reads: "reads_back btc (placeholder_tx btc fixture_template payout_script None None)"
      "reads_back btc (placeholder_tx btc (fixture_template\<lparr> transactions := [] \<rparr>) payout_script None None)"
  shows "test_template_to_job_maps_fields hx btc"
    and "test_template_to_job_empty_transactions hx btc"
proof -
  have len: "length (coinbase_suffix btc t payout_script None) \<noteq> 4"
    "coinbase_suffix btc t payout_script None \<noteq> []" "coinbase_prefix btc 100 aux \<noteq> []" for t aux
    by (simp_all add: coinbase_suffix_def coinbase_prefix_def Let_def to_le_bytes32_def le_bytes_def)
  have "coinbase_suffix btc fixture_template payout_script None \<noteq> [0xff, 0xff, 0xff, 0xff]"
    using len(1) [of fixture_template] by auto
  moreover have "dec_string 100 = ''100''" by code_simp
  ultimately show "test_template_to_job_maps_fields hx btc"
    by (simp add: test_template_to_job_maps_fields_def job_of_def aux_bytes_def
        mapped_fixture [OF hx wire hx _ hx hx reads(1)] len replicate_more)
  show "test_template_to_job_empty_transactions hx btc"
    by (simp add: test_template_to_job_empty_transactions_def job_of_def aux_bytes_def build_merkle_branch_def
        mapped_empty [OF hx wire hx _ hx hx reads(2)])
qed

lemma bad_template_tests:
  assumes hx: "hex_documented hx"
  shows "test_template_to_job_invalid_prev_hash_fails hx btc"
    and "test_template_to_job_invalid_bits_fails hx btc"
    and "test_template_to_job_invalid_coinbase_aux_flags_fails hx btc"
proof -
  obtain e e' where bad: "hex_decode hx ''zz'' = Inl e" "hex_decode hx ''abc'' = Inl e'"
    using hex_decode_Inl [OF hx] bad_hex by metis
  show "test_template_to_job_invalid_prev_hash_fails hx btc"
    by (simp add: test_template_to_job_invalid_prev_hash_fails_def template_to_job_def decode_prev_hash_def
        bad is_ok_def)
  have short: "hex_decode hx ''1d00ff'' = Inr [0x1d, 0x00, 0xff]"
    by (simp add: template_hex [symmetric] hex_decode_hex_text [OF hx])
  have "previousblockhash (fixture_template\<lparr> bits := ''1d00ff'' \<rparr>) = previousblockhash fixture_template" by simp
  then show "test_template_to_job_invalid_bits_fails hx btc"
    by (simp add: test_template_to_job_invalid_bits_fails_def template_to_job_def fixture_decoded [OF hx]
        decode_bits_def short is_ok_def)
  have flags: "decode_coinbase_aux_flags hx (flags_template ''abc'') = Inl (Daemon_Error (''coinbaseaux.flags hex: '' @ e'))"
    by (simp add: decode_coinbase_aux_flags_def flags_template_def template_trim bad)
  have "previousblockhash (flags_template f) = previousblockhash fixture_template"
    "bits (flags_template f) = bits fixture_template" for f
    by (simp_all add: flags_template_def)
  then have "template_to_job hx btc (flags_template ''abc'') payout_script
      = Inl (Daemon_Error (''coinbaseaux.flags hex: '' @ e'))"
    by (simp add: template_to_job_def fixture_decoded [OF hx] flags)
  moreover have "str_contains (''daemon/RPC error: '' @ ''coinbaseaux.flags hex'' @ '': '' @ e') ''coinbaseaux.flags hex''"
    by (rule str_contains_inside)
  ultimately show "test_template_to_job_invalid_coinbase_aux_flags_fails hx btc"
    by (simp add: test_template_to_job_invalid_coinbase_aux_flags_fails_def)
qed

lemma flags_template_tests:
  assumes hx: "hex_documented hx" and wire: "wire_format btc"
    and reads: "reads_back btc (placeholder_tx btc (flags_template ''deadbeef'') payout_script
                  (Some [0xde, 0xad, 0xbe, 0xef]) None)"
      "reads_back btc (miner_tx btc (flags_template ''deadbeef'') (Some [0xde, 0xad, 0xbe, 0xef]) None
                  [0xaa, 0xbb, 0xcc, 0xdd, 0x11, 0x22, 0x33, 0x44])"
  shows "test_template_to_job_preserves_coinbase_aux_flags hx btc"
    and "test_template_to_job_coinbase_parts_round_trip_with_extranonce hx btc"
proof -
  let ?aux = "Some [0xde, 0xad, 0xbe, 0xef]"
  let ?fill = "[0xaa, 0xbb, 0xcc, 0xdd, 0x11, 0x22, 0x33, 0x44]"
  note job = mapped_flags [OF hx wire hx _ hx hx reads(1)]
  show "test_template_to_job_preserves_coinbase_aux_flags hx btc"
    by (simp add: test_template_to_job_preserves_coinbase_aux_flags_def job_of_def aux_bytes_def job)
  have bytes: "coinbase_prefix btc 100 [0xde, 0xad, 0xbe, 0xef] @ ?fill
      @ coinbase_suffix btc (flags_template ''deadbeef'') payout_script None
      = serialize_no_witness btc (miner_tx btc (flags_template ''deadbeef'') ?aux None ?fill)"
    using variant_coinbase [OF wire fixture_as_variant(3) [where f = "''deadbeef''"], of ?fill ?aux None]
    by (simp add: aux_bytes_def)
  have script: "script_sig (tx_input (strip_witness (miner_tx btc (flags_template ''deadbeef'') ?aux None ?fill)) ! 0)
      = [1, 100, 12] @ [0xde, 0xad, 0xbe, 0xef] @ ?fill"
    by (simp add: strip_witness_def miner_tx_def coinbase_transaction_def coinbase_inputs_def Let_def
        aux_bytes_def flags_template_def fixture_template_def build_coinbase_script_sig_def height_100 push_data_def)
  have "has_window [0xde, 0xad, 0xbe, 0xef] ([1, 100, 12] @ [0xde, 0xad, 0xbe, 0xef] @ ?fill)"
    and "has_window ?fill (([1, 100, 12] @ [0xde, 0xad, 0xbe, 0xef]) @ ?fill @ [])"
    by (rule has_window_inside)+
  then show "test_template_to_job_coinbase_parts_round_trip_with_extranonce hx btc"
    using bytes reads_backD(2) [OF reads(2)] script
    unfolding test_template_to_job_coinbase_parts_round_trip_with_extranonce_def job_of_def
    by (subst job)
      (simp_all add: aux_bytes_def,
        simp add: strip_witness_def miner_tx_def coinbase_transaction_def coinbase_inputs_def Let_def)
qed

lemma commitment_template_tests:
  assumes hx: "hex_documented hx" and wire: "wire_format btc"
    and reads: "reads_back btc (placeholder_tx btc commitment_template payout_script None (Some commitment_script))"
      "reads_back btc (miner_tx btc commitment_template None (Some commitment_script)
                  (replicate 4 0xaa @ replicate 4 0xbb))"
  shows "test_coinbase_parts_are_non_witness_when_witness_commitment_present hx btc"
proof -
  let ?fill = "replicate 4 0xaa @ replicate 4 0xbb"
  let ?tx = "miner_tx btc commitment_template None (Some commitment_script) ?fill"
  note job = mapped_commitment [OF hx wire hx _ hx hx reads(1)]
  have bytes: "coinbase_prefix btc 100 [] @ replicate 4 0xaa @ replicate 4 0xbb
      @ coinbase_suffix btc commitment_template payout_script (Some commitment_script)
      = serialize_no_witness btc ?tx"
    using variant_coinbase [OF wire fixture_as_variant(4), of ?fill None "Some commitment_script"]
    by (simp add: aux_bytes_def)
  have "serialize_no_witness btc ?tx ! 4 = 1"
    unfolding miner_tx_def by (rule legacy_input_count [OF wire])
  then show ?thesis
    using reads_backD(2) [OF reads(2)]
    unfolding test_coinbase_parts_are_non_witness_when_witness_commitment_present_def job_of_def
    by (subst job)
      (simp_all add: aux_bytes_def bytes,
        simp add: strip_witness_def miner_tx_def coinbase_transaction_def coinbase_inputs_def Let_def)
qed

lemma merkle_branch_test:
  assumes "hex_documented hx"
  shows "test_build_merkle_branch_prefers_txid_over_hash hx"
  by (simp add: test_build_merkle_branch_prefers_txid_over_hash_def build_merkle_branch_def
      merkle_branch_entry_def hex_repeat [symmetric] hex_decode_hex_text [OF assms])

end
