(* ===== verification/Tests_Candidate.thy ===== *)
theory Tests_Candidate
  imports Tests_Templates
begin

text \<open>
  The unit tests of \<open>candidate_submit.rs\<close>, translated, with their fixtures: a submitter that
  records the blocks it is given, and jobs whose coinbase is built and split as the template
  mapper does it.
\<close>

definition EXTRANONCE_PLACEHOLDER :: bytes where
  "EXTRANONCE_PLACEHOLDER = [0xfa, 0xce, 0xb0, 0x0c, 0xde, 0xad, 0xbe, 0xef]"

datatype test_submit_response = Submit_Ok | Daemon_Failure string | Internal_Failure string

definition recording_submitter :: "test_submit_response \<Rightarrow> bytes list block_submitter" where
  "recording_submitter response block submitted =
     ((case response of
         Submit_Ok \<Rightarrow> Inr True
       | Daemon_Failure message \<Rightarrow> Inl message
       | Internal_Failure message \<Rightarrow> Inl message),
      submitted @ [cand_raw_block block])"

text \<open>An \<open>unwrap\<close> or \<open>expect\<close> of a fixture that fails is a panic, the result \<open>None\<close>.\<close>

definition unwrapped :: "'e + 'a \<Rightarrow> 'a option" where
  "unwrapped r = (case r of Inl e \<Rightarrow> None | Inr x \<Rightarrow> Some x)"

definition split_job :: "string \<Rightarrow> u64 \<Rightarrow> bytes option \<Rightarrow> bytes \<Rightarrow> job option" where
  "split_job i height commitment coinbase =
     map_option (\<lambda>split_at.
       \<lparr> job_id = i, job_prev_hash = replicate 32 0, coinbase_part1 = take split_at coinbase,
         coinbase_part2 = drop (split_at + length EXTRANONCE_PLACEHOLDER) coinbase, merkle_branch = [],
         job_version = 0x20000000, job_nbits = 0x1d00ffff, job_ntime = 0, clean_jobs = True,
         block_assembly = Some \<lparr> asm_height = height, asm_coinbase_value = 5000000000,
           asm_coinbase_aux_flags = Some [0xde, 0xad, 0xbe, 0xef], asm_template_transactions = [],
           asm_default_witness_commitment = commitment \<rparr> \<rparr>)
       (window_position EXTRANONCE_PLACEHOLDER coinbase)"

definition placeholder_inputs :: "u64 \<Rightarrow> bytes option \<Rightarrow> coinbase_build_inputs" where
  "placeholder_inputs height commitment =
     \<lparr> in_height = height, in_coinbase_value = 5000000000, in_payout_script_pubkey = payout_script,
       in_coinbase_aux_flags = Some ([0xde, 0xad, 0xbe, 0xef] @ EXTRANONCE_PLACEHOLDER),
       in_default_witness_commitment = commitment \<rparr>"

definition fixture_job_with_valid_coinbase_parts :: "bitcoin_crate \<Rightarrow> job option" where
  "fixture_job_with_valid_coinbase_parts btc =
     Option.bind (unwrapped (build_coinbase_transaction btc (placeholder_inputs 100 None)))
       (split_job ''100'' 100 None)"

definition fixture_job_with_segwit_coinbase_parts :: "bitcoin_crate \<Rightarrow> job option" where
  "fixture_job_with_segwit_coinbase_parts btc =
     Option.bind (unwrapped (build_coinbase_transaction btc (placeholder_inputs 200 (Some commitment_script))))
       (\<lambda>coinbase_tx_bytes.
     Option.bind (unwrapped (tx_deserialize btc coinbase_tx_bytes)) (\<lambda>coinbase_tx.
       split_job ''200'' 200 (Some commitment_script) (serialize_no_witness btc coinbase_tx)))"

definition with_job :: "job option \<Rightarrow> (job \<Rightarrow> bool) \<Rightarrow> bool" where
  "with_job j P \<longleftrightarrow> (case j of None \<Rightarrow> False | Some job \<Rightarrow> P job)"

definition en1 :: bytes where "en1 = [0xaa, 0xbb, 0xcc, 0xdd]"

definition en2 :: bytes where "en2 = [0x11, 0x22, 0x33, 0x44]"

definition test_submit_block_candidate_missing_block_assembly_fails_clearly :: "bitcoin_crate \<Rightarrow> bool" where
  "test_submit_block_candidate_missing_block_assembly_fails_clearly btc \<longleftrightarrow>
     fst (submit_block_candidate btc (recording_submitter Submit_Ok) (replicate 80 0x11) job_placeholder
            (replicate 4 0) (replicate 4 0) [])
       = Some (Local_Error ''missing job.block_assembly'')"

definition test_reconstruct_miner_coinbase_is_part1_en1_en2_part2 :: "bitcoin_crate \<Rightarrow> bool" where
  "test_reconstruct_miner_coinbase_is_part1_en1_en2_part2 btc \<longleftrightarrow>
     with_job (fixture_job_with_valid_coinbase_parts btc) (\<lambda>job.
       reconstruct_miner_coinbase job en1 en2 = coinbase_part1 job @ en1 @ en2 @ coinbase_part2 job)"

definition test_submit_block_candidate_uses_miner_solved_coinbase :: "bitcoin_crate \<Rightarrow> bool" where
  "test_submit_block_candidate_uses_miner_solved_coinbase btc \<longleftrightarrow>
     with_job (fixture_job_with_valid_coinbase_parts btc) (\<lambda>job.
       let (result, submitted) =
             submit_block_candidate btc (recording_submitter Submit_Ok) (replicate 80 0x11) job en1 en2 [];
           expected_coinbase = reconstruct_miner_coinbase job en1 en2
       in result = Some Submitted
          \<and> ok_with (build_raw_block btc (replicate 80 0x11) expected_coinbase
                (case block_assembly job of None \<Rightarrow> [] | Some asm \<Rightarrow> asm_template_transactions asm))
              (\<lambda>expected_raw_block. submitted = [expected_raw_block]))"

definition test_submit_block_candidate_raw_block_contains_miner_coinbase_bytes :: "bitcoin_crate \<Rightarrow> bool" where
  "test_submit_block_candidate_raw_block_contains_miner_coinbase_bytes btc \<longleftrightarrow>
     with_job (fixture_job_with_valid_coinbase_parts btc) (\<lambda>job.
       let (result, submitted) =
             submit_block_candidate btc (recording_submitter Submit_Ok) (replicate 80 0x22) job en1 en2 []
       in result = Some Submitted \<and> take 80 (submitted ! 0) = replicate 80 0x22
          \<and> has_window (reconstruct_miner_coinbase job en1 en2) (drop 80 (submitted ! 0)))"

definition submitted_with :: "bitcoin_crate \<Rightarrow> test_submit_response \<Rightarrow> candidate_submission_result \<Rightarrow> bool" where
  "submitted_with btc response expected \<longleftrightarrow>
     with_job (fixture_job_with_valid_coinbase_parts btc) (\<lambda>job.
       fst (submit_block_candidate btc (recording_submitter response) (replicate 80 0x11) job
              (replicate 4 0) (replicate 4 0) []) = Some expected)"

definition test_submit_block_candidate_daemon_reject_reason_is_propagated_clearly :: "bitcoin_crate \<Rightarrow> bool" where
  "test_submit_block_candidate_daemon_reject_reason_is_propagated_clearly btc \<longleftrightarrow>
     submitted_with btc (Daemon_Failure ''submitblock rejected: high-hash'') (Candidate_Rejected ''high-hash'')"

definition test_submit_block_candidate_internal_error_is_local_error :: "bitcoin_crate \<Rightarrow> bool" where
  "test_submit_block_candidate_internal_error_is_local_error btc \<longleftrightarrow>
     submitted_with btc (Internal_Failure ''connection refused'') (Local_Error ''connection refused'')"

definition test_submit_segwit_block_restores_witness_in_raw_block :: "bitcoin_crate \<Rightarrow> bool" where
  "test_submit_segwit_block_restores_witness_in_raw_block btc \<longleftrightarrow>
     with_job (fixture_job_with_segwit_coinbase_parts btc) (\<lambda>job.
       let (result, submitted) =
             submit_block_candidate btc (recording_submitter Submit_Ok) (replicate 80 0x33) job en1 en2 [];
           coinbase_no_witness = reconstruct_miner_coinbase job en1 en2
       in result = Some Submitted
          \<and> (case restore_coinbase_witness btc coinbase_no_witness of
               Some (Inr witness_coinbase) \<Rightarrow>
                 length coinbase_no_witness < length witness_coinbase
                 \<and> has_window witness_coinbase (drop 81 (submitted ! 0))
                 \<and> witness_coinbase ! 4 = 0x00 \<and> witness_coinbase ! 5 = 0x01
                 \<and> ok_with (tx_deserialize btc witness_coinbase) (\<lambda>tx.
                     length (witness (tx_input tx ! 0)) = 1 \<and> witness (tx_input tx ! 0) ! 0 = replicate 32 0)
             | _ \<Rightarrow> False))"

definition test_restore_coinbase_witness_adds_32_byte_nonce :: "bitcoin_crate \<Rightarrow> bool" where
  "test_restore_coinbase_witness_adds_32_byte_nonce btc \<longleftrightarrow>
     with_job (fixture_job_with_segwit_coinbase_parts btc) (\<lambda>job.
       let coinbase_no_witness = reconstruct_miner_coinbase job (replicate 4 0) (replicate 4 0)
       in case restore_coinbase_witness btc coinbase_no_witness of
            Some (Inr witness_bytes) \<Rightarrow>
              ok_with (tx_deserialize btc witness_bytes) (\<lambda>tx.
                length (witness (tx_input tx ! 0)) = 1 \<and> witness (tx_input tx ! 0) ! 0 = replicate 32 0)
              \<and> length coinbase_no_witness < length witness_bytes
          | _ \<Rightarrow> False)"

section \<open>The model passes\<close>

text \<open>The coinbase of the fixtures with some bytes at the placeholder.\<close>

definition filled :: "bitcoin_crate \<Rightarrow> u64 \<Rightarrow> bytes option \<Rightarrow> bytes \<Rightarrow> transaction" where
  "filled btc height com fill =
     coinbase_transaction btc
       ((placeholder_inputs height com)\<lparr> in_coinbase_aux_flags := Some ([0xde, 0xad, 0xbe, 0xef] @ fill) \<rparr>)"

definition before_fill :: "bitcoin_crate \<Rightarrow> u64 \<Rightarrow> bytes" where
  "before_fill btc height = coinbase_prefix btc height [0xde, 0xad, 0xbe, 0xef]"

definition after_fill :: "bitcoin_crate \<Rightarrow> bytes option \<Rightarrow> bytes" where
  "after_fill btc com = coinbase_suffix btc (fixture_template) payout_script com"

lemma filled_bytes:
  assumes "wire_format btc" and "length fill = 8"
  shows "serialize_no_witness btc (filled btc height com fill) = before_fill btc height @ fill @ after_fill btc com"
proof -
  have "(placeholder_inputs height com)\<lparr> in_coinbase_aux_flags := Some ([0xde, 0xad, 0xbe, 0xef] @ fill) \<rparr>
      = coinbase_inputs (fixture_template\<lparr> bt_height := height \<rparr>) payout_script ([0xde, 0xad, 0xbe, 0xef] @ fill) com"
    by (simp add: placeholder_inputs_def coinbase_inputs_def fixture_template_def)
  moreover have "coinbase_suffix btc (fixture_template\<lparr> bt_height := height \<rparr>) payout_script com
      = coinbase_suffix btc fixture_template payout_script com"
    by (simp add: coinbase_suffix_def)
  ultimately show ?thesis
    using coinbase_no_witness_fill [of btc fill "fixture_template\<lparr> bt_height := height \<rparr>" payout_script
        "[0xde, 0xad, 0xbe, 0xef]" com] assms
    by (simp add: filled_def before_fill_def after_fill_def wire_format_def)
qed

lemma height_200: "encode_script_num 200 = [200, 0]"
  by (simp add: encode_script_num_def script_num_bytes_step drop_bit_eq_div top_bit)

lemma split_filled:
  assumes "wire_format btc" and "height \<in> {100, 200}"
  shows "split_job i h com (before_fill btc height @ EXTRANONCE_PLACEHOLDER @ after_fill btc com')
     = Some \<lparr> job_id = i, job_prev_hash = replicate 32 0, coinbase_part1 = before_fill btc height,
         coinbase_part2 = after_fill btc com', merkle_branch = [],
         job_version = 0x20000000, job_nbits = 0x1d00ffff, job_ntime = 0, clean_jobs = True,
         block_assembly = Some \<lparr> asm_height = h, asm_coinbase_value = 5000000000,
           asm_coinbase_aux_flags = Some [0xde, 0xad, 0xbe, 0xef], asm_template_transactions = [],
           asm_default_witness_commitment = com \<rparr> \<rparr>"
proof -
  have "0xfa \<notin> set (before_fill btc height)"
    using assms
    by (auto simp: before_fill_def wire_format_def coinbase_prefix_def script_prefix_def height_100 height_200
        push_data_def Let_def push_header_def compact_size_def encode_out_point_def constant_bytes)
  then have "window_position EXTRANONCE_PLACEHOLDER (before_fill btc height @ EXTRANONCE_PLACEHOLDER)
      = Some (length (before_fill btc height))"
    unfolding EXTRANONCE_PLACEHOLDER_def by (rule window_position_fresh)
  then have "window_position EXTRANONCE_PLACEHOLDER (before_fill btc height @ EXTRANONCE_PLACEHOLDER @ after_fill btc com')
      = Some (length (before_fill btc height))"
    by (intro window_position_extend) (simp_all add: EXTRANONCE_PLACEHOLDER_def)
  then show ?thesis by (simp add: split_job_def)
qed

definition filled_job :: "bitcoin_crate \<Rightarrow> string \<Rightarrow> u64 \<Rightarrow> bytes option \<Rightarrow> job" where
  "filled_job btc i height com =
     \<lparr> job_id = i, job_prev_hash = replicate 32 0, coinbase_part1 = before_fill btc height,
       coinbase_part2 = after_fill btc com, merkle_branch = [],
       job_version = 0x20000000, job_nbits = 0x1d00ffff, job_ntime = 0, clean_jobs = True,
       block_assembly = Some \<lparr> asm_height = height, asm_coinbase_value = 5000000000,
         asm_coinbase_aux_flags = Some [0xde, 0xad, 0xbe, 0xef], asm_template_transactions = [],
         asm_default_witness_commitment = com \<rparr> \<rparr>"

lemma build_placeholder:
  "build_coinbase_transaction btc (placeholder_inputs height com)
     = Inr (tx_serialize btc (filled btc height com EXTRANONCE_PLACEHOLDER))"
  by (simp add: build_coinbase_transaction_def filled_def placeholder_inputs_def)

lemma placeholder_length: "length EXTRANONCE_PLACEHOLDER = 8"
  by (simp add: EXTRANONCE_PLACEHOLDER_def)

lemma filled_inputs:
  "list_all (\<lambda>i. witness i = []) (tx_input (filled btc height None fill))"
  "\<not> list_all (\<lambda>i. witness i = []) (tx_input (filled btc height (Some c) fill))"
  by (simp_all add: filled_def coinbase_transaction_def placeholder_inputs_def Let_def)

lemma valid_fixture:
  assumes "wire_format btc"
  shows "fixture_job_with_valid_coinbase_parts btc = Some (filled_job btc ''100'' 100 None)"
  using legacy_serialization [OF assms filled_inputs(1) [of btc 100 EXTRANONCE_PLACEHOLDER]]
  by (simp add: fixture_job_with_valid_coinbase_parts_def build_placeholder unwrapped_def
      filled_bytes [OF assms placeholder_length] split_filled [OF assms] filled_job_def)

lemma segwit_fixture:
  assumes "wire_format btc" and "reads_back btc (filled btc 200 (Some commitment_script) EXTRANONCE_PLACEHOLDER)"
  shows "fixture_job_with_segwit_coinbase_parts btc = Some (filled_job btc ''200'' 200 (Some commitment_script))"
  by (simp add: fixture_job_with_segwit_coinbase_parts_def build_placeholder unwrapped_def reads_backD(1) [OF assms(2)]
      filled_bytes [OF assms(1) placeholder_length] split_filled [OF assms(1)] filled_job_def)

lemma reconstructed:
  assumes "wire_format btc" and "length e1 + length e2 = 8"
  shows "reconstruct_miner_coinbase (filled_job btc i height com) e1 e2
           = serialize_no_witness btc (filled btc height com (e1 @ e2))"
  using filled_bytes [OF assms(1), of "e1 @ e2" height com] assms(2)
  by (simp add: reconstruct_miner_coinbase_def filled_job_def)

lemma restored:
  assumes "reads_back btc (filled btc height (Some c) fill)"
  shows "restore_coinbase_witness btc (serialize_no_witness btc (filled btc height (Some c) fill))
           = Some (Inr (tx_serialize btc (filled btc height (Some c) fill)))"
  unfolding restore_coinbase_witness_def reads_backD(2) [OF assms]
  by (simp add: strip_witness_def) (simp add: filled_def coinbase_transaction_def placeholder_inputs_def Let_def)

text \<open>A candidate of a fixture job: the raw block, and the submitter's answer.\<close>

lemma fixture_submission:
  assumes wire: "wire_format btc" and len: "length e1 + length e2 = 8" and header: "length header = 80"
    and reads: "reads_back btc (filled btc height com (e1 @ e2))"
    and tx: "tx = (if com = None then serialize_no_witness btc (filled btc height com (e1 @ e2))
                   else tx_serialize btc (filled btc height com (e1 @ e2)))"
  shows "submit_block_candidate btc (recording_submitter response) header (filled_job btc i height com) e1 e2 []
     = (Some (submission_result (fst (recording_submitter response \<lparr> cand_block_hash = replicate 32 0,
                cand_height = height, cand_raw_block = header @ [1] @ tx \<rparr> []))),
        [header @ [1] @ tx])"
    and "build_raw_block btc header tx [] = Inr (header @ [1] @ tx)"
proof -
  have "parses btc tx"
    using reads by (auto simp: tx parses_def is_ok_def reads_backD)
  then show raw: "build_raw_block btc header tx [] = Inr (header @ [1] @ tx)"
    using wire header by (simp add: build_raw_block_Inr wire_format_def small_counts)
  obtain asm where asm: "block_assembly (filled_job btc i height com) = Some asm"
    and fields: "asm_height asm = height" "asm_template_transactions asm = []"
      "asm_default_witness_commitment asm = com"
    by (simp add: filled_job_def)
  have "candidate_coinbase btc asm (reconstruct_miner_coinbase (filled_job btc i height com) e1 e2)
      = Some (Inr tx)"
    using reads by (cases com) (simp_all add: candidate_coinbase_def reconstructed [OF wire len] tx fields restored)
  with raw show "submit_block_candidate btc (recording_submitter response) header (filled_job btc i height com) e1 e2 []
     = (Some (submission_result (fst (recording_submitter response \<lparr> cand_block_hash = replicate 32 0,
                cand_height = height, cand_raw_block = header @ [1] @ tx \<rparr> []))),
        [header @ [1] @ tx])"
    by (simp add: submit_block_candidate_def asm fields recording_submitter_def)
qed

lemma candidate_tests:
  assumes wire: "wire_format btc"
    and reads: "reads_back btc (filled btc 100 None (en1 @ en2))"
      "reads_back btc (filled btc 100 None (replicate 4 0 @ replicate 4 0))"
  shows "test_submit_block_candidate_missing_block_assembly_fails_clearly btc"
    and "test_reconstruct_miner_coinbase_is_part1_en1_en2_part2 btc"
    and "test_submit_block_candidate_uses_miner_solved_coinbase btc"
    and "test_submit_block_candidate_raw_block_contains_miner_coinbase_bytes btc"
    and "test_submit_block_candidate_daemon_reject_reason_is_propagated_clearly btc"
    and "test_submit_block_candidate_internal_error_is_local_error btc"
proof -
  have len: "length en1 + length en2 = 8" by (simp add: en1_def en2_def)
  let ?tx = "serialize_no_witness btc (filled btc 100 None (en1 @ en2))"
  note sub = fixture_submission [OF wire len _ reads(1), of _ ?tx]
  show "test_submit_block_candidate_missing_block_assembly_fails_clearly btc"
    by (simp add: test_submit_block_candidate_missing_block_assembly_fails_clearly_def submit_block_candidate_def
        job_placeholder_def)
  show "test_reconstruct_miner_coinbase_is_part1_en1_en2_part2 btc"
    by (simp add: test_reconstruct_miner_coinbase_is_part1_en1_en2_part2_def with_job_def
        valid_fixture [OF wire] reconstruct_miner_coinbase_def)
  show "test_submit_block_candidate_uses_miner_solved_coinbase btc"
    using sub(2) [of "replicate 80 0x11"]
    by (simp add: test_submit_block_candidate_uses_miner_solved_coinbase_def with_job_def
        valid_fixture [OF wire] sub(1) reconstructed [OF wire len] recording_submitter_def submission_result_def)
      (simp add: filled_job_def)
  have "has_window ?tx ([1] @ ?tx @ [])" by (rule has_window_inside)
  then show "test_submit_block_candidate_raw_block_contains_miner_coinbase_bytes btc"
    by (simp add: test_submit_block_candidate_raw_block_contains_miner_coinbase_bytes_def with_job_def
        valid_fixture [OF wire] sub(1) reconstructed [OF wire len] recording_submitter_def submission_result_def)
  have "length (replicate 4 (0 :: u8)) + length (replicate 4 (0 :: u8)) = 8" by simp
  note zeros = fixture_submission(1) [OF wire this _ reads(2) refl]
  have reason: "strip_prefix ''submitblock rejected: '' ''submitblock rejected: high-hash'' = Some ''high-hash''"
    "strip_prefix ''submitblock rejected: '' ''connection refused'' = None" by simp_all
  show "test_submit_block_candidate_daemon_reject_reason_is_propagated_clearly btc"
    by (simp add: test_submit_block_candidate_daemon_reject_reason_is_propagated_clearly_def submitted_with_def
        with_job_def valid_fixture [OF wire] zeros recording_submitter_def submission_result_def reason)
  show "test_submit_block_candidate_internal_error_is_local_error btc"
    by (simp add: test_submit_block_candidate_internal_error_is_local_error_def submitted_with_def
        with_job_def valid_fixture [OF wire] zeros recording_submitter_def submission_result_def reason)
qed

lemma segwit_candidate_tests:
  assumes wire: "wire_format btc"
    and reads: "reads_back btc (filled btc 200 (Some commitment_script) EXTRANONCE_PLACEHOLDER)"
      "reads_back btc (filled btc 200 (Some commitment_script) (en1 @ en2))"
      "reads_back btc (filled btc 200 (Some commitment_script) (replicate 4 0 @ replicate 4 0))"
  shows "test_submit_segwit_block_restores_witness_in_raw_block btc"
    and "test_restore_coinbase_witness_adds_32_byte_nonce btc"
proof -
  have len: "length en1 + length en2 = 8" by (simp add: en1_def en2_def)
  let ?tx = "filled btc 200 (Some commitment_script) (en1 @ en2)"
  have nonce: "length (witness (tx_input (filled btc 200 (Some commitment_script) fill) ! 0)) = 1"
    "witness (tx_input (filled btc 200 (Some commitment_script) fill) ! 0) ! 0 = replicate 32 0" for fill
    by (simp_all add: filled_def coinbase_transaction_def placeholder_inputs_def Let_def)
  note segwit = witness_serialization [OF wire filled_inputs(2)]
  note sub = fixture_submission(1) [OF wire len _ reads(2), of _ "tx_serialize btc ?tx"]
  have "has_window (tx_serialize btc ?tx) ([] @ tx_serialize btc ?tx @ [])" by (rule has_window_inside)
  then show "test_submit_segwit_block_restores_witness_in_raw_block btc"
    by (simp add: test_submit_segwit_block_restores_witness_in_raw_block_def with_job_def
        segwit_fixture [OF wire reads(1)] sub reconstructed [OF wire len] recording_submitter_def
        submission_result_def restored [OF reads(2)] segwit nonce reads_backD(1) [OF reads(2)])
  have "length (replicate 4 (0 :: u8)) + length (replicate 4 (0 :: u8)) = 8" by simp
  then show "test_restore_coinbase_witness_adds_32_byte_nonce btc"
    using restored [OF reads(3)] reconstructed [OF wire, of "replicate 4 0" "replicate 4 0"]
    by (simp add: test_restore_coinbase_witness_adds_32_byte_nonce_def with_job_def
        segwit_fixture [OF wire reads(1)] segwit nonce reads_backD(1) [OF reads(3)] del: replicate.simps)
qed

end
