(* ===== verification/Tests_Integration.thy ===== *)
theory Tests_Integration
  imports Sv1_Responses Sv1_Handler Tests_Protocol Tests_Candidate
begin

text \<open>
  Integration tests of \<open>azcoin-pool/tests\<close>, translated down to the JSON values that are
  exchanged: a client connects, subscribes, authorizes and submits, against the handler that the
  test builds. Some of the assertions of these tests do not hold of the code; the lemmas say
  which. \<open>n\<close> is the counter of extranonces at the start, a static that all tests share.
\<close>

section \<open>A client\<close>

text \<open>One request and its answer, with the job that is pushed after it.\<close>

definition exchange ::
  "hex_crate \<Rightarrow> 's session_handler \<Rightarrow> sv1_request \<Rightarrow> session_state \<Rightarrow> 's server
     \<Rightarrow> ((sv1_response \<times> job option) \<times> session_state \<times> 's server) option" where
  "exchange hx h req ss sv =
     (case dispatch_request hx h req ss sv of
        (None, ss, sv) \<Rightarrow> None
      | (Some (None, response), ss, sv) \<Rightarrow> Some ((response, None), ss, sv)
      | (Some (Some job, response), ss, sv) \<Rightarrow>
          Some ((response, Some job), ss\<lparr> last_notify_job_id := Some (job_id job) \<rparr>,
                sv\<lparr> pool := on_notify_sent h job (pool sv) \<rparr>))"

text \<open>It is what the session does on a socket that takes what is written.\<close>

lemma exchange_on_socket:
  assumes rec: "records_lines wr" and "exchange hx h req ss sv = Some (a, ss', sv')"
  shows "handle_request hx h wr d req ss out sv = (Running, ss', out @ answer_lines hx wr d a, sv')"
proof -
  obtain nj r ss1 sv1 where disp: "dispatch_request hx h req ss sv = (Some (nj, r), ss1, sv1)"
    and a: "a = (r, nj)"
    using assms(2) by (auto simp: exchange_def split: prod.splits option.splits)
  obtain s where "wr_to_string wr (response_json r) = Inr s"
    "\<And>out. write_json_line wr s out = (True, out @ [json_line wr (response_json r)])"
    using records_write [OF rec] by metis
  then show ?thesis using assms(2)
    by (cases nj) (simp_all add: exchange_def handle_request_def disp a deliver_lines [OF rec]
        answer_lines_def push_lines_def)
qed

fun converse ::
  "hex_crate \<Rightarrow> 's session_handler \<Rightarrow> sv1_request list \<Rightarrow> session_state \<Rightarrow> 's server
     \<Rightarrow> ((sv1_response \<times> job option) list \<times> session_state \<times> 's server) option" where
  "converse hx h [] ss sv = Some ([], ss, sv)"
| "converse hx h (req # reqs) ss sv =
     (case exchange hx h req ss sv of
        None \<Rightarrow> None
      | Some (a, ss, sv) \<Rightarrow>
          (case converse hx h reqs ss sv of
             None \<Rightarrow> None
           | Some (as, ss, sv) \<Rightarrow> Some (a # as, ss, sv)))"

definition subscribe_req :: sv1_request where
  "subscribe_req = request (Some 1) ''mining.subscribe'' (Some (JArray []))"

definition authorize_req :: "string \<Rightarrow> sv1_request" where
  "authorize_req username = request (Some 2) ''mining.authorize'' (Some (json_strings [username, ''x'']))"

definition submit_req :: "string \<Rightarrow> sv1_request" where
  "submit_req jid = request (Some 3) ''mining.submit''
     (Some (json_strings [''user.worker1'', jid, ''00000000'', ''00000000'', ''00000000'']))"

definition server_at :: "u32 \<Rightarrow> 's \<Rightarrow> 's server" where
  "server_at n p = \<lparr> next_extranonce1 = n, pool = p \<rparr>"

definition subscribed_as :: "u32 \<Rightarrow> session_state" where
  "subscribed_as n = session_state_default
     \<lparr> subscribed := True, ss_extranonce1 := fmt_08x n, extranonce2_size := 4 \<rparr>"

definition mining_as :: "u32 \<Rightarrow> string \<Rightarrow> job option \<Rightarrow> session_state" where
  "mining_as n username j = (subscribed_as n)
     \<lparr> authorized_worker := Some (worker_identity_new username),
       last_notify_job_id := map_option job_id j \<rparr>"

lemma exchange_subscribe:
  "exchange hx h subscribe_req session_state_default (server_at n p)
   = Some ((build_subscribe_response (Some (json_nat 1)) (fmt_08x n), None), subscribed_as n, server_at (n + 1) p)"
  by (simp add: exchange_def dispatch_request_def subscribe_req_def request_def map_request_to_command_def
      dispatch_subscribe_def Let_def server_at_def subscribed_as_def)

lemma request_ids [simp]:
  "rq_id (authorize_req u) = Some (json_nat 2)" "rq_id (submit_req jid) = Some (json_nat 3)"
  by (simp_all add: authorize_req_def submit_req_def request_def)

lemma authorize_command: "map_request_to_command hx (authorize_req u) = Inr (Some (Authorize u ''x''))"
  by (simp add: authorize_req_def request_def json_strings_def map_request_to_command_def param_str_def list_get_def)

lemma exchange_authorize:
  assumes "on_authorize h u p = (Inr j, p')"
  shows "exchange hx h (authorize_req u) (subscribed_as n) (server_at m p)
   = Some ((build_authorize_success (Some (json_nat 2)), j), mining_as n u j,
        server_at m (case j of None \<Rightarrow> p' | Some job \<Rightarrow> on_notify_sent h job p'))"
  using assms
  by (cases j) (simp_all add: exchange_def dispatch_request_def authorize_command dispatch_authorize_def
      server_at_def mining_as_def subscribed_as_def session_state_default_def)

lemma submit_command:
  assumes "hex_documented hx"
  shows "map_request_to_command hx (submit_req jid)
     = Inr (Some (SubmitShare ''user.worker1'' jid [0, 0, 0, 0] 0 0 None))"
proof -
  have "hex_text [0, 0, 0, 0] = ''00000000''" by (simp add: hex_text_def hex_printing)
  moreover have "fmt_08x 0 = ''00000000''" by (simp add: fmt_08x_def hex_printing)
  ultimately have "rq_params (submit_req jid) = rq_params (submit_request None ''user.worker1'' jid [0, 0, 0, 0] 0 0 None)"
    by (simp add: submit_req_def submit_request_def request_def json_strings_def)
  then have "map_submit_params hx (submit_req jid)
      = map_submit_params hx (submit_request None ''user.worker1'' jid [0, 0, 0, 0] 0 0 None)"
    by (simp add: map_submit_params_def)
  then show ?thesis
    using map_submit_request [OF assms, of None "''user.worker1''" jid "[0, 0, 0, 0]" 0 0 None]
    by (simp add: map_request_to_command_def submit_req_def request_def)
qed

definition test_share :: "u32 \<Rightarrow> string \<Rightarrow> job option \<Rightarrow> share_submission" where
  "test_share n jid j =
     session_share (mining_as n ''user.worker1'' j) (worker_identity_new ''user.worker1'') jid [0, 0, 0, 0] 0 0 None"

lemma exchange_submit:
  assumes "hex_documented hx" and "on_submit h (test_share n jid j) p = (Some r, p')"
  shows "exchange hx h (submit_req jid) (mining_as n ''user.worker1'' j) (server_at m p)
   = Some ((submit_response (Some (json_nat 3)) r, None), mining_as n ''user.worker1'' j, server_at m p')"
  using assms
proof -
  have "worker_id (worker_identity_new ''user.worker1'') = ''user.worker1''"
    by (simp add: worker_identity_new_def split: prod.split)
  moreover have "authorized_worker (mining_as n ''user.worker1'' j) = Some (worker_identity_new ''user.worker1'')"
    by (simp add: mining_as_def)
  ultimately show ?thesis
    using assms
    by (simp add: exchange_def dispatch_request_def submit_command dispatch_submit_def test_share_def server_at_def)
qed

section \<open>Tests of block submission\<close>

text \<open>A job source and a submitter on the two parts of a world.\<close>

definition source_of :: "'j job_source \<Rightarrow> ('j \<times> 'w) job_source" where
  "source_of src w = (case src (fst w) of (job, j) \<Rightarrow> (job, (j, snd w)))"

definition submitter_of :: "'w block_submitter \<Rightarrow> ('j \<times> 'w) block_submitter" where
  "submitter_of submit b w = (case submit b (snd w) of (r, x) \<Rightarrow> (r, (fst w, x)))"

definition always_block :: validator where
  "always_block job share extranonce1 pool_difficulty = Block"

definition recording_block_submitter :: "string + bool \<Rightarrow> bytes list block_submitter" where
  "recording_block_submitter response block submitted = (response, submitted @ [cand_raw_block block])"

definition fixed_job_with_block_assembly :: job where
  "fixed_job_with_block_assembly =
     \<lparr> job_id = ''block-job'', job_prev_hash = replicate 32 0, coinbase_part1 = [0x01], coinbase_part2 = [0xff],
       merkle_branch = [], job_version = 0x20000000, job_nbits = 0x1d00ffff, job_ntime = 0, clean_jobs = True,
       block_assembly = Some
         \<lparr> asm_height = 100, asm_coinbase_value = 5000000000,
           asm_coinbase_aux_flags = Some [0xde, 0xad, 0xbe, 0xef], asm_template_transactions = [],
           asm_default_witness_commitment = Some
             [0x6a, 0x24, 0xaa, 0x21, 0xa9, 0xed, 0x11, 0x22, 0x33, 0x44, 0x55, 0x66, 0x77, 0x88, 0x99, 0x00,
              0xaa, 0xbb, 0xcc, 0xdd, 0xee, 0xff, 0x00, 0x11, 0x22, 0x33, 0x44, 0x55, 0x66, 0x77, 0x88, 0x99] \<rparr> \<rparr>"

definition test_payout_script :: bytes where
  "test_payout_script =
     [0x76, 0xa9, 0x14, 0x00, 0x11, 0x22, 0x33, 0x44, 0x55, 0x66, 0x77, 0x88, 0x99, 0xaa, 0xbb, 0xcc,
      0xdd, 0xee, 0xff, 0x00, 0x11, 0x22, 0x33, 0x88, 0xac]"

definition block_services :: "validator \<Rightarrow> (job, job \<times> bytes list) pool_services" where
  "block_services v = services_new_with_validator ''test-pool'' fixed_current_job v 4"

definition start_handler ::
  "validator \<Rightarrow> string + bool \<Rightarrow> bytes option \<Rightarrow> (job \<times> bytes list) sv1_handler" where
  "start_handler v response payout =
     \<lparr> sh_job_source = source_of fixed_current_job, sh_processor = svc_share_processor (block_services v),
       sh_submitter = submitter_of (recording_block_submitter response), sh_payout_script_pubkey = payout \<rparr>"

definition start_pool :: "validator \<Rightarrow> (job \<times> bytes list) pool_state" where
  "start_pool v =
     \<lparr> pl_stats = svc_stats (block_services v), pl_workers = svc_worker_registry (block_services v),
       pl_share = services_state (block_services v) (fixed_job_with_block_assembly, []) \<rparr>"

text \<open>The client authorizes and submits the same share \<open>k\<close> times: answers and submitted blocks.\<close>

definition submits ::
  "hex_crate \<Rightarrow> bitcoin_crate \<Rightarrow> hasher \<Rightarrow> u32 \<Rightarrow> (validator \<times> (string + bool) \<times> bytes option) \<Rightarrow> nat
     \<Rightarrow> (json option list \<times> bytes list) option" where
  "submits hx btc sha n setup k =
     (case setup of (v, response, payout) \<Rightarrow>
        (case converse hx (pool_handler hx btc sha (start_handler v response payout))
                ([subscribe_req, authorize_req ''user.worker1''] @ replicate k (submit_req ''block-job''))
                session_state_default (server_at n (start_pool v)) of
           None \<Rightarrow> None
         | Some (answers, ss, sv) \<Rightarrow>
             Some (map (\<lambda>a. rs_result (fst a)) (drop 2 answers), snd (pool_world (pool sv)))))"

definition non_block_share_does_not_invoke_candidate_submission ::
  "hex_crate \<Rightarrow> bitcoin_crate \<Rightarrow> hasher \<Rightarrow> u32 \<Rightarrow> bool" where
  "non_block_share_does_not_invoke_candidate_submission hx btc sha n \<longleftrightarrow>
     submits hx btc sha n (accept_all_validate_share, Inr True, Some test_payout_script) 1
       = Some ([Some (JBool True)], [])"

definition block_found_share_path_invokes_candidate_submission ::
  "hex_crate \<Rightarrow> bitcoin_crate \<Rightarrow> hasher \<Rightarrow> u32 \<Rightarrow> bool" where
  "block_found_share_path_invokes_candidate_submission hx btc sha n \<longleftrightarrow>
     (case submits hx btc sha n (always_block, Inr True, Some test_payout_script) 1 of
        Some ([result], submitted) \<Rightarrow>
          result = Some (JBool True) \<and> length submitted = 1 \<and> 80 < length (submitted ! 0)
      | _ \<Rightarrow> False)"

definition missing_payout_script_on_block_found_is_handled_cleanly ::
  "hex_crate \<Rightarrow> bitcoin_crate \<Rightarrow> hasher \<Rightarrow> u32 \<Rightarrow> bool" where
  "missing_payout_script_on_block_found_is_handled_cleanly hx btc sha n \<longleftrightarrow>
     submits hx btc sha n (always_block, Inr True, None) 1 = Some ([Some (JBool True)], [])"

definition daemon_reject_on_block_found_is_handled_cleanly ::
  "hex_crate \<Rightarrow> bitcoin_crate \<Rightarrow> hasher \<Rightarrow> u32 \<Rightarrow> bool" where
  "daemon_reject_on_block_found_is_handled_cleanly hx btc sha n \<longleftrightarrow>
     (case submits hx btc sha n (always_block, Inl ''submitblock rejected: high-hash'', Some test_payout_script) 2 of
        Some ([first, second], submitted) \<Rightarrow>
          first = Some (JBool True) \<and> second = Some (JBool True) \<and> length submitted = 2
      | _ \<Rightarrow> False)"

text \<open>The coinbase that the client of these tests has solved does not read as a transaction.\<close>

definition solved_bytes :: "u32 \<Rightarrow> bytes" where
  "solved_bytes n = [0x01] @ rev (to_le_bytes32 n) @ [0, 0, 0, 0] @ [0xff]"

definition job_in_play :: "(job \<times> bytes list) pool_state \<Rightarrow> bool" where
  "job_in_play p \<longleftrightarrow>
     get_job ''block-job'' (st_registry (pl_share p)) = Some fixed_job_with_block_assembly
     \<and> fst (pool_world p) = fixed_job_with_block_assembly"

lemmas block_test_defs = start_handler_def block_services_def services_new_with_validator_def
  services_new_with_validator_and_share_sink_def services_new_inner_def
  processor_with_validator_and_share_sink_def

lemma fixed_job_simps [simp]:
  "job_id fixed_job_with_block_assembly = ''block-job''" "clean_jobs fixed_job_with_block_assembly"
  by (simp_all add: fixed_job_with_block_assembly_def)

lemma test_share_simps [simp]:
  "share_job_id (test_share n jid j) = jid" "extra_nonce2 (test_share n jid j) = [0, 0, 0, 0]"
  by (simp_all add: test_share_def session_share_def)

lemma test_share_context:
  "validation_context (test_share n jid j) = Some
     \<lparr> ctx_expected_extra_nonce2_len = Some 4, ctx_extranonce1_hex = Some (fmt_08x n),
       ctx_version_rolling_mask = None, ctx_version_bits = None \<rparr>"
  by (simp add: test_share_def session_share_def mining_as_def subscribed_as_def session_state_default_def)

lemma test_share_shape [simp]: "check_shape (test_share n jid j) = None"
  by (simp add: check_shape_def test_share_context)

lemma test_share_extranonce1:
  "hex_documented hx \<Longrightarrow> session_extranonce1 hx (test_share n jid j) = Inr (rev (to_le_bytes32 n))"
  by (simp add: session_extranonce1_def test_share_context fmt_08x_hex_text hex_decode_hex_text)

lemma test_share_header: "\<exists>header. build_solved_block_header hx sha job (test_share n jid j) e = Inr header"
  by (simp add: solved_header_cases resolved_version_def test_share_context)

lemma test_verdict:
  assumes "hex_documented hx" and "job_in_play p"
  shows "share_verdict hx (sh_processor (start_handler v response payout)) (test_share n ''block-job'' j)
      (st_registry (pl_share p))
    = v fixed_job_with_block_assembly (test_share n ''block-job'' j) (rev (to_le_bytes32 n)) 4"
  using assms by (simp add: share_verdict_def job_in_play_def test_share_extranonce1 block_test_defs)

lemma test_recorded:
  "st_world (record_share_result (sh_processor (start_handler v response payout)) share r st) = st_world st"
  by (simp add: record_share_result_def block_test_defs Let_def)

lemma test_candidate_fails:
  assumes "tx_deserialize btc (solved_bytes n) = Inl e"
  shows "submit_block_candidate btc submitter header fixed_job_with_block_assembly
      (rev (to_le_bytes32 n)) [0, 0, 0, 0] w
    = (Some (Local_Error (''coinbase deserialize for witness: '' @ e)), w)"
  using assms
  by (simp add: submit_block_candidate_def candidate_coinbase_def restore_coinbase_witness_def
      fixed_job_with_block_assembly_def reconstruct_miner_coinbase_def solved_bytes_def)

lemma block_test_submit:
  assumes hx: "hex_documented hx" and p: "job_in_play p"
    and v: "v = accept_all_validate_share \<or> v = always_block \<and> tx_deserialize btc (solved_bytes n) = Inl e"
  shows "\<exists>r p'. pool_on_submit hx btc sha (start_handler v response payout) (test_share n ''block-job'' j) p = (Some r, p')
     \<and> is_accepted r \<and> job_in_play p' \<and> snd (pool_world p') = snd (pool_world p)"
proof -
  let ?self = "start_handler v response payout" and ?share = "test_share n ''block-job'' j"
  obtain r where r: "v fixed_job_with_block_assembly ?share (rev (to_le_bytes32 n)) 4 = r"
    and kind: "r = Accepted \<or> r = Block \<and> tx_deserialize btc (solved_bytes n) = Inl e"
    using v by (auto simp: accept_all_validate_share_def always_block_def)
  define p1 where "p1 = p\<lparr> pl_share := record_share_result (sh_processor ?self) ?share r (pl_share p) \<rparr>"
  have p1: "job_in_play p1" "snd (pool_world p1) = snd (pool_world p)"
    using p by (simp_all add: job_in_play_def p1_def pool_world_def test_recorded)
  have step: "pool_on_submit hx btc sha ?self ?share p
      = (if r = Block then (case maybe_submit_block_candidate hx btc sha ?self ?share p1 of
            (None, p) \<Rightarrow> (None, p) | (Some u, p) \<Rightarrow> (Some r, p)) else (Some r, p1))"
    by (simp add: pool_on_submit_def process_share_eq test_verdict [OF hx p] r finish_def p1_def Let_def)
  from kind show ?thesis
  proof
    assume "r = Accepted"
    then show ?thesis using step p1 by simp
  next
    assume block: "r = Block \<and> tx_deserialize btc (solved_bytes n) = Inl e"
    obtain header where header: "build_solved_block_header hx sha fixed_job_with_block_assembly ?share
        (rev (to_le_bytes32 n)) = Inr header"
      using test_share_header by blast
    have world: "sh_job_source ?self (pool_world p1) = (Some fixed_job_with_block_assembly, pool_world p1)"
      using p1(1) by (simp add: job_in_play_def start_handler_def source_of_def fixed_current_job_def prod_eq_iff)
    have "\<not> stale_block (Some fixed_job_with_block_assembly) fixed_job_with_block_assembly"
      by (simp add: stale_block_def)
    then have "maybe_submit_block_candidate hx btc sha ?self ?share p1
        = (Some (), set_world (pool_world p1) (set_world (pool_world p1) p1))"
      using p1(1) unfolding maybe_submit_block_candidate_def job_in_play_def
      by (simp add: world Let_def test_share_extranonce1 [OF hx] header test_candidate_fails [OF conjunct2 [OF block]])
    moreover have "job_in_play (set_world (pool_world p1) (set_world (pool_world p1) p1))"
      using p1(1) by (simp add: job_in_play_def)
    ultimately show ?thesis using step p1 block by simp
  qed
qed

lemma submit_response_accepted: "is_accepted r \<Longrightarrow> rs_result (submit_response i r) = Some (JBool True)"
  by (simp add: submit_response_def build_submit_success_def)

lemma block_test_submits:
  assumes hx: "hex_documented hx" and p: "job_in_play p"
    and v: "v = accept_all_validate_share \<or> v = always_block \<and> tx_deserialize btc (solved_bytes n) = Inl e"
  shows "\<exists>answers p'. converse hx (pool_handler hx btc sha (start_handler v response payout))
      (replicate k (submit_req ''block-job'')) (mining_as n ''user.worker1'' j) (server_at m p)
      = Some (answers, mining_as n ''user.worker1'' j, server_at m p')
    \<and> map (\<lambda>a. rs_result (fst a)) answers = replicate k (Some (JBool True)) \<and> snd (pool_world p') = snd (pool_world p)"
  using p
proof (induction k arbitrary: p)
  case (Suc k)
  obtain r p1 where r: "pool_on_submit hx btc sha (start_handler v response payout) (test_share n ''block-job'' j) p
      = (Some r, p1)" "is_accepted r" "job_in_play p1" "snd (pool_world p1) = snd (pool_world p)"
    using block_test_submit [OF hx Suc.prems v] by blast
  have "on_submit (pool_handler hx btc sha (start_handler v response payout)) (test_share n ''block-job'' j) p = (Some r, p1)"
    using r(1) by (simp add: pool_handler_def)
  from exchange_submit [OF hx this] Suc.IH [OF r(3)] r(2,4) show ?case
    by (auto simp: submit_response_accepted)
next
  case 0
  then show ?case by (intro exI [of _ "[]"] exI [of _ p]) simp
qed

lemma block_test_run:
  assumes hx: "hex_documented hx"
    and v: "v = accept_all_validate_share \<or> v = always_block \<and> tx_deserialize btc (solved_bytes n) = Inl e"
  shows "submits hx btc sha n (v, response, payout) k = Some (replicate k (Some (JBool True)), [])"
proof -
  let ?h = "pool_handler hx btc sha (start_handler v response payout)"
  obtain p1 where auth: "on_authorize ?h ''user.worker1'' (start_pool v) = (Inr (Some fixed_job_with_block_assembly), p1)"
    and p1: "job_in_play (on_notify_sent ?h fixed_job_with_block_assembly p1)"
      "snd (pool_world (on_notify_sent ?h fixed_job_with_block_assembly p1)) = []"
    by (simp add: pool_handler_def pool_on_authorize_def start_handler_def source_of_def fixed_current_job_def
        start_pool_def pool_world_def services_state_def Let_def set_world_def job_in_play_def
        pool_on_notify_sent_def register_def register_entry_def get_job_def)
  obtain answers p' where run: "converse hx ?h (replicate k (submit_req ''block-job''))
      (mining_as n ''user.worker1'' (Some fixed_job_with_block_assembly))
      (server_at (n + 1) (on_notify_sent ?h fixed_job_with_block_assembly p1))
      = Some (answers, mining_as n ''user.worker1'' (Some fixed_job_with_block_assembly), server_at (n + 1) p')"
    "map (\<lambda>a. rs_result (fst a)) answers = replicate k (Some (JBool True))" "snd (pool_world p') = []"
    using block_test_submits [OF hx p1(1) v, of sha response payout k "Some fixed_job_with_block_assembly" "n + 1"]
      p1(2) by auto
  show ?thesis
    using run by (simp add: submits_def exchange_subscribe exchange_authorize [OF auth] server_at_def [of _ p'])
qed

lemma block_tests_passed:
  assumes "hex_documented hx"
  shows "non_block_share_does_not_invoke_candidate_submission hx btc sha n"
    and "tx_deserialize btc (solved_bytes n) = Inl e
           \<Longrightarrow> missing_payout_script_on_block_found_is_handled_cleanly hx btc sha n"
proof -
  have run: "submits hx btc sha n (v, response, payout) 1 = Some ([Some (JBool True)], [])"
    if "v = accept_all_validate_share \<or> v = always_block \<and> tx_deserialize btc (solved_bytes n) = Inl e"
    for v response payout
    using block_test_run [OF assms that, where k = 1] by simp
  show "non_block_share_does_not_invoke_candidate_submission hx btc sha n"
    unfolding non_block_share_does_not_invoke_candidate_submission_def
    using block_test_run [OF assms disjI1 [OF refl], where k = 1] by simp
  show "missing_payout_script_on_block_found_is_handled_cleanly hx btc sha n"
    if "tx_deserialize btc (solved_bytes n) = Inl e"
    unfolding missing_payout_script_on_block_found_is_handled_cleanly_def
    by (rule run) (use that in blast)
qed

text \<open>
  With a \<open>bitcoin\<close> crate that reads no transaction from these ten bytes no block is submitted, so
  the two tests that expect one fail; and the third test passes, but not for its missing script:
  the handler never reads it.
\<close>

lemma block_tests_not_passed:
  assumes "hex_documented hx" and "tx_deserialize btc (solved_bytes n) = Inl e"
  shows "\<not> block_found_share_path_invokes_candidate_submission hx btc sha n"
    and "\<not> daemon_reject_on_block_found_is_handled_cleanly hx btc sha n"
proof -
  have "submits hx btc sha n (always_block, response, payout) k = Some (replicate k (Some (JBool True)), [])"
    for response payout k
    by (rule block_test_run) (use assms in blast)+
  then show "\<not> block_found_share_path_invokes_candidate_submission hx btc sha n"
    and "\<not> daemon_reject_on_block_found_is_handled_cleanly hx btc sha n"
    by (simp_all add: block_found_share_path_invokes_candidate_submission_def
        daemon_reject_on_block_found_is_handled_cleanly_def numeral_2_eq_2)
qed

lemma payout_script_not_read:
  "pool_handler hx btc sha (self\<lparr> sh_payout_script_pubkey := payout \<rparr>) = pool_handler hx btc sha self"
proof -
  have "maybe_submit_block_candidate hx btc sha (self\<lparr> sh_payout_script_pubkey := payout \<rparr>) share p
      = maybe_submit_block_candidate hx btc sha self share p" for share and p :: "'a pool_state"
    by (simp add: maybe_submit_block_candidate_def Let_def split: option.split prod.split sum.split)
  then show ?thesis
    by (simp add: pool_handler_def fun_eq_iff pool_on_authorize_def pool_on_submit_def Let_def split: prod.split)
qed

section \<open>Tests of the registry behind two sessions\<close>

text \<open>\<open>TestSv1Handler\<close>: the handler of \<open>sv1_subscribe_authorize.rs\<close>, without statistics and submitter.\<close>

definition test_sv1_handler :: "hex_crate \<Rightarrow> 'w job_source \<Rightarrow> 'w share_processor \<Rightarrow> 'w pool_state session_handler" where
  "test_sv1_handler hx src processor =
     \<lparr> on_connect = (\<lambda>peer p. p), on_disconnect = (\<lambda>peer p. p),
       on_authorize = (\<lambda>username p.
         let p = p\<lparr> pl_workers := workers_register (worker_identity_new username) (pl_workers p) \<rparr>
         in case src (pool_world p) of (job, w) \<Rightarrow> (Inr job, set_world w p)),
       on_notify_sent = (\<lambda>job p. p\<lparr> pl_share := (pl_share p)\<lparr> st_registry := register job (st_registry (pl_share p)) \<rparr> \<rparr>),
       on_submit = (\<lambda>share p. case process_share hx processor share (pl_share p) of (r, st) \<Rightarrow> (Some r, p\<lparr> pl_share := st \<rparr>)) \<rparr>"

definition job_a :: job where
  "job_a = \<lparr> job_id = ''job-a'', job_prev_hash = replicate 32 0, coinbase_part1 = [0x01], coinbase_part2 = [0xff],
     merkle_branch = [], job_version = 0x20000000, job_nbits = 0x1d00ffff, job_ntime = 0, clean_jobs = True,
     block_assembly = None \<rparr>"

definition job_b :: job where
  "job_b = \<lparr> job_id = ''job-b'', job_prev_hash = replicate 32 1, coinbase_part1 = [0x02], coinbase_part2 = [0xfe],
     merkle_branch = [], job_version = 0x20000000, job_nbits = 0x1d00ffff, job_ntime = 1, clean_jobs = True,
     block_assembly = None \<rparr>"

definition prior_services :: "(vec_job_source, vec_job_source) pool_services" where
  "prior_services = services_new ''test-pool'' vec_current_job"

definition prior_handler :: "hex_crate \<Rightarrow> vec_job_source pool_state session_handler" where
  "prior_handler hx = test_sv1_handler hx vec_current_job (svc_share_processor prior_services)"

definition prior_pool :: "vec_job_source pool_state" where
  "prior_pool =
     \<lparr> pl_stats = svc_stats prior_services, pl_workers = svc_worker_registry prior_services,
       pl_share = services_state prior_services (vec_job_source_new [job_a, job_b]) \<rparr>"

definition login :: "string \<Rightarrow> sv1_request list" where
  "login username = [subscribe_req, authorize_req username]"

definition sv1_submit_prior_job_accepted :: "hex_crate \<Rightarrow> u32 \<Rightarrow> bool" where
  "sv1_submit_prior_job_accepted hx n \<longleftrightarrow>
     (case converse hx (prior_handler hx) (login ''user.worker1'') session_state_default (server_at n prior_pool) of
        None \<Rightarrow> False
      | Some (first, ss1, sv) \<Rightarrow>
          map_option job_id (snd (first ! 1)) = Some ''job-a''
          \<and> (case converse hx (prior_handler hx) (login ''user.worker2'') session_state_default sv of
               None \<Rightarrow> False
             | Some (second, ss2, sv) \<Rightarrow>
                 (case converse hx (prior_handler hx) [submit_req ''job-a''] ss1 sv of
                    Some ([(answer, pushed)], ss1, sv) \<Rightarrow> rs_result answer = Some (JBool True)
                  | _ \<Rightarrow> False)))"

lemma prior_authorize:
  assumes "pool_world p = \<lparr> vec_jobs = [job_a, job_b], vec_next = k \<rparr>" and "j = [job_a, job_b] ! (unat k mod 2)"
  shows "\<exists>p'. on_authorize (prior_handler hx) u p = (Inr (Some j), p')
     \<and> pool_world (on_notify_sent (prior_handler hx) j p') = \<lparr> vec_jobs = [job_a, job_b], vec_next = k + 1 \<rparr>
     \<and> pool_jobs (on_notify_sent (prior_handler hx) j p') = register j (pool_jobs p)"
  using assms
  by (simp add: prior_handler_def test_sv1_handler_def Let_def vec_current_job_def pool_world_def pool_jobs_def
      set_world_def numeral_2_eq_2)

text \<open>
  The second session's job is a clean one and empties the registry, so the share on the first
  job is answered with an error where the test expects true.
\<close>

lemma prior_job_test_not_passed:
  assumes "hex_documented hx"
  shows "\<not> sv1_submit_prior_job_accepted hx n"
proof -
  have start: "pool_world prior_pool = \<lparr> vec_jobs = [job_a, job_b], vec_next = 0 \<rparr>"
    by (simp add: prior_pool_def pool_world_def services_state_def vec_job_source_new_def)
  obtain p1 where p1: "on_authorize (prior_handler hx) ''user.worker1'' prior_pool = (Inr (Some job_a), p1)"
    "pool_world (on_notify_sent (prior_handler hx) job_a p1) = \<lparr> vec_jobs = [job_a, job_b], vec_next = 1 \<rparr>"
    using prior_authorize [OF start, of job_a] by auto
  obtain p2 where p2: "on_authorize (prior_handler hx) ''user.worker2'' (on_notify_sent (prior_handler hx) job_a p1)
      = (Inr (Some job_b), p2)"
    "pool_jobs (on_notify_sent (prior_handler hx) job_b p2)
      = register job_b (pool_jobs (on_notify_sent (prior_handler hx) job_a p1))"
    using prior_authorize [OF p1(2), of job_b] by auto
  let ?p = "on_notify_sent (prior_handler hx) job_b p2"
  have gone: "get_job ''job-a'' (st_registry (pl_share ?p)) = None"
    using p2(2) by (simp add: pool_jobs_def register_def register_entry_def get_job_def job_b_def)
  obtain st where submit: "on_submit (prior_handler hx) (test_share n ''job-a'' (Some job_a)) ?p
      = (Some (UnknownJob ''unknown job_id job-a''), ?p\<lparr> pl_share := st \<rparr>)"
    using gone by (simp add: prior_handler_def test_sv1_handler_def process_share_eq finish_def share_verdict_def)
  show ?thesis
    by (simp add: sv1_submit_prior_job_accepted_def login_def exchange_subscribe exchange_authorize [OF p1(1)]
        exchange_authorize [OF p2(1)] exchange_submit [OF assms submit] submit_response_def build_submit_reject_def
        build_error_response_def)
qed

end
