(* ===== verification/Tests_Sessions.thy ===== *)
theory Tests_Sessions
  imports Tests_Integration Tests_Shares Storage_Api
begin

text \<open>
  The other tests of \<open>azcoin-pool/tests/sv1_subscribe_authorize.rs\<close>: one session against
  \<open>TestSv1Handler\<close> over the services that the test builds, and what the HTTP API then reports.
\<close>

section \<open>A session of a test\<close>

definition subscribe_id :: "nat \<Rightarrow> sv1_request" where
  "subscribe_id i = request (Some i) ''mining.subscribe'' (Some (JArray []))"

definition authorize_id :: "nat \<Rightarrow> sv1_request" where
  "authorize_id i = request (Some i) ''mining.authorize'' (Some (json_strings [''user.worker1'', ''x'']))"

definition submit_id :: "nat \<Rightarrow> string list \<Rightarrow> sv1_request" where
  "submit_id i params = request (Some i) ''mining.submit'' (Some (json_strings (''user.worker1'' # params)))"

definition configure_req :: sv1_request where
  "configure_req = request (Some 1) ''mining.configure'' (Some (JArray
     [json_strings [''version-rolling''],
      JObject [(''version-rolling.mask'', JString ''1fffe000''), (''version-rolling.min-bit-count'', json_nat 2)]]))"

definition services_pool :: "('j, 'j) pool_services \<Rightarrow> 'j \<Rightarrow> 'j pool_state" where
  "services_pool services j =
     \<lparr> pl_stats = svc_stats services, pl_workers = svc_worker_registry services,
       pl_share = services_state services j \<rparr>"

definition session_test ::
  "hex_crate \<Rightarrow> ('j, 'j) pool_services \<Rightarrow> 'j \<Rightarrow> u32 \<Rightarrow> sv1_request list
     \<Rightarrow> ((sv1_response \<times> job option) list \<Rightarrow> 'j pool_state \<Rightarrow> bool) \<Rightarrow> bool" where
  "session_test hx services j n reqs check =
     (case converse hx (test_sv1_handler hx (svc_job_source services) (svc_share_processor services)) reqs
             session_state_default (server_at n (services_pool services j)) of
        None \<Rightarrow> False
      | Some (answers, ss, sv) \<Rightarrow> check answers (pool sv))"

definition result_true :: "sv1_response \<times> job option \<Rightarrow> bool" where
  "result_true a \<longleftrightarrow> rs_result (fst a) = Some (JBool True)"

definition error_contains :: "sv1_response \<times> job option \<Rightarrow> string \<Rightarrow> bool" where
  "error_contains a sub = (case rs_error (fst a) of None \<Rightarrow> False | Some e \<Rightarrow> str_contains (err_message e) sub)"

definition placeholder_services :: "(unit, unit) pool_services" where
  "placeholder_services = with_placeholder_job_source ''test-pool''"

definition no_job_services :: "(unit, unit) pool_services" where
  "no_job_services = with_no_job_source ''test-pool''"

definition fixed_services :: "(job, job) pool_services" where
  "fixed_services = services_new ''test-pool'' fixed_current_job"

definition validated_services :: "validator \<Rightarrow> (job, job) pool_services" where
  "validated_services v = services_new_with_validator ''test-pool'' fixed_current_job v 4"

section \<open>The tests\<close>

definition sv1_subscribe_authorize_worker_in_api :: "hex_crate \<Rightarrow> u32 \<Rightarrow> bool" where
  "sv1_subscribe_authorize_worker_in_api hx n \<longleftrightarrow>
     session_test hx placeholder_services () n
       [subscribe_id 1, authorize_id 2, submit_id 3 [''0'', ''00000000'', ''00000000'', ''00000000'']]
       (\<lambda>as p.
          rs_result (fst (as ! 0)) \<noteq> None \<and> rs_error (fst (as ! 0)) = None
          \<and> result_true (as ! 1) \<and> rs_error (fst (as ! 1)) = None
          \<and> (case snd (as ! 1) of
               None \<Rightarrow> False
             | Some j \<Rightarrow>
                 let params = notify_params (build_mining_notify hx j)
                 in length params = 9 \<and> params ! 0 = JString ''0'' \<and> params ! 8 = JBool True)
          \<and> result_true (as ! 2)
          \<and> map ws_id (api_pool_workers p) = [''user.worker1'']
          \<and> map attempt_worker_id (api_pool_shares_recent p) = [''user.worker1'']
          \<and> map attempt_job_id (api_pool_shares_recent p) = [''0'']
          \<and> map attempt_accepted (api_pool_shares_recent p) = [True])"

definition sv1_configured_initial_difficulty_is_sent_in_set_difficulty ::
  "hex_crate \<Rightarrow> 'o wire \<Rightarrow> u32 \<Rightarrow> bool" where
  "sv1_configured_initial_difficulty_is_sent_in_set_difficulty hx wr n \<longleftrightarrow>
     session_test hx placeholder_services () n [subscribe_id 1, authorize_id 2]
       (\<lambda>as p.
          let lines = answer_lines hx wr 32 (as ! 1)
          in length lines = 3
             \<and> lines ! 1 = json_line wr (JObject
                 [(''method'', JString ''mining.set_difficulty''), (''params'', JArray [json_nat 32])]))"

definition sv1_configure_is_accepted_and_subscribe_authorize_still_work :: "hex_crate \<Rightarrow> u32 \<Rightarrow> bool" where
  "sv1_configure_is_accepted_and_subscribe_authorize_still_work hx n \<longleftrightarrow>
     session_test hx placeholder_services () n [configure_req, subscribe_id 2, authorize_id 3]
       (\<lambda>as p.
          (case Option.bind (rs_result (fst (as ! 0))) as_object of
             None \<Rightarrow> False
           | Some result \<Rightarrow> same_object result
               [(''version-rolling'', JBool True), (''version-rolling.mask'', JString ''1fffe000''),
                (''version-rolling.min-bit-count'', json_nat 2)])
          \<and> rs_error (fst (as ! 0)) = None \<and> rs_result (fst (as ! 1)) \<noteq> None
          \<and> result_true (as ! 2) \<and> snd (as ! 2) \<noteq> None)"

definition sv1_version_rolling_submit_with_allowed_bits_is_accepted :: "hex_crate \<Rightarrow> u32 \<Rightarrow> bool" where
  "sv1_version_rolling_submit_with_allowed_bits_is_accepted hx n \<longleftrightarrow>
     session_test hx placeholder_services () n
       [configure_req, subscribe_id 2, authorize_id 3,
        submit_id 4 [''0'', ''00000000'', ''00000000'', ''00000000'', ''00002000'']]
       (\<lambda>as p. result_true (as ! 3))"

definition sv1_version_rolling_submit_with_disallowed_bits_is_rejected :: "hex_crate \<Rightarrow> u32 \<Rightarrow> bool" where
  "sv1_version_rolling_submit_with_disallowed_bits_is_rejected hx n \<longleftrightarrow>
     session_test hx placeholder_services () n
       [configure_req, subscribe_id 2, authorize_id 3,
        submit_id 4 [''0'', ''00000000'', ''00000000'', ''00000000'', ''20000000'']]
       (\<lambda>as p. error_contains (as ! 3) ''outside negotiated mask'')"

definition live_abc_job :: job where
  "live_abc_job =
     \<lparr> job_id = ''live-abc123'', job_prev_hash = replicate 31 0 @ [0x42], coinbase_part1 = [0x01, 0x02, 0x03],
       coinbase_part2 = [0xfe, 0xff], merkle_branch = [], job_version = 0x20000000, job_nbits = 0x1a020e7c,
       job_ntime = 0x69b33a70, clean_jobs = True, block_assembly = None \<rparr>"

definition sv1_live_notify_has_job_data :: "hex_crate \<Rightarrow> u32 \<Rightarrow> bool" where
  "sv1_live_notify_has_job_data hx n \<longleftrightarrow>
     session_test hx fixed_services live_abc_job n [subscribe_id 1, authorize_id 2]
       (\<lambda>as p. result_true (as ! 1)
          \<and> (case snd (as ! 1) of
               None \<Rightarrow> False
             | Some j \<Rightarrow>
                 let params = notify_params (build_mining_notify hx j)
                 in params ! 0 = JString ''live-abc123'' \<and> params ! 5 = JString ''20000000''
                    \<and> params ! 6 = JString ''1a020e7c'' \<and> params ! 7 = JString ''69b33a70'' \<and> params ! 8 = JBool True))"

definition sv1_no_job_no_notify :: "hex_crate \<Rightarrow> u32 \<Rightarrow> bool" where
  "sv1_no_job_no_notify hx n \<longleftrightarrow>
     session_test hx no_job_services () n [subscribe_id 1, authorize_id 2]
       (\<lambda>as p. result_true (as ! 1) \<and> snd (as ! 1) = None)"

definition submit_rejected :: "hex_crate \<Rightarrow> u32 \<Rightarrow> string list \<Rightarrow> string \<Rightarrow> bool" where
  "submit_rejected hx n params sub =
     session_test hx placeholder_services () n [subscribe_id 1, authorize_id 2, submit_id 3 params]
       (\<lambda>as p. error_contains (as ! 2) sub)"

definition sv1_submit_malformed_rejected :: "hex_crate \<Rightarrow> u32 \<Rightarrow> bool" where
  "sv1_submit_malformed_rejected hx n = submit_rejected hx n [''0'', ''00000000'', ''zz'', ''00000000''] ''ntime''"

definition sv1_submit_malformed_nonce_rejected :: "hex_crate \<Rightarrow> u32 \<Rightarrow> bool" where
  "sv1_submit_malformed_nonce_rejected hx n = submit_rejected hx n [''0'', ''00000000'', ''00000000'', ''123''] ''nonce''"

definition sv1_submit_malformed_ntime_rejected :: "hex_crate \<Rightarrow> u32 \<Rightarrow> bool" where
  "sv1_submit_malformed_ntime_rejected hx n = submit_rejected hx n [''0'', ''00000000'', ''123'', ''00000000''] ''ntime''"

definition sv1_submit_wrong_extranonce2_size_rejected :: "hex_crate \<Rightarrow> u32 \<Rightarrow> bool" where
  "sv1_submit_wrong_extranonce2_size_rejected hx n \<longleftrightarrow>
     session_test hx placeholder_services () n
       [subscribe_id 1, authorize_id 2, submit_id 3 [''0'', ''00'', ''00000000'', ''00000000'']]
       (\<lambda>as p. error_contains (as ! 2) ''extra_nonce2''
          \<and> map attempt_accepted (api_pool_shares_recent p) = [False])"

definition sv1_submit_meets_pool_target_accepted :: "hex_crate \<Rightarrow> u32 \<Rightarrow> bool" where
  "sv1_submit_meets_pool_target_accepted hx n \<longleftrightarrow>
     session_test hx (validated_services accept_all_validate_share) job_placeholder n
       [subscribe_id 1, authorize_id 2, submit_id 3 [''0'', ''00000000'', ''00000000'', ''00000000'']]
       (\<lambda>as p. result_true (as ! 2) \<and> map attempt_accepted (api_pool_shares_recent p) = [True])"

definition sv1_submit_low_difficulty_rejected :: "hex_crate \<Rightarrow> hasher \<Rightarrow> u32 \<Rightarrow> bool" where
  "sv1_submit_low_difficulty_rejected hx sha n \<longleftrightarrow>
     session_test hx (validated_services (validate_share hx sha azcoin_share_validator_new)) job_placeholder n
       [subscribe_id 1, authorize_id 2, submit_id 3 [''0'', ''00000000'', ''00000000'', ''00000000'']]
       (\<lambda>as p. (case rs_error (fst (as ! 2)) of
            None \<Rightarrow> False | Some e \<Rightarrow> str_contains (to_lowercase (err_message e)) ''target'')
          \<and> map attempt_accepted (api_pool_shares_recent p) = [False])"

definition sv1_submit_unknown_job_rejected :: "hex_crate \<Rightarrow> u32 \<Rightarrow> bool" where
  "sv1_submit_unknown_job_rejected hx n \<longleftrightarrow>
     session_test hx placeholder_services () n
       [subscribe_id 1, authorize_id 2, submit_id 3 [''unknown-job'', ''00000000'', ''00000000'', ''00000000'']]
       (\<lambda>as p. error_contains (as ! 2) ''unknown job''
          \<and> map attempt_accepted (api_pool_shares_recent p) = [False]
          \<and> map attempt_job_id (api_pool_shares_recent p) = [''unknown-job'']
          \<and> (case attempt_reject_reason (api_pool_shares_recent p ! 0) of
               None \<Rightarrow> False | Some r \<Rightarrow> str_contains r ''unknown job''))"

definition sv1_submit_no_issued_jobs_rejected :: "hex_crate \<Rightarrow> u32 \<Rightarrow> bool" where
  "sv1_submit_no_issued_jobs_rejected hx n \<longleftrightarrow>
     session_test hx no_job_services () n
       [subscribe_id 1, authorize_id 2, submit_id 3 [''any-job-id'', ''00000000'', ''00000000'', ''00000000'']]
       (\<lambda>as p. error_contains (as ! 2) ''unknown job''
          \<and> map attempt_accepted (api_pool_shares_recent p) = [False])"

definition named_job :: "string \<Rightarrow> job" where
  "named_job i = job_a\<lparr> job_id := i \<rparr>"

definition sv1_job_registered_when_notify_emitted :: "hex_crate \<Rightarrow> u32 \<Rightarrow> bool" where
  "sv1_job_registered_when_notify_emitted hx n \<longleftrightarrow>
     session_test hx fixed_services (named_job ''notify-job'') n
       [subscribe_id 1, authorize_id 2, submit_id 3 [''notify-job'', ''00000000'', ''00000000'', ''00000000'']]
       (\<lambda>as p.
          (case snd (as ! 1) of
             None \<Rightarrow> False | Some j \<Rightarrow> notify_params (build_mining_notify hx j) ! 0 = JString ''notify-job'')
          \<and> result_true (as ! 2))"

definition sv1_submit_valid_accepted_in_recent :: "hex_crate \<Rightarrow> u32 \<Rightarrow> bool" where
  "sv1_submit_valid_accepted_in_recent hx n \<longleftrightarrow>
     session_test hx fixed_services (named_job ''known-job-42'') n
       [subscribe_id 1, authorize_id 2, submit_id 3 [''known-job-42'', ''00000000'', ''00000000'', ''00000000'']]
       (\<lambda>as p. result_true (as ! 2) \<and> map attempt_accepted (api_pool_shares_recent p) = [True]
          \<and> map attempt_job_id (api_pool_shares_recent p) = [''known-job-42''])"

definition sv1_submit_malformed_extranonce1_rejected :: "hex_crate \<Rightarrow> hasher \<Rightarrow> bool" where
  "sv1_submit_malformed_extranonce1_rejected hx sha \<longleftrightarrow>
     (let services = validated_services (validate_share hx sha azcoin_share_validator_new);
          st = services_state services job_placeholder;
          st = st\<lparr> st_registry := register job_placeholder (st_registry st) \<rparr>;
          share = \<lparr> share_job_id = ''0'', share_worker = worker_identity_new ''user.worker1'',
            extra_nonce2 = [0, 0, 0, 0], share_ntime = 0, share_nonce = 0,
            validation_context = Some
              \<lparr> ctx_expected_extra_nonce2_len = Some 4, ctx_extranonce1_hex = Some ''zz'',
                ctx_version_rolling_mask = None, ctx_version_bits = None \<rparr> \<rparr>;
          result = fst (process_share hx (svc_share_processor services) share st)
      in (case result of Malformed reason \<Rightarrow> True | _ \<Rightarrow> False)
         \<and> (case reject_reason result of None \<Rightarrow> False | Some r \<Rightarrow> str_contains r ''extranonce1''))"

section \<open>The model passes them\<close>

definition miner :: "sv1_version_rolling_config option \<Rightarrow> u32 \<Rightarrow> job option \<Rightarrow> session_state" where
  "miner vr n j =
     \<lparr> authorized_worker = Some (worker_identity_new ''user.worker1''), subscribed = True,
       ss_extranonce1 = fmt_08x n, extranonce2_size = 4, ss_version_rolling = vr,
       last_notify_job_id = map_option job_id j \<rparr>"

definition login_pool :: "('j, 'j) pool_services \<Rightarrow> 'j \<Rightarrow> job option \<Rightarrow> 'j pool_state" where
  "login_pool s j job =
     \<lparr> pl_stats = svc_stats s,
       pl_workers = workers_register (worker_identity_new ''user.worker1'') (svc_worker_registry s),
       pl_share = \<lparr> st_registry = (case job of None \<Rightarrow> svc_job_registry s | Some job \<Rightarrow> register job (svc_job_registry s)),
         st_recent = svc_recent_shares s, st_world = j \<rparr> \<rparr>"

lemma id_commands:
  "map_request_to_command hx (subscribe_id i) = Inr (Some Subscribe)"
  "map_request_to_command hx (authorize_id i) = Inr (Some (Authorize ''user.worker1'' ''x''))"
  "map_request_to_command hx configure_req
     = Inr (Some (Configure [''version-rolling''] (Some \<lparr> vr_mask = 0x1fffe000, vr_min_bit_count = 2 \<rparr>)))"
  "rq_id (subscribe_id i) = Some (json_nat i)" "rq_id (authorize_id i) = Some (json_nat i)"
  "rq_id configure_req = Some (json_nat 1)" "rq_id (submit_id i params) = Some (json_nat i)"
  by (simp_all add: subscribe_id_def authorize_id_def configure_req_def submit_id_def request_def
      json_strings_def map_request_to_command_def param_str_def list_get_def map_configure_params_def
      parse_version_rolling_config_def parse_hex_u32_def json_nat_def obj_get_def test_hex_numbers)

lemma test_negotiated: "negotiate_version_rolling \<lparr> vr_mask = 0x1fffe000, vr_min_bit_count = 2 \<rparr> = Some negotiated"
  by (simp add: negotiate_version_rolling_def SV1_VERSION_ROLLING_MASK_def negotiated_def count_ones_mask Let_def)

lemma session_login:
  assumes "svc_job_source s j = (job, j')"
  shows "session_test hx s j n [subscribe_id a, authorize_id b] check
      \<longleftrightarrow> check [(build_subscribe_response (Some (json_nat a)) (fmt_08x n), None),
                 (build_authorize_success (Some (json_nat b)), job)] (login_pool s j' job)"
    and "session_test hx s j n [subscribe_id a, authorize_id b, req] check
      \<longleftrightarrow> (case exchange hx (test_sv1_handler hx (svc_job_source s) (svc_share_processor s)) req
                  (miner None n job) (server_at (n + 1) (login_pool s j' job)) of
             None \<Rightarrow> False
           | Some (x, ss, sv) \<Rightarrow>
               check [(build_subscribe_response (Some (json_nat a)) (fmt_08x n), None),
                      (build_authorize_success (Some (json_nat b)), job), x] (pool sv))"
    and "session_test hx s j n [configure_req, subscribe_id a, authorize_id b, req] check
      \<longleftrightarrow> (case exchange hx (test_sv1_handler hx (svc_job_source s) (svc_share_processor s)) req
                  (miner (Some negotiated) n job) (server_at (n + 1) (login_pool s j' job)) of
             None \<Rightarrow> False
           | Some (x, ss, sv) \<Rightarrow>
               check [(build_configure_response (Some (json_nat 1)) [''version-rolling''] (Some negotiated), None),
                      (build_subscribe_response (Some (json_nat a)) (fmt_08x n), None),
                      (build_authorize_success (Some (json_nat b)), job), x] (pool sv))"
    and "session_test hx s j n [configure_req, subscribe_id a, authorize_id b] check
      \<longleftrightarrow> check [(build_configure_response (Some (json_nat 1)) [''version-rolling''] (Some negotiated), None),
                 (build_subscribe_response (Some (json_nat a)) (fmt_08x n), None),
                 (build_authorize_success (Some (json_nat b)), job)] (login_pool s j' job)"
proof -
  let ?h = "test_sv1_handler hx (svc_job_source s) (svc_share_processor s)"
  have conf: "exchange hx ?h configure_req session_state_default (server_at n p)
      = Some ((build_configure_response (Some (json_nat 1)) [''version-rolling''] (Some negotiated), None),
          session_state_default\<lparr> ss_version_rolling := Some negotiated \<rparr>, server_at n p)" for p
    by (simp add: exchange_def dispatch_request_def id_commands dispatch_configure_def test_negotiated Let_def)
  have sub: "exchange hx ?h (subscribe_id a) ss (server_at n p)
      = Some ((build_subscribe_response (Some (json_nat a)) (fmt_08x n), None),
          ss\<lparr> subscribed := True, ss_extranonce1 := fmt_08x n, extranonce2_size := 4 \<rparr>, server_at (n + 1) p)" for ss p
    by (simp add: exchange_def dispatch_request_def id_commands dispatch_subscribe_def Let_def server_at_def)
  have auth: "exchange hx ?h (authorize_id b)
        (session_state_default\<lparr> ss_version_rolling := vr, subscribed := True, ss_extranonce1 := fmt_08x n, extranonce2_size := 4 \<rparr>)
        (server_at m (services_pool s j))
      = Some ((build_authorize_success (Some (json_nat b)), job), miner vr n job, server_at m (login_pool s j' job))" for vr m
    using assms
    by (cases job) (simp_all add: exchange_def dispatch_request_def id_commands dispatch_authorize_def server_at_def
        test_sv1_handler_def services_pool_def services_state_def login_pool_def miner_def pool_world_def set_world_def
        session_state_default_def Let_def)
  have vr: "session_state_default\<lparr> subscribed := True, ss_extranonce1 := fmt_08x n, extranonce2_size := 4 \<rparr>
      = session_state_default\<lparr> ss_version_rolling := None, subscribed := True, ss_extranonce1 := fmt_08x n, extranonce2_size := 4 \<rparr>"
    by (simp add: session_state_default_def)
  show "session_test hx s j n [subscribe_id a, authorize_id b] check
      \<longleftrightarrow> check [(build_subscribe_response (Some (json_nat a)) (fmt_08x n), None),
                 (build_authorize_success (Some (json_nat b)), job)] (login_pool s j' job)"
    and "session_test hx s j n [subscribe_id a, authorize_id b, req] check
      \<longleftrightarrow> (case exchange hx ?h req (miner None n job) (server_at (n + 1) (login_pool s j' job)) of
             None \<Rightarrow> False
           | Some (x, ss, sv) \<Rightarrow>
               check [(build_subscribe_response (Some (json_nat a)) (fmt_08x n), None),
                      (build_authorize_success (Some (json_nat b)), job), x] (pool sv))"
    by (simp_all add: session_test_def sub vr auth server_at_def [of _ "login_pool s j' job"] split: option.split prod.split)
  show "session_test hx s j n [configure_req, subscribe_id a, authorize_id b, req] check
      \<longleftrightarrow> (case exchange hx ?h req (miner (Some negotiated) n job) (server_at (n + 1) (login_pool s j' job)) of
             None \<Rightarrow> False
           | Some (x, ss, sv) \<Rightarrow>
               check [(build_configure_response (Some (json_nat 1)) [''version-rolling''] (Some negotiated), None),
                      (build_subscribe_response (Some (json_nat a)) (fmt_08x n), None),
                      (build_authorize_success (Some (json_nat b)), job), x] (pool sv))"
    and "session_test hx s j n [configure_req, subscribe_id a, authorize_id b] check
      \<longleftrightarrow> check [(build_configure_response (Some (json_nat 1)) [''version-rolling''] (Some negotiated), None),
                 (build_subscribe_response (Some (json_nat a)) (fmt_08x n), None),
                 (build_authorize_success (Some (json_nat b)), job)] (login_pool s j' job)"
    by (simp_all add: session_test_def conf sub auth server_at_def [of _ "login_pool s j' job"] split: option.split prod.split)
qed

definition miner_share ::
  "sv1_version_rolling_config option \<Rightarrow> u32 \<Rightarrow> string \<Rightarrow> bytes \<Rightarrow> u32 option \<Rightarrow> share_submission" where
  "miner_share vr n jid nonce2 b =
     \<lparr> share_job_id = jid, share_worker = worker_identity_new ''user.worker1'', extra_nonce2 = nonce2,
       share_ntime = 0, share_nonce = 0,
       validation_context = Some
         \<lparr> ctx_expected_extra_nonce2_len = Some 4, ctx_extranonce1_hex = Some (fmt_08x n),
           ctx_version_rolling_mask = map_option vr_mask vr, ctx_version_bits = b \<rparr> \<rparr>"

lemma exchange_share:
  assumes "map_request_to_command hx req = Inr (Some (SubmitShare ''user.worker1'' jid nonce2 0 0 b))"
    and "b = None \<or> vr \<noteq> None"
    and "share_verdict hx proc (miner_share vr n jid nonce2 b) (st_registry (pl_share p)) = r"
  shows "exchange hx (test_sv1_handler hx src proc) req (miner vr n job) (server_at m p)
     = Some ((submit_response (rq_id req) r, None), miner vr n job,
         server_at m (p\<lparr> pl_share := record_share_result proc (miner_share vr n jid nonce2 b) r (pl_share p) \<rparr>))"
proof -
  have share: "session_share (miner vr n job) (worker_identity_new ''user.worker1'') jid nonce2 0 0 b = miner_share vr n jid nonce2 b"
    by (simp add: session_share_def miner_def miner_share_def)
  have "authorized_worker (miner vr n job) = Some (worker_identity_new ''user.worker1'')" "ss_version_rolling (miner vr n job) = vr"
    by (simp_all add: miner_def)
  then show ?thesis
    using assms
    by (auto simp: exchange_def dispatch_request_def dispatch_submit_def share test_sv1_handler_def process_share_eq
        finish_def server_at_def)
qed

lemma exchange_malformed:
  "map_request_to_command hx req = Inl m \<Longrightarrow>
     exchange hx h req ss sv = Some ((build_submit_reject (rq_id req) m, None), ss, sv)"
  by (simp add: exchange_def dispatch_request_def)

text \<open>The submissions of the tests as commands, and the verdicts on them.\<close>

lemma zero_number: "u32_from_str_radix ''00000000'' 16 = Some 0" "u32_from_str_radix ''20000000'' 16 = Some 0x20000000"
  by (simp_all add: u32_from_str_radix_def from_str_radix_def to_digit_def char_nat_def Let_def)

lemmas submit_id_eval = submit_id_def request_def map_request_to_command_def map_submit_params_def
  parse_hex_u32_def param_str_def json_strings_def list_get_def zero_number test_hex_numbers

lemma submit_commands:
  assumes "hex_documented hx"
  shows "map_request_to_command hx (submit_id i [jid, ''00000000'', ''00000000'', ''00000000''])
      = Inr (Some (SubmitShare ''user.worker1'' jid [0, 0, 0, 0] 0 0 None))"
    and "map_request_to_command hx (submit_id i [jid, ''00000000'', ''00000000'', ''00000000'', ''00002000''])
      = Inr (Some (SubmitShare ''user.worker1'' jid [0, 0, 0, 0] 0 0 (Some 0x2000)))"
    and "map_request_to_command hx (submit_id i [jid, ''00000000'', ''00000000'', ''00000000'', ''20000000''])
      = Inr (Some (SubmitShare ''user.worker1'' jid [0, 0, 0, 0] 0 0 (Some 0x20000000)))"
    and "map_request_to_command hx (submit_id i [jid, ''00'', ''00000000'', ''00000000''])
      = Inr (Some (SubmitShare ''user.worker1'' jid [0] 0 0 None))"
    and "map_request_to_command hx (submit_id i [jid, ''00000000'', ''zz'', ''00000000''])
      = Inl ''mining.submit param 3 (ntime) must be 8 hex chars''"
    and "map_request_to_command hx (submit_id i [jid, ''00000000'', ''123'', ''00000000''])
      = Inl ''mining.submit param 3 (ntime) must be 8 hex chars''"
    and "map_request_to_command hx (submit_id i [jid, ''00000000'', ''00000000'', ''123''])
      = Inl ''mining.submit param 4 (nonce) must be 8 hex chars''"
proof -
  have "hex_pairs ''00'' = Some [0]" by (simp add: to_digit_def char_nat_def)
  then have short: "hex_decode hx ''00'' = Inr [0]" by (simp add: hex_decode_Inr [OF assms])
  have long: "hex_decode hx ''00000000'' = Inr [0, 0, 0, 0]"
    using zero_hex [OF assms] by (simp add: numeral_eq_Suc)
  show "map_request_to_command hx (submit_id i [jid, ''00000000'', ''00000000'', ''00000000''])
      = Inr (Some (SubmitShare ''user.worker1'' jid [0, 0, 0, 0] 0 0 None))"
    "map_request_to_command hx (submit_id i [jid, ''00000000'', ''00000000'', ''00000000'', ''00002000''])
      = Inr (Some (SubmitShare ''user.worker1'' jid [0, 0, 0, 0] 0 0 (Some 0x2000)))"
    "map_request_to_command hx (submit_id i [jid, ''00000000'', ''00000000'', ''00000000'', ''20000000''])
      = Inr (Some (SubmitShare ''user.worker1'' jid [0, 0, 0, 0] 0 0 (Some 0x20000000)))"
    "map_request_to_command hx (submit_id i [jid, ''00'', ''00000000'', ''00000000''])
      = Inr (Some (SubmitShare ''user.worker1'' jid [0] 0 0 None))"
    "map_request_to_command hx (submit_id i [jid, ''00000000'', ''zz'', ''00000000''])
      = Inl ''mining.submit param 3 (ntime) must be 8 hex chars''"
    "map_request_to_command hx (submit_id i [jid, ''00000000'', ''123'', ''00000000''])
      = Inl ''mining.submit param 3 (ntime) must be 8 hex chars''"
    "map_request_to_command hx (submit_id i [jid, ''00000000'', ''00000000'', ''123''])
      = Inl ''mining.submit param 4 (nonce) must be 8 hex chars''"
    by (simp_all add: submit_id_eval short long)
qed

lemmas services_eval = placeholder_services_def no_job_services_def fixed_services_def validated_services_def
  with_placeholder_job_source_def with_no_job_source_def services_new_def services_new_with_validator_def
  services_new_with_validator_and_share_sink_def services_new_inner_def stub_current_job_def no_current_job_def
  fixed_current_job_def

lemma session_tests_malformed:
  assumes "hex_documented hx"
  shows "sv1_submit_malformed_rejected hx n" "sv1_submit_malformed_nonce_rejected hx n"
    "sv1_submit_malformed_ntime_rejected hx n"
proof -
  have src: "svc_job_source placeholder_services () = (Some job_placeholder, ())" by (simp add: services_eval)
  show "sv1_submit_malformed_rejected hx n" "sv1_submit_malformed_nonce_rejected hx n"
    "sv1_submit_malformed_ntime_rejected hx n"
    by (simp_all add: sv1_submit_malformed_rejected_def sv1_submit_malformed_nonce_rejected_def
        sv1_submit_malformed_ntime_rejected_def submit_rejected_def session_login(2) [OF src]
        exchange_malformed submit_commands [OF assms] error_contains_def build_submit_reject_def
        build_error_response_def str_contains_def)
qed

lemma session_tests_login:
  assumes "hex_documented hx"
  shows "sv1_configured_initial_difficulty_is_sent_in_set_difficulty hx wr n"
    "sv1_configure_is_accepted_and_subscribe_authorize_still_work hx n"
    "sv1_live_notify_has_job_data hx n" "sv1_no_job_no_notify hx n"
proof -
  have src: "svc_job_source placeholder_services () = (Some job_placeholder, ())"
    "svc_job_source no_job_services () = (None, ())"
    "svc_job_source fixed_services live_abc_job = (Some live_abc_job, live_abc_job)"
    by (simp_all add: services_eval)
  show "sv1_configured_initial_difficulty_is_sent_in_set_difficulty hx wr n"
    by (simp add: sv1_configured_initial_difficulty_is_sent_in_set_difficulty_def session_login(1) [OF src(1)]
        answer_lines_def push_lines_def build_set_difficulty_notification_def json_u32_def json_nat_def)
  show "sv1_configure_is_accepted_and_subscribe_authorize_still_work hx n"
    by (simp add: sv1_configure_is_accepted_and_subscribe_authorize_still_work_def session_login(4) [OF src(1)]
        build_configure_response_def configure_entry_def same_object_def fmt_test_mask json_u32_def
        json_nat_def obj_get_def obj_insert_def negotiated_def build_subscribe_response_def
        build_authorize_success_def result_true_def del: obj_get_insert)
  show "sv1_live_notify_has_job_data hx n"
    unfolding sv1_live_notify_has_job_data_def session_login(1) [OF src(3)]
    by (simp add: result_true_def
        build_authorize_success_def build_mining_notify_def live_abc_job_def notify_params_def json_get_def
        obj_get_def fmt_08x_def hex_printing)
  show "sv1_no_job_no_notify hx n"
    by (simp add: sv1_no_job_no_notify_def session_login(1) [OF src(2)] result_true_def build_authorize_success_def)
qed

text \<open>Verdicts on the miner's shares, by what the registry and the validator say.\<close>

lemma miner_share_simps [simp]:
  "share_job_id (miner_share vr n jid x b) = jid" "extra_nonce2 (miner_share vr n jid x b) = x"
  by (simp_all add: miner_share_def)

lemma miner_verdict_unknown:
  assumes "get_job jid reg = None"
  shows "share_verdict hx proc (miner_share None n jid [0, 0, 0, 0] None) reg = UnknownJob (''unknown job_id '' @ jid)"
  using assms by (simp add: share_verdict_def check_shape_def miner_share_def)

lemma miner_verdict_accepted:
  assumes "get_job jid reg = Some job" and "sp_validator proc = None"
    and "b = None \<or> (\<exists>c v. vr = Some c \<and> b = Some v \<and> v AND NOT (vr_mask c) = 0)"
  shows "share_verdict hx proc (miner_share vr n jid [0, 0, 0, 0] b) reg = Accepted"
  using assms by (auto simp: share_verdict_def check_shape_def miner_share_def)

lemma miner_verdict_validated:
  assumes "hex_documented hx" and "get_job jid reg = Some job"
  shows "share_verdict hx (processor_with_validator v d) (miner_share None n jid [0, 0, 0, 0] None) reg
    = v job (miner_share None n jid [0, 0, 0, 0] None) (rev (to_le_bytes32 n)) d"
  using assms(2)
  by (simp add: share_verdict_def check_shape_def miner_share_def processor_with_validator_def
      processor_with_validator_and_share_sink_def session_extranonce1_def fmt_08x_hex_text
      hex_decode_hex_text [OF assms(1)])

lemma miner_verdict_short:
  "share_verdict hx proc (miner_share vr n jid [0] b) reg = Rejected (extra_nonce2_reason 4 1)"
  by (simp add: share_verdict_def check_shape_def miner_share_def)

lemma miner_verdict_bits:
  assumes "vr = Some c" and "v AND NOT (vr_mask c) \<noteq> 0"
  shows "\<exists>reason. share_verdict hx proc (miner_share vr n jid [0, 0, 0, 0] (Some v)) reg = Rejected reason
     \<and> str_contains reason ''outside negotiated mask''"
proof -
  obtain xs ys where "check_shape (miner_share vr n jid [0, 0, 0, 0] (Some v))
      = Some (Rejected (xs @ ''outside negotiated mask'' @ ys))"
    using assms by (simp add: check_shape_def miner_share_def) (metis append_assoc append.simps)
  then show ?thesis using str_contains_inside [of xs "''outside negotiated mask''" ys]
    by (simp add: share_verdict_def)
qed

lemma recorded_once:
  "st_recent st = [] \<Longrightarrow> st_recent (record_share_result proc share r st) = [share_attempt_of share r]"
  by (simp add: record_attempt_def MAX_RECENT_def)

lemma login_registry:
  "st_recent (pl_share (login_pool s j job)) = svc_recent_shares s"
  "get_job i (st_registry (pl_share (login_pool s j (Some k))))
     = (if clean_jobs k then (if i = job_id k then Some k else None)
        else get_job i (register k (svc_job_registry s)))"
  "st_registry (pl_share (login_pool s j None)) = svc_job_registry s"
  by (simp_all add: login_pool_def register_def register_entry_def get_job_def)

lemmas test_job_simps = job_placeholder_def named_job_def job_a_def

lemma services_simps:
  "svc_recent_shares placeholder_services = []" "svc_recent_shares no_job_services = []"
  "svc_recent_shares fixed_services = []" "svc_recent_shares (validated_services v) = []"
  "sp_validator (svc_share_processor placeholder_services) = None"
  "sp_validator (svc_share_processor no_job_services) = None"
  "sp_validator (svc_share_processor fixed_services) = None"
  "svc_share_processor (validated_services v) = processor_with_validator v 4"
  "get_job i (svc_job_registry no_job_services) = None"
  by (simp_all add: services_eval recent_shares_new_def processor_new_with_share_sink_def
      processor_with_validator_def registry_new_def get_job_def)

lemma test_sources:
  "svc_job_source placeholder_services () = (Some job_placeholder, ())"
  "svc_job_source no_job_services () = (None, ())"
  "svc_job_source fixed_services j = (Some j, j)"
  "svc_job_source (validated_services v) j = (Some j, j)"
  by (simp_all add: services_eval)

text \<open>One share after the login: the answer and the log follow from its verdict.\<close>

definition pool_after :: "('j, 'j) pool_services \<Rightarrow> 'j \<Rightarrow> job option \<Rightarrow> share_submission \<Rightarrow> share_result \<Rightarrow> 'j pool_state" where
  "pool_after s j job share r = (login_pool s j job)
     \<lparr> pl_share := record_share_result (svc_share_processor s) share r (pl_share (login_pool s j job)) \<rparr>"

lemma pool_after_reports:
  "svc_recent_shares s = [] \<Longrightarrow> api_pool_shares_recent (pool_after s j job (miner_share vr n jid x b) r)
     = [\<lparr> attempt_worker_id = ''user.worker1'', attempt_job_id = jid, attempt_accepted = is_accepted r,
          attempt_reject_reason = reject_reason r \<rparr>]"
  "svc_worker_registry s = [] \<Longrightarrow> map ws_id (api_pool_workers (pool_after s j job share r)) = [''user.worker1'']"
  by (simp_all add: api_pool_shares_recent_def recent_def pool_after_def recorded_once login_registry
      share_attempt_of_def miner_share_def login_pool_def api_pool_workers_def workers_register_def workers_list_def
      worker_id_new del: record_share_result_simps)

lemma one_share:
  assumes "svc_job_source s j = (job, j')"
    and "map_request_to_command hx req = Inr (Some (SubmitShare ''user.worker1'' jid x 0 0 None))"
    and "share_verdict hx (svc_share_processor s) (miner_share None n jid x None)
      (st_registry (pl_share (login_pool s j' job))) = r"
  shows "session_test hx s j n [subscribe_id a, authorize_id b, req] check
    \<longleftrightarrow> check [(build_subscribe_response (Some (json_nat a)) (fmt_08x n), None),
            (build_authorize_success (Some (json_nat b)), job), (submit_response (rq_id req) r, None)]
          (pool_after s j' job (miner_share None n jid x None) r)"
  using exchange_share [OF assms(2) disjI1 [OF refl] assms(3)]
  by (simp add: session_login(2) [OF assms(1)] server_at_def pool_after_def)

lemma one_rolled_share:
  assumes "svc_job_source s j = (job, j')"
    and "map_request_to_command hx req = Inr (Some (SubmitShare ''user.worker1'' jid x 0 0 v))"
    and "share_verdict hx (svc_share_processor s) (miner_share (Some negotiated) n jid x v)
      (st_registry (pl_share (login_pool s j' job))) = r"
  shows "session_test hx s j n [configure_req, subscribe_id a, authorize_id b, req] check
    \<longleftrightarrow> check [(build_configure_response (Some (json_nat 1)) [''version-rolling''] (Some negotiated), None),
            (build_subscribe_response (Some (json_nat a)) (fmt_08x n), None),
            (build_authorize_success (Some (json_nat b)), job), (submit_response (rq_id req) r, None)]
          (pool_after s j' job (miner_share (Some negotiated) n jid x v) r)"
  using exchange_share [OF assms(2) disjI2 assms(3)]
  by (simp add: session_login(3) [OF assms(1)] server_at_def pool_after_def)

lemmas answer_eval = submit_response_def result_true_def error_contains_def build_submit_success_def
  build_submit_reject_def build_error_response_def pool_after_reports services_simps str_contains_def

lemma session_tests_unknown:
  assumes "hex_documented hx"
  shows "sv1_submit_unknown_job_rejected hx n" "sv1_submit_no_issued_jobs_rejected hx n"
proof -
  have "share_verdict hx (svc_share_processor placeholder_services) (miner_share None n ''unknown-job'' [0, 0, 0, 0] None)
      (st_registry (pl_share (login_pool placeholder_services () (Some job_placeholder))))
    = UnknownJob ''unknown job_id unknown-job''"
    by (subst miner_verdict_unknown) (simp_all add: login_registry test_job_simps)
  note one = one_share [OF test_sources(1) submit_commands(1) [OF assms] this]
  show "sv1_submit_unknown_job_rejected hx n"
    unfolding sv1_submit_unknown_job_rejected_def one by (simp add: answer_eval)
  have "share_verdict hx (svc_share_processor no_job_services) (miner_share None n ''any-job-id'' [0, 0, 0, 0] None)
      (st_registry (pl_share (login_pool no_job_services () None)))
    = UnknownJob ''unknown job_id any-job-id''"
    by (subst miner_verdict_unknown) (simp_all add: login_registry services_simps)
  note one = one_share [OF test_sources(2) submit_commands(1) [OF assms] this]
  show "sv1_submit_no_issued_jobs_rejected hx n"
    unfolding sv1_submit_no_issued_jobs_rejected_def one by (simp add: answer_eval)
qed

lemma session_tests_accepted:
  assumes "hex_documented hx"
  shows "sv1_subscribe_authorize_worker_in_api hx n" "sv1_job_registered_when_notify_emitted hx n"
    "sv1_submit_valid_accepted_in_recent hx n" "sv1_submit_meets_pool_target_accepted hx n"
proof -
  have "share_verdict hx (svc_share_processor placeholder_services) (miner_share None n ''0'' [0, 0, 0, 0] None)
      (st_registry (pl_share (login_pool placeholder_services () (Some job_placeholder)))) = Accepted"
    by (rule miner_verdict_accepted) (auto simp: login_registry services_simps test_job_simps)
  note one = one_share [OF test_sources(1) submit_commands(1) [OF assms] this]
  have "svc_worker_registry placeholder_services = []" by (simp add: services_eval workers_new_def)
  then show "sv1_subscribe_authorize_worker_in_api hx n"
    unfolding sv1_subscribe_authorize_worker_in_api_def one
    by (simp add: answer_eval build_subscribe_response_def build_authorize_success_def build_mining_notify_def
        notify_params_def json_get_def obj_get_def test_job_simps)
  have fixed: "share_verdict hx (svc_share_processor fixed_services) (miner_share None n i [0, 0, 0, 0] None)
      (st_registry (pl_share (login_pool fixed_services (named_job i) (Some (named_job i))))) = Accepted" for i
    by (rule miner_verdict_accepted) (auto simp: login_registry services_simps test_job_simps)
  note one = one_share [OF test_sources(3) submit_commands(1) [OF assms] fixed]
  show "sv1_job_registered_when_notify_emitted hx n"
    unfolding sv1_job_registered_when_notify_emitted_def one
    by (simp add: answer_eval build_mining_notify_def notify_params_def json_get_def obj_get_def test_job_simps)
  show "sv1_submit_valid_accepted_in_recent hx n"
    unfolding sv1_submit_valid_accepted_in_recent_def one by (simp add: answer_eval)
  have "share_verdict hx (svc_share_processor (validated_services accept_all_validate_share))
      (miner_share None n ''0'' [0, 0, 0, 0] None)
      (st_registry (pl_share (login_pool (validated_services accept_all_validate_share) job_placeholder (Some job_placeholder)))) = Accepted"
    unfolding services_simps
    by (subst miner_verdict_validated [OF assms])
      (auto simp: login_registry test_job_simps accept_all_validate_share_def)
  note one = one_share [OF test_sources(4) submit_commands(1) [OF assms] this]
  show "sv1_submit_meets_pool_target_accepted hx n"
    unfolding sv1_submit_meets_pool_target_accepted_def one by (simp add: answer_eval)
qed

lemma session_tests_rejected:
  assumes "hex_documented hx"
  shows "sv1_submit_wrong_extranonce2_size_rejected hx n"
proof -
  note one = one_share [OF test_sources(1) submit_commands(4) [OF assms] miner_verdict_short]
  show ?thesis
    unfolding sv1_submit_wrong_extranonce2_size_rejected_def one by (simp add: answer_eval extra_nonce2_reason_def)
qed

lemma session_tests_rolled:
  assumes "hex_documented hx"
  shows "sv1_version_rolling_submit_with_allowed_bits_is_accepted hx n"
    "sv1_version_rolling_submit_with_disallowed_bits_is_rejected hx n"
proof -
  have "share_verdict hx (svc_share_processor placeholder_services)
      (miner_share (Some negotiated) n ''0'' [0, 0, 0, 0] (Some 0x2000))
      (st_registry (pl_share (login_pool placeholder_services () (Some job_placeholder)))) = Accepted"
    by (rule miner_verdict_accepted) (auto simp: login_registry services_simps test_job_simps negotiated_def)
  note one = one_rolled_share [OF test_sources(1) submit_commands(2) [OF assms] this]
  show "sv1_version_rolling_submit_with_allowed_bits_is_accepted hx n"
    unfolding sv1_version_rolling_submit_with_allowed_bits_is_accepted_def one by (simp add: answer_eval)
  have "(0x20000000 :: u32) AND NOT (vr_mask negotiated) \<noteq> 0" by (simp add: negotiated_def)
  from miner_verdict_bits [OF refl this] obtain reason where
    verdict: "share_verdict hx (svc_share_processor placeholder_services)
      (miner_share (Some negotiated) n ''0'' [0, 0, 0, 0] (Some 0x20000000))
      (st_registry (pl_share (login_pool placeholder_services () (Some job_placeholder)))) = Rejected reason"
    and reason: "str_contains reason ''outside negotiated mask''" by blast
  note one = one_rolled_share [OF test_sources(1) submit_commands(3) [OF assms] verdict]
  show "sv1_version_rolling_submit_with_disallowed_bits_is_rejected hx n"
    unfolding sv1_version_rolling_submit_with_disallowed_bits_is_rejected_def one
    using reason by (simp add: submit_response_def error_contains_def build_submit_reject_def build_error_response_def)
qed

text \<open>The two tests with the cryptographic validator; that the share of the first misses the
  target of difficulty 1 is a fact about SHA-256, so it is a hypothesis here.\<close>

lemma session_test_extranonce1:
  assumes "hex_documented hx"
  shows "sv1_submit_malformed_extranonce1_rejected hx sha"
proof -
  have "hex_pairs ''zz'' = None" by (simp add: to_digit_def char_nat_def)
  then obtain e where "hex_decode hx ''zz'' = Inl e" using hex_decode_Inl [OF assms] by blast
  then show ?thesis
    by (simp add: sv1_submit_malformed_extranonce1_rejected_def process_share_eq share_verdict_def check_shape_def
        session_extranonce1_def services_simps services_state_def processor_with_validator_def
        processor_with_validator_and_share_sink_def register_def register_entry_def get_job_def test_job_simps
        str_contains_def)
qed

lemma low_reason: "str_contains (to_lowercase (low_difficulty_reason d)) ''target''"
proof -
  have "low_difficulty_reason d
      = ''hash above pool '' @ ''target'' @ '' (pool difficulty '' @ dec_string (unat d) @ '')''"
    by (simp add: low_difficulty_reason_def)
  moreover have "to_lowercase ''hash above pool '' = ''hash above pool ''" "to_lowercase ''target'' = ''target''"
    by code_simp+
  ultimately have "to_lowercase (low_difficulty_reason d) = ''hash above pool '' @ ''target''
      @ to_lowercase ('' (pool difficulty '' @ dec_string (unat d) @ '')'')"
    by (simp only: to_lowercase_def map_append)
  then show ?thesis using str_contains_inside by metis
qed

lemma session_test_low_difficulty:
  assumes hx: "hex_documented hx" and sha: "sha256_documented sha"
    and high: "le_nat (double_sha256 sha (share_header sha 0x20000000 job_placeholder low_share (rev (to_le_bytes32 n))))
      > 0xffff * 256 ^ 26"
  shows "sv1_submit_low_difficulty_rejected hx sha n"
proof -
  let ?v = "validate_share hx sha azcoin_share_validator_new" and ?share = "miner_share None n ''0'' [0, 0, 0, 0] None"
  have header: "share_header sha v job_placeholder ?share e = share_header sha v job_placeholder low_share e" for v e
    by (simp add: share_header_def share_merkle_root_def build_coinbase_def miner_share_def low_share_def)
  have bits: "be_nat (nbits_to_target (job_nbits job_placeholder)) = 0xffff * 256 ^ 26"
    using diff1_target_value by (simp add: job_placeholder_def diff1_target_def DIFF1_NBITS_def)
  have v: "resolved_version (job_version job_placeholder) ?share = Inr 0x20000000"
    by (simp add: resolved_version_def miner_share_def job_placeholder_def)
  have "(0xffff * 256 ^ 26 :: nat) div max 1 (unat (4 :: u32)) \<le> 0xffff * 256 ^ 26" by (rule div_le_dividend)
  with high have low: "?v job_placeholder ?share (rev (to_le_bytes32 n)) 4 = LowDifficulty (low_difficulty_reason (max 4 1))"
    by (simp add: validate_share_cases [OF sha] v bits header Let_def)
  have "get_job ''0'' (st_registry (pl_share (login_pool (validated_services ?v) job_placeholder (Some job_placeholder))))
      = Some job_placeholder"
    unfolding login_registry by (simp add: job_placeholder_def)
  from miner_verdict_validated [OF hx this, of ?v 4 n]
  have "share_verdict hx (svc_share_processor (validated_services ?v)) ?share
      (st_registry (pl_share (login_pool (validated_services ?v) job_placeholder (Some job_placeholder))))
    = LowDifficulty (low_difficulty_reason (max 4 1))"
    unfolding services_simps low .
  note one = one_share [OF test_sources(4) submit_commands(1) [OF hx] this]
  show ?thesis
    unfolding sv1_submit_low_difficulty_rejected_def one
    by (simp add: submit_response_def build_submit_reject_def build_error_response_def pool_after_reports
        services_simps low_reason)
qed

end
