(* ===== verification/Tests_Api.thy ===== *)
theory Tests_Api
  imports Storage_Api Tests_Support
begin

text \<open>
  The integration tests of the HTTP API (\<open>azcoin-pool/tests/api_integration.rs\<close>) and of the
  job sources (\<open>job_source_composition.rs\<close>), on the values that the endpoints render as JSON.
\<close>

section \<open>HTTP API\<close>

definition make_app :: "unit pool_state" where
  "make_app =
     (let services = with_placeholder_job_source ''test-pool'' :: (unit, unit) pool_services
      in \<lparr> pl_stats = svc_stats services, pl_workers = svc_worker_registry services,
           pl_share = services_state services () \<rparr>)"

definition app_get :: "hex_crate \<Rightarrow> string \<Rightarrow> nat \<times> api_body" where
  "app_get hx path =
     fst (api_router hx (svc_job_source (with_placeholder_job_source ''test-pool'' :: (unit, unit) pool_services))
            Get path make_app)"

definition health_returns_ok :: "hex_crate \<Rightarrow> bool" where
  "health_returns_ok hx \<longleftrightarrow> app_get hx ''/health'' = (200, Plain_Text ''OK'')"

definition ready_returns_ok :: "hex_crate \<Rightarrow> bool" where
  "ready_returns_ok hx \<longleftrightarrow> fst (app_get hx ''/ready'') = 200"

definition pool_stats_returns_json :: "hex_crate \<Rightarrow> bool" where
  "pool_stats_returns_json hx \<longleftrightarrow>
     (case app_get hx ''/v1/pool/stats'' of
        (status, Stats_Json stats) \<Rightarrow>
          status = 200 \<and> stats_pool_name stats = ''test-pool'' \<and> stats_worker_count stats = 0
      | _ \<Rightarrow> False)"

definition pool_jobs_current_returns_placeholder_job :: "hex_crate \<Rightarrow> bool" where
  "pool_jobs_current_returns_placeholder_job hx \<longleftrightarrow>
     (case app_get hx ''/v1/pool/jobs/current'' of
        (status, Job_Json (Some job)) \<Rightarrow> status = 200 \<and> js_job_id job = ''0'' \<and> js_clean_jobs job
      | _ \<Rightarrow> False)"

definition pool_shares_recent_returns_array :: "hex_crate \<Rightarrow> bool" where
  "pool_shares_recent_returns_array hx \<longleftrightarrow> app_get hx ''/v1/pool/shares/recent'' = (200, Shares_Json [])"

definition pool_workers_returns_empty_array :: "hex_crate \<Rightarrow> bool" where
  "pool_workers_returns_empty_array hx \<longleftrightarrow> app_get hx ''/v1/pool/workers'' = (200, Workers_Json [])"

lemmas app_defs = app_get_def api_router_def api_get_def make_app_def with_placeholder_job_source_def
  services_new_def services_new_inner_def services_state_def Let_def

lemma api_tests_passed:
  "health_returns_ok hx" "ready_returns_ok hx" "pool_stats_returns_json hx"
  "pool_jobs_current_returns_placeholder_job hx" "pool_shares_recent_returns_array hx"
  "pool_workers_returns_empty_array hx"
proof -
  show "health_returns_ok hx" "ready_returns_ok hx"
    by (simp_all add: health_returns_ok_def ready_returns_ok_def app_defs api_health_def)
  show "pool_stats_returns_json hx"
    by (simp add: pool_stats_returns_json_def app_defs api_pool_stats_def snapshot_def stats_new_def
        workers_count_def workers_new_def)
  show "pool_jobs_current_returns_placeholder_job hx"
    by (simp add: pool_jobs_current_returns_placeholder_job_def app_defs api_pool_jobs_current_def
        stub_current_job_def job_placeholder_def)
  show "pool_shares_recent_returns_array hx" "pool_workers_returns_empty_array hx"
    by (simp_all add: pool_shares_recent_returns_array_def pool_workers_returns_empty_array_def app_defs
        api_pool_shares_recent_def recent_def recent_shares_new_def api_pool_workers_def workers_list_def
        workers_new_def)
qed

section \<open>Job sources\<close>

text \<open>A configuration with a name, a URL and a mode; no daemon answers at the URL.\<close>

definition mode_config :: "string \<Rightarrow> job_source_mode \<Rightarrow> pool_config" where
  "mode_config url mode =
     pool_config_default
       \<lparr> cfg_pool := pool_section_default\<lparr> pool_name := ''test-pool'' \<rparr>,
         cfg_daemon := daemon_section_default\<lparr> ds_url := url, ds_job_source_mode := mode \<rparr> \<rparr>"

definition unreachable :: "'w crates \<Rightarrow> bool" where
  "unreachable cr \<longleftrightarrow> (\<forall>req w. \<exists>e. fst (http_send (cr_http cr) req w) = Inl e)"

definition test_rpc_source_current_job_returns_none_when_unreachable :: "'w crates \<Rightarrow> 'w \<Rightarrow> bool" where
  "test_rpc_source_current_job_returns_none_when_unreachable cr w \<longleftrightarrow>
     fst (build_job_source cr (mode_config ''http://127.0.0.1:19999'' Rpc) w) = None"

definition test_api_source_current_job_returns_none_when_unreachable :: "'w crates \<Rightarrow> 'w \<Rightarrow> bool" where
  "test_api_source_current_job_returns_none_when_unreachable cr w \<longleftrightarrow>
     fst (build_job_source cr (mode_config ''http://127.0.0.1:19998'' Api) w) = None"

lemma job_source_tests_passed:
  assumes "unreachable cr"
  shows "test_rpc_source_current_job_returns_none_when_unreachable cr w"
    and "test_api_source_current_job_returns_none_when_unreachable cr w"
proof -
  have down: "\<exists>e w'. http_send (cr_http cr) req w = (Inl e, w')" for req
    using assms by (metis unreachable_def prod.collapse)
  have "\<exists>e w'. get_block_template (cr_http cr) fv client w = (Inl e, w')" for fv client
    using down [of "rpc_request client ''getblocktemplate'' (JArray [JObject [(''rules'', JArray [JString ''segwit''])]])"]
    by (auto simp: get_block_template_def rpc_call_def)
  then show "test_rpc_source_current_job_returns_none_when_unreachable cr w"
    by (auto simp: test_rpc_source_current_job_returns_none_when_unreachable_def build_job_source_def
        mode_config_def rpc_current_job_def Let_def split: prod.split sum.split option.split) (metis Inl_Inr_False prod.inject)+
  have "\<exists>e w'. get_template_current (cr_http cr) fv client w = (Inl e, w')" for fv client
    using down [of "node_api_request client GET ''/v1/az/mining/template/current'' None"]
    by (auto simp: get_template_current_def)
  then show "test_api_source_current_job_returns_none_when_unreachable cr w"
    by (auto simp: test_api_source_current_job_returns_none_when_unreachable_def build_job_source_def
        mode_config_def node_api_current_job_def Let_def split: prod.split sum.split option.split) (metis Inl_Inr_False prod.inject)+
qed

end
