(* ===== verification/Tests_Sv2.thy ===== *)
theory Tests_Sv2
  imports Tests_Templates Sv2_Bridge
begin

text \<open>
  The unit tests of the crate \<open>sv2_scaffold\<close>, translated: the accounts of \<open>aggregation.rs\<close>, and
  the template adapter, the bridge and the two flows on the fixture of \<open>Tests_Templates\<close>, whose
  template and payout script these files repeat. A difficulty is an \<open>f64\<close>, which the code only
  stores; \<open>f64_32\<close> and \<open>f64_64\<close> are the bit patterns of 32.0 and 64.0.
\<close>

definition f64_32 :: f64 where "f64_32 = 0x4040000000000000"

definition f64_64 :: f64 where "f64_64 = 0x4050000000000000"

definition miner :: "string \<Rightarrow> string \<Rightarrow> miner_id" where
  "miner username worker = \<lparr> mi_username = username, mi_worker = worker \<rparr>"

definition share_of :: "miner_id \<Rightarrow> f64 \<Rightarrow> u64 \<Rightarrow> bool \<Rightarrow> share_record" where
  "share_of m d t ok = \<lparr> rec_miner = m, rec_difficulty = d, rec_timestamp = t, rec_accepted = ok \<rparr>"

definition counts :: "miner_stats option \<Rightarrow> u64 \<Rightarrow> u64 \<Rightarrow> u64 \<Rightarrow> bool" where
  "counts s n accepted rejected \<longleftrightarrow>
     (case s of None \<Rightarrow> False
      | Some st \<Rightarrow> total_shares st = n \<and> accepted_shares st = accepted \<and> rejected_shares st = rejected)"

definition test_record_share_tracks_pool_stats_per_miner :: bool where
  "test_record_share_tracks_pool_stats_per_miner \<longleftrightarrow>
     (let miner_a = miner ''alice'' ''rig1''; miner_b = miner ''bob'' ''rig2'';
          engine = engine_new;
          engine = register_miner miner_a engine;
          engine = record_share (share_of miner_a f64_32 100 True) engine;
          engine = record_share (share_of miner_a f64_32 105 False) engine;
          engine = record_share (share_of miner_b f64_64 200 True) engine;
          stats_a = get_stats miner_a engine; stats_b = get_stats miner_b engine
      in counts stats_a 2 1 1 \<and> map_option last_share_time stats_a = Some 105
         \<and> counts stats_b 1 1 0 \<and> map_option last_share_time stats_b = Some 200)"

definition event :: "u64 \<Rightarrow> miner_event_kind \<Rightarrow> miner_event" where
  "event t k = \<lparr> ev_timestamp = t, ev_kind = k \<rparr>"

definition test_events_are_tracked_per_miner_without_affecting_pool_stats :: bool where
  "test_events_are_tracked_per_miner_without_affecting_pool_stats \<longleftrightarrow>
     (let miner_a = miner ''alice'' ''rig1''; miner_b = miner ''bob'' ''rig2'';
          engine = engine_new;
          engine = record_event miner_a (event 10 Registered) engine;
          engine = record_event miner_a (event 11 (DifficultyAssigned f64_64)) engine;
          engine = record_event miner_b (event 20 Authorized) engine;
          engine = record_event miner_b (event 21 (ShareRejected Low_Difficulty)) engine;
          engine = record_share (share_of miner_a f64_64 12 True) engine;
          engine = record_share (share_of miner_b f64_64 22 False) engine
      in map_option (map ev_kind) (get_events miner_a engine) = Some [Registered, DifficultyAssigned f64_64]
         \<and> map_option (map ev_kind) (get_events miner_b engine) = Some [Authorized, ShareRejected Low_Difficulty]
         \<and> counts (get_stats miner_a engine) 1 1 0 \<and> counts (get_stats miner_b engine) 1 0 1)"

definition adapter_template :: block_template where
  "adapter_template =
     fixture_template\<lparr> transactions := [\<lparr> te_data = [], te_txid = None, te_hash = None \<rparr>] \<rparr>"

definition canonical_job_id :: string where
  "canonical_job_id =
     ''100:0000000000000000000000000000000000000000000000000000000000000001:1700000000''"

definition test_from_block_template_maps_fields :: bool where
  "test_from_block_template_maps_fields \<longleftrightarrow>
     ok_with (from_block_template adapter_template) (\<lambda>job.
       aj_job_id job = canonical_job_id \<and> aj_version job = 0x20000000 \<and> aj_nbits job = 0x1d00ffff
       \<and> aj_ntime job = 1700000000 \<and> aj_height job = 100 \<and> aj_coinbase_value job = 5000000000
       \<and> length (aj_prev_hash job) = 32 \<and> aj_prev_hash job ! 0 = 0x01 \<and> aj_prev_hash job ! 31 = 0x00)"

definition same_fields :: "azcoin_job_bridge \<Rightarrow> bool" where
  "same_fields bridge \<longleftrightarrow>
     aj_version (br_canonical bridge) = job_version (br_job bridge)
     \<and> aj_nbits (br_canonical bridge) = job_nbits (br_job bridge)
     \<and> aj_ntime (br_canonical bridge) = job_ntime (br_job bridge)
     \<and> aj_prev_hash (br_canonical bridge) = job_prev_hash (br_job bridge)"

definition test_bridge_block_template_matches_existing_job_path :: "hex_crate \<Rightarrow> bitcoin_crate \<Rightarrow> bool" where
  "test_bridge_block_template_matches_existing_job_path hx btc \<longleftrightarrow>
     ok_with (bridge_block_template hx btc fixture_template payout_script) (\<lambda>bridge.
       aj_job_id (br_canonical bridge) = canonical_job_id \<and> same_fields bridge
       \<and> job_id (br_job bridge) = ''100'' \<and> clean_jobs (br_job bridge)
       \<and> map_option asm_height (block_assembly (br_job bridge)) = Some 100
       \<and> map_option asm_coinbase_value (block_assembly (br_job bridge)) = Some 5000000000)"

definition test_pool_flow_records_share_and_preserves_bridge_consistency ::
  "hex_crate \<Rightarrow> bitcoin_crate \<Rightarrow> bool" where
  "test_pool_flow_records_share_and_preserves_bridge_consistency hx btc \<longleftrightarrow>
     (let m = miner ''alice'' ''rig1'';
          (result, engine) = run_pool_flow hx btc fixture_template payout_script m
            (share_of m f64_32 123 True) engine_new
      in ok_with result (\<lambda>r.
           mi_username (pf_miner r) = ''alice'' \<and> mi_worker (pf_miner r) = ''rig1''
           \<and> counts (Some (pf_stats r)) 1 1 0 \<and> last_share_time (pf_stats r) = 123
           \<and> same_fields (pf_bridge r) \<and> job_id (br_job (pf_bridge r)) = ''100''
           \<and> map_option asm_coinbase_value (block_assembly (br_job (pf_bridge r))) = Some 5000000000
           \<and> get_stats m engine = Some (pf_stats r)))"

definition test_bridged_job_preserves_share_validation_inputs ::
  "hex_crate \<Rightarrow> bitcoin_crate \<Rightarrow> hasher \<Rightarrow> bool" where
  "test_bridged_job_preserves_share_validation_inputs hx btc sha \<longleftrightarrow>
     ok_with (check_share_flow_compatibility hx btc sha fixture_template payout_script) (\<lambda>c.
       let job = br_job (sf_bridge c)
       in same_fields (sf_bridge c) \<and> coinbase_part1 job \<noteq> [] \<and> coinbase_part2 job \<noteq> []
          \<and> length (merkle_branch job) = 1 \<and> length (sf_solved_header c) = 80
          \<and> (case sf_validation_result c of Accepted \<Rightarrow> True | Block \<Rightarrow> True | LowDifficulty _ \<Rightarrow> True | _ \<Rightarrow> False)
          \<and> map_option asm_height (block_assembly job) = Some 100
          \<and> map_option asm_coinbase_value (block_assembly job) = Some 5000000000)"

section \<open>The model passes\<close>

lemmas accounting_eval =
  Let_def miner_def share_of_def event_def counts_def engine_new_def register_miner_def record_share_def
  record_event_def count_share_def or_default_def entry_value_def get_stats_def get_events_def
  miner_stats_default_def

lemma aggregation_tests:
  "test_record_share_tracks_pool_stats_per_miner"
  "test_events_are_tracked_per_miner_without_affecting_pool_stats"
  by (simp_all add: test_record_share_tracks_pool_stats_per_miner_def
      test_events_are_tracked_per_miner_without_affecting_pool_stats_def accounting_eval)

definition fixture_canonical :: azcoin_job_template where
  "fixture_canonical =
     \<lparr> aj_job_id = canonical_job_id, aj_prev_hash = rev (replicate 31 0 @ [1]), aj_version = 0x20000000,
       aj_nbits = 0x1d00ffff, aj_ntime = 1700000000, aj_height = 100, aj_coinbase_value = 5000000000 \<rparr>"

lemma adapted_fixture:
  "from_block_template (fixture_template\<lparr> transactions := ts \<rparr>) = Inr fixture_canonical"
proof -
  have prev: "adapter_decode_prev_hash (previousblockhash fixture_template) = Inr (rev (replicate 31 0 @ [1]))"
    and nbits: "decode_nbits (bits fixture_template) = Inr 0x1d00ffff"
    using fixture_decoded [OF sample_hex_documented] adapter_prev_hash_agrees adapter_nbits_agrees
      sample_hex_documented by blast+
  have print: "dec_string 100 = ''100''" "dec_string 1700000000 = ''1700000000''" by (simp_all add: dec_string.simps, code_simp+)
  let ?t = "fixture_template\<lparr> transactions := ts \<rparr>"
  have fields: "previousblockhash ?t = previousblockhash fixture_template" "bits ?t = bits fixture_template"
    "curtime ?t = 1700000000" "bt_height ?t = 100" "bt_version ?t = 0x20000000" "coinbasevalue ?t = 5000000000"
    by (simp_all add: fixture_template_def)
  have "canonical_job_id = ''100'' @ '':'' @ previousblockhash fixture_template @ '':'' @ ''1700000000''"
    by (simp add: fixture_template_def canonical_job_id_def)
  then show ?thesis
    using from_block_template_decoded [of ?t] prev nbits
    by (simp add: fields print fixture_canonical_def)
qed

lemma adapter_test: "test_from_block_template_maps_fields"
  by (simp add: test_from_block_template_maps_fields_def adapter_template_def adapted_fixture
      fixture_canonical_def replicate_more)

lemma bridged_fixture:
  assumes hx: "hex_documented hx" and wire: "wire_format btc"
    and reads: "reads_back btc (placeholder_tx btc fixture_template payout_script None None)"
  obtains bridge where "bridge_block_template hx btc fixture_template payout_script = Inr bridge"
    and "same_fields bridge" and "aj_job_id (br_canonical bridge) = canonical_job_id"
    and "job_id (br_job bridge) = ''100''" and "clean_jobs (br_job bridge)"
    and "map_option asm_height (block_assembly (br_job bridge)) = Some 100"
    and "map_option asm_coinbase_value (block_assembly (br_job bridge)) = Some 5000000000"
    and "coinbase_part1 (br_job bridge) \<noteq> []" and "coinbase_part2 (br_job bridge) \<noteq> []"
    and "merkle_branch (br_job bridge) = build_merkle_branch hx fixture_template"
proof -
  have "fixture_template = fixture_template\<lparr> transactions := transactions fixture_template \<rparr>" by simp
  then have canonical: "from_block_template fixture_template = Inr fixture_canonical"
    using adapted_fixture by metis
  have id: "dec_string 100 = ''100''" by code_simp
  obtain bridge where b: "bridge = \<lparr> br_canonical = fixture_canonical, br_job =
      projr (template_to_job hx btc fixture_template payout_script) \<rparr>" by blast
  show thesis
    by (rule that [of bridge])
      (simp_all add: b bridge_block_template_def canonical mapped_fixture [OF hx wire hx _ hx hx reads]
        aux_bytes_def same_fields_def fixture_canonical_def id coinbase_prefix_def coinbase_suffix_def Let_def
        to_le_bytes32_def le_bytes_def)
qed

lemma bridge_tests:
  assumes hx: "hex_documented hx" and wire: "wire_format btc"
    and reads: "reads_back btc (placeholder_tx btc fixture_template payout_script None None)"
    and sha: "sha256_documented sha"
  shows "test_bridge_block_template_matches_existing_job_path hx btc"
    and "test_pool_flow_records_share_and_preserves_bridge_consistency hx btc"
    and "test_bridged_job_preserves_share_validation_inputs hx btc sha"
proof -
  obtain bridge where b: "bridge_block_template hx btc fixture_template payout_script = Inr bridge"
    and fields: "same_fields bridge" "aj_job_id (br_canonical bridge) = canonical_job_id"
      "job_id (br_job bridge) = ''100''" "clean_jobs (br_job bridge)"
      "map_option asm_height (block_assembly (br_job bridge)) = Some 100"
      "map_option asm_coinbase_value (block_assembly (br_job bridge)) = Some 5000000000"
      "coinbase_part1 (br_job bridge) \<noteq> []" "coinbase_part2 (br_job bridge) \<noteq> []"
      "merkle_branch (br_job bridge) = build_merkle_branch hx fixture_template"
    by (rule bridged_fixture [OF hx wire reads])
  show "test_bridge_block_template_matches_existing_job_path hx btc"
    using fields by (simp add: test_bridge_block_template_matches_existing_job_path_def b)
  show "test_pool_flow_records_share_and_preserves_bridge_consistency hx btc"
    using fields
    by (simp add: test_pool_flow_records_share_and_preserves_bridge_consistency_def run_pool_flow_def b
        accounting_eval)
  have "replicate 64 CHR ''a'' = hex_text (replicate 32 0xaa)"
    unfolding hex_repeat by (simp add: replicate_more)
  then have branch: "build_merkle_branch hx fixture_template = [replicate 32 0xaa]"
    by (simp add: build_merkle_branch_def merkle_branch_entry_def hex_decode_hex_text [OF hx] fixture_template_def)
  have ok: "job_ok (br_job bridge)"
    using b by (auto simp: bridge_block_template_def and_then_Inr map_err_Inr template_job_ok)
  have v: "resolved_version (job_version (br_job bridge)) (compat_share (br_job bridge)) = Inr (job_version (br_job bridge))"
    by (simp add: resolved_version_def compat_share_def)
  show "test_bridged_job_preserves_share_validation_inputs hx btc sha"
    using fields(5,6) fields(1,7-9)
    by (auto simp: test_bridged_job_preserves_share_validation_inputs_def check_share_flow_compatibility_def b
        solved_header_cases validate_share_cases [OF sha] v branch length_share_header [OF sha ok] Let_def)
qed

end
