(* ===== verification/Spec2Isabelle.thy ===== *)
theory Spec2Isabelle
  imports System_Progress Sv2_Bridge Storage_Api Sv1_Responses Mining Mined_Block Submit_Steps Loops
    Socket_System Replay Late_Delivery Submission_Modes Start_Up
    Tests_Config Tests_Protocol Tests_Shares Tests_Node Tests_Sessions Tests_Api Tests_Sv2
begin

text \<open>
  A verification library for the AZCOIN mining pool, a Rust workspace of crates under
  \<open>src/crates\<close>. The theories follow the code function by function; a definition has the name
  of its Rust function, with a prefix where two functions share one.

  \<^bold>\<open>The program.\<close> A node gives block templates, by JSON-RPC (\<open>daemon.rs\<close>) or by a REST API
  (\<open>node_api.rs\<close>). A job source turns a template into a job (\<open>template_mapper.rs\<close>,
  \<open>api_template_mapper.rs\<close>); a poller (\<open>main.rs\<close>) asks it every few seconds and broadcasts a
  job that is new. The Stratum V1 server (\<open>protocol_sv1/src/server.rs\<close>) runs one session per
  connection: it subscribes and authorizes a miner, hands out an extranonce, sends jobs, and
  passes shares to the handler (\<open>azcoin-pool/src/sv1_handler.rs\<close>). The share processor
  (\<open>pool_core/src/services.rs\<close>) looks the job up in the registry of live jobs and asks the
  validator (\<open>share_validator.rs\<close>); every verdict goes into a bounded log and to the share
  API. A share that solves a block makes the handler rebuild header and coinbase
  (\<open>candidate_submit.rs\<close>, \<open>raw_block_builder.rs\<close>) and submit the block to the daemon
  (\<open>block_submit.rs\<close>). An HTTP API reports the pool's state (\<open>api_server\<close>). A scaffold for
  Stratum V2 (\<open>sv2_scaffold\<close>) decodes templates a second time and keeps accounts.

  \<^bold>\<open>Theories\<close>, from the bottom up.
  \<^item> \<open>Prelude\<close>: machine words, results as sums, byte orders, hexadecimal and decimal text,
    Rust's string functions, and the lemmas on them that all parts share.
  \<^item> \<open>Crates\<close>: the third-party crates as parameters with their documented behaviour
    (\<open>hex_documented\<close>, \<open>sha256_documented\<close>, \<open>bitcoin_documented\<close>), JSON values, HTTP.
  \<^item> \<open>Domain\<close>: the data of \<open>pool_core\<close> and \<open>PoolError\<close>.
  \<^item> \<open>Job_Registry\<close>, \<open>Share_Buffer\<close>, \<open>Pool_State\<close>: the in-memory services of \<open>pool_core\<close>:
    live jobs (a map and an order, refined to a list), recent shares, workers, statistics.
  \<^item> \<open>Target_Arith\<close>, \<open>Share_Validator\<close>: \<open>share_validator.rs\<close>, the arithmetic on 256-bit
    targets and the verdict on a share.
  \<^item> \<open>Share_Processor\<close>: the share processors and the service bundle of \<open>services.rs\<close>.
  \<^item> \<open>Coinbase_Builder\<close>, \<open>Template_Mapper\<close>, \<open>Raw_Block\<close>, \<open>Candidate_Submit\<close>: from a
    template to a coinbase and a job, and from a solved share back to a block.
  \<^item> \<open>Daemon_Client\<close>, \<open>Node_Api\<close>, \<open>Chain_Jobs\<close>: the clients of the node and the job sources.
  \<^item> \<open>Config\<close>, \<open>Config_File\<close>: \<open>common/src/config.rs\<close>, the environment and the sections of the file.
  \<^item> \<open>Sv1_Messages\<close>, \<open>Sv1_Session\<close>, \<open>Sv1_Server\<close>, \<open>Sv1_Invariants\<close>: the protocol: requests,
    responses and notifications, the session loop, and what every session keeps.
  \<^item> \<open>Sv1_Reader\<close>: the session over its socket: lines out of packets, and the waiting
    \<open>read_line\<close> that is dropped when a job comes first.
  \<^item> \<open>Sv1_Handler\<close>, \<open>System\<close>: the pool behind the sessions, the composition of \<open>main\<close>, the
    poller and the running pool as a transition system.
  \<^item> \<open>Start_Up\<close>: from environment and file to what \<open>main\<close> starts.
  \<^item> \<open>Sv1_Responses\<close>: what a session writes, request by request.
  \<^item> \<open>Submit_Steps\<close>: \<open>on_submit\<close> split at its await points and interleaved with other callbacks.
  \<^item> \<open>System_Jobs\<close>, \<open>System_Progress\<close>: properties of jobs carried through the running pool,
    and the delivery of a broadcast job.
  \<^item> \<open>Socket_System\<close>: the running pool over sockets, a refinement of the running pool.
  \<^item> \<open>Replay\<close>: one submission sent many times. \<open>Late_Delivery\<close>: an old job that is sent after a
    newer one. \<open>Submission_Modes\<close>: the configurations under which no block is ever submitted.
  \<^item> \<open>Mining\<close>, \<open>Mined_Block\<close>: the pool from outside: a Stratum miner that decodes the pool's
    messages, and a solved block followed from its template to the daemon.
  \<^item> \<open>Loops\<close>: the \<open>while\<close> loops of the sources as loops, equal to the recursive definitions.
  \<^item> \<open>Storage_Api\<close>: the HTTP API and the storage crate.
  \<^item> \<open>Aggregation\<close>, \<open>Sv2_Bridge\<close>: the Stratum V2 scaffold.
  \<^item> \<open>Json_Structs\<close>: the derived reading of templates and requests from JSON values.
  \<^item> \<open>Tests_Support\<close>, \<open>Tests_Config\<close>, \<open>Tests_Protocol\<close>, \<open>Tests_Shares\<close>, \<open>Tests_Node\<close>,
    \<open>Tests_Coinbase\<close>, \<open>Tests_Templates\<close>, \<open>Tests_Candidate\<close>, \<open>Tests_Sv2\<close>: the unit tests of the
    sources, one definition each, with proofs that the model passes them, for crates as
    documented. One test is left out, of the JSON text of a response (\<open>session.rs\<close>).
  \<^item> \<open>Tests_Integration\<close>, \<open>Tests_Sessions\<close>, \<open>Tests_Api\<close>: the integration tests: of block
    submission and on prior jobs, three of which the model does not pass, of sessions with
    \<open>TestSv1Handler\<close>, of the HTTP API and of the job sources.

  \<^bold>\<open>State and effects.\<close> A struct is a record, an enum a datatype, a fixed-width integer a word
  of its width (so that arithmetic wraps as in a release build), an array of bytes a list
  whose length \<open>job_ok\<close> states. A fallible function returns a sum with the error on the
  left. What lies outside the process (the node behind HTTP, the clock) is an abstract world
  \<open>'w\<close> that calls take and return. A lock around a whole operation makes the operation one
  step. A panic is a result \<open>None\<close>, or the flow \<open>Panicked\<close> of a session.

  \<^bold>\<open>Interfaces.\<close> The traits and contracts the parts rely on are locales, each interpreted on
  the model of the code that provides it: \<open>job_store\<close> (a job registry), \<open>attempt_log\<close>
  (recent shares), \<open>share_validator\<close> and \<open>share_recorder\<close> (what a processor needs),
  \<open>daemon_submitter\<close> (block submission), \<open>job_provider\<close> (job sources), \<open>guarded_events\<close>
  (the handler behind the sessions: callbacks that keep an invariant and hand out good jobs
  only) with its cases and extensions \<open>session_events\<close>, \<open>registering_events\<close>, \<open>pool_carrier\<close>
  (a handler with a job source, in the running pool), \<open>good_source\<close> (a job source whose jobs
  all have a property) and \<open>pool_reports\<close>, and \<open>share_ledger\<close>
  (accounts).

  \<^bold>\<open>What is shown\<close>, by group.
  \<^item> Shares: the verdict is decided by the hash of the rebuilt header and two targets; when a
    share is accepted, rejected or unknown, exactly; division of targets is exact.
  \<^item> Blocks: only a share that meets the network target causes a submission, of the header
    that was validated and the coinbase it commits to; a raw block consists of parts that
    were checked; the miner's coinbase is the pool's coinbase transaction.
  \<^item> Jobs: the registry is a bounded first-in first-out list that a clean job empties; the
    poller announces every change and nothing twice; what a job takes over from a template.
  \<^item> Protocol: parsing and printing are inverse to each other; negotiation stays within the
    masks; only an authorized session's own shares reach the pool; session state is coherent.
  \<^item> The running pool, over all interleavings: invariants of registry, workers, sessions and
    channels, extranonces of live sessions are different, the fields of every job have their
    lengths, a broadcast job reaches the authorized miners, what the API reports; all this over
    sockets, where lines come in packets.
  \<^item> Answers: every request is answered once, with its id; every submission is logged once,
    also when submissions interleave between their await points.
  \<^item> Behaviour that departs from what the code means to do is stated as it is: compact
    targets with small exponents, the merkle branch of two or more transactions, the byte
    order of the node API's time, jobs of equal height, rejections by the daemon, a solved
    block overtaken by a clean job, a request cut in two by a pushed job, a share sent again, a job
    registered out of order.
  \<^item> Every unit test that is translated holds of the model.

  \<^bold>\<open>Bounds and recursion.\<close> All definitions are total and executable apart from the step
  relations of the running pool; no fuel is used. The three \<open>while\<close> loops are recursive
  functions, and \<open>Loops\<close> shows that the loops end with the same results. A session that handles a list of events
  recurses over the list. The extranonce counter is a 32-bit word, so the uniqueness of
  extranonces is stated for fewer than \<open>2^32\<close> steps, each of which subscribes at most once.
  Lengths that the code keeps in a \<open>usize\<close> are natural numbers, with the bound \<open>2^64\<close> where
  the code checks it.

  \<^bold>\<open>Not modelled.\<close> Log output; timers and the task scheduler, apart from the
  interleaving of steps (a callback is one step of the running pool, \<open>on_submit\<close> also in its
  turns between await points); the parsing of TOML and JSON text and the rendering of JSON; the main
  function of \<open>sv2-orchestrator\<close>, which is empty.
\<close>

end
